(* ===== verification/Prelude.thy ===== *)
theory Prelude
  imports Main "HOL-Library.Sublist" "HOL-Library.Multiset"
begin

text \<open>
  Shared vocabulary of the development: byte strings and the fragments of the C++
  standard library that the sources use on them, results of fallible operations,
  reachability of transition systems, and the generic lemmas the component
  theories rely on.  A \<open>std::string\<close> is a sequence of bytes and HOL's
  \<open>char\<close> is a byte, so strings are HOL \<open>string\<close>s throughout.
\<close>

section \<open>Collections of facts\<close>

named_theorems result_simps \<open>case analysis of error-or-value results\<close>
named_theorems byte_simps \<open>unfolding of character classes to byte ranges\<close>
named_theorems wf_intros \<open>preservation of well-formedness by the operations\<close>

section \<open>Results of fallible operations\<close>

text \<open>A \<open>std::variant<T, Error>\<close> is the sum \<open>'e + 'a\<close>, the error on the left.\<close>

type_synonym ('e, 'a) result = "'e + 'a"

abbreviation Error :: "'e \<Rightarrow> ('e, 'a) result" where
  "Error \<equiv> Inl"

abbreviation Okay :: "'a \<Rightarrow> ('e, 'a) result" where
  "Okay \<equiv> Inr"

definition is_okay :: "('e, 'a) result \<Rightarrow> bool" where
  "is_okay r = (case r of Inl _ \<Rightarrow> False | Inr _ \<Rightarrow> True)"

lemma is_okay_simps [simp, result_simps]:
  "is_okay (Inr x)" "\<not> is_okay (Inl e)"
  by (simp_all add: is_okay_def)

lemma is_okay_iff: "is_okay r \<longleftrightarrow> (\<exists>x. r = Inr x)"
  by (cases r) auto

lemma if_error_okay_iff [result_simps]:
  "(if b then Inl e else r) = Inr x \<longleftrightarrow> \<not> b \<and> r = Inr x"
  by simp

lemma if_error_error_iff [result_simps]:
  "(if b then Inl e else r) = Inl e' \<longleftrightarrow> (b \<and> e = e') \<or> (\<not> b \<and> r = Inl e')"
  by auto

text \<open>Sequencing: the rest of a computation runs on the value, an error ends it.\<close>

definition and_then :: "('e, 'a) result \<Rightarrow> ('a \<Rightarrow> ('e, 'b) result) \<Rightarrow> ('e, 'b) result" where
  "and_then r f = (case r of Inl e \<Rightarrow> Inl e | Inr x \<Rightarrow> f x)"

lemma and_then_simps [simp]: "and_then (Inl e) f = Inl e" "and_then (Inr x) f = f x"
  by (simp_all add: and_then_def)

lemma and_then_okay_iff [result_simps]: "and_then r f = Inr y \<longleftrightarrow> (\<exists>x. r = Inr x \<and> f x = Inr y)"
  by (cases r) auto

lemma and_then_cong [fundef_cong]:
  "r = s \<Longrightarrow> (\<And>x. s = Inr x \<Longrightarrow> f x = g x) \<Longrightarrow> and_then r f = and_then s g"
  by (cases s) auto

section \<open>Reachable states\<close>

text \<open>
  A component with state is a start predicate and a step relation.  An interface
  that promises an invariant is the locale \<open>invariant_system\<close>: its client lemma
  lifts the one-step law to every reachable state.
\<close>

inductive reach :: "('s \<Rightarrow> bool) \<Rightarrow> ('s \<Rightarrow> 's \<Rightarrow> bool) \<Rightarrow> 's \<Rightarrow> bool"
  for init :: "'s \<Rightarrow> bool" and step :: "'s \<Rightarrow> 's \<Rightarrow> bool" where
  reach_init: "init s \<Longrightarrow> reach init step s"
| reach_step: "reach init step s \<Longrightarrow> step s t \<Longrightarrow> reach init step t"

locale invariant_system =
  fixes init :: "'s \<Rightarrow> bool"
    and step :: "'s \<Rightarrow> 's \<Rightarrow> bool"
    and inv :: "'s \<Rightarrow> bool"
  assumes init_inv: "init s \<Longrightarrow> inv s"
    and step_inv: "inv s \<Longrightarrow> step s t \<Longrightarrow> inv t"
begin

lemma reach_inv: "reach init step s \<Longrightarrow> inv s"
  by (induction rule: reach.induct) (auto intro: init_inv step_inv)

lemma steps_inv: "step\<^sup>*\<^sup>* s t \<Longrightarrow> inv s \<Longrightarrow> inv t"
  by (induction rule: rtranclp.induct) (auto intro: step_inv)

end

text \<open>
  A transition system with a bounded rank: every step raises it, so an execution
  from the start has no more steps than the bound.
\<close>

inductive steps_of :: "('s \<Rightarrow> 's \<Rightarrow> bool) \<Rightarrow> nat \<Rightarrow> 's \<Rightarrow> 's \<Rightarrow> bool"
  for step :: "'s \<Rightarrow> 's \<Rightarrow> bool" where
  steps_none: "steps_of step 0 s s"
| steps_more: "steps_of step n s t \<Longrightarrow> step t u \<Longrightarrow> steps_of step (Suc n) s u"

locale ranked_system =
  fixes step :: "'s \<Rightarrow> 's \<Rightarrow> bool"
    and rank :: "'s \<Rightarrow> nat"
    and bound :: nat
  assumes rank_step: "step s t \<Longrightarrow> rank s < rank t"
    and rank_bound: "rank s \<le> bound"
begin

lemma steps_rank: "steps_of step n s t \<Longrightarrow> rank s + n \<le> rank t"
  by (induction rule: steps_of.induct) (auto dest: rank_step)

lemma steps_bounded: "steps_of step n s t \<Longrightarrow> n \<le> bound - rank s"
  using steps_rank [of n s t] rank_bound [of t] by simp

end

text \<open>The dual contract: every step lowers a size, so the size of the first state bounds the
  number of steps.\<close>

locale shrinking_system =
  fixes step :: "'s \<Rightarrow> 's \<Rightarrow> bool"
    and size_of :: "'s \<Rightarrow> nat"
  assumes size_step: "step s t \<Longrightarrow> size_of t < size_of s"
begin

lemma steps_shrink: "steps_of step n s t \<Longrightarrow> n + size_of t \<le> size_of s"
  by (induction rule: steps_of.induct) (auto dest: size_step)

lemma steps_at_most: "steps_of step n s t \<Longrightarrow> n \<le> size_of s"
  using steps_shrink [of n s t] by simp

end

section \<open>Fields written once\<close>

text \<open>A list-valued field that starts empty and is never overwritten once it is set.\<close>

definition kept :: "'a list \<Rightarrow> 'a list \<Rightarrow> bool" where
  "kept xs ys \<longleftrightarrow> xs = [] \<or> ys = xs"

lemma kept_refl [simp]: "kept xs xs"
  by (simp add: kept_def)

lemma kept_Nil [simp]: "kept [] ys"
  by (simp add: kept_def)

lemma kept_trans: "kept xs ys \<Longrightarrow> kept ys zs \<Longrightarrow> kept xs zs"
  by (auto simp: kept_def)

end
