(* ===== verification/Integration_Run.thy ===== *)
theory Integration_Run
  imports Prelude
begin

text \<open>
  The life cycle of an integration run, from
  \<open>core/include/sister/integration_run.hpp\<close>: the identifiers with their
  non-empty smart constructor, the proposal and its validation, and the two
  transition functions on execution and validity status.
\<close>

section \<open>Data\<close>

record DomainError =
  de_field :: string
  de_message :: string

text \<open>
  \<open>Identifier<Tag>\<close> wraps a string; \<open>fromString\<close> is the only way to build one and
  refuses the empty string.  The tags only separate the types, so each alias is a
  string here and the non-emptiness is part of the well-formedness of a proposal.
\<close>

type_synonym RunId = string
type_synonym AgreementId = string
type_synonym IdempotencyKey = string
type_synonym CorrelationId = string
type_synonym SchemaId = string
type_synonym Digest = string
type_synonym EvidenceId = string

definition Identifier_fromString :: "string \<Rightarrow> (DomainError, string) result" where
  "Identifier_fromString value =
     (if value = []
      then Error \<lparr>de_field = ''identifier'', de_message = ''value must not be empty''\<rparr>
      else Okay value)"

record ArtifactReference =
  ar_schema :: SchemaId
  ar_digest :: Digest
  reference_id :: string

record EvidenceReference =
  er_id :: EvidenceId
  er_schema :: SchemaId
  er_digest :: Digest
  er_location :: string

record ExecutionError =
  ee_code :: string
  ee_message :: string

record TransitionError =
  te_transition :: string
  te_message :: string

datatype RunRelation =
    RetryRelation RunId
  | ReprocessRelation RunId
  | SupersessionRelation RunId string

datatype ExecutionStatus =
    Proposed | Authorized | Running | Completed | Failed | Cancelled | Superseded

datatype ValidityStatus = Pending | Valid | Invalid | ValiditySuperseded

datatype ExecutionTransition = Authorize | Start | Complete | Fail | Cancel | Supersede

datatype ValidityTransition = MarkValid | MarkInvalid | ValiditySupersede

record IntegrationRunProposal =
  p_run_id :: RunId
  p_agreement_id :: AgreementId
  p_idempotency_key :: IdempotencyKey
  p_correlation_id :: CorrelationId
  p_participants :: "string list"
  p_purpose :: string
  p_capability :: string
  p_inputs :: "ArtifactReference list"
  p_evidence :: "EvidenceReference list"

record ExecutionTransitionContext =
  ec_at :: string
  ec_outputs :: "ArtifactReference list"
  ec_error :: ExecutionError
  ec_successor :: "RunId option"
  ec_reason :: string
  ec_cancellation_reason :: string

record ValidityTransitionContext =
  vc_at :: string
  vc_successor :: "RunId option"
  vc_reason :: string

record IntegrationRun =
  run_id :: RunId
  agreement_id :: AgreementId
  idempotency_key :: IdempotencyKey
  correlation_id :: CorrelationId
  execution_status :: ExecutionStatus
  validity_status :: ValidityStatus
  inputs :: "ArtifactReference list"
  outputs :: "ArtifactReference list"
  evidence :: "EvidenceReference list"
  errors :: "ExecutionError list"
  relations :: "RunRelation list"
  authorized_at :: string
  started_at :: string
  finished_at :: string
  cancellation_reason :: string

section \<open>Operations\<close>

definition IntegrationRun_new :: "IntegrationRunProposal \<Rightarrow> IntegrationRun" where
  "IntegrationRun_new p =
     \<lparr>run_id = p_run_id p, agreement_id = p_agreement_id p,
      idempotency_key = p_idempotency_key p, correlation_id = p_correlation_id p,
      execution_status = Proposed, validity_status = Pending,
      inputs = p_inputs p, outputs = [], evidence = p_evidence p,
      errors = [], relations = [], authorized_at = [], started_at = [],
      finished_at = [], cancellation_reason = []\<rparr>"

definition proposeIntegrationRun ::
  "IntegrationRunProposal \<Rightarrow> (DomainError, IntegrationRun) result" where
  "proposeIntegrationRun p =
     (if length (p_participants p) < 2
      then Error \<lparr>de_field = ''participants'',
                  de_message = ''at least two participants are required''\<rparr>
      else if p_purpose p = []
      then Error \<lparr>de_field = ''purpose'', de_message = ''purpose must not be empty''\<rparr>
      else if p_capability p = []
      then Error \<lparr>de_field = ''capability'', de_message = ''capability must not be empty''\<rparr>
      else if p_inputs p = []
      then Error \<lparr>de_field = ''inputs'', de_message = ''at least one input is required''\<rparr>
      else Okay (IntegrationRun_new p))"

definition reject_execution :: "string \<Rightarrow> (TransitionError, IntegrationRun) result" where
  "reject_execution message = Error \<lparr>te_transition = ''execution'', te_message = message\<rparr>"

definition reject_validity :: "string \<Rightarrow> (TransitionError, IntegrationRun) result" where
  "reject_validity message = Error \<lparr>te_transition = ''validity'', te_message = message\<rparr>"

definition transitionExecution ::
  "IntegrationRun \<Rightarrow> ExecutionTransition \<Rightarrow> ExecutionTransitionContext \<Rightarrow>
     (TransitionError, IntegrationRun) result" where
  "transitionExecution current transition ctx =
     (if ec_at ctx = [] then reject_execution ''transition timestamp is required'' else
      (case transition of
         Authorize \<Rightarrow>
           if execution_status current \<noteq> Proposed
           then reject_execution ''only proposed runs can be authorized''
           else Okay (current\<lparr>execution_status := Authorized, authorized_at := ec_at ctx\<rparr>)
       | Start \<Rightarrow>
           if execution_status current \<noteq> Authorized
           then reject_execution ''only authorized runs can start''
           else Okay (current\<lparr>execution_status := Running, started_at := ec_at ctx\<rparr>)
       | Complete \<Rightarrow>
           if execution_status current \<noteq> Running
           then reject_execution ''only running runs can complete''
           else if ec_outputs ctx = []
           then reject_execution ''completed runs require output''
           else Okay (current\<lparr>execution_status := Completed, outputs := ec_outputs ctx,
                              finished_at := ec_at ctx\<rparr>)
       | Fail \<Rightarrow>
           if execution_status current \<noteq> Running
           then reject_execution ''only running runs can fail''
           else if ee_code (ec_error ctx) = [] \<or> ee_message (ec_error ctx) = []
           then reject_execution ''failed runs require an error''
           else Okay (current\<lparr>execution_status := Failed,
                              errors := errors current @ [ec_error ctx],
                              finished_at := ec_at ctx\<rparr>)
       | Cancel \<Rightarrow>
           if execution_status current \<noteq> Running
           then reject_execution ''only running runs can be cancelled''
           else if ec_cancellation_reason ctx = []
           then reject_execution ''cancelled runs require a reason''
           else Okay (current\<lparr>execution_status := Cancelled,
                              cancellation_reason := ec_cancellation_reason ctx,
                              finished_at := ec_at ctx\<rparr>)
       | Supersede \<Rightarrow>
           if execution_status current \<noteq> Completed \<and> execution_status current \<noteq> Failed \<and>
              execution_status current \<noteq> Cancelled
           then reject_execution ''only terminal runs can be superseded''
           else (case ec_successor ctx of
               None \<Rightarrow> reject_execution ''supersession requires successor and reason''
             | Some successor \<Rightarrow>
                 if ec_reason ctx = []
                 then reject_execution ''supersession requires successor and reason''
                 else Okay (current\<lparr>execution_status := Superseded,
                        validity_status := ValiditySuperseded,
                        relations := relations current @
                          [SupersessionRelation successor (ec_reason ctx)]\<rparr>))))"

definition transitionValidity ::
  "IntegrationRun \<Rightarrow> ValidityTransition \<Rightarrow> ValidityTransitionContext \<Rightarrow>
     (TransitionError, IntegrationRun) result" where
  "transitionValidity current transition ctx =
     (if vc_at ctx = [] then reject_validity ''transition timestamp is required''
      else if execution_status current = Superseded
      then reject_validity ''superseded runs cannot change validity''
      else (case transition of
         MarkValid \<Rightarrow>
           if execution_status current \<noteq> Completed
           then reject_validity ''only completed runs can become valid''
           else if validity_status current \<noteq> Pending
           then reject_validity ''only pending runs can become valid''
           else Okay (current\<lparr>validity_status := Valid\<rparr>)
       | MarkInvalid \<Rightarrow>
           if execution_status current \<noteq> Completed
           then reject_validity ''only completed runs can become invalid''
           else if validity_status current \<noteq> Pending
           then reject_validity ''only pending runs can become invalid''
           else Okay (current\<lparr>validity_status := Invalid\<rparr>)
       | ValiditySupersede \<Rightarrow>
           (case vc_successor ctx of
              None \<Rightarrow> reject_validity ''supersession requires successor and reason''
            | Some successor \<Rightarrow>
                if vc_reason ctx = []
                then reject_validity ''supersession requires successor and reason''
                else Okay (current\<lparr>validity_status := ValiditySuperseded,
                       relations := relations current @
                         [SupersessionRelation successor (vc_reason ctx)]\<rparr>))))"

lemmas run_defs = transitionExecution_def transitionValidity_def
  reject_execution_def reject_validity_def

text \<open>Every transition that succeeds, with its guard and its effect.\<close>

lemma execution_okay:
  "transitionExecution r Authorize ctx = Okay r' \<longleftrightarrow> ec_at ctx \<noteq> [] \<and>
     execution_status r = Proposed \<and>
     r' = r\<lparr>execution_status := Authorized, authorized_at := ec_at ctx\<rparr>"
  "transitionExecution r Start ctx = Okay r' \<longleftrightarrow> ec_at ctx \<noteq> [] \<and>
     execution_status r = Authorized \<and>
     r' = r\<lparr>execution_status := Running, started_at := ec_at ctx\<rparr>"
  "transitionExecution r Complete ctx = Okay r' \<longleftrightarrow> ec_at ctx \<noteq> [] \<and>
     execution_status r = Running \<and> ec_outputs ctx \<noteq> [] \<and>
     r' = r\<lparr>execution_status := Completed, outputs := ec_outputs ctx, finished_at := ec_at ctx\<rparr>"
  "transitionExecution r Fail ctx = Okay r' \<longleftrightarrow> ec_at ctx \<noteq> [] \<and>
     execution_status r = Running \<and> ee_code (ec_error ctx) \<noteq> [] \<and> ee_message (ec_error ctx) \<noteq> [] \<and>
     r' = r\<lparr>execution_status := Failed, errors := errors r @ [ec_error ctx],
            finished_at := ec_at ctx\<rparr>"
  "transitionExecution r Cancel ctx = Okay r' \<longleftrightarrow> ec_at ctx \<noteq> [] \<and>
     execution_status r = Running \<and> ec_cancellation_reason ctx \<noteq> [] \<and>
     r' = r\<lparr>execution_status := Cancelled, cancellation_reason := ec_cancellation_reason ctx,
            finished_at := ec_at ctx\<rparr>"
  "transitionExecution r Supersede ctx = Okay r' \<longleftrightarrow> ec_at ctx \<noteq> [] \<and>
     execution_status r \<in> {Completed, Failed, Cancelled} \<and> ec_reason ctx \<noteq> [] \<and>
     (\<exists>successor. ec_successor ctx = Some successor \<and>
       r' = r\<lparr>execution_status := Superseded, validity_status := ValiditySuperseded,
              relations := relations r @ [SupersessionRelation successor (ec_reason ctx)]\<rparr>)"
  by (auto simp: run_defs split: option.split)

lemma validity_okay:
  "transitionValidity r MarkValid vctx = Okay r' \<longleftrightarrow> vc_at vctx \<noteq> [] \<and>
     execution_status r = Completed \<and> validity_status r = Pending \<and>
     r' = r\<lparr>validity_status := Valid\<rparr>"
  "transitionValidity r MarkInvalid vctx = Okay r' \<longleftrightarrow> vc_at vctx \<noteq> [] \<and>
     execution_status r = Completed \<and> validity_status r = Pending \<and>
     r' = r\<lparr>validity_status := Invalid\<rparr>"
  "transitionValidity r ValiditySupersede vctx = Okay r' \<longleftrightarrow> vc_at vctx \<noteq> [] \<and>
     execution_status r \<noteq> Superseded \<and> vc_reason vctx \<noteq> [] \<and>
     (\<exists>successor. vc_successor vctx = Some successor \<and>
       r' = r\<lparr>validity_status := ValiditySuperseded,
              relations := relations r @ [SupersessionRelation successor (vc_reason vctx)]\<rparr>)"
  by (auto simp: run_defs split: option.split)

lemmas transition_okay = execution_okay validity_okay

lemma execution_okayE:
  assumes "transitionExecution r t ctx = Okay r'"
  obtains
    (authorize) "t = Authorize" "ec_at ctx \<noteq> []" "execution_status r = Proposed"
      "r' = r\<lparr>execution_status := Authorized, authorized_at := ec_at ctx\<rparr>"
  | (start) "t = Start" "ec_at ctx \<noteq> []" "execution_status r = Authorized"
      "r' = r\<lparr>execution_status := Running, started_at := ec_at ctx\<rparr>"
  | (complete) "t = Complete" "ec_at ctx \<noteq> []" "execution_status r = Running"
      "ec_outputs ctx \<noteq> []"
      "r' = r\<lparr>execution_status := Completed, outputs := ec_outputs ctx, finished_at := ec_at ctx\<rparr>"
  | (fail) "t = Fail" "ec_at ctx \<noteq> []" "execution_status r = Running"
      "ee_code (ec_error ctx) \<noteq> []" "ee_message (ec_error ctx) \<noteq> []"
      "r' = r\<lparr>execution_status := Failed, errors := errors r @ [ec_error ctx],
             finished_at := ec_at ctx\<rparr>"
  | (cancel) "t = Cancel" "ec_at ctx \<noteq> []" "execution_status r = Running"
      "ec_cancellation_reason ctx \<noteq> []"
      "r' = r\<lparr>execution_status := Cancelled, cancellation_reason := ec_cancellation_reason ctx,
             finished_at := ec_at ctx\<rparr>"
  | (supersede) successor where "t = Supersede" "ec_at ctx \<noteq> []"
      "execution_status r \<in> {Completed, Failed, Cancelled}" "ec_reason ctx \<noteq> []"
      "ec_successor ctx = Some successor"
      "r' = r\<lparr>execution_status := Superseded, validity_status := ValiditySuperseded,
             relations := relations r @ [SupersessionRelation successor (ec_reason ctx)]\<rparr>"
proof (cases t)
  case Authorize
  with assms show ?thesis by (intro authorize) (simp_all add: execution_okay)
next
  case Start
  with assms show ?thesis by (intro start) (simp_all add: execution_okay)
next
  case Complete
  with assms show ?thesis by (intro complete) (simp_all add: execution_okay)
next
  case Fail
  with assms show ?thesis by (intro fail) (simp_all add: execution_okay)
next
  case Cancel
  with assms show ?thesis by (intro cancel) (simp_all add: execution_okay)
next
  case Supersede
  with assms obtain successor where "ec_successor ctx = Some successor"
    by (auto simp: execution_okay)
  with Supersede assms show ?thesis by (intro supersede [of successor]) (simp_all add: execution_okay)
qed

lemma validity_okayE:
  assumes "transitionValidity r v vctx = Okay r'"
  obtains
    (judge) verdict where "verdict \<in> {Valid, Invalid}" "vc_at vctx \<noteq> []"
      "execution_status r = Completed" "validity_status r = Pending"
      "r' = r\<lparr>validity_status := verdict\<rparr>"
  | (withdraw) successor where "vc_at vctx \<noteq> []" "execution_status r \<noteq> Superseded"
      "vc_reason vctx \<noteq> []" "vc_successor vctx = Some successor"
      "r' = r\<lparr>validity_status := ValiditySuperseded,
             relations := relations r @ [SupersessionRelation successor (vc_reason vctx)]\<rparr>"
proof (cases v)
  case MarkValid
  with assms show ?thesis by (intro judge [of Valid]) (simp_all add: validity_okay)
next
  case MarkInvalid
  with assms show ?thesis by (intro judge [of Invalid]) (simp_all add: validity_okay)
next
  case ValiditySupersede
  with assms obtain successor where "vc_successor vctx = Some successor"
    by (auto simp: validity_okay)
  with ValiditySupersede assms show ?thesis
    by (intro withdraw [of successor]) (simp_all add: validity_okay)
qed

section \<open>The run as a transition system\<close>

inductive run_step :: "IntegrationRun \<Rightarrow> IntegrationRun \<Rightarrow> bool" where
  run_execution: "transitionExecution r t ctx = Okay r' \<Longrightarrow> run_step r r'"
| run_validity: "transitionValidity r v vctx = Okay r' \<Longrightarrow> run_step r r'"

inductive execution_step :: "IntegrationRun \<Rightarrow> IntegrationRun \<Rightarrow> bool" where
  "transitionExecution r t ctx = Okay r' \<Longrightarrow> execution_step r r'"

inductive_cases run_stepE: "run_step r r'"
inductive_cases execution_stepE: "execution_step r r'"

definition run_init :: "IntegrationRun \<Rightarrow> bool" where
  "run_init r \<longleftrightarrow> (\<exists>p. proposeIntegrationRun p = Okay r)"

text \<open>What the fields of a run say about one another, whatever its history.\<close>

definition run_outcomes :: "IntegrationRun \<Rightarrow> nat" where
  "run_outcomes r = of_bool (outputs r \<noteq> []) + of_bool (errors r \<noteq> []) +
     of_bool (cancellation_reason r \<noteq> [])"

definition run_times_ok :: "IntegrationRun \<Rightarrow> bool" where
  "run_times_ok r \<longleftrightarrow>
     (authorized_at r = [] \<longleftrightarrow> execution_status r = Proposed) \<and>
     (started_at r = [] \<longleftrightarrow> execution_status r \<in> {Proposed, Authorized}) \<and>
     (finished_at r = [] \<longleftrightarrow> execution_status r \<in> {Proposed, Authorized, Running})"

definition run_outcome_ok :: "IntegrationRun \<Rightarrow> bool" where
  "run_outcome_ok r \<longleftrightarrow>
     run_outcomes r = of_bool (finished_at r \<noteq> []) \<and>
     (execution_status r = Completed \<longrightarrow> outputs r \<noteq> []) \<and>
     (execution_status r = Failed \<longrightarrow> errors r \<noteq> []) \<and>
     (execution_status r = Cancelled \<longrightarrow> cancellation_reason r \<noteq> [])"

definition run_validity_ok :: "IntegrationRun \<Rightarrow> bool" where
  "run_validity_ok r \<longleftrightarrow>
     (case validity_status r of
        Pending \<Rightarrow> execution_status r \<noteq> Superseded \<and> relations r = []
      | Valid \<Rightarrow> execution_status r = Completed \<and> relations r = []
      | Invalid \<Rightarrow> execution_status r = Completed \<and> relations r = []
      | ValiditySuperseded \<Rightarrow> relations r \<noteq> [])"

definition run_inv :: "IntegrationRun \<Rightarrow> bool" where
  "run_inv r \<longleftrightarrow> inputs r \<noteq> [] \<and> run_times_ok r \<and> run_outcome_ok r \<and> run_validity_ok r"

lemmas run_inv_defs = run_inv_def run_times_ok_def run_outcome_ok_def run_outcomes_def
  run_validity_ok_def

lemma proposed_run_inv: "run_init r \<Longrightarrow> run_inv r"
  by (auto simp: run_init_def proposeIntegrationRun_def IntegrationRun_new_def run_inv_defs
      result_simps)

lemma transitionExecution_inv:
  assumes "transitionExecution r t ctx = Okay r'" and "run_inv r"
  shows "run_inv r'"
proof -
  have "inputs r' = inputs r"
    using assms(1) by (rule execution_okayE) simp_all
  moreover have "run_times_ok r \<Longrightarrow> run_times_ok r'"
    using assms(1) by (rule execution_okayE) (auto simp: run_times_ok_def)
  moreover have "run_times_ok r \<Longrightarrow> run_outcome_ok r \<Longrightarrow> run_outcome_ok r'"
    using assms(1)
    by (rule execution_okayE) (auto simp: run_times_ok_def run_outcome_ok_def run_outcomes_def)
  moreover have "run_validity_ok r \<Longrightarrow> run_validity_ok r'"
    using assms(1)
    by (rule execution_okayE) (simp_all add: run_validity_ok_def split: ValidityStatus.splits)
  ultimately show ?thesis
    using assms(2) by (simp add: run_inv_def)
qed

lemma transitionValidity_inv:
  assumes "transitionValidity r v ctx = Okay r'" and "run_inv r"
  shows "run_inv r'"
proof -
  have "inputs r' = inputs r"
    using assms(1) by (rule validity_okayE) simp_all
  moreover have "run_times_ok r \<Longrightarrow> run_times_ok r'"
    using assms(1) by (rule validity_okayE) (simp_all add: run_times_ok_def)
  moreover have "run_outcome_ok r \<Longrightarrow> run_outcome_ok r'"
    using assms(1) by (rule validity_okayE) (auto simp: run_outcome_ok_def run_outcomes_def)
  moreover have "run_validity_ok r \<Longrightarrow> run_validity_ok r'"
    using assms(1) by (rule validity_okayE) (auto simp: run_validity_ok_def)
  ultimately show ?thesis
    using assms(2) by (simp add: run_inv_def)
qed

interpretation run_system: invariant_system run_init run_step run_inv
proof unfold_locales
  show "run_inv s" if "run_init s" for s
    using that by (rule proposed_run_inv)
  show "run_inv t" if "run_inv s" "run_step s t" for s t
    using that by (auto elim!: run_stepE intro: transitionExecution_inv transitionValidity_inv)
qed

section \<open>Rank of the execution status\<close>

fun execution_rank :: "ExecutionStatus \<Rightarrow> nat" where
  "execution_rank Proposed = 0"
| "execution_rank Authorized = 1"
| "execution_rank Running = 2"
| "execution_rank Completed = 3"
| "execution_rank Failed = 3"
| "execution_rank Cancelled = 3"
| "execution_rank Superseded = 4"

lemma execution_rank_le: "execution_rank s \<le> 4"
  by (cases s) auto

lemma execution_step_rank:
  "execution_step r r' \<Longrightarrow> execution_rank (execution_status r) < execution_rank (execution_status r')"
  by (erule execution_stepE, erule execution_okayE) auto

interpretation execution_ranked:
  ranked_system execution_step "\<lambda>r. execution_rank (execution_status r)" 4
  by unfold_locales (auto intro: execution_step_rank execution_rank_le)

section \<open>The abstract life cycle\<close>

text \<open>
  What the component promises, without the data of a run: which pairs of execution
  and validity status can follow one another.
\<close>

inductive life_step ::
  "ExecutionStatus \<times> ValidityStatus \<Rightarrow> ExecutionStatus \<times> ValidityStatus \<Rightarrow> bool" where
  life_authorize: "life_step (Proposed, v) (Authorized, v)"
| life_start: "life_step (Authorized, v) (Running, v)"
| life_finish: "e \<in> {Completed, Failed, Cancelled} \<Longrightarrow> life_step (Running, v) (e, v)"
| life_supersede: "e \<in> {Completed, Failed, Cancelled} \<Longrightarrow>
    life_step (e, v) (Superseded, ValiditySuperseded)"
| life_judge: "v \<in> {Valid, Invalid} \<Longrightarrow> life_step (Completed, Pending) (Completed, v)"
| life_withdraw: "e \<noteq> Superseded \<Longrightarrow> life_step (e, v) (e, ValiditySuperseded)"

definition run_life :: "IntegrationRun \<Rightarrow> ExecutionStatus \<times> ValidityStatus" where
  "run_life r = (execution_status r, validity_status r)"

lemma run_step_life: "run_step r r' \<Longrightarrow> life_step (run_life r) (run_life r')"
proof (erule run_stepE)
  fix t ctx
  assume "transitionExecution r t ctx = Okay r'"
  then show ?thesis
    by (rule execution_okayE) (auto simp: run_life_def life_step.simps)
next
  fix v ctx
  assume "transitionValidity r v ctx = Okay r'"
  then show ?thesis
    by (rule validity_okayE) (auto simp: run_life_def life_step.simps)
qed

text \<open>A context that satisfies every data requirement of the transitions.\<close>

definition full_context :: ExecutionTransitionContext where
  "full_context = \<lparr>ec_at = ''t'',
     ec_outputs = [\<lparr>ar_schema = ''s'', ar_digest = ''d'', reference_id = ''r''\<rparr>],
     ec_error = \<lparr>ee_code = ''c'', ee_message = ''m''\<rparr>, ec_successor = Some ''n'',
     ec_reason = ''w'', ec_cancellation_reason = ''w''\<rparr>"

definition full_vcontext :: ValidityTransitionContext where
  "full_vcontext = \<lparr>vc_at = ''t'', vc_successor = Some ''n'', vc_reason = ''w''\<rparr>"

lemma life_step_run:
  assumes "life_step (run_life r) q"
  shows "\<exists>r'. run_step r r' \<and> run_life r' = q"
proof -
  have exec: ?thesis
    if "\<exists>r'. transitionExecution r t full_context = Okay r' \<and> run_life r' = q" for t
    using that by (blast intro: run_execution)
  have vald: ?thesis
    if "\<exists>r'. transitionValidity r v full_vcontext = Okay r' \<and> run_life r' = q" for v
    using that by (blast intro: run_validity)
  note simps = run_life_def transition_okay full_context_def full_vcontext_def
  from assms show ?thesis
    unfolding run_life_def [of r]
  proof cases
    case life_authorize
    then show ?thesis by (intro exec [of Authorize]) (simp add: simps)
  next
    case life_start
    then show ?thesis by (intro exec [of Start]) (simp add: simps)
  next
    case (life_finish e)
    then show ?thesis
      using exec [of Complete] exec [of Fail] exec [of Cancel] by (auto simp: simps)
  next
    case life_supersede
    then show ?thesis by (intro exec [of Supersede]) (auto simp: simps)
  next
    case (life_judge v)
    then show ?thesis
      using vald [of MarkValid] vald [of MarkInvalid] by (auto simp: simps)
  next
    case life_withdraw
    then show ?thesis by (intro vald [of ValiditySupersede]) (auto simp: simps)
  qed
qed

section \<open>What a step keeps\<close>

text \<open>
  The history of a run only grows: the identity, the inputs and the evidence never
  change, relations and errors are appended, and a timestamp once set stays.
\<close>

definition run_extends :: "IntegrationRun \<Rightarrow> IntegrationRun \<Rightarrow> bool" where
  "run_extends r r' \<longleftrightarrow>
     run_id r' = run_id r \<and> agreement_id r' = agreement_id r \<and>
     idempotency_key r' = idempotency_key r \<and> correlation_id r' = correlation_id r \<and>
     inputs r' = inputs r \<and> evidence r' = evidence r \<and>
     prefix (relations r) (relations r') \<and> prefix (errors r) (errors r') \<and>
     kept (outputs r) (outputs r') \<and>
     kept (authorized_at r) (authorized_at r') \<and>
     kept (started_at r) (started_at r') \<and>
     kept (finished_at r) (finished_at r') \<and>
     kept (cancellation_reason r) (cancellation_reason r')"

lemma run_extends_refl: "run_extends r r"
  by (simp add: run_extends_def)

lemma run_extends_trans: "run_extends r s \<Longrightarrow> run_extends s t \<Longrightarrow> run_extends r t"
  unfolding run_extends_def
  by (elim conjE, intro conjI) (simp_all, (blast intro: prefix_order.trans kept_trans)+)

lemma unfinished_outcomes:
  assumes "run_inv r" and "execution_status r \<in> {Proposed, Authorized, Running}"
  shows "outputs r = []" "errors r = []" "cancellation_reason r = []" "finished_at r = []"
  using assms by (auto simp: run_inv_defs split: if_splits)

lemma run_step_extends:
  assumes "run_step r r'" and "run_inv r"
  shows "run_extends r r'"
  using assms(1)
proof (rule run_stepE)
  fix t ctx
  assume "transitionExecution r t ctx = Okay r'"
  moreover have "run_times_ok r"
    using assms(2) by (simp add: run_inv_def)
  ultimately show ?thesis
    using unfinished_outcomes [OF assms(2)]
    by - (erule execution_okayE; simp add: run_extends_def run_times_ok_def)
next
  fix v ctx
  assume "transitionValidity r v ctx = Okay r'"
  then show ?thesis
    by (rule validity_okayE) (auto simp: run_extends_def)
qed

lemma run_steps_extend: "run_step\<^sup>*\<^sup>* r r' \<Longrightarrow> run_inv r \<Longrightarrow> run_extends r r' \<and> run_inv r'"
  by (induction rule: rtranclp.induct)
    (auto intro: run_extends_refl run_extends_trans run_step_extends run_system.step_inv)

lemma run_step_verdict:
  "run_step r r' \<Longrightarrow> validity_status r \<noteq> Pending \<Longrightarrow>
     validity_status r' \<in> {validity_status r, ValiditySuperseded}"
  by (auto elim!: run_stepE execution_okayE validity_okayE)

lemma run_steps_verdict:
  "run_step\<^sup>*\<^sup>* r r' \<Longrightarrow> validity_status r \<noteq> Pending \<Longrightarrow>
     validity_status r' \<in> {validity_status r, ValiditySuperseded}"
proof (induction rule: rtranclp.induct)
  case (rtrancl_into_rtrancl a b c)
  then show ?case using run_step_verdict [of b c] by (cases "validity_status b") auto
qed simp

section \<open>A sample run\<close>

definition sample_artifact :: ArtifactReference where
  "sample_artifact = \<lparr>ar_schema = ''s'', ar_digest = ''d'', reference_id = ''r''\<rparr>"

definition sample_proposal :: IntegrationRunProposal where
  "sample_proposal = \<lparr>p_run_id = ''run-1'', p_agreement_id = ''a'', p_idempotency_key = ''k'',
     p_correlation_id = ''c'', p_participants = [''sister'', ''nexo''], p_purpose = ''echo'',
     p_capability = ''cap'', p_inputs = [sample_artifact], p_evidence = []\<rparr>"

definition sample_authorized :: IntegrationRun where
  "sample_authorized = (IntegrationRun_new sample_proposal)
     \<lparr>execution_status := Authorized, authorized_at := ''t''\<rparr>"

definition sample_superseded :: IntegrationRun where
  "sample_superseded = sample_authorized
     \<lparr>validity_status := ValiditySuperseded, relations := [SupersessionRelation ''n'' ''w'']\<rparr>"

lemma sample_proposed_init: "run_init (IntegrationRun_new sample_proposal)"
  unfolding run_init_def
  by (rule exI [of _ sample_proposal])
    (simp add: proposeIntegrationRun_def sample_proposal_def)

lemma sample_authorize_step: "execution_step (IntegrationRun_new sample_proposal) sample_authorized"
  by (rule execution_step.intros [of _ Authorize full_context])
    (simp add: transition_okay IntegrationRun_new_def sample_authorized_def full_context_def)

lemma sample_steps:
  "run_step (IntegrationRun_new sample_proposal) sample_authorized"
  "run_step sample_authorized sample_superseded"
   apply (rule run_execution [of _ Authorize full_context])
   apply (simp add: transition_okay IntegrationRun_new_def sample_authorized_def full_context_def)
  apply (rule run_validity [of _ ValiditySupersede full_vcontext])
  apply (simp add: transition_okay IntegrationRun_new_def sample_superseded_def
      sample_authorized_def full_vcontext_def)
  done

lemma sample_reach: "reach run_init run_step sample_superseded"
  using sample_proposed_init sample_steps by (blast intro: reach_init reach_step)

section \<open>Properties\<close>

text \<open>C29: Whatever sequence of execution and validity transitions a proposed run goes
  through, its fields stay consistent: the timestamps are set exactly up to its status,
  a finished run has exactly one kind of outcome (outputs, an error or a cancellation
  reason) and the one its status calls for, a verdict belongs to a completed run, and a
  run is marked superseded exactly when it records a superseding relation.\<close>

theorem run_reachable_consistent:
  "reach run_init run_step r \<Longrightarrow> run_inv r"
  by (rule run_system.reach_inv)

theorem run_reachable_consistent_witness:
  "reach run_init run_step sample_superseded \<and> run_inv sample_superseded"
  using run_reachable_consistent [OF sample_reach] sample_reach by blast

text \<open>C30: The transition functions implement exactly the abstract life cycle: every
  transition they accept is a step of the life cycle on the two statuses, and every
  step the life cycle offers from the statuses of a run is one that some transition
  with a complete context performs.\<close>

theorem run_life_bisimulation:
  "(\<forall>r'. run_step r r' \<longrightarrow> life_step (run_life r) (run_life r')) \<and>
   (\<forall>q. life_step (run_life r) q \<longrightarrow> (\<exists>r'. run_step r r' \<and> run_life r' = q))"
  using run_step_life life_step_run by blast

theorem run_life_bisimulation_witness:
  "life_step (run_life sample_authorized) (run_life sample_superseded) \<and>
   (\<exists>r'. run_step sample_authorized r' \<and> run_life r' = (Running, Pending))"
proof -
  have "life_step (run_life sample_authorized) (Running, Pending)"
    by (simp add: run_life_def sample_authorized_def IntegrationRun_new_def life_step.simps)
  then show ?thesis
    using run_life_bisimulation [of sample_authorized] sample_steps(2) by blast
qed

text \<open>An execution history is finite: from any run at most four execution
  transitions succeed one after the other, and the fewer the further the run already
  is, since every accepted execution transition raises the rank of the status.\<close>

theorem execution_history_bounded:
  "steps_of execution_step n r r' \<Longrightarrow> n \<le> 4 - execution_rank (execution_status r)"
  by (rule execution_ranked.steps_bounded)

theorem execution_history_bounded_witness:
  "1 \<le> 4 - execution_rank (execution_status (IntegrationRun_new sample_proposal))"
proof -
  have "steps_of execution_step (Suc 0) (IntegrationRun_new sample_proposal) sample_authorized"
    by (rule steps_more, rule steps_none, rule sample_authorize_step)
  from execution_history_bounded [OF this] show ?thesis by simp
qed

text \<open>A reachable run keeps its history: later transitions never change its identity,
  inputs or evidence, only append relations and errors, and never overwrite a recorded
  timestamp, output list or cancellation reason.\<close>

theorem run_history_append_only:
  "reach run_init run_step r \<Longrightarrow> run_step\<^sup>*\<^sup>* r r' \<Longrightarrow> run_extends r r'"
  using run_steps_extend run_system.reach_inv by blast

theorem run_history_append_only_witness:
  "run_extends (IntegrationRun_new sample_proposal) sample_superseded"
  by (rule run_history_append_only)
    (use sample_proposed_init sample_steps in \<open>auto intro: reach_init\<close>)

text \<open>A verdict is never taken back: once a run is valid, invalid or superseded, every
  later state of it has the same validity or is superseded; it never returns to pending
  and never changes from one verdict to the other.\<close>

theorem run_verdict_final:
  "run_step\<^sup>*\<^sup>* r r' \<Longrightarrow> validity_status r \<noteq> Pending \<Longrightarrow>
     validity_status r' = validity_status r \<or> validity_status r' = ValiditySuperseded"
  using run_steps_verdict by blast

theorem run_verdict_final_witness:
  "validity_status sample_superseded = ValiditySuperseded \<and>
   (validity_status sample_superseded = validity_status sample_superseded \<or>
    validity_status sample_superseded = ValiditySuperseded)"
  using run_verdict_final [of sample_superseded sample_superseded]
  by (simp add: sample_superseded_def)

end
