(* ===== verification/Registry_Spec.thy ===== *)
theory Registry_Spec
  imports Prelude
begin

text \<open>
  The contract shared by the registries of the core library: a registration is
  accepted or rejected, an accepted one is what a lookup of its key returns, and
  nothing else changes.  The client lemmas hold of any sequence of registrations.
\<close>

locale keyed_registry =
  fixes lookup :: "'st \<Rightarrow> string \<Rightarrow> 'm option"
    and register :: "'m \<Rightarrow> 'st \<Rightarrow> 'st"
    and accepts :: "'m \<Rightarrow> 'st \<Rightarrow> bool"
    and key :: "'m \<Rightarrow> string"
    and inv :: "'st \<Rightarrow> bool"
  assumes register_accepted: "inv s \<Longrightarrow> accepts m s \<Longrightarrow>
      lookup (register m s) = (lookup s)(key m \<mapsto> m)"
    and register_rejected: "inv s \<Longrightarrow> \<not> accepts m s \<Longrightarrow> register m s = s"
    and register_inv: "inv s \<Longrightarrow> inv (register m s)"
begin

lemma register_frame: "inv s \<Longrightarrow> k \<noteq> key m \<Longrightarrow> lookup (register m s) k = lookup s k"
  by (cases "accepts m s") (simp_all add: register_accepted register_rejected)

lemma fold_register_inv: "inv s \<Longrightarrow> inv (fold register ms s)"
  by (induction ms arbitrary: s) (auto intro: register_inv)

lemma fold_register_frame:
  "inv s \<Longrightarrow> k \<notin> key ` set ms \<Longrightarrow> lookup (fold register ms s) k = lookup s k"
  by (induction ms arbitrary: s) (auto simp: register_inv register_frame)

text \<open>Whatever a lookup finds after a sequence of registrations was there before or was
  registered in the sequence, under its own key.\<close>

lemma fold_register_origin:
  "inv s \<Longrightarrow> lookup (fold register ms s) k = Some m \<Longrightarrow>
     lookup s k = Some m \<or> (m \<in> set ms \<and> key m = k)"
proof (induction ms arbitrary: s)
  case (Cons x xs)
  then have "lookup (register x s) k = Some m \<or> (m \<in> set xs \<and> key m = k)"
    by (auto intro: register_inv)
  then show ?case
    using Cons.prems(1) by (cases "accepts x s")
      (auto simp: register_accepted register_rejected split: if_splits)
qed simp

lemma register_again:
  assumes "inv s" "accepts m s" "accepts m (register m s)"
  shows "lookup (register m (register m s)) = lookup (register m s)"
  using assms by (simp add: register_accepted register_inv)

end

end
