(* ===== verification/Federation.thy ===== *)
theory Federation
  imports Registry_Spec "HOL-Library.List_Lexorder" "HOL-Library.Char_ord"
begin

text \<open>
  The governed registry of federated systems, from
  \<open>core/include/sister/federation.hpp\<close>.  \<open>std::map<std::string, ...>\<close> is an
  association list kept in increasing key order (strings compare byte by byte, as
  the lexicographic order on \<open>char list\<close> does).
\<close>

section \<open>Data\<close>

record FederationError =
  fe_field :: string
  fe_message :: string

type_synonym FederatedSystemId = string
type_synonym SystemVersion = string
type_synonym CapabilityId = string
type_synonym CapabilityVersion = string
type_synonym OwnerId = string

definition FederationId_fromString :: "string \<Rightarrow> (FederationError, string) result" where
  "FederationId_fromString value =
     (if value = []
      then Error \<lparr>fe_field = ''id'', fe_message = ''identifier must not be empty''\<rparr>
      else Okay value)"

datatype OperationalStatus = active | degraded | inactive | suspended

datatype Maturity = experimental | pre_alpha | alpha | beta | production

record CapabilityDeclaration =
  cap_id :: CapabilityId
  cap_version :: CapabilityVersion
  cap_contract :: string

record GovernedSystemManifest =
  gm_id :: FederatedSystemId
  gm_version :: SystemVersion
  gm_owner :: OwnerId
  gm_capabilities :: "CapabilityDeclaration list"
  gm_operational_status :: OperationalStatus
  gm_maturity :: Maturity

type_synonym GovernedSystemRegistry = "(string \<times> GovernedSystemManifest) list"

section \<open>Ordered association lists\<close>

fun omap_insert :: "'k::linorder \<Rightarrow> 'v \<Rightarrow> ('k \<times> 'v) list \<Rightarrow> ('k \<times> 'v) list" where
  "omap_insert k v [] = [(k, v)]"
| "omap_insert k v ((l, w) # ps) =
     (if k < l then (k, v) # (l, w) # ps
      else if k = l then (k, v) # ps
      else (l, w) # omap_insert k v ps)"

fun omap_modify :: "'k \<Rightarrow> ('v \<Rightarrow> 'v) \<Rightarrow> ('k \<times> 'v) list \<Rightarrow> ('k \<times> 'v) list" where
  "omap_modify k f [] = []"
| "omap_modify k f ((l, w) # ps) = (if k = l then (l, f w) # ps else (l, w) # omap_modify k f ps)"

definition omap_wf :: "('k::linorder \<times> 'v) list \<Rightarrow> bool" where
  "omap_wf ps \<longleftrightarrow> sorted_wrt (<) (map fst ps)"

lemma map_of_omap_insert [simp]:
  "omap_wf ps \<Longrightarrow> map_of (omap_insert k v ps) = (map_of ps)(k \<mapsto> v)"
  by (induction ps) (auto simp: omap_wf_def fun_eq_iff)

lemma keys_omap_insert [simp]: "fst ` set (omap_insert k v ps) = insert k (fst ` set ps)"
  by (induction k v ps rule: omap_insert.induct) auto

lemma omap_insert_wf [wf_intros]: "omap_wf ps \<Longrightarrow> omap_wf (omap_insert k v ps)"
proof (induction k v ps rule: omap_insert.induct)
  case (2 k v l w ps)
  have "set (map fst (omap_insert k v ps)) = insert k (set (map fst ps))"
    using keys_omap_insert [of k v ps] by simp
  with 2 show ?case
    unfolding omap_wf_def by (auto dest: order.strict_trans)
qed (simp add: omap_wf_def)

lemma map_of_omap_modify [simp]:
  "map_of (omap_modify k f ps) = (map_of ps)(k := map_option f (map_of ps k))"
  by (induction ps) (auto simp: fun_eq_iff)

lemma keys_omap_modify [simp]: "map fst (omap_modify k f ps) = map fst ps"
  by (induction ps) auto

lemma omap_modify_wf [wf_intros]: "omap_wf ps \<Longrightarrow> omap_wf (omap_modify k f ps)"
  by (simp add: omap_wf_def)

section \<open>Operations\<close>

text \<open>The nested loop over the capabilities of a new manifest.\<close>

fun check_capabilities :: "CapabilityDeclaration list \<Rightarrow> FederationError option" where
  "check_capabilities [] = None"
| "check_capabilities (c # cs) =
     (if cap_version c = [] \<or> cap_contract c = []
      then Some \<lparr>fe_field = ''capabilities'',
                 fe_message = ''capability version and contract are required''\<rparr>
      else if list_ex (\<lambda>d. cap_id c = cap_id d) cs
      then Some \<lparr>fe_field = ''capabilities'', fe_message = ''duplicate capability identity''\<rparr>
      else check_capabilities cs)"

definition same_registration :: "GovernedSystemManifest \<Rightarrow> GovernedSystemManifest \<Rightarrow> bool" where
  "same_registration old new \<longleftrightarrow>
     gm_version old = gm_version new \<and> gm_owner old = gm_owner new \<and>
     gm_capabilities old = gm_capabilities new \<and>
     gm_operational_status old = gm_operational_status new \<and> gm_maturity old = gm_maturity new"

definition governed_registerSystem ::
  "GovernedSystemManifest \<Rightarrow> GovernedSystemRegistry \<Rightarrow>
     (FederationError, unit) result \<times> GovernedSystemRegistry" where
  "governed_registerSystem m systems =
     (if gm_id m = []
      then (Error \<lparr>fe_field = ''id'', fe_message = ''system identity is required''\<rparr>, systems)
      else if gm_version m = []
      then (Error \<lparr>fe_field = ''version'', fe_message = ''system version is required''\<rparr>, systems)
      else if gm_owner m = []
      then (Error \<lparr>fe_field = ''owner'', fe_message = ''owner is required''\<rparr>, systems)
      else if gm_capabilities m = []
      then (Error \<lparr>fe_field = ''capabilities'',
                   fe_message = ''at least one capability is required''\<rparr>, systems)
      else (case map_of systems (gm_id m) of
          Some old \<Rightarrow>
            (if same_registration old m then Okay ()
             else Error \<lparr>fe_field = ''id'', fe_message = ''conflicting system registration''\<rparr>,
             systems)
        | None \<Rightarrow>
            (case check_capabilities (gm_capabilities m) of
               Some e \<Rightarrow> (Error e, systems)
             | None \<Rightarrow> (Okay (), omap_insert (gm_id m) m systems))))"

definition governed_updateOperationalStatus ::
  "FederatedSystemId \<Rightarrow> OperationalStatus \<Rightarrow> GovernedSystemRegistry \<Rightarrow>
     (FederationError, unit) result \<times> GovernedSystemRegistry" where
  "governed_updateOperationalStatus i status systems =
     (case map_of systems i of
        None \<Rightarrow> (Error \<lparr>fe_field = ''id'', fe_message = ''system is not registered''\<rparr>, systems)
      | Some _ \<Rightarrow>
          (Okay (), omap_modify i (\<lambda>m. m\<lparr>gm_operational_status := status\<rparr>) systems))"

definition governed_updateMaturity ::
  "FederatedSystemId \<Rightarrow> Maturity \<Rightarrow> GovernedSystemRegistry \<Rightarrow>
     (FederationError, unit) result \<times> GovernedSystemRegistry" where
  "governed_updateMaturity i maturity systems =
     (case map_of systems i of
        None \<Rightarrow> (Error \<lparr>fe_field = ''id'', fe_message = ''system is not registered''\<rparr>, systems)
      | Some _ \<Rightarrow> (Okay (), omap_modify i (\<lambda>m. m\<lparr>gm_maturity := maturity\<rparr>) systems))"

definition governed_find :: "GovernedSystemRegistry \<Rightarrow> FederatedSystemId \<Rightarrow> GovernedSystemManifest option" where
  "governed_find systems i = map_of systems i"

definition governed_list :: "GovernedSystemRegistry \<Rightarrow> GovernedSystemManifest list" where
  "governed_list systems = map snd systems"

section \<open>Well-formed registries\<close>

lemma check_capabilities_None:
  "check_capabilities cs = None \<longleftrightarrow>
     (\<forall>c \<in> set cs. cap_version c \<noteq> [] \<and> cap_contract c \<noteq> []) \<and> distinct (map cap_id cs)"
  by (induction cs) (auto simp: list_ex_iff)

definition manifest_wf :: "GovernedSystemManifest \<Rightarrow> bool" where
  "manifest_wf m \<longleftrightarrow> gm_id m \<noteq> [] \<and> gm_version m \<noteq> [] \<and> gm_owner m \<noteq> [] \<and>
     gm_capabilities m \<noteq> [] \<and>
     (\<forall>c \<in> set (gm_capabilities m). cap_version c \<noteq> [] \<and> cap_contract c \<noteq> []) \<and>
     distinct (map cap_id (gm_capabilities m))"

definition governed_wf :: "GovernedSystemRegistry \<Rightarrow> bool" where
  "governed_wf systems \<longleftrightarrow> omap_wf systems \<and>
     (\<forall>(k, m) \<in> set systems. k = gm_id m \<and> manifest_wf m)"

lemma omap_wf_distinct: "omap_wf ps \<Longrightarrow> distinct (map fst ps)"
  by (auto simp: omap_wf_def strict_sorted_iff)

lemma governed_wf_lookup:
  "governed_wf systems \<Longrightarrow> map_of systems k = Some m \<Longrightarrow> k = gm_id m \<and> manifest_wf m"
  by (auto simp: governed_wf_def dest: map_of_SomeD)

lemma set_omap_insert: "set (omap_insert k v ps) \<subseteq> insert (k, v) (set ps)"
  by (induction k v ps rule: omap_insert.induct) auto

lemma set_omap_modify: "set (omap_modify k f ps) \<subseteq> set ps \<union> (\<lambda>(l, w). (l, f w)) ` set ps"
  by (induction ps) (auto split: if_splits)

lemma same_registration_eq: "same_registration old new \<and> gm_id old = gm_id new \<longleftrightarrow> old = new"
  by (auto simp: same_registration_def intro: GovernedSystemManifest.equality)

definition governed_accepts :: "GovernedSystemManifest \<Rightarrow> GovernedSystemRegistry \<Rightarrow> bool" where
  "governed_accepts m systems \<longleftrightarrow> is_okay (fst (governed_registerSystem m systems))"

definition governed_register :: "GovernedSystemManifest \<Rightarrow> GovernedSystemRegistry \<Rightarrow> GovernedSystemRegistry" where
  "governed_register m systems = snd (governed_registerSystem m systems)"

lemma governed_accepts_iff:
  assumes "governed_wf systems"
  shows "governed_accepts m systems \<longleftrightarrow> manifest_wf m \<and> map_of systems (gm_id m) \<in> {None, Some m}"
proof (cases "map_of systems (gm_id m)")
  case None
  then show ?thesis
    by (auto simp: governed_accepts_def governed_registerSystem_def manifest_wf_def
        check_capabilities_None [symmetric] split: option.splits)
next
  case (Some old)
  with assms have "manifest_wf old" "gm_id old = gm_id m"
    by (auto dest: governed_wf_lookup)
  with Some show ?thesis
    using same_registration_eq [of old m]
    by (auto simp: governed_accepts_def governed_registerSystem_def same_registration_def
        manifest_wf_def)
qed

lemma governed_register_eq:
  assumes "governed_wf systems"
  shows "governed_register m systems =
    (if manifest_wf m \<and> map_of systems (gm_id m) = None then omap_insert (gm_id m) m systems
     else systems)"
  by (auto simp: governed_register_def governed_registerSystem_def manifest_wf_def
      check_capabilities_None [symmetric] split: option.splits)

lemma governed_register_wf [wf_intros]:
  "governed_wf systems \<Longrightarrow> governed_wf (governed_register m systems)"
  using set_omap_insert [of "gm_id m" m systems]
  by (auto simp: governed_register_eq governed_wf_def intro: omap_insert_wf)

interpretation governed: keyed_registry governed_find governed_register governed_accepts gm_id governed_wf
proof unfold_locales
  fix s m
  assume wf: "governed_wf s"
  show "governed_wf (governed_register m s)"
    using wf by (rule governed_register_wf)
  {
    assume "governed_accepts m s"
    with wf show "governed_find (governed_register m s) = (governed_find s)(gm_id m \<mapsto> m)"
      by (auto simp: governed_accepts_iff governed_register_eq governed_find_def fun_eq_iff
          governed_wf_def)
  next
    assume "\<not> governed_accepts m s"
    with wf show "governed_register m s = s"
      by (auto simp: governed_accepts_iff governed_register_eq)
  }
qed

section \<open>The registry as a transition system\<close>

inductive governed_step :: "GovernedSystemRegistry \<Rightarrow> GovernedSystemRegistry \<Rightarrow> bool" where
  governed_do_register: "governed_step s (snd (governed_registerSystem m s))"
| governed_do_status: "governed_step s (snd (governed_updateOperationalStatus i st s))"
| governed_do_maturity: "governed_step s (snd (governed_updateMaturity i mt s))"

inductive_cases governed_stepE: "governed_step s t"

lemma governed_modify_wf:
  assumes "governed_wf s" and "\<And>m. manifest_wf m \<Longrightarrow> manifest_wf (f m) \<and> gm_id (f m) = gm_id m"
  shows "governed_wf (omap_modify i f s)"
proof -
  have "\<forall>(k, m) \<in> set s. k = gm_id m \<and> manifest_wf m"
    using assms(1) by (simp add: governed_wf_def)
  then have "\<forall>(k, m) \<in> set (omap_modify i f s). k = gm_id m \<and> manifest_wf m"
    by (induction s) (auto simp: assms(2) split: if_splits)
  then show ?thesis
    using assms(1) by (simp add: governed_wf_def omap_modify_wf)
qed

lemma governed_step_wf: "governed_wf s \<Longrightarrow> governed_step s t \<Longrightarrow> governed_wf t"
  by (erule governed_stepE)
    (auto simp: governed_updateOperationalStatus_def governed_updateMaturity_def manifest_wf_def
      intro: governed_modify_wf governed_register_wf [unfolded governed_register_def]
      split: option.split)

interpretation governed_system: invariant_system "\<lambda>s. s = []" governed_step governed_wf
proof unfold_locales
  show "governed_wf s" if "s = []" for s
    using that by (simp add: governed_wf_def omap_wf_def)
qed (rule governed_step_wf)

definition same_identity :: "GovernedSystemManifest \<Rightarrow> GovernedSystemManifest \<Rightarrow> bool" where
  "same_identity m m' \<longleftrightarrow> gm_id m' = gm_id m \<and> gm_version m' = gm_version m \<and>
     gm_owner m' = gm_owner m \<and> gm_capabilities m' = gm_capabilities m"

lemma governed_step_identity:
  assumes "governed_step s t" "governed_wf s" "governed_find s i = Some m"
  shows "\<exists>m'. governed_find t i = Some m' \<and> same_identity m m'"
  using assms(1)
proof (rule governed_stepE)
  fix n
  assume t: "t = snd (governed_registerSystem n s)"
  then have "t = governed_register n s" by (simp add: governed_register_def)
  with assms(2,3) show ?thesis
    by (cases "governed_accepts n s")
      (auto simp: governed.register_accepted governed.register_rejected governed_accepts_iff
        governed_find_def same_identity_def)
qed (use assms(3) in \<open>auto simp: governed_updateOperationalStatus_def governed_updateMaturity_def
      governed_find_def same_identity_def split: option.splits\<close>)

lemma governed_steps_identity:
  "governed_step\<^sup>*\<^sup>* s t \<Longrightarrow> governed_wf s \<Longrightarrow> governed_find s i = Some m \<Longrightarrow>
     governed_wf t \<and> (\<exists>m'. governed_find t i = Some m' \<and> same_identity m m')"
proof (induction rule: rtranclp.induct)
  case (rtrancl_into_rtrancl a b c)
  then obtain m' where "governed_wf b" "governed_find b i = Some m'" "same_identity m m'" by blast
  with rtrancl_into_rtrancl.hyps(2) show ?case
    using governed_step_identity [of b c i m'] governed_step_wf [of b c]
    by (auto simp: same_identity_def)
qed (auto simp: same_identity_def)

section \<open>Samples\<close>

definition sample_capability :: CapabilityDeclaration where
  "sample_capability = \<lparr>cap_id = ''echo'', cap_version = ''1'', cap_contract = ''c''\<rparr>"

definition sample_system :: GovernedSystemManifest where
  "sample_system = \<lparr>gm_id = ''nexo'', gm_version = ''1'', gm_owner = ''lab'',
     gm_capabilities = [sample_capability], gm_operational_status = inactive,
     gm_maturity = experimental\<rparr>"

lemma sample_registered: "snd (governed_registerSystem sample_system []) = [(''nexo'', sample_system)]"
  by (simp add: governed_registerSystem_def sample_system_def sample_capability_def)

lemma sample_registered_wf: "governed_wf [(''nexo'', sample_system)]"
  by (simp add: governed_wf_def omap_wf_def manifest_wf_def sample_system_def sample_capability_def)

section \<open>Properties\<close>

text \<open>C32: Every registry reached from the empty one by registrations and updates, accepted
  or rejected, is well formed: keys are in strictly increasing order and equal the
  identity of the manifest they hold, and every manifest has an identity, a version, an
  owner and at least one capability, with distinct capability identities that all have a
  version and a contract.\<close>

theorem governed_reachable_wf:
  "reach (\<lambda>s. s = []) governed_step s \<Longrightarrow> governed_wf s"
  by (rule governed_system.reach_inv)

theorem governed_reachable_wf_witness: "governed_wf [(''nexo'', sample_system)]"
proof (rule governed_reachable_wf)
  have "governed_step [] [(''nexo'', sample_system)]"
    using governed_do_register [of "[]" sample_system] by (simp add: sample_registered)
  then show "reach (\<lambda>s. s = []) governed_step [(''nexo'', sample_system)]"
    by (blast intro: reach_init reach_step)
qed

text \<open>A registered system keeps its identity: whatever registrations and updates
  follow, the system stays registered under its id with the same version, owner and
  capabilities; only the operational status and the maturity can change.\<close>

theorem governed_identity_immutable:
  assumes "governed_wf s" and "governed_step\<^sup>*\<^sup>* s t" and "governed_find s i = Some m"
  shows "\<exists>m'. governed_find t i = Some m' \<and> gm_id m' = i \<and> gm_version m' = gm_version m \<and>
    gm_owner m' = gm_owner m \<and> gm_capabilities m' = gm_capabilities m"
proof -
  from assms(1,3) have "gm_id m = i"
    by (auto simp: governed_find_def dest: governed_wf_lookup)
  with governed_steps_identity [OF assms(2,1,3)] show ?thesis
    by (auto simp: same_identity_def)
qed

theorem governed_identity_immutable_witness:
  "\<exists>m'. governed_find (snd (governed_updateMaturity ''nexo'' beta [(''nexo'', sample_system)])) ''nexo'' = Some m' \<and>
     gm_id m' = ''nexo'' \<and> gm_version m' = gm_version sample_system \<and>
     gm_owner m' = gm_owner sample_system \<and> gm_capabilities m' = gm_capabilities sample_system"
  by (rule governed_identity_immutable [OF sample_registered_wf])
    (auto simp: governed_find_def intro: governed_do_maturity)

text \<open>On a well-formed registry a registration is accepted exactly when the manifest is
  complete, its capabilities are distinct, and its identity is free or already holds the
  very same manifest; an accepted manifest is then what a lookup of its id returns and
  every other id is unaffected, and a rejected registration leaves the registry as it was.\<close>

theorem governed_registration:
  assumes "governed_wf s"
  shows "(is_okay (fst (governed_registerSystem m s)) \<longleftrightarrow>
      manifest_wf m \<and> governed_find s (gm_id m) \<in> {None, Some m}) \<and>
    (is_okay (fst (governed_registerSystem m s)) \<longrightarrow>
      governed_find (snd (governed_registerSystem m s)) = (governed_find s)(gm_id m \<mapsto> m)) \<and>
    (\<not> is_okay (fst (governed_registerSystem m s)) \<longrightarrow> snd (governed_registerSystem m s) = s)"
  using assms governed.register_accepted [of s m] governed.register_rejected [of s m]
    governed_accepts_iff [of s m]
  unfolding governed_accepts_def governed_register_def governed_find_def by blast

theorem governed_registration_witness:
  "is_okay (fst (governed_registerSystem sample_system [(''nexo'', sample_system)]))"
  using governed_registration [OF sample_registered_wf, of sample_system]
    sample_registered_wf
  by (simp add: governed_find_def governed_wf_def sample_system_def)

text \<open>The listing is complete and canonical: it holds exactly the registered manifests,
  each once, in strictly increasing order of identity.\<close>

theorem governed_listing:
  assumes "governed_wf s"
  shows "sorted_wrt (\<lambda>m n. gm_id m < gm_id n) (governed_list s) \<and>
    set (governed_list s) = {m. \<exists>i. governed_find s i = Some m}"
proof -
  have keys: "map fst s = map gm_id (governed_list s)"
    using assms by (auto simp: governed_wf_def governed_list_def)
  have "sorted_wrt (<) (map gm_id (governed_list s))"
    using assms unfolding governed_wf_def omap_wf_def keys by blast
  moreover have "distinct (map fst s)"
    using assms by (auto simp: governed_wf_def intro: omap_wf_distinct)
  then have "set (governed_list s) = {m. \<exists>i. governed_find s i = Some m}"
    by (force simp: governed_list_def governed_find_def)
  ultimately show ?thesis
    by (simp add: sorted_wrt_map)
qed

theorem governed_listing_witness:
  "set (governed_list [(''nexo'', sample_system)]) = {m. \<exists>i. governed_find [(''nexo'', sample_system)] i = Some m}"
  using governed_listing [OF sample_registered_wf] by blast

end
