(* ===== verification/Participation.thy ===== *)
theory Participation
  imports Prelude "HOL-Library.List_Lexorder" "HOL-Library.Char_ord"
begin

text \<open>
  The participation contract of the domain layer, from
  \<open>core/include/sister/participation.hpp\<close>: the draft with its capabilities,
  contributions and authority allocation, and the validation that turns a draft
  into a contract in state \<open>proposed\<close>.  Identifiers are strings; the envelope and
  assessment structs are data only and carry no operation.
\<close>

section \<open>Data\<close>

datatype ParticipationState = proposed | assessed | authorized | suspended | revoked

record CapabilityDefinition =
  cd_id :: string
  cd_purpose :: string
  inputSchema :: string
  outputSchema :: string
  preconditions :: "string list"
  risks :: "string list"
  responsibleRole :: string
  reflexivityProfile :: string

record ContributionDefinition =
  typeId :: string
  co_purpose :: string
  validityPolicy :: string
  uncertaintyPolicy :: string
  restrictions :: "string list"

record AuthorityAllocation =
  originAuthority :: string
  productionAuthority :: string
  custodyAuthority :: string
  interpretationAuthority :: string
  decisionAuthority :: string
  consumptionAuthority :: string

record BoundaryObjectEnvelope =
  envelopeId :: string
  objectType :: string
  correlationId :: string
  env_participationId :: string
  env_contractVersion :: string
  authorityReference :: string
  integrityDigest :: string
  env_context :: string
  env_provenance :: "string list"
  env_payload :: string

datatype AssessmentResult = pass | warn | shadow | block | inconclusive

datatype AssessmentLayer = existence | contribution | interaction | governance | reflection

record ParticipationContractDraft =
  dr_id :: string
  participantSystemId :: string
  dr_purpose :: string
  dr_owner :: string
  entryConditions :: string
  suspensionConditions :: string
  exitConditions :: string
  dr_capabilities :: "CapabilityDefinition list"
  dr_contributions :: "ContributionDefinition list"
  dr_authority :: AuthorityAllocation

record ParticipationDomainError =
  pe_code :: string
  pe_message :: string

record ParticipationContract =
  pc_draft :: ParticipationContractDraft
  pc_state :: ParticipationState

section \<open>Operations\<close>

abbreviation missing :: "string \<Rightarrow> bool" where
  "missing value \<equiv> value = []"

definition invalid_capability :: "CapabilityDefinition \<Rightarrow> bool" where
  "invalid_capability c \<longleftrightarrow>
     missing (cd_id c) \<or> missing (cd_purpose c) \<or> missing (inputSchema c) \<or>
     missing (outputSchema c) \<or> missing (responsibleRole c) \<or>
     reflexivityProfile c \<noteq> ''D2/A1/shadow''"

text \<open>\<open>std::adjacent_find\<close> on the sorted identifiers.\<close>

fun has_adjacent :: "'a list \<Rightarrow> bool" where
  "has_adjacent (x # y # zs) \<longleftrightarrow> x = y \<or> has_adjacent (y # zs)"
| "has_adjacent _ \<longleftrightarrow> False"

definition proposeParticipation ::
  "ParticipationContractDraft \<Rightarrow> (ParticipationDomainError, ParticipationContract) result" where
  "proposeParticipation d =
     (if missing (dr_id d) \<or> missing (participantSystemId d) \<or> missing (dr_purpose d) \<or>
         missing (dr_owner d) \<or> missing (entryConditions d) \<or>
         missing (suspensionConditions d) \<or> missing (exitConditions d)
      then Error \<lparr>pe_code = ''participation.required_field'',
                  pe_message = ''required field is empty''\<rparr>
      else if dr_capabilities d = [] \<or> dr_contributions d = []
      then Error \<lparr>pe_code = ''participation.empty_offer'',
                  pe_message = ''capability and contribution are required''\<rparr>
      else if list_ex invalid_capability (dr_capabilities d)
      then Error \<lparr>pe_code = ''participation.invalid_capability'',
                  pe_message = ''capability is incomplete''\<rparr>
      else if has_adjacent (sort (map cd_id (dr_capabilities d)))
      then Error \<lparr>pe_code = ''participation.duplicate_capability'',
                  pe_message = ''capability id is duplicated''\<rparr>
      else if missing (originAuthority (dr_authority d)) \<or>
              missing (productionAuthority (dr_authority d)) \<or>
              missing (custodyAuthority (dr_authority d)) \<or>
              missing (interpretationAuthority (dr_authority d)) \<or>
              missing (decisionAuthority (dr_authority d)) \<or>
              missing (consumptionAuthority (dr_authority d))
      then Error \<lparr>pe_code = ''participation.incomplete_authority'',
                  pe_message = ''authority allocation is incomplete''\<rparr>
      else Okay \<lparr>pc_draft = d, pc_state = proposed\<rparr>)"

section \<open>Duplicate detection\<close>

lemma has_adjacent_sorted: "sorted xs \<Longrightarrow> has_adjacent xs \<longleftrightarrow> \<not> distinct xs"
proof (induction xs rule: has_adjacent.induct)
  case (1 x y zs)
  then show ?case by (auto simp: order.antisym)
qed auto

text \<open>The optimised duplicate test (sort, then compare neighbours) is the plain one.\<close>

lemma has_adjacent_sort: "has_adjacent (sort xs) \<longleftrightarrow> \<not> distinct xs"
  by (simp add: has_adjacent_sorted)

section \<open>Acceptance\<close>

definition authority_complete :: "AuthorityAllocation \<Rightarrow> bool" where
  "authority_complete a \<longleftrightarrow>
     (\<forall>f \<in> {originAuthority, productionAuthority, custodyAuthority, interpretationAuthority,
            decisionAuthority, consumptionAuthority}. f a \<noteq> [])"

definition required_texts :: "ParticipationContractDraft \<Rightarrow> bool" where
  "required_texts d \<longleftrightarrow>
     (\<forall>f \<in> {dr_id, participantSystemId, dr_purpose, dr_owner, entryConditions,
            suspensionConditions, exitConditions}. f d \<noteq> [])"

definition draft_complete :: "ParticipationContractDraft \<Rightarrow> bool" where
  "draft_complete d \<longleftrightarrow> required_texts d \<and>
     dr_capabilities d \<noteq> [] \<and> dr_contributions d \<noteq> [] \<and>
     (\<forall>c \<in> set (dr_capabilities d).
        (\<forall>f \<in> {cd_id, cd_purpose, inputSchema, outputSchema, responsibleRole}. f c \<noteq> []) \<and>
        reflexivityProfile c = ''D2/A1/shadow'') \<and>
     distinct (map cd_id (dr_capabilities d)) \<and> authority_complete (dr_authority d)"

lemma proposeParticipation_okay:
  "proposeParticipation d = Okay c \<longleftrightarrow>
     draft_complete d \<and> c = \<lparr>pc_draft = d, pc_state = proposed\<rparr>"
  unfolding proposeParticipation_def result_simps has_adjacent_sort
  by (auto simp: draft_complete_def required_texts_def authority_complete_def invalid_capability_def list_ex_iff)

definition participation_error_codes :: "string list" where
  "participation_error_codes =
     [''participation.required_field'', ''participation.empty_offer'',
      ''participation.invalid_capability'', ''participation.duplicate_capability'',
      ''participation.incomplete_authority'']"

lemma not_distinct_map_iff:
  "\<not> distinct (map f xs) \<longleftrightarrow> (\<exists>i j. i < j \<and> j < length xs \<and> f (xs ! i) = f (xs ! j))"
proof
  assume "\<not> distinct (map f xs)"
  then obtain i j where "i < length xs" "j < length xs" "i \<noteq> j" "f (xs ! i) = f (xs ! j)"
    by (auto simp: distinct_conv_nth)
  then show "\<exists>i j. i < j \<and> j < length xs \<and> f (xs ! i) = f (xs ! j)"
    by (metis nat_neq_iff)
next
  assume "\<exists>i j. i < j \<and> j < length xs \<and> f (xs ! i) = f (xs ! j)"
  then obtain i j where ij: "i < j" "j < length xs" "f (xs ! i) = f (xs ! j)"
    by blast
  then show "\<not> distinct (map f xs)"
    unfolding distinct_conv_nth by (intro notI, elim allE [of _ i], force)
qed

section \<open>Properties\<close>

text \<open>A draft becomes a contract exactly when it is complete (every required text, at
  least one capability and one contribution, every capability complete with the reflexivity
  profile D2/A1/shadow, capability ids pairwise distinct, all six authorities allocated),
  and the contract is that very draft in the state proposed.\<close>

theorem proposeParticipation_exact:
  "proposeParticipation d = Okay c \<longleftrightarrow>
     draft_complete d \<and> c = \<lparr>pc_draft = d, pc_state = proposed\<rparr>"
  by (rule proposeParticipation_okay)

text \<open>A refused draft is refused with one of the five domain codes, and the code for a
  duplicated capability is given exactly when the fields, the offer and each capability pass
  and two capabilities share an id: sorting and comparing neighbours misses no duplicate and
  reports no false one.\<close>

theorem proposeParticipation_duplicate:
  "(\<exists>e. proposeParticipation d = Error e \<and> pe_code e = ''participation.duplicate_capability'') \<longleftrightarrow>
     required_texts d \<and> dr_capabilities d \<noteq> [] \<and> dr_contributions d \<noteq> [] \<and>
     \<not> list_ex invalid_capability (dr_capabilities d) \<and>
     (\<exists>i j. i < j \<and> j < length (dr_capabilities d) \<and>
        cd_id (dr_capabilities d ! i) = cd_id (dr_capabilities d ! j))"
  unfolding proposeParticipation_def has_adjacent_sort not_distinct_map_iff
  by (auto simp: required_texts_def)

end
