(* ===== verification/Bytes.thy ===== *)
theory Bytes
  imports Prelude
begin

text \<open>
  The parts of the C++ standard library that the sources use on strings, in the
  classic ("C") locale: the \<open>cctype\<close> classes, \<open>find\<close>, \<open>substr\<close>, \<open>starts_with\<close>,
  \<open>getline\<close> with a delimiter, and \<open>from_chars\<close> in base ten.  Positions are \<open>nat\<close>
  and \<open>npos\<close> is \<open>None\<close>.
\<close>

section \<open>Characters\<close>

abbreviation byte :: "char \<Rightarrow> nat" where
  "byte c \<equiv> of_char c"

abbreviation QUOTE :: char where "QUOTE \<equiv> CHR 0x22"
abbreviation BACKSLASH :: char where "BACKSLASH \<equiv> CHR 0x5C"
abbreviation TAB :: char where "TAB \<equiv> CHR 0x09"
abbreviation LF :: char where "LF \<equiv> CHR 0x0A"
abbreviation CR :: char where "CR \<equiv> CHR 0x0D"
abbreviation BS :: char where "BS \<equiv> CHR 0x08"
abbreviation FF :: char where "FF \<equiv> CHR 0x0C"
abbreviation NUL :: char where "NUL \<equiv> CHR 0x00"

text \<open>A string that is passed on as a \<open>const char*\<close> ends at its first NUL byte.\<close>

definition c_str :: "string \<Rightarrow> string" where
  "c_str s = takeWhile (\<lambda>c. c \<noteq> NUL) s"

lemma c_str_id: "NUL \<notin> set s \<Longrightarrow> c_str s = s"
  by (auto simp: c_str_def takeWhile_eq_all_conv)

lemma c_str_idem [simp]: "c_str (c_str s) = c_str s"
  by (rule c_str_id) (auto simp: c_str_def dest: set_takeWhileD)

definition isspace :: "char \<Rightarrow> bool" where
  "isspace c \<longleftrightarrow> byte c = 32 \<or> (9 \<le> byte c \<and> byte c \<le> 13)"

definition isdigit :: "char \<Rightarrow> bool" where
  "isdigit c \<longleftrightarrow> 48 \<le> byte c \<and> byte c \<le> 57"

definition islower :: "char \<Rightarrow> bool" where
  "islower c \<longleftrightarrow> 97 \<le> byte c \<and> byte c \<le> 122"

definition isupper :: "char \<Rightarrow> bool" where
  "isupper c \<longleftrightarrow> 65 \<le> byte c \<and> byte c \<le> 90"

definition isalnum :: "char \<Rightarrow> bool" where
  "isalnum c \<longleftrightarrow> isdigit c \<or> islower c \<or> isupper c"

definition tolower :: "char \<Rightarrow> char" where
  "tolower c = (if isupper c then char_of (byte c + 32) else c)"

lemmas ctype_defs [byte_simps] = isspace_def isdigit_def islower_def isupper_def isalnum_def

lemma byte_less [simp]: "byte c < 256"
  using nat_of_char_less_256 [of c] by simp

lemma byte_inject [simp]: "byte c = byte d \<longleftrightarrow> c = d"
  by (rule of_char_eq_iff)

lemma byte_char_of [simp]: "n < 256 \<Longrightarrow> byte (char_of n) = n"
  by (simp add: of_char_of)

lemma byte_tolower: "byte (tolower c) = (if isupper c then byte c + 32 else byte c)"
proof -
  have "byte c + 32 < 256" if "isupper c"
    using that by (simp add: isupper_def)
  then show ?thesis by (simp add: tolower_def)
qed

lemma tolower_idem [simp]: "tolower (tolower c) = tolower c"
  by (auto simp: tolower_def [of "tolower c"] byte_tolower isupper_def split: if_splits)

lemma isspace_tolower [simp]: "isspace (tolower c) \<longleftrightarrow> isspace c"
  by (auto simp: isspace_def byte_tolower isupper_def)

definition lowercase :: "string \<Rightarrow> string" where
  "lowercase s = map tolower s"

lemma lowercase_idem [simp]: "lowercase (lowercase s) = lowercase s"
  by (simp add: lowercase_def)

lemma length_lowercase [simp]: "length (lowercase s) = length s"
  by (simp add: lowercase_def)

lemma lowercase_append [simp]: "lowercase (s @ t) = lowercase s @ lowercase t"
  by (simp add: lowercase_def)

section \<open>Trimming\<close>

text \<open>
  \<open>find_first_not_of\<close>, \<open>find_last_not_of\<close> and \<open>substr\<close> between them: both \<open>trim\<close>
  functions of the sources use this character set.
\<close>

definition is_blank :: "char \<Rightarrow> bool" where
  "is_blank c \<longleftrightarrow> c \<in> {CHR '' '', TAB, LF, CR}"

definition trim :: "string \<Rightarrow> string" where
  "trim s = rev (dropWhile is_blank (rev (dropWhile is_blank s)))"

lemma dropWhile_hd: "dropWhile P xs \<noteq> [] \<Longrightarrow> \<not> P (hd (dropWhile P xs))"
  by (rule hd_dropWhile)

lemma trim_hd: "trim s \<noteq> [] \<Longrightarrow> \<not> is_blank (hd (trim s))"
proof -
  let ?d = "dropWhile is_blank s"
  assume ne: "trim s \<noteq> []"
  then have "?d \<noteq> []" by (metis dropWhile.simps(1) rev.simps(1) trim_def)
  then have hd: "\<not> is_blank (hd ?d)" by (rule hd_dropWhile)
  obtain ys where ys: "?d = trim s @ ys"
    by (metis dropWhile_eq_drop rev_append rev_rev_ident takeWhile_dropWhile_id trim_def)
  with ne have "hd ?d = hd (trim s)" by (simp add: hd_append)
  with hd show ?thesis by simp
qed

lemma trim_last: "trim s \<noteq> [] \<Longrightarrow> \<not> is_blank (last (trim s))"
  unfolding trim_def by (metis hd_dropWhile last_rev rev_is_Nil_conv)

lemma trim_id: "(s = [] \<or> \<not> is_blank (hd s) \<and> \<not> is_blank (last s)) \<Longrightarrow> trim s = s"
proof -
  have start: "dropWhile is_blank t = t" if "t = [] \<or> \<not> is_blank (hd t)" for t
    using that by (cases t) auto
  assume "s = [] \<or> \<not> is_blank (hd s) \<and> \<not> is_blank (last s)"
  then have "dropWhile is_blank s = s" and "dropWhile is_blank (rev s) = rev s"
    using start [of s] start [of "rev s"] by (auto simp: hd_rev)
  then show ?thesis by (simp add: trim_def)
qed

lemma trim_idem [simp]: "trim (trim s) = trim s"
  by (rule trim_id) (use trim_hd trim_last in blast)

lemma is_blank_isspace: "is_blank c \<Longrightarrow> isspace c"
  by (auto simp: is_blank_def isspace_def)

lemma is_blank_tolower [simp]: "is_blank (tolower c) \<longleftrightarrow> is_blank c"
proof -
  have "is_blank c \<longleftrightarrow> byte c \<in> {32, 9, 10, 13}" for c
    unfolding is_blank_def by (auto simp flip: byte_inject)
  then show ?thesis by (auto simp: byte_tolower isupper_def)
qed

lemma trim_lowercase: "trim (lowercase s) = lowercase (trim s)"
  by (simp add: trim_def lowercase_def dropWhile_map rev_map comp_def)

section \<open>Searching\<close>

text \<open>Scanning up to a delimiter that the first part does not contain.\<close>

lemma takeWhile_neq_append [simp]:
  "b \<notin> set v \<Longrightarrow> takeWhile (\<lambda>c. c \<noteq> b) (v @ t) = v @ takeWhile (\<lambda>c. c \<noteq> b) t"
  by (rule takeWhile_append2) auto

lemma dropWhile_neq_append [simp]:
  "b \<notin> set v \<Longrightarrow> dropWhile (\<lambda>c. c \<noteq> b) (v @ t) = dropWhile (\<lambda>c. c \<noteq> b) t"
  by (rule dropWhile_append2) auto

lemma dropWhile_neq_none [simp]: "b \<notin> set v \<Longrightarrow> dropWhile (\<lambda>c. c \<noteq> b) v = []"
  by (auto simp: dropWhile_eq_Nil_conv)

fun find_idx :: "('a \<Rightarrow> bool) \<Rightarrow> 'a list \<Rightarrow> nat option" where
  "find_idx P [] = None"
| "find_idx P (x # xs) = (if P x then Some 0 else map_option Suc (find_idx P xs))"

lemma find_idx_None: "find_idx P xs = None \<longleftrightarrow> (\<forall>x \<in> set xs. \<not> P x)"
  by (induction xs) auto

lemma find_idx_Some:
  "find_idx P xs = Some i \<longleftrightarrow> i < length xs \<and> P (xs ! i) \<and> (\<forall>j < i. \<not> P (xs ! j))"
proof (induction xs arbitrary: i)
  case (Cons x xs)
  then show ?case by (cases i) (auto simp: less_Suc_eq_0_disj)
qed simp

lemma find_idx_append_hit: "(\<forall>x \<in> set xs. \<not> P x) \<Longrightarrow> P y \<Longrightarrow> find_idx P (xs @ y # ys) = Some (length xs)"
  by (induction xs) auto

text \<open>\<open>s.find(pattern)\<close>: the first position at which the pattern occurs.\<close>

fun find_sub :: "'a list \<Rightarrow> 'a list \<Rightarrow> nat option" where
  "find_sub p [] = (if p = [] then Some 0 else None)"
| "find_sub p (x # xs) =
     (if take (length p) (x # xs) = p then Some 0 else map_option Suc (find_sub p xs))"

definition contains_sub :: "'a list \<Rightarrow> 'a list \<Rightarrow> bool" where
  "contains_sub p s \<longleftrightarrow> find_sub p s \<noteq> None"

lemma find_sub_iff: "find_sub p s \<noteq> None \<longleftrightarrow> sublist p s"
proof (induction s)
  case (Cons x xs)
  have "take (length p) (x # xs) = p \<longleftrightarrow> prefix p (x # xs)"
    by (metis append_eq_conv_conj prefix_def take_is_prefix)
  moreover have "find_sub p (x # xs) \<noteq> None \<longleftrightarrow>
      take (length p) (x # xs) = p \<or> find_sub p xs \<noteq> None"
    by simp
  ultimately show ?case
    by (simp only: Cons.IH sublist_Cons_right)
qed auto

lemma contains_sub_iff: "contains_sub p s \<longleftrightarrow> sublist p s"
  unfolding contains_sub_def by (rule find_sub_iff)

section \<open>Splitting\<close>

text \<open>
  \<open>split_on d s\<close> cuts at every \<open>d\<close>; an input without \<open>d\<close> is one piece.  It is the
  \<open>splitByTab\<close> loop of the projections.  Successive \<open>std::getline(stream, item, d)\<close>
  calls give the same pieces, except that a final empty piece is not delivered.
\<close>

fun split_on :: "'a \<Rightarrow> 'a list \<Rightarrow> 'a list list" where
  "split_on d [] = [[]]"
| "split_on d (x # xs) =
     (if x = d then [] # split_on d xs
      else (case split_on d xs of [] \<Rightarrow> [[x]] | p # ps \<Rightarrow> (x # p) # ps))"

definition getlines :: "'a \<Rightarrow> 'a list \<Rightarrow> 'a list list" where
  "getlines d s = (let ps = split_on d s in if last ps = [] then butlast ps else ps)"

lemma split_on_ne [simp]: "split_on d s \<noteq> []"
  by (induction s) (auto split: list.splits)

lemma split_on_no: "d \<notin> set s \<Longrightarrow> split_on d s = [s]"
  by (induction s) auto

lemma split_on_append: "d \<notin> set p \<Longrightarrow> split_on d (p @ d # s) = p # split_on d s"
  by (induction p) auto

lemma split_on_pieces: "p \<in> set (split_on d s) \<Longrightarrow> d \<notin> set p"
proof (induction s arbitrary: p)
  case (Cons x xs)
  then show ?case
    by (cases "split_on d xs") (auto split: if_splits)
qed simp

text \<open>Joining with a delimiter, the inverse of splitting.\<close>

fun join_with :: "'a \<Rightarrow> 'a list list \<Rightarrow> 'a list" where
  "join_with d [] = []"
| "join_with d [p] = p"
| "join_with d (p # q # ps) = p @ d # join_with d (q # ps)"

lemma split_on_join:
  "ps \<noteq> [] \<Longrightarrow> \<forall>p \<in> set ps. d \<notin> set p \<Longrightarrow> split_on d (join_with d ps) = ps"
  by (induction d ps rule: join_with.induct) (auto simp: split_on_no split_on_append)

lemma join_split_on: "join_with d (split_on d s) = s"
proof (induction s)
  case (Cons x xs)
  then show ?case
    by (cases "split_on d xs"; cases "tl (split_on d xs)") auto
qed simp

lemma getlines_join:
  assumes "ps \<noteq> []" and "\<forall>p \<in> set ps. d \<notin> set p" and "last ps \<noteq> []"
  shows "getlines d (join_with d ps) = ps"
  using assms by (simp add: getlines_def split_on_join)

lemma concat_lines_split:
  "\<forall>p \<in> set ps. d \<notin> set p \<Longrightarrow> split_on d (concat (map (\<lambda>p. p @ [d]) ps)) = ps @ [[]]"
  by (induction ps) (auto simp: split_on_append)

lemma getlines_concat:
  "\<forall>p \<in> set ps. d \<notin> set p \<Longrightarrow> getlines d (concat (map (\<lambda>p. p @ [d]) ps)) = ps"
  by (simp add: getlines_def concat_lines_split)

end
