(* ===== verification/Contract.thy ===== *)
theory Contract
  imports Bytes Registry_Spec "HOL-Library.AList"
begin

text \<open>
  System manifests, their validation and their extraction from JSON text by regular
  expressions (\<open>core/src/contract.cpp\<close>), the registry of validated manifests
  (\<open>core/src/registry.cpp\<close>) and the minimum provenance test
  (\<open>core/src/provenance.cpp\<close>).
\<close>

section \<open>Data\<close>

record DataPolicy =
  requires_provenance :: bool
  allows_offline_sync :: bool
  requires_schema_validation :: bool
  requires_operator :: bool
  requires_spatial_reference :: bool

record SystemManifest =
  system_id :: string
  system_name :: string
  system_version :: string
  contract_version :: string
  sm_type :: string
  sm_domain :: "string list"
  operational_mode :: "string list"
  sm_exports :: "string list"
  integration_modes :: "string list"
  responsible_repository :: string
  data_policy :: DataPolicy

record ValidationIssue =
  vi_field :: string
  vi_message :: string

record ValidationResult =
  vr_ok :: bool
  vr_issues :: "ValidationIssue list"

record ProvenanceRecord =
  object_id :: string
  source_system_id :: string
  pr_contract_version :: string
  evidence_ref :: string
  observed_at :: string

section \<open>Validation\<close>

definition blank :: "string \<Rightarrow> bool" where
  "blank value = list_all isspace value"

definition requireText :: "string \<Rightarrow> string \<Rightarrow> ValidationIssue list \<Rightarrow> ValidationIssue list" where
  "requireText fld value issues =
     (if value = [] \<or> blank value
      then issues @ [\<lparr>vi_field = fld, vi_message = ''required text field is empty''\<rparr>]
      else issues)"

definition requireNonEmpty ::
  "string \<Rightarrow> string list \<Rightarrow> ValidationIssue list \<Rightarrow> ValidationIssue list" where
  "requireNonEmpty fld values issues =
     (if values = []
      then issues @ [\<lparr>vi_field = fld, vi_message = ''required list is empty''\<rparr>]
      else issues)"

definition validateSystemManifest :: "SystemManifest \<Rightarrow> ValidationResult" where
  "validateSystemManifest m =
     (let issues = [];
          issues = requireText ''system_id'' (system_id m) issues;
          issues = requireText ''system_name'' (system_name m) issues;
          issues = requireText ''system_version'' (system_version m) issues;
          issues = requireText ''contract_version'' (contract_version m) issues;
          issues = requireText ''type'' (sm_type m) issues;
          issues = requireNonEmpty ''domain'' (sm_domain m) issues;
          issues = requireNonEmpty ''operational_mode'' (operational_mode m) issues;
          issues = requireNonEmpty ''exports'' (sm_exports m) issues;
          issues = requireNonEmpty ''integration_modes'' (integration_modes m) issues;
          issues = (if \<not> requires_provenance (data_policy m)
                    then issues @ [\<lparr>vi_field = ''data_policy.requires_provenance'',
                      vi_message = ''SisTer integration requires provenance''\<rparr>]
                    else issues);
          issues = (if \<not> requires_schema_validation (data_policy m)
                    then issues @ [\<lparr>vi_field = ''data_policy.requires_schema_validation'',
                      vi_message = ''contracted imports must require schema validation''\<rparr>]
                    else issues)
      in \<lparr>vr_ok = (issues = []), vr_issues = issues\<rparr>)"

definition validation_to_string :: "ValidationResult \<Rightarrow> string" where
  "validation_to_string r =
     (if vr_ok r then ''validation ok''
      else ''validation failed'' @
        concat (map (\<lambda>i. [LF] @ ''- '' @ vi_field i @ '': '' @ vi_message i) (vr_issues r)))"

section \<open>Extraction from JSON text\<close>

text \<open>
  \<open>std::regex_search\<close> over a \<open>const char*\<close> stops at the first NUL byte and takes the
  leftmost position at which the pattern matches.  In the three patterns every
  repetition is followed by a character it cannot contain, so a match at a position is
  determined by one left-to-right scan.
\<close>

definition skip_space :: "string \<Rightarrow> string" where
  "skip_space s = dropWhile isspace s"

fun regex_search :: "(string \<Rightarrow> 'a option) \<Rightarrow> string \<Rightarrow> 'a option" where
  "regex_search match [] = match []"
| "regex_search match (c # cs) =
     (case match (c # cs) of Some v \<Rightarrow> Some v | None \<Rightarrow> regex_search match cs)"

text \<open>The common start of the patterns: the quoted key, a colon, and the space around it.\<close>

definition match_key :: "string \<Rightarrow> string \<Rightarrow> string option" where
  "match_key key s =
     (let q = QUOTE # key @ [QUOTE] in
      if take (length q) s = q
      then (case skip_space (drop (length q) s) of
          [] \<Rightarrow> None
        | c # rest \<Rightarrow> if c = CHR '':'' then Some (skip_space rest) else None)
      else None)"

text \<open>\<open>open ([^close]*) close\<close> at the start of the input: the group and what follows.\<close>

definition match_until :: "char \<Rightarrow> char \<Rightarrow> string \<Rightarrow> (string \<times> string) option" where
  "match_until opn cls s =
     (case s of
        [] \<Rightarrow> None
      | c # rest \<Rightarrow>
          if c = opn
          then (case dropWhile (\<lambda>c. c \<noteq> cls) rest of
              [] \<Rightarrow> None
            | _ # after \<Rightarrow> Some (takeWhile (\<lambda>c. c \<noteq> cls) rest, after))
          else None)"

definition extractString :: "string \<Rightarrow> string \<Rightarrow> string" where
  "extractString json key =
     (case regex_search (\<lambda>s. Option.bind (match_key key s)
             (\<lambda>t. map_option fst (match_until QUOTE QUOTE t))) (c_str json) of
        Some v \<Rightarrow> v
      | None \<Rightarrow> [])"

text \<open>\<open>sregex_iterator\<close>: the successive non-overlapping quoted items of the array body.\<close>

fun quoted_items :: "nat \<Rightarrow> string \<Rightarrow> string list" where
  "quoted_items 0 body = []"
| "quoted_items (Suc n) body =
     (case match_until QUOTE QUOTE (dropWhile (\<lambda>c. c \<noteq> QUOTE) body) of
        None \<Rightarrow> []
      | Some (item, rest) \<Rightarrow> item # quoted_items n rest)"

definition extractStringArray :: "string \<Rightarrow> string \<Rightarrow> string list" where
  "extractStringArray json key =
     (case regex_search (\<lambda>s. Option.bind (match_key key s)
             (\<lambda>t. map_option fst (match_until CHR ''['' CHR '']'' t))) (c_str json) of
        Some body \<Rightarrow> quoted_items (length body) body
      | None \<Rightarrow> [])"

definition match_bool :: "string \<Rightarrow> bool option" where
  "match_bool s =
     (if take 4 s = ''true'' then Some True
      else if take 5 s = ''false'' then Some False
      else None)"

definition extractBool :: "string \<Rightarrow> string \<Rightarrow> bool" where
  "extractBool json key =
     (case regex_search (\<lambda>s. Option.bind (match_key key s) match_bool) (c_str json) of
        Some b \<Rightarrow> b
      | None \<Rightarrow> False)"

definition parseSystemManifestJson :: "string \<Rightarrow> SystemManifest" where
  "parseSystemManifestJson json =
     \<lparr>system_id = extractString json ''system_id'',
      system_name = extractString json ''system_name'',
      system_version = extractString json ''system_version'',
      contract_version = extractString json ''contract_version'',
      sm_type = extractString json ''type'',
      sm_domain = extractStringArray json ''domain'',
      operational_mode = extractStringArray json ''operational_mode'',
      sm_exports = extractStringArray json ''exports'',
      integration_modes = extractStringArray json ''integration_modes'',
      responsible_repository = extractString json ''responsible_repository'',
      data_policy =
        \<lparr>requires_provenance = extractBool json ''requires_provenance'',
         allows_offline_sync = extractBool json ''allows_offline_sync'',
         requires_schema_validation = extractBool json ''requires_schema_validation'',
         requires_operator = extractBool json ''requires_operator'',
         requires_spatial_reference = extractBool json ''requires_spatial_reference''\<rparr>\<rparr>"

section \<open>The registry of manifests\<close>

text \<open>\<open>std::unordered_map\<close>: an association list with one entry per key; its order stands
  for the unspecified iteration order.\<close>

type_synonym SystemRegistry = "(string \<times> SystemManifest) list"

definition registerSystem :: "SystemManifest \<Rightarrow> SystemRegistry \<Rightarrow> ValidationResult \<times> SystemRegistry" where
  "registerSystem m systems =
     (let validation = validateSystemManifest m in
      if \<not> vr_ok validation then (validation, systems)
      else (validation, AList.update (system_id m) m systems))"

definition findById :: "SystemRegistry \<Rightarrow> string \<Rightarrow> SystemManifest option" where
  "findById systems i = map_of systems i"

definition list_systems :: "SystemRegistry \<Rightarrow> SystemManifest list" where
  "list_systems systems = map snd systems"

definition hasMinimumProvenance :: "ProvenanceRecord \<Rightarrow> bool" where
  "hasMinimumProvenance r \<longleftrightarrow> object_id r \<noteq> [] \<and> source_system_id r \<noteq> [] \<and>
     pr_contract_version r \<noteq> [] \<and> evidence_ref r \<noteq> [] \<and> observed_at r \<noteq> []"

section \<open>Validation against a table of requirements\<close>

text \<open>The reference reading of the validator: a list of requirements in order, each with
  the issue it reports when it is violated.\<close>

definition requirements :: "SystemManifest \<Rightarrow> (bool \<times> string \<times> string) list" where
  "requirements m =
     map (\<lambda>(f, v). (\<not> blank v, f, ''required text field is empty''))
       [(''system_id'', system_id m), (''system_name'', system_name m),
        (''system_version'', system_version m), (''contract_version'', contract_version m),
        (''type'', sm_type m)] @
     map (\<lambda>(f, v). (v \<noteq> [], f, ''required list is empty''))
       [(''domain'', sm_domain m), (''operational_mode'', operational_mode m),
        (''exports'', sm_exports m), (''integration_modes'', integration_modes m)] @
     [(requires_provenance (data_policy m), ''data_policy.requires_provenance'',
       ''SisTer integration requires provenance''),
      (requires_schema_validation (data_policy m), ''data_policy.requires_schema_validation'',
       ''contracted imports must require schema validation'')]"

lemma blank_Nil [simp]: "blank []"
  by (simp add: blank_def)

lemma requireText_alt:
  "requireText fld value issues =
     issues @ (if blank value then [\<lparr>vi_field = fld, vi_message = ''required text field is empty''\<rparr>] else [])"
  by (auto simp: requireText_def)

lemma requireNonEmpty_alt:
  "requireNonEmpty fld values issues =
     issues @ (if values = [] then [\<lparr>vi_field = fld, vi_message = ''required list is empty''\<rparr>] else [])"
  by (auto simp: requireNonEmpty_def)

lemma if_append_issue: "(if b then xs @ ys else xs) = xs @ (if b then ys else [])"
  by simp

lemma filter_Cons_append:
  "filter P (x # xs) = (if P x then [x] else []) @ filter P xs"
  by simp

lemma map_if_singleton: "map f (if b then [x] else []) = (if b then [f x] else [])"
  by simp

lemma validate_issues:
  "vr_issues (validateSystemManifest m) =
     map (\<lambda>(_, f, msg). \<lparr>vi_field = f, vi_message = msg\<rparr>)
       (filter (\<lambda>(met, _). \<not> met) (requirements m))"
  unfolding validateSystemManifest_def requirements_def Let_def requireText_alt
    requireNonEmpty_alt if_append_issue list.map append.simps filter_Cons_append map_append
    map_if_singleton prod.case not_not append_assoc
  by simp

lemma validate_ok_issues: "vr_ok (validateSystemManifest m) \<longleftrightarrow> vr_issues (validateSystemManifest m) = []"
  by (simp add: validateSystemManifest_def Let_def)

lemma validate_ok:
  "vr_ok (validateSystemManifest m) \<longleftrightarrow> (\<forall>(met, _) \<in> set (requirements m). met)"
  unfolding validate_ok_issues validate_issues by (auto simp: filter_empty_conv)

lemma validate_id: "vr_ok (validateSystemManifest m) \<Longrightarrow> \<not> blank (system_id m)"
  unfolding validate_ok requirements_def by simp

section \<open>The registry contract\<close>

definition manifests_wf :: "SystemRegistry \<Rightarrow> bool" where
  "manifests_wf systems \<longleftrightarrow> distinct (map fst systems) \<and>
     (\<forall>(k, m) \<in> set systems. k = system_id m \<and> vr_ok (validateSystemManifest m))"

lemma registerSystem_state:
  "snd (registerSystem m systems) =
     (if vr_ok (validateSystemManifest m) then AList.update (system_id m) m systems else systems)"
  by (simp add: registerSystem_def Let_def)

lemma set_update_subset: "set (AList.update k v al) \<subseteq> insert (k, v) (set al)"
  by (induction al) auto

lemma registerSystem_wf [wf_intros]:
  "manifests_wf systems \<Longrightarrow> manifests_wf (snd (registerSystem m systems))"
  unfolding manifests_wf_def registerSystem_state
  using set_update_subset [of "system_id m" m systems] by (auto intro: distinct_update)

interpretation manifests: keyed_registry findById "\<lambda>m s. snd (registerSystem m s)"
  "\<lambda>m s. vr_ok (validateSystemManifest m)" system_id manifests_wf
proof unfold_locales
  show "manifests_wf s \<Longrightarrow> manifests_wf (snd (registerSystem m s))" for s m
    by (rule registerSystem_wf)
qed (simp_all add: findById_def fun_eq_iff registerSystem_state update_conv)

inductive registry_step :: "SystemRegistry \<Rightarrow> SystemRegistry \<Rightarrow> bool" where
  "registry_step s (snd (registerSystem m s))"

interpretation manifests_system: invariant_system "\<lambda>s. s = []" registry_step manifests_wf
proof unfold_locales
  show "s = [] \<Longrightarrow> manifests_wf s" for s
    by (simp add: manifests_wf_def)
qed (auto elim!: registry_step.cases intro: wf_intros)

lemma wf_find_list:
  assumes "manifests_wf s"
  shows "findById s i = Some m \<longleftrightarrow> m \<in> set (list_systems s) \<and> system_id m = i"
  using assms by (force simp: findById_def list_systems_def manifests_wf_def)

section \<open>What extraction can return\<close>

lemma regex_search_suffix: "regex_search f s = Some v \<Longrightarrow> \<exists>t. suffix t s \<and> f t = Some v"
  by (induction s) (auto split: option.splits intro: suffix_ConsI)

lemma match_until_chars:
  assumes "match_until a b s = Some (v, t)"
  shows "b \<notin> set v" and "s = a # v @ b # t"
proof -
  obtain rest x where s: "s = a # rest" and d: "dropWhile (\<lambda>c. c \<noteq> b) rest = x # t"
    and v: "v = takeWhile (\<lambda>c. c \<noteq> b) rest"
    using assms by (simp add: match_until_def split: list.split_asm if_split_asm)
  show "b \<notin> set v" unfolding v by (auto dest: set_takeWhileD)
  have "x = b" using hd_dropWhile [of "\<lambda>c. c \<noteq> b" rest] d by simp
  with d show "s = a # v @ b # t" by (metis s takeWhile_dropWhile_id v)
qed

lemma quoted_items_cases:
  assumes "item \<in> set (quoted_items (Suc n) body)"
  obtains v t where "match_until QUOTE QUOTE (dropWhile (\<lambda>c. c \<noteq> QUOTE) body) = Some (v, t)"
    and "item = v \<or> item \<in> set (quoted_items n t)"
proof (cases "match_until QUOTE QUOTE (dropWhile (\<lambda>c. c \<noteq> QUOTE) body)")
  case (Some p)
  with assms that [of "fst p" "snd p"] show ?thesis by (cases p) auto
qed (use assms in simp)

lemma quoted_items_chars: "item \<in> set (quoted_items n body) \<Longrightarrow> QUOTE \<notin> set item"
proof (induction n arbitrary: body)
  case (Suc n)
  from Suc.prems Suc.IH show ?case
    by (elim quoted_items_cases) (auto dest: match_until_chars(1))
qed simp

lemma quoted_items_sub: "item \<in> set (quoted_items n body) \<Longrightarrow> set item \<subseteq> set body"
proof (induction n arbitrary: body)
  case (Suc n)
  from Suc.prems obtain v t
    where m: "match_until QUOTE QUOTE (dropWhile (\<lambda>c. c \<noteq> QUOTE) body) = Some (v, t)"
      and i: "item = v \<or> item \<in> set (quoted_items n t)"
    by (rule quoted_items_cases)
  have "set (dropWhile (\<lambda>c. c \<noteq> QUOTE) body) \<subseteq> set body" by (auto dest: set_dropWhileD)
  then have "set v \<subseteq> set body" "set t \<subseteq> set body"
    unfolding match_until_chars(2) [OF m] by auto
  with i Suc.IH [of t] show ?case by auto
qed simp

text \<open>One quoted item consumes at least two characters, so the length of the body is
  enough fuel for the iteration.\<close>

lemma quoted_items_none:
  "match_until QUOTE QUOTE (dropWhile (\<lambda>c. c \<noteq> QUOTE) body) = None \<Longrightarrow> quoted_items n body = []"
  by (cases n) simp_all

lemma quoted_items_some:
  "match_until QUOTE QUOTE (dropWhile (\<lambda>c. c \<noteq> QUOTE) body) = Some (v, t) \<Longrightarrow>
     quoted_items (Suc n) body = v # quoted_items n t"
  by simp

lemma match_item_shorter:
  assumes "match_until QUOTE QUOTE (dropWhile (\<lambda>c. c \<noteq> QUOTE) body) = Some (v, t)"
  shows "length t < length body"
  using length_dropWhile_le [of "\<lambda>c. c \<noteq> QUOTE" body]
  unfolding match_until_chars(2) [OF assms] by simp

lemma quoted_items_fuel:
  "length body \<le> n \<Longrightarrow> length body \<le> k \<Longrightarrow> quoted_items n body = quoted_items k body"
proof (induction n arbitrary: body k)
  case 0
  then show ?case by (simp add: quoted_items_none match_until_def)
next
  case (Suc n)
  show ?case
  proof (cases "match_until QUOTE QUOTE (dropWhile (\<lambda>c. c \<noteq> QUOTE) body)")
    case None
    then show ?thesis by (simp only: quoted_items_none)
  next
    case (Some p)
    then obtain v t where m: "match_until QUOTE QUOTE (dropWhile (\<lambda>c. c \<noteq> QUOTE) body) = Some (v, t)"
      by (cases p) simp
    note short = match_item_shorter [OF m]
    with Suc.prems obtain k' where k: "k = Suc k'" by (cases k) auto
    have "quoted_items n t = quoted_items k' t"
      by (rule Suc.IH) (use short Suc.prems k in simp_all)
    then show ?thesis unfolding k quoted_items_some [OF m] by simp
  qed
qed

text \<open>The group captured by a successful search is a sublist of the text before the first
  NUL and does not contain the closing character.\<close>

lemma regex_search_group:
  assumes "regex_search (\<lambda>s. Option.bind (match_key key s)
             (\<lambda>t. map_option fst (match_until a b t))) s = Some v"
  shows "b \<notin> set v"
proof -
  obtain t u where "match_until a b t = Some (v, u)"
    using regex_search_suffix [OF assms] by (auto simp: bind_eq_Some_conv)
  then show ?thesis by (rule match_until_chars(1))
qed

lemma extractString_no_quote: "QUOTE \<notin> set (extractString json key)"
proof (cases "regex_search (\<lambda>s. Option.bind (match_key key s)
             (\<lambda>t. map_option fst (match_until QUOTE QUOTE t))) (c_str json)")
  case (Some v)
  from regex_search_group [OF this] show ?thesis by (simp add: extractString_def Some)
qed (simp add: extractString_def)

lemma extractStringArray_chars:
  assumes "item \<in> set (extractStringArray json key)"
  shows "QUOTE \<notin> set item \<and> CHR '']'' \<notin> set item"
proof (cases "regex_search (\<lambda>s. Option.bind (match_key key s)
             (\<lambda>t. map_option fst (match_until CHR ''['' CHR '']'' t))) (c_str json)")
  case (Some body)
  then have b: "item \<in> set (quoted_items (length body) body)"
    using assms by (simp add: extractStringArray_def)
  from quoted_items_sub [OF b] quoted_items_chars [OF b] regex_search_group [OF Some]
  show ?thesis by blast
qed (use assms in \<open>simp add: extractStringArray_def\<close>)

lemma match_until_found:
  "b \<notin> set v \<Longrightarrow> match_until a b (a # v @ b # t) = Some (v, t)"
  by (simp add: match_until_def)

lemma match_key_start: "match_key key s \<noteq> None \<Longrightarrow> \<exists>t. s = QUOTE # t"
  by (cases s) (auto simp: match_key_def Let_def split: if_splits)

lemma regex_search_skip:
  assumes "QUOTE \<notin> set pre" and "Option.bind (match_key key (QUOTE # t)) f = Some v"
  shows "regex_search (\<lambda>s. Option.bind (match_key key s) f) (pre @ QUOTE # t) = Some v"
  using assms(1)
proof (induction pre)
  case (Cons c cs)
  then have "match_key key (c # cs @ QUOTE # t) = None"
    using match_key_start [of key "c # cs @ QUOTE # t"] by (cases "match_key key (c # cs @ QUOTE # t)") auto
  with Cons show ?case by simp
qed (simp add: assms(2))

lemma quoted_items_rendered:
  assumes "\<forall>i \<in> set items. QUOTE \<notin> set i"
    and "length (concat (map (\<lambda>i. [QUOTE] @ i @ [QUOTE] @ '','') items)) \<le> n"
  shows "quoted_items n (concat (map (\<lambda>i. [QUOTE] @ i @ [QUOTE] @ '','') items)) = items"
proof -
  have *: "quoted_items n (sep @ concat (map (\<lambda>i. [QUOTE] @ i @ [QUOTE] @ '','') items)) = items"
    if "QUOTE \<notin> set sep"
      "length (concat (map (\<lambda>i. [QUOTE] @ i @ [QUOTE] @ '','') items)) \<le> n" for sep
    using that assms(1)
  proof (induction items arbitrary: n sep)
    case Nil
    then show ?case
      by (cases n) (simp_all add: match_until_def)
  next
    case (Cons i items)
    then obtain n' where n: "n = Suc n'" by (cases n) auto
    have "quoted_items n' ('','' @ concat (map (\<lambda>i. [QUOTE] @ i @ [QUOTE] @ '','') items)) = items"
      using Cons.prems n by (intro Cons.IH) auto
    with Cons.prems show ?case
      by (simp add: n match_until_found)
  qed
  show ?thesis using * [of "[]"] assms(2) by simp
qed

section \<open>Properties\<close>


text \<open>After any sequence of registrations from the empty registry, every listed manifest
  is valid and is what a lookup of its own id returns, and nothing else is found: an
  invalid manifest never enters, and two entries never share an id.\<close>

theorem manifest_registry_sound:
  assumes "reach (\<lambda>s. s = []) registry_step s"
  shows "(findById s i = Some m \<longleftrightarrow> m \<in> set (list_systems s) \<and> system_id m = i) \<and>
    (m \<in> set (list_systems s) \<longrightarrow> vr_ok (validateSystemManifest m)) \<and>
    distinct (map system_id (list_systems s))"
proof (intro conjI)
  have wf: "manifests_wf s" using assms by (rule manifests_system.reach_inv)
  then show "findById s i = Some m \<longleftrightarrow> m \<in> set (list_systems s) \<and> system_id m = i"
    by (rule wf_find_list)
  show "m \<in> set (list_systems s) \<longrightarrow> vr_ok (validateSystemManifest m)"
    using wf by (auto simp: manifests_wf_def list_systems_def)
  have "map system_id (list_systems s) = map fst s"
    using wf by (force simp: manifests_wf_def list_systems_def)
  then show "distinct (map system_id (list_systems s))"
    using wf by (simp add: manifests_wf_def)
qed

definition sample_manifest :: SystemManifest where
  "sample_manifest =
     \<lparr>system_id = ''aerial'', system_name = ''A'', system_version = ''1'', contract_version = ''1'',
      sm_type = ''t'', sm_domain = [''d''], operational_mode = [''o''], sm_exports = [''e''],
      integration_modes = [''i''], responsible_repository = [],
      data_policy = \<lparr>requires_provenance = True, allows_offline_sync = False,
        requires_schema_validation = True, requires_operator = False,
        requires_spatial_reference = False\<rparr>\<rparr>"

theorem manifest_registry_sound_witness:
  "findById (snd (registerSystem sample_manifest [])) ''aerial'' = Some sample_manifest"
proof -
  let ?s = "snd (registerSystem sample_manifest [])"
  have r: "reach (\<lambda>s. s = []) registry_step ?s"
    by (rule reach_step [where s = "[]"]) (auto intro: reach_init registry_step.intros)
  have "vr_ok (validateSystemManifest sample_manifest)" by code_simp
  then have "sample_manifest \<in> set (list_systems ?s) \<and> system_id sample_manifest = ''aerial''"
    by (simp add: registerSystem_state list_systems_def) (simp add: sample_manifest_def)
  then show ?thesis
    using manifest_registry_sound [OF r, of "''aerial''" sample_manifest] by blast
qed

text \<open>Array extraction reads back what it is meant to read: a member
  \<open>"key": ["i1", ..., "in"]\<close>, the first quoted text of the document, yields
  exactly the items \<open>i1, ..., in\<close> in order, for any items without quotes, closing
  brackets and NUL bytes.\<close>

theorem extractStringArray_reads_items:
  assumes "QUOTE \<notin> set pre" and "NUL \<notin> set (pre @ key)"
    and "\<forall>i \<in> set items. QUOTE \<notin> set i \<and> CHR '']'' \<notin> set i \<and> NUL \<notin> set i"
  shows "extractStringArray (pre @ [QUOTE] @ key @ [QUOTE] @ '': ['' @
      concat (map (\<lambda>i. [QUOTE] @ i @ [QUOTE] @ '','') items) @ '']'' @ post) key = items"
proof -
  let ?body = "concat (map (\<lambda>i. [QUOTE] @ i @ [QUOTE] @ '','') items)"
  let ?rest = "[QUOTE] @ key @ [QUOTE] @ '': ['' @ ?body @ '']'' @ c_str post"
  let ?f = "\<lambda>s. Option.bind (match_key key s) (\<lambda>t. map_option fst (match_until CHR ''['' CHR '']'' t))"
  have nul: "NUL \<notin> set ?body" and br: "CHR '']'' \<notin> set ?body" using assms(3) by auto
  have c: "c_str (pre @ [QUOTE] @ key @ [QUOTE] @ '': ['' @ ?body @ '']'' @ post) = pre @ ?rest"
    using assms(2) nul by (simp add: c_str_def del: set_concat)
  have k: "match_key key ?rest = Some (''['' @ ?body @ '']'' @ c_str post)"
    by (simp add: match_key_def skip_space_def isspace_def)
  have m: "match_until CHR ''['' CHR '']'' (''['' @ ?body @ '']'' @ c_str post) = Some (?body, c_str post)"
    using match_until_found [OF br] by simp
  have b: "?f ?rest = Some ?body"
    unfolding k bind.simps m by simp
  have "regex_search ?f (pre @ ?rest) = Some ?body"
    using regex_search_skip [OF assms(1) b [unfolded append_Cons append_Nil]] by simp
  then show ?thesis
    unfolding extractStringArray_def c using assms(3) by (simp add: quoted_items_rendered [unfolded append_Cons append_Nil])
qed

theorem extractStringArray_reads_items_witness:
  "extractStringArray (''{ '' @ [QUOTE] @ ''exports'' @ [QUOTE] @ '': ['' @
      concat (map (\<lambda>i. [QUOTE] @ i @ [QUOTE] @ '','') [''a'', ''b'']) @ '']'' @ ''}'') ''exports'' =
   [''a'', ''b'']"
  by (rule extractStringArray_reads_items) auto

end
