(* ===== verification/Decimal.thy ===== *)
theory Decimal
  imports Bytes
begin

text \<open>
  Decimal and hexadecimal texts: the value of a run of digits, \<open>operator<<\<close> of a stream
  for non-negative integers, \<open>std::from_chars\<close> in base ten with the bounds of the target
  type, and the two-digit hexadecimal rendering of bytes that several components use.
\<close>

section \<open>Reading\<close>

definition digit_of :: "char \<Rightarrow> nat" where
  "digit_of c = byte c - 48"

definition decimal_from :: "nat \<Rightarrow> string \<Rightarrow> nat" where
  "decimal_from a s = foldl (\<lambda>v c. 10 * v + digit_of c) a s"

abbreviation decimal :: "string \<Rightarrow> nat" where
  "decimal s \<equiv> decimal_from 0 s"

lemma decimal_from_simps [simp]:
  "decimal_from a [] = a"
  "decimal_from a (c # s) = decimal_from (10 * a + digit_of c) s"
  by (simp_all add: decimal_from_def)

lemma decimal_from_append [simp]:
  "decimal_from a (s @ t) = decimal_from (decimal_from a s) t"
  by (simp add: decimal_from_def)

lemma decimal_from_mono: "a \<le> decimal_from a s"
proof (induction s arbitrary: a)
  case (Cons c s)
  have "a \<le> 10 * a + digit_of c" by simp
  also have "\<dots> \<le> decimal_from (10 * a + digit_of c) s" by (rule Cons.IH)
  finally show ?case by simp
qed simp

text \<open>
  \<open>std::from_chars\<close> for an integer type with the range \<open>lo .. hi\<close>: a sign is recognised
  only for signed types, the longest run of digits is consumed, and a value outside the
  range is an error.  The result is the value and what follows it.
\<close>

definition from_chars :: "int \<Rightarrow> int \<Rightarrow> string \<Rightarrow> (int \<times> string) option" where
  "from_chars lo hi s =
     (let neg = (lo < 0 \<and> s \<noteq> [] \<and> hd s = CHR ''-'');
          body = (if neg then tl s else s);
          digits = takeWhile isdigit body;
          v = (if neg then - int (decimal digits) else int (decimal digits))
      in if digits = [] \<or> v < lo \<or> hi < v then None
         else Some (v, dropWhile isdigit body))"

section \<open>Writing\<close>

definition digit_char :: "nat \<Rightarrow> char" where
  "digit_char d = char_of (48 + d)"

fun show_nat :: "nat \<Rightarrow> string" where
  "show_nat n = (if n < 10 then [digit_char n] else show_nat (n div 10) @ [digit_char (n mod 10)])"

declare show_nat.simps [simp del]

lemma digit_of_char [simp]: "d < 10 \<Longrightarrow> digit_of (digit_char d) = d"
  by (simp add: digit_of_def digit_char_def)

lemma isdigit_digit_char [simp]: "d < 10 \<Longrightarrow> isdigit (digit_char d)"
  by (simp add: isdigit_def digit_char_def)

lemma show_nat_digits [simp]: "c \<in> set (show_nat n) \<Longrightarrow> isdigit c"
proof (induction n rule: show_nat.induct)
  case (1 n)
  then show ?case
    by (subst (asm) (2) show_nat.simps) (auto split: if_splits)
qed

lemma show_nat_ne [simp]: "show_nat n \<noteq> []"
  by (subst show_nat.simps) simp

lemma decimal_show_nat [simp]: "decimal (show_nat n) = n"
proof (induction n rule: show_nat.induct)
  case (1 n)
  then show ?case
    by (cases "n < 10") (simp_all add: show_nat.simps [of n])
qed

lemma takeWhile_digits:
  assumes "\<forall>c \<in> set s. isdigit c" and "t = [] \<or> \<not> isdigit (hd t)"
  shows "takeWhile isdigit (s @ t) = s" and "dropWhile isdigit (s @ t) = t"
proof -
  have "takeWhile isdigit t = []" and "dropWhile isdigit t = t"
    using assms(2) by (cases t; simp)+
  with assms(1) show "takeWhile isdigit (s @ t) = s" and "dropWhile isdigit (s @ t) = t"
    by (simp_all add: takeWhile_append2 dropWhile_append2)
qed

lemma from_chars_show_nat:
  assumes "int n \<le> hi" and "lo \<le> 0" and "t = [] \<or> \<not> isdigit (hd t)"
  shows "from_chars lo hi (show_nat n @ t) = Some (int n, t)"
proof -
  have "hd (show_nat n @ t) \<noteq> CHR ''-''"
    using show_nat_digits [of "hd (show_nat n)" n] by (auto simp: isdigit_def)
  moreover have "takeWhile isdigit (show_nat n @ t) = show_nat n" "dropWhile isdigit (show_nat n @ t) = t"
    using takeWhile_digits [of "show_nat n" t] assms(3) by auto
  ultimately show ?thesis using assms(1,2) by (simp add: from_chars_def)
qed

definition show_int :: "int \<Rightarrow> string" where
  "show_int v = (if v < 0 then CHR ''-'' # show_nat (nat (- v)) else show_nat (nat v))"

abbreviation int64_min :: int where "int64_min \<equiv> - (2 ^ 63)"
abbreviation int64_max :: int where "int64_max \<equiv> 2 ^ 63 - 1"

section \<open>Hexadecimal\<close>

text \<open>The digit table \<open>"0123456789abcdef"\<close> and the value of a digit in either case.\<close>

definition hex_char :: "nat \<Rightarrow> char" where
  "hex_char d = (''0123456789abcdef'' ! d)"

definition hex_value :: "char \<Rightarrow> nat option" where
  "hex_value c =
     (if isdigit c then Some (byte c - 48)
      else if 97 \<le> byte c \<and> byte c \<le> 102 then Some (byte c - 97 + 10)
      else if 65 \<le> byte c \<and> byte c \<le> 70 then Some (byte c - 65 + 10)
      else None)"

lemma less_16_cases:
  "(d :: nat) < 16 \<Longrightarrow> d \<in> {0, 1, 2, 3, 4, 5, 6, 7, 8, 9, 10, 11, 12, 13, 14, 15}"
  by (auto simp: numeral_eq_Suc less_Suc_eq)

lemma hex_value_char [simp]: "d < 16 \<Longrightarrow> hex_value (hex_char d) = Some d"
  using less_16_cases [of d] by (auto simp: hex_char_def hex_value_def isdigit_def)

lemma hex_value_bound: "hex_value c = Some d \<Longrightarrow> d < 16"
  by (auto simp: hex_value_def isdigit_def split: if_splits)

text \<open>Two digits per byte, the high half first.\<close>

definition hex_byte :: "char \<Rightarrow> string" where
  "hex_byte c = [hex_char (byte c div 16), hex_char (byte c mod 16)]"

definition hex_string :: "string \<Rightarrow> string" where
  "hex_string s = concat (map hex_byte s)"

fun unhex_string :: "string \<Rightarrow> string option" where
  "unhex_string [] = Some []"
| "unhex_string [c] = None"
| "unhex_string (h # l # s) =
     (case (hex_value h, hex_value l) of
        (Some a, Some b) \<Rightarrow> map_option (\<lambda>t. char_of (16 * a + b) # t) (unhex_string s)
      | _ \<Rightarrow> None)"

lemma byte_halves [simp]: "byte c div 16 < 16" "byte c mod 16 < 16"
  using byte_less [of c] by (simp_all add: less_mult_imp_div_less)

lemma unhex_hex_byte: "unhex_string (hex_byte c @ s) = map_option (\<lambda>t. c # t) (unhex_string s)"
  by (simp add: hex_byte_def)

lemma unhex_hex [simp]: "unhex_string (hex_string s) = Some s"
  by (induction s) (simp_all add: hex_string_def unhex_hex_byte)

lemma hex_string_inj: "hex_string s = hex_string t \<Longrightarrow> s = t"
  by (metis option.inject unhex_hex)

lemma length_hex_string [simp]: "length (hex_string s) = 2 * length s"
  by (induction s) (simp_all add: hex_string_def hex_byte_def)

lemma hex_char_chars: "d < 16 \<Longrightarrow> isdigit (hex_char d) \<or> (97 \<le> byte (hex_char d) \<and> byte (hex_char d) \<le> 102)"
  using less_16_cases [of d] by (auto simp: hex_char_def isdigit_def)

lemma hex_string_chars:
  "c \<in> set (hex_string s) \<Longrightarrow> isdigit c \<or> (97 \<le> byte c \<and> byte c \<le> 102)"
proof (induction s)
  case (Cons d s)
  then show ?case
    using hex_char_chars [OF byte_halves(1), of d] hex_char_chars [OF byte_halves(2), of d]
    by (auto simp: hex_string_def hex_byte_def)
qed (simp add: hex_string_def)

end
