(* ===== verification/Content_Length.thy ===== *)
theory Content_Length
  imports Decimal "HOL-Library.Word"
begin

text \<open>
  The parser of the Content-Length header (\<open>apps/sisterd/http/content_length.cpp\<close>).
  \<open>std::size_t\<close> has 64 bits on the platforms of the daemon and is modelled as
  \<open>64 word\<close>: subtraction, multiplication and addition wrap as they do in the code.
\<close>

section \<open>The parser\<close>

type_synonym size_t = "64 word"

datatype ContentLengthStatus = cl_valid | cl_invalid | cl_tooLarge

record ContentLengthResult =
  cl_status :: ContentLengthStatus
  cl_value :: size_t

fun parseContentLength_loop :: "size_t \<Rightarrow> string \<Rightarrow> size_t \<Rightarrow> ContentLengthResult" where
  "parseContentLength_loop parsed [] maximum = \<lparr>cl_status = cl_valid, cl_value = parsed\<rparr>"
| "parseContentLength_loop parsed (character # rest) maximum =
     (if byte character < byte (CHR ''0'') \<or> byte character > byte (CHR ''9'')
      then \<lparr>cl_status = cl_invalid, cl_value = 0\<rparr>
      else
        let digit = word_of_nat (byte character - byte (CHR ''0'')) in
        if parsed > (- 1 - digit) div 10
        then \<lparr>cl_status = cl_tooLarge, cl_value = 0\<rparr>
        else
          let parsed = parsed * 10 + digit in
          if parsed > maximum then \<lparr>cl_status = cl_tooLarge, cl_value = 0\<rparr>
          else parseContentLength_loop parsed rest maximum)"

definition parseContentLength :: "string \<Rightarrow> size_t \<Rightarrow> ContentLengthResult" where
  "parseContentLength value maximum =
     (if value = [] then \<lparr>cl_status = cl_invalid, cl_value = 0\<rparr>
      else parseContentLength_loop 0 value maximum)"

section \<open>Exactness of the guards\<close>

text \<open>The guard before the multiplication is exact: it fires when the exact value does not
  fit, and otherwise the word arithmetic does not wrap.\<close>

lemma size_t_bound: "unat (m :: size_t) < 2 ^ 64"
  using unsigned_less [of m] by simp

lemma unat_minus_one_64: "unat (- 1 :: 64 word) = 2 ^ 64 - 1"
  by (simp add: unsigned_minus_1_eq_mask mask_eq_exp_minus_1)

lemma overflow_guard:
  fixes p d :: "64 word"
  assumes "unat d < 10"
  shows "p > (- 1 - d) div 10 \<longleftrightarrow> 2 ^ 64 \<le> 10 * unat p + unat d"
    and "\<not> p > (- 1 - d) div 10 \<Longrightarrow> unat (p * 10 + d) = 10 * unat p + unat d"
proof -
  have "unat (- 1 - d) = 2 ^ 64 - 1 - unat d"
    using unat_sub [of d "- 1"] by (simp add: unat_minus_one_64)
  then have "unat ((- 1 - d) div 10) = (2 ^ 64 - 1 - unat d) div 10"
    by (simp add: unat_div)
  moreover have "(2 ^ 64 - 1 - unat d) div 10 < unat p \<longleftrightarrow> 2 ^ 64 \<le> 10 * unat p + unat d"
    using assms by (auto simp: div_less_iff_less_mult)
  ultimately show g: "p > (- 1 - d) div 10 \<longleftrightarrow> 2 ^ 64 \<le> 10 * unat p + unat d"
    by (simp add: word_less_nat_alt)
  assume "\<not> p > (- 1 - d) div 10"
  with g have "10 * unat p + unat d < 2 ^ 64" by simp
  then show "unat (p * 10 + d) = 10 * unat p + unat d"
    by (simp add: unat_word_ariths mult.commute)
qed

lemma isdigit_range: "(byte c < byte (CHR ''0'') \<or> byte c > byte (CHR ''9'')) \<longleftrightarrow> \<not> isdigit c"
  by (auto simp: isdigit_def)

lemma unat_digit: "isdigit c \<Longrightarrow> unat (word_of_nat (digit_of c) :: 64 word) = digit_of c \<and> digit_of c < 10"
proof -
  assume "isdigit c"
  then have "digit_of c < 10" by (auto simp: isdigit_def digit_of_def)
  moreover from this have "digit_of c < 2 ^ 64" by simp
  ultimately show ?thesis by (simp add: unat_of_nat)
qed

text \<open>One iteration, read over the natural numbers.\<close>

lemma loop_Cons:
  "parseContentLength_loop p (c # s) m =
     (if \<not> isdigit c then \<lparr>cl_status = cl_invalid, cl_value = 0\<rparr>
      else if unat m < 10 * unat p + digit_of c then \<lparr>cl_status = cl_tooLarge, cl_value = 0\<rparr>
      else parseContentLength_loop (word_of_nat (10 * unat p + digit_of c)) s m)"
proof (cases "isdigit c")
  case True
  let ?d = "word_of_nat (digit_of c) :: 64 word"
  note d = unat_digit [OF True]
  have guard: "p > (- 1 - ?d) div 10 \<longleftrightarrow> 2 ^ 64 \<le> 10 * unat p + digit_of c"
    and exact: "\<not> p > (- 1 - ?d) div 10 \<Longrightarrow> unat (p * 10 + ?d) = 10 * unat p + digit_of c"
    using overflow_guard [of ?d p] d by simp_all
  have small: "unat m < 2 ^ 64" using size_t_bound [of m] by simp
  have b0: "byte (CHR ''0'') = (48 :: nat)" by simp
  have step: "parseContentLength_loop p (c # s) m =
      (if p > (- 1 - ?d) div 10 then \<lparr>cl_status = cl_tooLarge, cl_value = 0\<rparr>
       else if p * 10 + ?d > m then \<lparr>cl_status = cl_tooLarge, cl_value = 0\<rparr>
       else parseContentLength_loop (p * 10 + ?d) s m)"
    unfolding parseContentLength_loop.simps isdigit_range
    unfolding Let_def digit_of_def b0
    by (simp only: True not_True_eq_False if_False)
  show ?thesis
  proof (cases "p > (- 1 - ?d) div 10")
    case True
    with guard small step \<open>isdigit c\<close> show ?thesis by simp
  next
    case False
    have "word_of_nat (10 * unat p + digit_of c) = p * 10 + ?d" by simp
    with False exact step \<open>isdigit c\<close> show ?thesis by (simp add: word_less_nat_alt mult.commute)
  qed
qed (simp add: isdigit_range [symmetric] Let_def)


section \<open>Closed form\<close>

lemma loop_exact:
  "parseContentLength_loop p s m =
     (if list_all isdigit s \<and> decimal_from (unat p) s \<le> unat m
      then \<lparr>cl_status = cl_valid, cl_value = word_of_nat (decimal_from (unat p) s)\<rparr>
      else if \<exists>pre post. s = pre @ post \<and> list_all isdigit pre \<and> unat m < decimal_from (unat p) pre
      then \<lparr>cl_status = cl_tooLarge, cl_value = 0\<rparr>
      else \<lparr>cl_status = cl_invalid, cl_value = 0\<rparr>)"
  if "unat p \<le> unat m"
  using that
proof (induction s arbitrary: p)
  case Nil
  then show ?case by simp
next
  case (Cons c s)
  let ?v = "10 * unat p + digit_of c"
  let ?over = "\<lambda>a s. \<exists>pre post. s = pre @ post \<and> list_all isdigit pre \<and> unat m < decimal_from a pre"
  have over: "?over (unat p) (c # s) \<longleftrightarrow> isdigit c \<and> ?over ?v s"
  proof
    assume "isdigit c \<and> ?over ?v s"
    then obtain pre post where "isdigit c" "s = pre @ post" "list_all isdigit pre"
      "unat m < decimal_from ?v pre" by blast
    then show "?over (unat p) (c # s)"
      by (intro exI [of _ "c # pre"] exI [of _ post]) simp
  qed (use Cons.prems in \<open>auto simp: Cons_eq_append_conv\<close>)
  consider "\<not> isdigit c" | "isdigit c" "unat m < ?v" | "isdigit c" "?v \<le> unat m" by linarith
  then show ?case
  proof cases
    case 1
    then show ?thesis unfolding loop_Cons over by simp
  next
    case 2
    then have "?over ?v s" by (intro exI [of _ "[]"] exI [of _ s]) simp
    moreover have "\<not> decimal_from ?v s \<le> unat m"
      using 2(2) decimal_from_mono [of ?v s] by linarith
    ultimately show ?thesis unfolding loop_Cons over using 2 by simp
  next
    case 3
    have "?v < 2 ^ 64" using 3(2) size_t_bound [of m] by simp
    then have u: "unat (word_of_nat ?v :: 64 word) = ?v"
      by (simp only: unat_of_nat) simp
    have "parseContentLength_loop p (c # s) m = parseContentLength_loop (word_of_nat ?v) s m"
      unfolding loop_Cons using 3 by simp
    also have "\<dots> = (if list_all isdigit s \<and> decimal_from ?v s \<le> unat m
      then \<lparr>cl_status = cl_valid, cl_value = word_of_nat (decimal_from ?v s)\<rparr>
      else if ?over ?v s then \<lparr>cl_status = cl_tooLarge, cl_value = 0\<rparr>
      else \<lparr>cl_status = cl_invalid, cl_value = 0\<rparr>)"
      using Cons.IH [of "word_of_nat ?v"] 3(2) unfolding u by simp
    finally show ?thesis unfolding over using 3(1) by simp
  qed
qed

lemma parseContentLength_closed:
  "parseContentLength hdr maximum =
     (if hdr \<noteq> [] \<and> list_all isdigit hdr \<and> decimal hdr \<le> unat maximum
      then \<lparr>cl_status = cl_valid, cl_value = word_of_nat (decimal hdr)\<rparr>
      else if \<exists>pre post. hdr = pre @ post \<and> list_all isdigit pre \<and> unat maximum < decimal pre
      then \<lparr>cl_status = cl_tooLarge, cl_value = 0\<rparr>
      else \<lparr>cl_status = cl_invalid, cl_value = 0\<rparr>)"
proof (cases "hdr = []")
  case False
  then show ?thesis
    unfolding parseContentLength_def using loop_exact [of 0 maximum hdr] by simp
qed (simp add: parseContentLength_def)

lemma parseContentLength_value:
  assumes "cl_status (parseContentLength hdr maximum) = cl_valid"
  shows "unat (cl_value (parseContentLength hdr maximum)) = decimal hdr \<and>
    decimal hdr \<le> unat maximum"
proof -
  have le: "hdr \<noteq> [] \<and> list_all isdigit hdr \<and> decimal hdr \<le> unat maximum"
    using assms parseContentLength_closed [of hdr maximum] by (auto split: if_splits)
  then have "decimal hdr < 2 ^ 64" using size_t_bound [of maximum] by simp
  then have "unat (word_of_nat (decimal hdr) :: 64 word) = decimal hdr"
    by (simp only: unat_of_nat) simp
  with le show ?thesis using parseContentLength_closed [of hdr maximum] by simp
qed

section \<open>Properties\<close>

text \<open>C31: The header value is accepted exactly when it is a non-empty run of decimal digits
  whose value does not exceed the maximum, and the result is that value: no input, however
  long, makes the 64-bit accumulator wrap into an accepted length.  It is reported as too
  large exactly when some leading run of digits already exceeds the maximum, and as
  invalid otherwise.\<close>

theorem parseContentLength_exact:
  "parseContentLength hdr maximum =
     (if hdr \<noteq> [] \<and> list_all isdigit hdr \<and> decimal hdr \<le> unat maximum
      then \<lparr>cl_status = cl_valid, cl_value = word_of_nat (decimal hdr)\<rparr>
      else if \<exists>pre post. hdr = pre @ post \<and> list_all isdigit pre \<and> unat maximum < decimal pre
      then \<lparr>cl_status = cl_tooLarge, cl_value = 0\<rparr>
      else \<lparr>cl_status = cl_invalid, cl_value = 0\<rparr>)"
  by (rule parseContentLength_closed)

end
