(* ===== verification/Rate_Limiter.thy ===== *)
theory Rate_Limiter
  imports Bytes "HOL-Library.AList" "HOL-Library.Word" "HOL-Library.Signed_Division"
begin

text \<open>
  The login rate limiter (\<open>apps/sisterd/security/login_rate_limiter.cpp\<close>).  Time points
  and durations are integers in nanoseconds, as in \<open>steady_clock\<close>; sizes are natural
  numbers and the two counters wrap at 64 bits.  The \<open>unordered_map\<close> of buckets is an
  association list whose order stands for the iteration order, and a rehash may permute it
  at any time.  Every public operation holds the mutex for its whole body, so an execution
  is a sequence of whole operations.
\<close>

section \<open>State\<close>

record Limits =
  perAddress :: nat
  perIdentity :: nat
  perAddressAndIdentity :: nat
  global_limit :: nat
  maximumBuckets :: nat
  window :: int

record Decision =
  allowed :: bool
  retryAfter :: int
  scope :: string
  dec_buckets :: nat
  dec_rejections :: "64 word"
  dec_evictions :: "64 word"

record Bucket =
  attempts :: "int list"
  lastAccess :: int

record LoginRateLimiter =
  rl_limits :: Limits
  rl_buckets :: "(string \<times> Bucket) list"
  rl_rejections :: "64 word"
  rl_evictions :: "64 word"

datatype exception = invalid_argument string | runtime_error string

abbreviation second :: int where
  "second \<equiv> 1000000000"

definition globalKey :: string where
  "globalKey = ''global''"

definition default_limits :: Limits where
  "default_limits = \<lparr>perAddress = 32, perIdentity = 16, perAddressAndIdentity = 8,
     global_limit = 512, maximumBuckets = 4096, window = 300 * second\<rparr>"

definition LoginRateLimiter_new :: "Limits \<Rightarrow> (exception, LoginRateLimiter) result" where
  "LoginRateLimiter_new lim =
     (if perAddress lim = 0 \<or> perIdentity lim = 0 \<or> perAddressAndIdentity lim = 0 \<or>
         global_limit lim = 0 \<or> maximumBuckets lim < 4 \<or> window lim \<le> 0
      then Error (invalid_argument ''invalid login rate limiter configuration'')
      else Okay \<lparr>rl_limits = lim, rl_buckets = [], rl_rejections = 0, rl_evictions = 0\<rparr>)"

section \<open>Expiry\<close>

definition expire_bucket :: "int \<Rightarrow> Bucket \<Rightarrow> Bucket" where
  "expire_bucket cutoff b = b\<lparr>attempts := dropWhile (\<lambda>a. a \<le> cutoff) (attempts b)\<rparr>"

definition pruneExpiredUnlocked :: "int \<Rightarrow> LoginRateLimiter \<Rightarrow> LoginRateLimiter" where
  "pruneExpiredUnlocked now s =
     (let cutoff = now - window (rl_limits s) in
      s\<lparr>rl_buckets := filter (\<lambda>(_, b). attempts b \<noteq> [])
          (map (\<lambda>(k, b). (k, expire_bucket cutoff b)) (rl_buckets s))\<rparr>)"

definition pruneExpired :: "int \<Rightarrow> LoginRateLimiter \<Rightarrow> LoginRateLimiter" where
  "pruneExpired now s = pruneExpiredUnlocked now s"

definition bucketCount :: "LoginRateLimiter \<Rightarrow> nat" where
  "bucketCount s = length (rl_buckets s)"

section \<open>Capacity\<close>

fun oldest_bucket ::
  "string list \<Rightarrow> (string \<times> Bucket) list \<Rightarrow> (string \<times> Bucket) option \<Rightarrow> (string \<times> Bucket) option" where
  "oldest_bucket keys [] oldest = oldest"
| "oldest_bucket keys ((k, b) # rest) oldest =
     (if k = globalKey \<or> k \<in> set keys then oldest_bucket keys rest oldest
      else case oldest of
          None \<Rightarrow> oldest_bucket keys rest (Some (k, b))
        | Some (_, o_b) \<Rightarrow>
            if lastAccess b < lastAccess o_b then oldest_bucket keys rest (Some (k, b))
            else oldest_bucket keys rest oldest)"

lemma oldest_bucket_mem:
  "oldest_bucket keys bs acc = Some x \<Longrightarrow>
     acc = Some x \<or> (x \<in> set bs \<and> fst x \<noteq> globalKey \<and> fst x \<notin> set keys)"
proof (induction bs arbitrary: acc)
  case (Cons kb rest)
  obtain k b where kb: "kb = (k, b)" by fastforce
  show ?case
  proof (cases "k = globalKey \<or> k \<in> set keys")
    case True
    with Cons.prems have "oldest_bucket keys rest acc = Some x" by (simp add: kb)
    from Cons.IH [OF this] show ?thesis by auto
  next
    case False
    with Cons.prems consider "oldest_bucket keys rest (Some (k, b)) = Some x" |
      "oldest_bucket keys rest acc = Some x"
      by (cases acc) (auto simp: kb split: if_splits)
    then show ?thesis
      using Cons.IH [of "Some (k, b)"] Cons.IH [of acc] False by cases (auto simp: kb)
  qed
qed simp

lemma delete_shorter: "(k, b) \<in> set bs \<Longrightarrow> length (AList.delete k bs) < length bs"
  unfolding AList.delete_eq by (rule length_filter_less) auto

function evict_loop ::
  "nat \<Rightarrow> nat \<Rightarrow> string list \<Rightarrow> (string \<times> Bucket) list \<Rightarrow> 64 word \<Rightarrow>
     (exception, (string \<times> Bucket) list \<times> 64 word) result" where
  "evict_loop maximum missing keys bs ev =
     (if length bs + missing > maximum
      then (case oldest_bucket keys bs None of
          None \<Rightarrow> Error (runtime_error ''login rate limiter bucket capacity exhausted'')
        | Some (k, _) \<Rightarrow> evict_loop maximum missing keys (AList.delete k bs) (ev + 1))
      else Okay (bs, ev))"
  by pat_completeness auto
termination
  by (relation "measure (\<lambda>(_, _, _, bs, _). length bs)")
    (auto dest!: oldest_bucket_mem intro: delete_shorter)

declare evict_loop.simps [simp del]

definition ensureCapacityUnlocked ::
  "string list \<Rightarrow> LoginRateLimiter \<Rightarrow> (exception, LoginRateLimiter) result" where
  "ensureCapacityUnlocked keys s =
     (let missing = length (filter (\<lambda>k. map_of (rl_buckets s) k = None) keys) in
      case evict_loop (maximumBuckets (rl_limits s)) missing keys (rl_buckets s) (rl_evictions s) of
        Error e \<Rightarrow> Error e
      | Okay (bs, ev) \<Rightarrow> Okay (s\<lparr>rl_buckets := bs, rl_evictions := ev\<rparr>))"

section \<open>The decision\<close>

definition limiter_keys :: "string \<Rightarrow> string \<Rightarrow> string list" where
  "limiter_keys address normalizedIdentity =
     [globalKey, ''address:'' @ address, ''identity:'' @ normalizedIdentity,
      ''pair:'' @ address @ '':'' @ normalizedIdentity]"

definition limiter_limits :: "Limits \<Rightarrow> nat list" where
  "limiter_limits lim = [global_limit lim, perAddress lim, perIdentity lim, perAddressAndIdentity lim]"

definition limiter_scopes :: "string list" where
  "limiter_scopes = [''global'', ''address'', ''identity'', ''address_identity'']"

text \<open>The first scope whose bucket is full.\<close>

fun full_scope :: "(string \<times> Bucket) list \<Rightarrow> (string \<times> nat \<times> string) list \<Rightarrow> (string \<times> Bucket) option" where
  "full_scope bs [] = None"
| "full_scope bs ((key, limit, sc) # rest) =
     (case map_of bs key of
        None \<Rightarrow> full_scope bs rest
      | Some b \<Rightarrow> if length (attempts b) < limit then full_scope bs rest else Some (sc, b))"

definition retry_after :: "int \<Rightarrow> int \<Rightarrow> int" where
  "retry_after retryAt now = max 1 ((retryAt - now) sdiv second + 1)"

definition record_attempt :: "int \<Rightarrow> (string \<times> Bucket) list \<Rightarrow> string \<Rightarrow> (string \<times> Bucket) list" where
  "record_attempt now bs key =
     (let b = (case map_of bs key of None \<Rightarrow> \<lparr>attempts = [], lastAccess = 0\<rparr> | Some b \<Rightarrow> b)
      in AList.update key (b\<lparr>attempts := attempts b @ [now], lastAccess := now\<rparr>) bs)"

definition checkAndRecord ::
  "string \<Rightarrow> string \<Rightarrow> int \<Rightarrow> LoginRateLimiter \<Rightarrow> (exception, Decision \<times> LoginRateLimiter) result" where
  "checkAndRecord address normalizedIdentity now s =
     (if address = [] \<or> normalizedIdentity = []
      then Error (invalid_argument ''login rate limit keys must not be empty'')
      else
        let keys = limiter_keys address normalizedIdentity;
            s = pruneExpiredUnlocked now s in
        case full_scope (rl_buckets s) (zip keys (zip (limiter_limits (rl_limits s)) limiter_scopes)) of
          Some (sc, b) \<Rightarrow>
            let s = s\<lparr>rl_rejections := rl_rejections s + 1\<rparr> in
            Okay (\<lparr>allowed = False,
                   retryAfter = retry_after (hd (attempts b) + window (rl_limits s)) now,
                   scope = sc, dec_buckets = length (rl_buckets s),
                   dec_rejections = rl_rejections s, dec_evictions = rl_evictions s\<rparr>, s)
        | None \<Rightarrow>
            (case ensureCapacityUnlocked keys s of
               Error e \<Rightarrow> Error e
             | Okay s \<Rightarrow>
                 let s = s\<lparr>rl_buckets := fold (\<lambda>k bs. record_attempt now bs k) keys (rl_buckets s)\<rparr> in
                 Okay (\<lparr>allowed = True, retryAfter = 0, scope = [],
                        dec_buckets = length (rl_buckets s), dec_rejections = rl_rejections s,
                        dec_evictions = rl_evictions s\<rparr>, s)))"

section \<open>Lookups after each phase\<close>

definition live :: "int \<Rightarrow> Bucket option \<Rightarrow> Bucket option" where
  "live cutoff ob = (case ob of None \<Rightarrow> None | Some b \<Rightarrow>
     if attempts (expire_bucket cutoff b) = [] then None else Some (expire_bucket cutoff b))"

definition touch :: "int \<Rightarrow> Bucket option \<Rightarrow> Bucket" where
  "touch now ob = \<lparr>attempts = (case ob of None \<Rightarrow> [] | Some b \<Rightarrow> attempts b) @ [now], lastAccess = now\<rparr>"

lemma map_of_fresh: "k \<notin> fst ` set bs \<Longrightarrow> map_of bs k = None"
  by (simp add: map_of_eq_None_iff)

lemma prune_list_keys:
  "fst ` set (filter (\<lambda>(_, b). P b) (map (\<lambda>(k, b). (k, f b)) bs)) \<subseteq> fst ` set bs"
  by force

lemma prune_list_lookup:
  assumes "distinct (map fst bs)"
  shows "map_of (filter (\<lambda>(_, b). attempts b \<noteq> []) (map (\<lambda>(k, b). (k, expire_bucket c b)) bs)) k =
     live c (map_of bs k)"
  using assms
proof (induction bs)
  case (Cons kb bs)
  obtain j b where kb: "kb = (j, b)" by fastforce
  have "map_of (filter (\<lambda>(_, b). attempts b \<noteq> []) (map (\<lambda>(k, b). (k, expire_bucket c b)) bs)) j = None"
    using Cons.prems prune_list_keys [of "\<lambda>b. attempts b \<noteq> []" "expire_bucket c" bs]
    by (intro map_of_fresh) (auto simp: kb)
  with Cons show ?case by (auto simp: kb live_def)
qed (simp add: live_def)

lemma prune_lookup:
  assumes "distinct (map fst (rl_buckets s))"
  shows "map_of (rl_buckets (pruneExpiredUnlocked now s)) k =
     live (now - window (rl_limits s)) (map_of (rl_buckets s) k)"
  using prune_list_lookup [OF assms] by (simp add: pruneExpiredUnlocked_def Let_def)

lemma prune_distinct:
  "distinct (map fst (rl_buckets s)) \<Longrightarrow> distinct (map fst (rl_buckets (pruneExpiredUnlocked now s)))"
  by (simp add: pruneExpiredUnlocked_def Let_def distinct_map_filter comp_def case_prod_unfold)

lemma prune_length: "length (rl_buckets (pruneExpiredUnlocked now s)) \<le> length (rl_buckets s)"
  unfolding pruneExpiredUnlocked_def Let_def by (simp add: le_trans [OF length_filter_le])

lemma prune_frame [simp]:
  "rl_limits (pruneExpiredUnlocked now s) = rl_limits s"
  "rl_rejections (pruneExpiredUnlocked now s) = rl_rejections s"
  "rl_evictions (pruneExpiredUnlocked now s) = rl_evictions s"
  by (simp_all add: pruneExpiredUnlocked_def Let_def)

lemma record_lookup: "map_of (record_attempt now bs k) j = (if j = k then Some (touch now (map_of bs k)) else map_of bs j)"
  by (auto simp: record_attempt_def Let_def update_conv touch_def split: option.splits)

lemma record_distinct: "distinct (map fst bs) \<Longrightarrow> distinct (map fst (record_attempt now bs k))"
  by (simp add: record_attempt_def Let_def distinct_update)

lemma length_update: "length (AList.update k v bs) = length bs + (if map_of bs k = None then 1 else 0)"
  by (induction bs) auto

lemma record_length: "length (record_attempt now bs k) = length bs + (if map_of bs k = None then 1 else 0)"
  by (simp add: record_attempt_def Let_def length_update)

lemma fold_record_distinct:
  "distinct (map fst bs) \<Longrightarrow> distinct (map fst (fold (\<lambda>k bs. record_attempt now bs k) keys bs))"
  by (induction keys arbitrary: bs) (simp_all add: record_distinct)

lemma fold_record_lookup:
  "distinct keys \<Longrightarrow> map_of (fold (\<lambda>k bs. record_attempt now bs k) keys bs) j =
     (if j \<in> set keys then Some (touch now (map_of bs j)) else map_of bs j)"
  by (induction keys arbitrary: bs) (auto simp: record_lookup)

lemma fold_record_length:
  "distinct keys \<Longrightarrow> length (fold (\<lambda>k bs. record_attempt now bs k) keys bs) =
     length bs + length (filter (\<lambda>k. map_of bs k = None) keys)"
proof (induction keys arbitrary: bs)
  case (Cons k keys)
  have "filter (\<lambda>j. map_of (record_attempt now bs k) j = None) keys = filter (\<lambda>j. map_of bs j = None) keys"
    using Cons.prems by (intro filter_cong) (auto simp: record_lookup)
  with Cons show ?case by (simp add: record_length)
qed simp

section \<open>Eviction\<close>

lemma oldest_bucket_keeps: "oldest_bucket keys bs (Some x) \<noteq> None"
proof (induction bs arbitrary: x)
  case (Cons kb bs)
  then show ?case by (cases kb; cases x) simp
qed simp

lemma oldest_bucket_None:
  "oldest_bucket keys bs None = None \<Longrightarrow> fst ` set bs \<subseteq> insert globalKey (set keys)"
proof (induction bs)
  case (Cons kb bs)
  obtain k b where kb: "kb = (k, b)" by fastforce
  show ?case
  proof (cases "k = globalKey \<or> k \<in> set keys")
    case True
    with Cons show ?thesis by (auto simp: kb)
  next
    case False
    with Cons.prems oldest_bucket_keeps [of keys bs] show ?thesis by (simp add: kb)
  qed
qed simp

lemma evict_loop_sound:
  "evict_loop mx ms keys bs ev = Okay (bs', ev') \<Longrightarrow>
     length bs' + ms \<le> mx \<and> (distinct (map fst bs) \<longrightarrow> distinct (map fst bs')) \<and>
     (\<forall>k. map_of bs' k = map_of bs k \<or> map_of bs' k = None \<and> k \<noteq> globalKey \<and> k \<notin> set keys)"
proof (induction mx ms keys bs ev rule: evict_loop.induct)
  case (1 mx ms keys bs ev)
  show ?case
  proof (cases "length bs + ms > mx")
    case False
    with "1.prems" show ?thesis by (simp add: evict_loop.simps [of mx])
  next
    case True
    with "1.prems" obtain k b where ob: "oldest_bucket keys bs None = Some (k, b)"
      by (auto simp: evict_loop.simps [of mx] split: option.splits)
    then have k: "k \<noteq> globalKey" "k \<notin> set keys" by (auto dest: oldest_bucket_mem)
    have "evict_loop mx ms keys (AList.delete k bs) (ev + 1) = Okay (bs', ev')"
      using "1.prems" True ob by (simp add: evict_loop.simps [of mx])
    note ih = "1.IH" [OF True ob refl this]
    have "map_of bs' j = map_of bs j \<or> map_of bs' j = None \<and> j \<noteq> globalKey \<and> j \<notin> set keys" for j
      using ih k by (cases "j = k") (auto simp: delete_conv dest: spec [of _ j])
    then show ?thesis using ih by (simp add: distinct_delete)
  qed
qed

text \<open>When nothing can be evicted, the buckets are at most those of the request.\<close>

lemma kept_buckets_small:
  assumes "distinct (map fst bs)" and "distinct keys" and "fst ` set bs \<subseteq> set keys"
  shows "length bs + length (filter (\<lambda>k. map_of bs k = None) keys) = length keys"
proof -
  let ?K = "fst ` set bs"
  have "length bs = card ?K" using assms(1) by (metis distinct_card length_map list.set_map)
  moreover have "set (filter (\<lambda>k. map_of bs k = None) keys) = set keys - ?K"
    by (auto simp: map_of_eq_None_iff)
  then have "length (filter (\<lambda>k. map_of bs k = None) keys) = card (set keys - ?K)"
    using assms(2) by (metis distinct_card distinct_filter)
  moreover have "card ?K \<le> card (set keys)" using assms(3) by (simp add: card_mono)
  ultimately show ?thesis
    using assms(2,3) by (simp add: card_Diff_subset distinct_card)
qed

lemma evict_loop_total:
  assumes "distinct (map fst bs)" "distinct keys" "globalKey \<in> set keys" "length keys \<le> mx"
    "ms = length (filter (\<lambda>k. map_of bs k = None) keys)"
  shows "\<exists>bs' ev'. evict_loop mx ms keys bs ev = Okay (bs', ev')"
  using assms
proof (induction mx ms keys bs ev rule: evict_loop.induct)
  case (1 mx ms keys bs ev)
  show ?case
  proof (cases "length bs + ms > mx")
    case True
    have "oldest_bucket keys bs None \<noteq> None"
    proof
      assume "oldest_bucket keys bs None = None"
      from oldest_bucket_None [OF this] have "fst ` set bs \<subseteq> set keys"
        by (simp add: insert_absorb "1.prems"(3))
      from kept_buckets_small [OF "1.prems"(1,2) this] True "1.prems"(4,5) show False by simp
    qed
    then obtain k b where ob: "oldest_bucket keys bs None = Some (k, b)" by auto
    then have k: "k \<notin> set keys" by (auto dest: oldest_bucket_mem)
    have "filter (\<lambda>j. map_of (AList.delete k bs) j = None) keys = filter (\<lambda>j. map_of bs j = None) keys"
      using k by (intro filter_cong) (auto simp: delete_conv)
    then have "\<exists>bs' ev'. evict_loop mx ms keys (AList.delete k bs) (ev + 1) = Okay (bs', ev')"
      using "1.prems" by (intro "1.IH" [OF True ob refl]) (simp_all add: distinct_delete)
    then show ?thesis using True ob by (simp add: evict_loop.simps [of mx])
  qed (simp add: evict_loop.simps [of mx])
qed

section \<open>Invariant\<close>

definition limits_ok :: "Limits \<Rightarrow> bool" where
  "limits_ok lim \<longleftrightarrow> 0 < perAddress lim \<and> 0 < perIdentity lim \<and> 0 < perAddressAndIdentity lim \<and>
     0 < global_limit lim \<and> 4 \<le> maximumBuckets lim \<and> 0 < window lim"

text \<open>The limit that applies to a bucket, read off its key.\<close>

definition limit_of :: "Limits \<Rightarrow> string \<Rightarrow> nat" where
  "limit_of lim k =
     (if k = globalKey then global_limit lim
      else if take 8 k = ''address:'' then perAddress lim
      else if take 9 k = ''identity:'' then perIdentity lim
      else perAddressAndIdentity lim)"

definition rl_wf :: "LoginRateLimiter \<Rightarrow> bool" where
  "rl_wf s \<longleftrightarrow> limits_ok (rl_limits s) \<and> distinct (map fst (rl_buckets s)) \<and>
     length (rl_buckets s) \<le> maximumBuckets (rl_limits s) \<and>
     (\<forall>k b. map_of (rl_buckets s) k = Some b \<longrightarrow> attempts b \<noteq> [] \<and>
        length (attempts b) \<le> limit_of (rl_limits s) k)"

lemma rl_wf_bound:
  "rl_wf s \<Longrightarrow> map_of (rl_buckets s) k = Some b \<Longrightarrow>
     attempts b \<noteq> [] \<and> length (attempts b) \<le> limit_of (rl_limits s) k"
  unfolding rl_wf_def by blast

lemma rl_wf_rejections [simp]: "rl_wf (s\<lparr>rl_rejections := r\<rparr>) = rl_wf s"
  by (simp add: rl_wf_def)

lemma LoginRateLimiter_new_okay:
  "LoginRateLimiter_new lim = Okay s \<longleftrightarrow>
     limits_ok lim \<and> s = \<lparr>rl_limits = lim, rl_buckets = [], rl_rejections = 0, rl_evictions = 0\<rparr>"
  by (auto simp: LoginRateLimiter_new_def limits_ok_def)

lemma LoginRateLimiter_new_wf [wf_intros]: "LoginRateLimiter_new lim = Okay s \<Longrightarrow> rl_wf s"
  by (auto simp: LoginRateLimiter_new_okay rl_wf_def)

lemma live_Some:
  "live c ob = Some b' \<Longrightarrow> \<exists>b. ob = Some b \<and> b' = expire_bucket c b \<and> attempts b' \<noteq> [] \<and>
     length (attempts b') \<le> length (attempts b) \<and> c < hd (attempts b')"
proof -
  assume "live c ob = Some b'"
  then obtain b where b: "ob = Some b" "b' = expire_bucket c b" "attempts b' \<noteq> []"
    by (auto simp: live_def split: option.splits if_splits)
  moreover have "\<not> hd (attempts b') \<le> c"
    using b(2,3) hd_dropWhile [of "\<lambda>a. a \<le> c" "attempts b"] by (simp add: expire_bucket_def)
  ultimately show ?thesis
    using length_dropWhile_le [of "\<lambda>a. a \<le> c"] by (auto simp: expire_bucket_def)
qed

lemma prune_wf [wf_intros]: "rl_wf s \<Longrightarrow> rl_wf (pruneExpiredUnlocked now s)"
proof -
  assume wf: "rl_wf s"
  let ?p = "pruneExpiredUnlocked now s"
  have d: "distinct (map fst (rl_buckets s))" using wf by (simp add: rl_wf_def)
  have "attempts b \<noteq> [] \<and> length (attempts b) \<le> limit_of (rl_limits s) k"
    if b: "map_of (rl_buckets ?p) k = Some b" for k b
  proof -
    from b obtain b0 where "map_of (rl_buckets s) k = Some b0" "attempts b \<noteq> []"
      "length (attempts b) \<le> length (attempts b0)"
      unfolding prune_lookup [OF d] by (auto dest!: live_Some)
    with rl_wf_bound [OF wf] show ?thesis by (auto intro: order.trans)
  qed
  then show ?thesis
    using wf prune_distinct [OF d] prune_length [of now s] by (simp add: rl_wf_def)
qed

section \<open>The outcome of a check\<close>

lemma full_scope_None:
  "full_scope bs xs = None \<Longrightarrow> (key, limit, sc) \<in> set xs \<Longrightarrow>
     (case map_of bs key of None \<Rightarrow> True | Some b \<Rightarrow> length (attempts b) < limit)"
  by (induction xs rule: full_scope.induct) (auto split: option.splits if_splits)

lemma full_scope_Some:
  "full_scope bs xs = Some (sc, b) \<Longrightarrow>
     \<exists>key limit. (key, limit, sc) \<in> set xs \<and> map_of bs key = Some b \<and> limit \<le> length (attempts b)"
proof (induction bs xs rule: full_scope.induct)
  case (2 bs key limit sc' rest)
  then show ?case
    by (cases "map_of bs key") (fastforce simp: not_less split: if_splits)+
qed simp

lemma limiter_keys_distinct [simp]: "distinct (limiter_keys a i)"
  by (simp add: limiter_keys_def globalKey_def)

lemma limiter_keys_global [simp]: "globalKey \<in> set (limiter_keys a i)"
  by (simp add: limiter_keys_def)

lemma limit_of_keys:
  "limiter_limits lim = map (limit_of lim) (limiter_keys a i)"
  by (simp add: limiter_limits_def limiter_keys_def limit_of_def globalKey_def)

lemma scope_entry:
  "(key, limit, sc) \<in> set (zip (limiter_keys a i) (zip (limiter_limits lim) limiter_scopes)) \<Longrightarrow>
     key \<in> set (limiter_keys a i) \<and> limit = limit_of lim key"
  by (auto simp: limit_of_keys [of lim a i] limiter_keys_def limiter_scopes_def)

lemma scope_entry_exists:
  "key \<in> set (limiter_keys a i) \<Longrightarrow>
     \<exists>sc. (key, limit_of lim key, sc) \<in> set (zip (limiter_keys a i) (zip (limiter_limits lim) limiter_scopes))"
  by (auto simp: limit_of_keys [of lim a i] limiter_keys_def limiter_scopes_def)

lemma ensureCapacity_ok:
  assumes "rl_wf s"
  obtains s' where "ensureCapacityUnlocked (limiter_keys a i) s = Okay s'"
    and "rl_limits s' = rl_limits s" and "distinct (map fst (rl_buckets s'))"
    and "length (rl_buckets s') + length (filter (\<lambda>k. map_of (rl_buckets s) k = None) (limiter_keys a i))
      \<le> maximumBuckets (rl_limits s)"
    and "\<forall>k. map_of (rl_buckets s') k = map_of (rl_buckets s) k \<or>
      map_of (rl_buckets s') k = None \<and> k \<noteq> globalKey \<and> k \<notin> set (limiter_keys a i)"
proof -
  have d: "distinct (map fst (rl_buckets s))" and mx: "4 \<le> maximumBuckets (rl_limits s)"
    using assms by (auto simp: rl_wf_def limits_ok_def)
  have "length (limiter_keys a i) = 4" by (simp add: limiter_keys_def)
  with mx obtain bs ev where e: "evict_loop (maximumBuckets (rl_limits s))
      (length (filter (\<lambda>k. map_of (rl_buckets s) k = None) (limiter_keys a i)))
      (limiter_keys a i) (rl_buckets s) (rl_evictions s) = Okay (bs, ev)"
    using evict_loop_total [OF d limiter_keys_distinct limiter_keys_global _ refl] by metis
  show thesis
    by (rule that [of "s\<lparr>rl_buckets := bs, rl_evictions := ev\<rparr>"])
      (use evict_loop_sound [OF e] d in \<open>simp_all add: ensureCapacityUnlocked_def Let_def e\<close>)
qed

definition room :: "Limits \<Rightarrow> Bucket option \<Rightarrow> string \<Rightarrow> bool" where
  "room lim ob k = (case ob of None \<Rightarrow> True | Some b \<Rightarrow> length (attempts b) < limit_of lim k)"

lemma checkAndRecord_rejects:
  assumes "full_scope (rl_buckets (pruneExpiredUnlocked now s))
      (zip (limiter_keys a i) (zip (limiter_limits (rl_limits s)) limiter_scopes)) = Some (sc, b)"
    and "a \<noteq> []" "i \<noteq> []"
  shows "\<exists>d. checkAndRecord a i now s = Okay (d, (pruneExpiredUnlocked now s)
      \<lparr>rl_rejections := rl_rejections s + 1\<rparr>) \<and> \<not> allowed d \<and> scope d = sc \<and>
      retryAfter d = retry_after (hd (attempts b) + window (rl_limits s)) now"
  using assms by (simp add: checkAndRecord_def Let_def)

lemma checkAndRecord_accepts:
  assumes wf: "rl_wf s"
    and fs: "full_scope (rl_buckets (pruneExpiredUnlocked now s))
      (zip (limiter_keys a i) (zip (limiter_limits (rl_limits s)) limiter_scopes)) = None"
    and ne: "a \<noteq> []" "i \<noteq> []"
  shows "\<exists>d s'. checkAndRecord a i now s = Okay (d, s') \<and> allowed d \<and>
      rl_limits s' = rl_limits s \<and> distinct (map fst (rl_buckets s')) \<and>
      length (rl_buckets s') \<le> maximumBuckets (rl_limits s) \<and>
      (\<forall>k. if k \<in> set (limiter_keys a i)
        then room (rl_limits s) (map_of (rl_buckets (pruneExpiredUnlocked now s)) k) k \<and>
          map_of (rl_buckets s') k =
            Some (touch now (map_of (rl_buckets (pruneExpiredUnlocked now s)) k))
        else map_of (rl_buckets s') k = map_of (rl_buckets (pruneExpiredUnlocked now s)) k \<or>
          map_of (rl_buckets s') k = None)"
proof -
  let ?p = "pruneExpiredUnlocked now s" and ?keys = "limiter_keys a i"
  obtain s1 where e: "ensureCapacityUnlocked ?keys ?p = Okay s1"
    and lim: "rl_limits s1 = rl_limits s" and d: "distinct (map fst (rl_buckets s1))"
    and len: "length (rl_buckets s1) + length (filter (\<lambda>k. map_of (rl_buckets ?p) k = None) ?keys)
      \<le> maximumBuckets (rl_limits s)"
    and look: "\<forall>k. map_of (rl_buckets s1) k = map_of (rl_buckets ?p) k \<or>
      map_of (rl_buckets s1) k = None \<and> k \<noteq> globalKey \<and> k \<notin> set ?keys"
    using ensureCapacity_ok [OF prune_wf [OF wf], of a i now] by auto
  let ?bs = "fold (\<lambda>k bs. record_attempt now bs k) ?keys (rl_buckets s1)"
  have miss: "filter (\<lambda>k. map_of (rl_buckets s1) k = None) ?keys =
      filter (\<lambda>k. map_of (rl_buckets ?p) k = None) ?keys"
    using look by (intro filter_cong [OF refl]) metis
  have rm: "room (rl_limits s) (map_of (rl_buckets ?p) k) k" if k: "k \<in> set ?keys" for k
    using scope_entry_exists [OF k, of "rl_limits s"] full_scope_None [OF fs]
    unfolding room_def by blast
  have "map_of ?bs k = (if k \<in> set ?keys then Some (touch now (map_of (rl_buckets ?p) k))
      else map_of (rl_buckets s1) k)" for k
    using look unfolding fold_record_lookup [OF limiter_keys_distinct] by metis
  with look rm have look': "\<forall>k. if k \<in> set ?keys
      then room (rl_limits s) (map_of (rl_buckets ?p) k) k \<and>
        map_of ?bs k = Some (touch now (map_of (rl_buckets ?p) k))
      else map_of ?bs k = map_of (rl_buckets ?p) k \<or> map_of ?bs k = None"
    by auto
  have "length ?bs \<le> maximumBuckets (rl_limits s)"
    unfolding fold_record_length [OF limiter_keys_distinct] miss by (rule len)
  moreover have "\<exists>d. checkAndRecord a i now s = Okay (d, s1\<lparr>rl_buckets := ?bs\<rparr>) \<and> allowed d"
    using fs ne e by (simp add: checkAndRecord_def Let_def)
  ultimately show ?thesis
    using look' lim fold_record_distinct [OF d, of now ?keys]
    by (elim exE conjE) (rule exI, rule exI, intro conjI, assumption, simp_all)
qed

text \<open>The two ways a check can end, and that it always does.\<close>

lemma checkAndRecord_cases:
  assumes wf: "rl_wf s" and ne: "a \<noteq> []" "i \<noteq> []"
  obtains (rejected) d key b where
      "checkAndRecord a i now s = Okay (d, (pruneExpiredUnlocked now s)\<lparr>rl_rejections := rl_rejections s + 1\<rparr>)"
      "\<not> allowed d"
      "(key, limit_of (rl_limits s) key, scope d) \<in>
        set (zip (limiter_keys a i) (zip (limiter_limits (rl_limits s)) limiter_scopes))"
      "map_of (rl_buckets (pruneExpiredUnlocked now s)) key = Some b"
      "limit_of (rl_limits s) key \<le> length (attempts b)"
      "retryAfter d = retry_after (hd (attempts b) + window (rl_limits s)) now"
    | (accepted) d s' where
      "checkAndRecord a i now s = Okay (d, s')" "allowed d" "rl_limits s' = rl_limits s"
      "distinct (map fst (rl_buckets s'))" "length (rl_buckets s') \<le> maximumBuckets (rl_limits s)"
      "\<And>k. k \<in> set (limiter_keys a i) \<Longrightarrow>
        room (rl_limits s) (map_of (rl_buckets (pruneExpiredUnlocked now s)) k) k"
      "\<And>k. k \<in> set (limiter_keys a i) \<Longrightarrow> map_of (rl_buckets s') k =
        Some (touch now (map_of (rl_buckets (pruneExpiredUnlocked now s)) k))"
      "\<And>k. k \<notin> set (limiter_keys a i) \<Longrightarrow>
        map_of (rl_buckets s') k = map_of (rl_buckets (pruneExpiredUnlocked now s)) k \<or>
        map_of (rl_buckets s') k = None"
proof (cases "full_scope (rl_buckets (pruneExpiredUnlocked now s))
      (zip (limiter_keys a i) (zip (limiter_limits (rl_limits s)) limiter_scopes))")
  case None
  from checkAndRecord_accepts [OF wf None ne] show ?thesis
    by (elim exE conjE) (rule accepted, assumption+, presburger+)
next
  case (Some x)
  obtain sc b where x: "x = (sc, b)" by fastforce
  from full_scope_Some [OF Some [unfolded x]] obtain key limit where
    k: "(key, limit, sc) \<in> set (zip (limiter_keys a i) (zip (limiter_limits (rl_limits s)) limiter_scopes))"
      "map_of (rl_buckets (pruneExpiredUnlocked now s)) key = Some b" "limit \<le> length (attempts b)"
    by blast
  have "limit = limit_of (rl_limits s) key" using scope_entry [OF k(1)] by simp
  with k checkAndRecord_rejects [OF Some [unfolded x] ne] rejected show ?thesis by metis
qed

lemma touch_room:
  "room lim ob k \<Longrightarrow> attempts (touch now ob) \<noteq> [] \<and> length (attempts (touch now ob)) \<le> limit_of lim k"
  if "0 < limit_of lim k"
  using that by (cases ob) (auto simp: room_def touch_def)

lemma limit_of_pos: "limits_ok lim \<Longrightarrow> 0 < limit_of lim k"
  by (simp add: limits_ok_def limit_of_def)

lemma checkAndRecord_wf [wf_intros]:
  assumes wf: "rl_wf s" and ok: "checkAndRecord a i now s = Okay (d, s')"
  shows "rl_wf s'"
proof -
  have ne: "a \<noteq> []" "i \<noteq> []" using ok by (auto simp: checkAndRecord_def)
  note p = prune_wf [OF wf, of now]
  from wf ne show ?thesis
  proof (cases rule: checkAndRecord_cases [where now = now])
    case (rejected d1 key b)
    have "s' = (pruneExpiredUnlocked now s)\<lparr>rl_rejections := rl_rejections s + 1\<rparr>"
      using ok rejected(1) by simp
    with p show ?thesis by simp
  next
    case (accepted d1 s1)
    have lim: "limits_ok (rl_limits s)" using wf by (simp add: rl_wf_def)
    have "attempts b \<noteq> [] \<and> length (attempts b) \<le> limit_of (rl_limits s) k"
      if b: "map_of (rl_buckets s1) k = Some b" for k b
    proof (cases "k \<in> set (limiter_keys a i)")
      case True
      with accepted(7) [OF True] b touch_room [OF limit_of_pos [OF lim] accepted(6) [OF True]]
      show ?thesis by simp
    next
      case False
      with accepted(8) [OF False] b have "map_of (rl_buckets (pruneExpiredUnlocked now s)) k = Some b" by simp
      from rl_wf_bound [OF p this] show ?thesis by simp
    qed
    with accepted ok lim show ?thesis by (simp add: rl_wf_def)
  qed
qed

section \<open>Executions\<close>

text \<open>
  An execution from a fresh limiter, with the attempts it let through in order and the
  time of the last call.  The clock is monotonic; between calls the hash table may be
  reordered.
\<close>

inductive rl_run :: "Limits \<Rightarrow> LoginRateLimiter \<Rightarrow> (int \<times> string \<times> string) list \<Rightarrow> int \<Rightarrow> bool"
  for lim :: Limits where
  run_new: "LoginRateLimiter_new lim = Okay s \<Longrightarrow> rl_run lim s [] t"
| run_check: "rl_run lim s log t \<Longrightarrow> t \<le> now \<Longrightarrow> checkAndRecord a i now s = Okay (d, s') \<Longrightarrow>
    rl_run lim s' (if allowed d then log @ [(now, a, i)] else log) now"
| run_prune: "rl_run lim s log t \<Longrightarrow> t \<le> now \<Longrightarrow> rl_run lim (pruneExpired now s) log now"
| run_rehash: "rl_run lim s log t \<Longrightarrow> mset bs = mset (rl_buckets s) \<Longrightarrow>
    rl_run lim (s\<lparr>rl_buckets := bs\<rparr>) log t"

lemma rehash_lookup:
  assumes "distinct (map fst bs)" and "mset bs' = mset bs"
  shows "map_of bs' = map_of bs" and "distinct (map fst bs')" and "length bs' = length bs"
proof -
  show "distinct (map fst bs')" using assms by (metis mset_eq_imp_distinct_iff mset_map)
  then show "map_of bs' = map_of bs" using assms by (metis map_of_inject_set mset_eq_setD)
  show "length bs' = length bs" using assms(2) by (rule mset_eq_length)
qed

lemma rl_run_wf: "rl_run lim s log t \<Longrightarrow> rl_wf s \<and> rl_limits s = lim"
proof (induction rule: rl_run.induct)
  case (run_new s t)
  then show ?case by (auto simp: LoginRateLimiter_new_okay intro: LoginRateLimiter_new_wf)
next
  case (run_check s log t now a i d s')
  then have ne: "a \<noteq> []" "i \<noteq> []" by (auto simp: checkAndRecord_def)
  from run_check have wf: "rl_wf s" by simp
  have "rl_limits s' = rl_limits s"
    using wf ne run_check.hyps(3) by (cases rule: checkAndRecord_cases [where now = now]) auto
  with run_check checkAndRecord_wf [OF wf] show ?case by simp
next
  case (run_prune s log t now)
  then show ?case by (simp add: pruneExpired_def prune_wf)
next
  case (run_rehash s log t bs)
  then have "distinct (map fst (rl_buckets s))" by (simp add: rl_wf_def)
  from rehash_lookup [OF this run_rehash.hyps(2)] run_rehash.IH show ?case
    by (elim conjE) (simp add: rl_wf_def del: map_of_eq_Some_iff)
qed

text \<open>The times of the global bucket are the tail of the log; what is missing has expired.\<close>

definition global_times :: "LoginRateLimiter \<Rightarrow> int list" where
  "global_times s = (case map_of (rl_buckets s) globalKey of None \<Rightarrow> [] | Some b \<Rightarrow> attempts b)"

definition in_window :: "int \<Rightarrow> int \<Rightarrow> int list \<Rightarrow> nat" where
  "in_window w u ts = length (filter (\<lambda>x. u - w < x \<and> x \<le> u) ts)"

definition log_inv :: "Limits \<Rightarrow> LoginRateLimiter \<Rightarrow> int list \<Rightarrow> int \<Rightarrow> bool" where
  "log_inv lim s ts t \<longleftrightarrow>
     (\<exists>old. ts = old @ global_times s \<and> (\<forall>x \<in> set old. x \<le> t - window lim)) \<and>
     (\<forall>x \<in> set ts. x \<le> t) \<and>
     (\<forall>u. in_window (window lim) u ts \<le> global_limit lim)"

lemma log_inv_rejections [simp]: "log_inv lim (s\<lparr>rl_rejections := r\<rparr>) = log_inv lim s"
  by (simp add: fun_eq_iff log_inv_def global_times_def)

lemma global_times_live:
  "(case live c ob of None \<Rightarrow> [] | Some b \<Rightarrow> attempts b) =
     dropWhile (\<lambda>x. x \<le> c) (case ob of None \<Rightarrow> [] | Some b \<Rightarrow> attempts b)"
  by (cases ob) (simp_all add: live_def expire_bucket_def, metis dropWhile_eq_Nil_conv)

lemma global_times_prune:
  "distinct (map fst (rl_buckets s)) \<Longrightarrow>
     global_times (pruneExpiredUnlocked now s) = dropWhile (\<lambda>x. x \<le> now - window (rl_limits s)) (global_times s)"
  unfolding global_times_def prune_lookup by (rule global_times_live)

lemma log_inv_prune:
  assumes "log_inv lim s ts t" and "t \<le> now" and "distinct (map fst (rl_buckets s))" and "rl_limits s = lim"
  shows "log_inv lim (pruneExpiredUnlocked now s) ts now"
proof -
  let ?c = "now - window lim"
  obtain old where ts: "ts = old @ global_times s" and old: "\<forall>x \<in> set old. x \<le> t - window lim"
    using assms(1) by (auto simp: log_inv_def)
  have "ts = (old @ takeWhile (\<lambda>x. x \<le> ?c) (global_times s)) @ global_times (pruneExpiredUnlocked now s)"
    using ts by (simp add: global_times_prune [OF assms(3)] assms(4))
  moreover have "\<forall>x \<in> set (old @ takeWhile (\<lambda>x. x \<le> ?c) (global_times s)). x \<le> ?c"
    using old assms(2) by (auto dest: set_takeWhileD)
  moreover have "\<forall>x \<in> set ts. x \<le> now" using assms(1,2) by (auto simp: log_inv_def)
  ultimately show ?thesis using assms(1) unfolding log_inv_def by blast
qed

lemma in_window_snoc:
  assumes old: "\<forall>x \<in> set old. x \<le> now - w" and ts: "ts = old @ g" and le: "\<forall>x \<in> set ts. x \<le> now"
    and g: "length g < n" and before: "\<forall>u. in_window w u ts \<le> n" and w: "0 < w"
  shows "in_window w u (ts @ [now]) \<le> n"
proof (cases "u < now")
  case True
  with before show ?thesis by (simp add: in_window_def)
next
  case False
  with old have "filter (\<lambda>x. u - w < x \<and> x \<le> u) old = []" by (auto simp: filter_empty_conv)
  then have "in_window w u (ts @ [now]) \<le> length g + 1"
    by (simp add: in_window_def ts le_SucI length_filter_le)
  with g show ?thesis by simp
qed

lemma log_inv_record:
  assumes inv: "log_inv lim p ts now" and lim: "limits_ok lim"
    and r: "room lim (map_of (rl_buckets p) globalKey) globalKey"
    and m: "map_of (rl_buckets s') globalKey = Some (touch now (map_of (rl_buckets p) globalKey))"
  shows "log_inv lim s' (ts @ [now]) now"
proof -
  obtain old where ts: "ts = old @ global_times p" and old: "\<forall>x \<in> set old. x \<le> now - window lim"
    and le: "\<forall>x \<in> set ts. x \<le> now" and before: "\<forall>u. in_window (window lim) u ts \<le> global_limit lim"
    using inv by (auto simp: log_inv_def)
  have new: "global_times s' = global_times p @ [now]"
    using m by (simp add: global_times_def touch_def)
  have "length (global_times p) < global_limit lim"
    using r lim by (auto simp: room_def global_times_def limit_of_def limits_ok_def split: option.splits)
  from in_window_snoc [OF old ts le this before] lim
  have "\<forall>u. in_window (window lim) u (ts @ [now]) \<le> global_limit lim" by (simp add: limits_ok_def)
  moreover have "ts @ [now] = old @ global_times s'" by (simp add: ts new)
  moreover have "\<forall>x \<in> set (ts @ [now]). x \<le> now" using le by simp
  ultimately show ?thesis using old unfolding log_inv_def by blast
qed

lemma rl_run_log: "rl_run lim s log t \<Longrightarrow> log_inv lim s (map fst log) t"
proof (induction rule: rl_run.induct)
  case (run_new s t)
  then show ?case by (auto simp: LoginRateLimiter_new_okay log_inv_def global_times_def in_window_def)
next
  case (run_check s log t now a i d s')
  have wf: "rl_wf s" and lim: "rl_limits s = lim" using rl_run_wf [OF run_check.hyps(1)] by auto
  have ok: "limits_ok lim" and dist: "distinct (map fst (rl_buckets s))"
    using wf lim by (auto simp: rl_wf_def)
  note p = log_inv_prune [OF run_check.IH run_check.hyps(2) dist lim]
  have ne: "a \<noteq> []" "i \<noteq> []" using run_check.hyps(3) by (auto simp: checkAndRecord_def)
  from wf ne show ?case
  proof (cases rule: checkAndRecord_cases [where now = now])
    case (rejected d1 key b)
    then have "s' = (pruneExpiredUnlocked now s)\<lparr>rl_rejections := rl_rejections s + 1\<rparr>" "\<not> allowed d"
      using run_check.hyps(3) by simp_all
    with p show ?thesis by simp
  next
    case (accepted d1 s1)
    from log_inv_record [OF p ok] accepted(6,7) [of globalKey] lim
    have "log_inv lim s1 (map fst log @ [now]) now" by simp
    with accepted(1,2) run_check.hyps(3) show ?thesis by simp
  qed
next
  case (run_prune s log t now)
  have "rl_wf s" "rl_limits s = lim" using rl_run_wf [OF run_prune.hyps(1)] by auto
  with log_inv_prune [OF run_prune.IH run_prune.hyps(2)] show ?case
    by (simp add: pruneExpired_def rl_wf_def)
next
  case (run_rehash s log t bs)
  have "distinct (map fst (rl_buckets s))" using rl_run_wf [OF run_rehash.hyps(1)] by (simp add: rl_wf_def)
  from rehash_lookup(1) [OF this run_rehash.hyps(2)] run_rehash.IH show ?case
    by (simp add: log_inv_def global_times_def)
qed

section \<open>Retrying\<close>

lemma retry_after_pos: "1 \<le> retry_after retryAt now"
  by (simp add: retry_after_def)

lemma retry_after_covers:
  assumes "now < retryAt"
  shows "retryAt \<le> now + retry_after retryAt now * second"
proof -
  let ?d = "retryAt - now"
  have "?d sdiv second = ?d div second"
    using assms by (simp add: signed_divide_int_def)
  then have "retry_after retryAt now = ?d div second + 1"
    using assms by (simp add: retry_after_def pos_imp_zdiv_nonneg_iff)
  moreover have "?d < (?d div second + 1) * second"
    using div_mult_mod_eq [of ?d second] pos_mod_bound [of second ?d] by (simp add: distrib_right)
  ultimately show ?thesis by simp
qed

lemma scopes_determine_key:
  "(k1, l1, sc) \<in> set (zip (limiter_keys a i) (zip (limiter_limits lim) limiter_scopes)) \<Longrightarrow>
   (k2, l2, sc) \<in> set (zip (limiter_keys a i) (zip (limiter_limits lim) limiter_scopes)) \<Longrightarrow> k1 = k2"
  by (auto simp: limiter_keys_def limiter_limits_def limiter_scopes_def)

lemma expired_front_shortens:
  "attempts b \<noteq> [] \<Longrightarrow> hd (attempts b) \<le> c \<Longrightarrow> live c (Some b) = Some b' \<Longrightarrow>
     length (attempts b') < length (attempts b)"
  by (cases "attempts b")
    (auto simp: live_def expire_bucket_def less_Suc_eq_le length_dropWhile_le split: if_splits)

lemma retry_room:
  assumes wf: "rl_wf s" and ok: "checkAndRecord a i now s = Okay (d, s')" and rej: "\<not> allowed d"
    and later: "now + retryAfter d * second \<le> now'"
  obtains key where "rl_wf s'" and "rl_limits s' = rl_limits s"
    and "(key, limit_of (rl_limits s) key, scope d) \<in>
        set (zip (limiter_keys a i) (zip (limiter_limits (rl_limits s)) limiter_scopes))"
    and "room (rl_limits s) (map_of (rl_buckets (pruneExpiredUnlocked now' s')) key) key"
proof -
  have ne: "a \<noteq> []" "i \<noteq> []" using ok by (auto simp: checkAndRecord_def)
  note wf' = checkAndRecord_wf [OF wf ok]
  note p = prune_wf [OF wf, of now]
  from wf ne show thesis
  proof (cases rule: checkAndRecord_cases [where now = now])
    case (rejected d1 key b)
    have eq: "d1 = d" "s' = (pruneExpiredUnlocked now s)\<lparr>rl_rejections := rl_rejections s + 1\<rparr>"
      using ok rejected(1) by simp_all
    have b: "attempts b \<noteq> []" "length (attempts b) \<le> limit_of (rl_limits s) key"
      using rl_wf_bound [OF p rejected(4)] by simp_all
    have d: "distinct (map fst (rl_buckets s))" "distinct (map fst (rl_buckets s'))"
      using wf wf' by (simp_all add: rl_wf_def)
    have "now < hd (attempts b) + window (rl_limits s)"
      using rejected(4) unfolding prune_lookup [OF d(1)] by (auto dest!: live_Some)
    from retry_after_covers [OF this] have "hd (attempts b) \<le> now' - window (rl_limits s)"
      using later rejected(6) eq(1) by simp
    then have "room (rl_limits s) (live (now' - window (rl_limits s)) (Some b)) key"
      using expired_front_shortens [OF b(1)] b(2)
      by (cases "live (now' - window (rl_limits s)) (Some b)") (auto simp: room_def dest: order.strict_trans2)
    moreover have "map_of (rl_buckets s') key = Some b" and "rl_limits s' = rl_limits s"
      using rejected(4) eq(2) by simp_all
    ultimately show thesis
      using that [of key] wf' rejected(3) eq(1) prune_lookup [OF d(2), of now' key] by simp
  next
    case accepted
    with ok rej show thesis by simp
  qed
qed

section \<open>Properties\<close>

text \<open>In every execution, whatever addresses, identities, evictions and rehashes occur, no
  window of the configured length ever contains more than the global limit of attempts that
  were let through.\<close>

theorem login_window_bound:
  assumes "rl_run lim s log t"
  shows "length (filter (\<lambda>(x, _). u - window lim < x \<and> x \<le> u) log) \<le> global_limit lim"
  using rl_run_log [OF assms]
  by (simp add: log_inv_def in_window_def filter_map comp_def case_prod_unfold)

text \<open>A limiter with every limit one and a window of one second, and three calls of the same
  client: the first passes, the second is told to wait two seconds, the third comes then.\<close>

definition sample_limits :: Limits where
  "sample_limits = \<lparr>perAddress = 1, perIdentity = 1, perAddressAndIdentity = 1,
     global_limit = 1, maximumBuckets = 4, window = second\<rparr>"

definition sample_buckets :: "int \<Rightarrow> (string \<times> Bucket) list" where
  "sample_buckets t = map (\<lambda>k. (k, \<lparr>attempts = [t], lastAccess = t\<rparr>)) (limiter_keys ''a'' ''i'')"

definition sample_limiter :: "(string \<times> Bucket) list \<Rightarrow> 64 word \<Rightarrow> LoginRateLimiter" where
  "sample_limiter bs rej =
     \<lparr>rl_limits = sample_limits, rl_buckets = bs, rl_rejections = rej, rl_evictions = 0\<rparr>"

definition sample_decision :: "bool \<Rightarrow> int \<Rightarrow> string \<Rightarrow> 64 word \<Rightarrow> Decision" where
  "sample_decision ok after sc rej =
     \<lparr>allowed = ok, retryAfter = after, scope = sc, dec_buckets = 4, dec_rejections = rej, dec_evictions = 0\<rparr>"

lemma sample_first:
  "checkAndRecord ''a'' ''i'' 0 (sample_limiter [] 0) =
     Okay (sample_decision True 0 [] 0, sample_limiter (sample_buckets 0) 0)"
  by code_simp

lemma sample_second:
  "checkAndRecord ''a'' ''i'' 0 (sample_limiter (sample_buckets 0) 0) =
     Okay (sample_decision False 2 ''global'' 1, sample_limiter (sample_buckets 0) 1)"
  by code_simp

lemma sample_third:
  "checkAndRecord ''a'' ''i'' (2 * second) (sample_limiter (sample_buckets 0) 1) =
     Okay (sample_decision True 0 [] 1, sample_limiter (sample_buckets (2 * second)) 1)"
  by code_simp

lemma sample_run: "rl_run sample_limits (sample_limiter (sample_buckets 0) 0) [(0, ''a'', ''i'')] 0"
proof -
  have "LoginRateLimiter_new sample_limits = Okay (sample_limiter [] 0)" by code_simp
  from run_check [OF run_new [OF this, of 0] order.refl sample_first]
  show ?thesis by (simp add: sample_decision_def)
qed

theorem login_window_bound_witness:
  "length (filter (\<lambda>(x, _). 0 - window sample_limits < x \<and> x \<le> 0) [(0 :: int, ''a'', ''i'')])
     \<le> global_limit sample_limits"
  by (rule login_window_bound [OF sample_run])



text \<open>The advice of a rejection is sound: it asks for at least one second, and a caller who
  waits that long and tries again is not rejected by the same scope.\<close>

theorem login_retry_sound:
  assumes "rl_run lim s log t" and "checkAndRecord a i now s = Okay (d, s')" and "\<not> allowed d"
    and "now + retryAfter d * second \<le> now'"
    and "checkAndRecord a i now' s' = Okay (d', s'')"
  shows "1 \<le> retryAfter d \<and> (allowed d' \<or> scope d' \<noteq> scope d)"
proof -
  have wf: "rl_wf s" using rl_run_wf [OF assms(1)] by simp
  have ne: "a \<noteq> []" "i \<noteq> []" using assms(2) by (auto simp: checkAndRecord_def)
  obtain key where wf': "rl_wf s'" and lim: "rl_limits s' = rl_limits s"
    and key: "(key, limit_of (rl_limits s) key, scope d) \<in>
        set (zip (limiter_keys a i) (zip (limiter_limits (rl_limits s)) limiter_scopes))"
    and room: "room (rl_limits s) (map_of (rl_buckets (pruneExpiredUnlocked now' s')) key) key"
    using wf assms(2,3,4) by (rule retry_room)
  have "1 \<le> retryAfter d"
    using wf ne assms(2,3) by (cases rule: checkAndRecord_cases [where now = now])
      (auto simp: retry_after_pos)
  moreover have "allowed d' \<or> scope d' \<noteq> scope d"
    using wf' ne
  proof (cases rule: checkAndRecord_cases [where now = now'])
    case (rejected d1 key1 b)
    then have d1: "d1 = d'" using assms(5) by simp
    have "scope d' \<noteq> scope d"
    proof
      assume "scope d' = scope d"
      then have "key1 = key"
        using scopes_determine_key [OF _ key] rejected(3) d1 lim by auto
      with rejected(4,5) room lim show False by (simp add: room_def)
    qed
    then show "allowed d' \<or> scope d' \<noteq> scope d" by simp
  qed (use assms(5) in auto)
  ultimately show ?thesis by blast
qed

theorem login_retry_sound_witness:
  "1 \<le> retryAfter (sample_decision False 2 ''global'' 1) \<and> allowed (sample_decision True 0 [] 1)"
  using login_retry_sound [OF sample_run sample_second _ _ sample_third]
  by (simp add: sample_decision_def)

end
