(* ===== verification/Json_Codec.thy ===== *)
theory Json_Codec
  imports Bytes
begin

text \<open>
  The contract between the JSON writers and readers of the daemon.  A writer escapes one
  character at a time; a reader is given the text after the opening quote and returns the
  string and what follows the closing quote.  Two pairs of the program meet the contract:
  the flat object parser with \<open>jsonEscape\<close> of \<open>main.cpp\<close>, and the assertion reader with
  \<open>jsonEscape\<close> of \<open>internal_assertion.cpp\<close>.
\<close>

locale char_codec =
  fixes esc :: "char \<Rightarrow> string"
    and reader :: "string \<Rightarrow> (string \<times> string) option"
    and supported :: "char \<Rightarrow> bool"
  assumes reader_close: "reader (QUOTE # t) = Some ([], t)"
    and reader_char: "supported c \<Longrightarrow>
      reader (esc c @ t) = map_option (\<lambda>(s, u). (c # s, u)) (reader t)"
begin

definition quoted :: "string \<Rightarrow> string" where
  "quoted s = QUOTE # concat (map esc s) @ [QUOTE]"

lemma reader_escaped:
  "\<forall>c \<in> set s. supported c \<Longrightarrow> reader (concat (map esc s) @ QUOTE # t) = Some (s, t)"
  by (induction s) (simp_all add: reader_close reader_char)

lemma escaped_inj:
  assumes "\<forall>c \<in> set s. supported c" and "\<forall>c \<in> set t. supported c"
    and "concat (map esc s) = concat (map esc t)"
  shows "s = t"
proof -
  have "Some (s, []) = reader (concat (map esc t) @ [QUOTE])"
    using reader_escaped [OF assms(1), of "[]"] assms(3) by simp
  also have "\<dots> = Some (t, [])" using reader_escaped [OF assms(2), of "[]"] by simp
  finally show ?thesis by simp
qed

text \<open>An escaped text never ends the string early: no quote of the value is read as the
  closing one, whatever follows.\<close>

lemma no_early_close:
  assumes "\<forall>c \<in> set s. supported c" and "reader (concat (map esc s) @ QUOTE # t) = Some (v, u)"
  shows "v = s \<and> u = t"
  using assms reader_escaped by auto

end

end
