(* ===== verification/Flat_Json.thy ===== *)
theory Flat_Json
  imports Json_Codec Decimal "HOL-Library.Word" "HOL-Library.Monad_Syntax"
begin

text \<open>
  JSON in \<open>apps/sisterd/main.cpp\<close>: \<open>jsonEscape\<close>, \<open>appendUtf8\<close> and the parser of flat
  objects (string or null members, no duplicate keys) that reads the request bodies of the
  authentication interface.  The parser's position is the remaining input; every exception
  of the parser is caught in \<open>parse\<close> and turned into \<open>nullopt\<close>, so a failing step is
  \<open>None\<close>.
\<close>

unbundle bit_operations_syntax

section \<open>Escaping\<close>

definition jsonEscape_char :: "char \<Rightarrow> string" where
  "jsonEscape_char c =
     (if c = BACKSLASH then [BACKSLASH, BACKSLASH]
      else if c = QUOTE then [BACKSLASH, QUOTE]
      else if c = BS then [BACKSLASH, CHR ''b'']
      else if c = FF then [BACKSLASH, CHR ''f'']
      else if c = LF then [BACKSLASH, CHR ''n'']
      else if c = CR then [BACKSLASH, CHR ''r'']
      else if c = TAB then [BACKSLASH, CHR ''t'']
      else if byte c < 32 then [BACKSLASH, CHR ''u''] @ ''00'' @ hex_byte c
      else [c])"

definition jsonEscape :: "string \<Rightarrow> string" where
  "jsonEscape s = concat (map jsonEscape_char s)"

text \<open>\<open>static_cast<char>\<close> of a 32-bit value keeps the low eight bits.\<close>

definition to_char :: "32 word \<Rightarrow> char" where
  "to_char w = char_of (unat w)"

definition appendUtf8 :: "32 word \<Rightarrow> string option" where
  "appendUtf8 cp =
     (if cp \<le> 0x7f then Some [to_char cp]
      else if cp \<le> 0x7ff then
        Some [to_char (0xc0 OR drop_bit 6 cp), to_char (0x80 OR (cp AND 0x3f))]
      else if cp \<le> 0xffff then
        Some [to_char (0xe0 OR drop_bit 12 cp), to_char (0x80 OR (drop_bit 6 cp AND 0x3f)),
              to_char (0x80 OR (cp AND 0x3f))]
      else if cp \<le> 0x10ffff then
        Some [to_char (0xf0 OR drop_bit 18 cp), to_char (0x80 OR (drop_bit 12 cp AND 0x3f)),
              to_char (0x80 OR (drop_bit 6 cp AND 0x3f)), to_char (0x80 OR (cp AND 0x3f))]
      else None)"

section \<open>Reading strings\<close>

fun parseHex4_loop :: "nat \<Rightarrow> 32 word \<Rightarrow> string \<Rightarrow> (32 word \<times> string) option" where
  "parseHex4_loop 0 result s = Some (result, s)"
| "parseHex4_loop (Suc n) result [] = None"
| "parseHex4_loop (Suc n) result (c # s) =
     (case hex_value c of
        None \<Rightarrow> None
      | Some d \<Rightarrow> parseHex4_loop n (push_bit 4 result OR word_of_nat d) s)"

text \<open>The same by a test of the counter, for evaluation with binary numerals.\<close>

lemma parseHex4_loop_code [code]:
  "parseHex4_loop n result s =
     (if n = 0 then Some (result, s)
      else case s of [] \<Rightarrow> None
        | c # t \<Rightarrow> (case hex_value c of
            None \<Rightarrow> None | Some d \<Rightarrow> parseHex4_loop (n - 1) (push_bit 4 result OR word_of_nat d) t))"
  by (cases n; cases s) (auto split: option.split)

definition parseHex4 :: "string \<Rightarrow> (32 word \<times> string) option" where
  "parseHex4 s = (if length s < 4 then None else parseHex4_loop 4 0 s)"

text \<open>The code point after \<open>\u\<close>, joining a surrogate pair.\<close>

definition parse_code_point :: "string \<Rightarrow> (32 word \<times> string) option" where
  "parse_code_point s = do {
     (cp, s) \<leftarrow> parseHex4 s;
     if 0xd800 \<le> cp \<and> cp \<le> 0xdbff then
       (case s of
          b # u # s' \<Rightarrow>
            if b = BACKSLASH \<and> u = CHR ''u'' then do {
              (low, s) \<leftarrow> parseHex4 s';
              if low < 0xdc00 \<or> low > 0xdfff then None
              else Some (0x10000 + push_bit 10 (cp - 0xd800) + (low - 0xdc00), s)
            } else None
        | _ \<Rightarrow> None)
     else if 0xdc00 \<le> cp \<and> cp \<le> 0xdfff then None
     else Some (cp, s)
   }"

definition simple_escape :: "char \<Rightarrow> char option" where
  "simple_escape e =
     (if e = QUOTE then Some QUOTE
      else if e = BACKSLASH then Some BACKSLASH
      else if e = CHR ''/'' then Some (CHR ''/'')
      else if e = CHR ''b'' then Some BS
      else if e = CHR ''f'' then Some FF
      else if e = CHR ''n'' then Some LF
      else if e = CHR ''r'' then Some CR
      else if e = CHR ''t'' then Some TAB
      else None)"

lemma parseHex4_loop_length: "parseHex4_loop n w s = Some (v, t) \<Longrightarrow> length t \<le> length s"
  by (induction n w s rule: parseHex4_loop.induct) (auto split: option.splits)

lemma parseHex4_length: "parseHex4 s = Some (v, t) \<Longrightarrow> length t \<le> length s"
  by (auto simp: parseHex4_def dest: parseHex4_loop_length split: if_splits)

lemma parse_code_point_length: "parse_code_point s = Some (v, t) \<Longrightarrow> length t \<le> length s"
  unfolding parse_code_point_def
  by (auto simp: bind_eq_Some_conv dest!: parseHex4_length split: if_splits list.splits)

text \<open>One iteration of the loop of \<open>parseString\<close>: the string is closed, the input is broken,
  or some bytes are appended to the result.\<close>

datatype string_step = Closed string | Broken | Piece string string

fun parseString_step :: "string \<Rightarrow> string_step" where
  "parseString_step [] = Broken"
| "parseString_step (c # s) =
     (if c = QUOTE then Closed s
      else if byte c < 32 then Broken
      else if c \<noteq> BACKSLASH then Piece [c] s
      else case s of
          [] \<Rightarrow> Broken
        | e # s' \<Rightarrow>
            (case simple_escape e of
               Some v \<Rightarrow> Piece [v] s'
             | None \<Rightarrow>
                 if e = CHR ''u'' then
                   (case parse_code_point s' of
                      None \<Rightarrow> Broken
                    | Some (cp, t) \<Rightarrow>
                        (case appendUtf8 cp of None \<Rightarrow> Broken | Some u \<Rightarrow> Piece u t))
                 else Broken))"

lemma parseString_step_length:
  "parseString_step s = Piece u t \<Longrightarrow> length t < length s"
  "parseString_step s = Closed t \<Longrightarrow> length t < length s"
  by (cases s; auto split: if_splits list.splits option.splits dest!: parse_code_point_length)+

function parseString_loop :: "string \<Rightarrow> string \<Rightarrow> (string \<times> string) option" where
  "parseString_loop result s =
     (case parseString_step s of
        Closed t \<Rightarrow> Some (result, t)
      | Broken \<Rightarrow> None
      | Piece u t \<Rightarrow> parseString_loop (result @ u) t)"
  by pat_completeness auto
termination
  by (relation "measure (\<lambda>(_, s). length s)") (auto dest: parseString_step_length(1))

declare parseString_loop.simps [simp del]

definition expect :: "char \<Rightarrow> string \<Rightarrow> string option" where
  "expect c s = (case s of [] \<Rightarrow> None | d # t \<Rightarrow> if d = c then Some t else None)"

definition parseString :: "string \<Rightarrow> (string \<times> string) option" where
  "parseString s = do { s \<leftarrow> expect QUOTE s; parseString_loop [] s }"

section \<open>Reading objects\<close>

definition skipWhitespace :: "string \<Rightarrow> string" where
  "skipWhitespace s = dropWhile is_blank s"

definition parse_member_value :: "string \<Rightarrow> (string option \<times> string) option" where
  "parse_member_value s =
     (if s = [] then None
      else if hd s = QUOTE then map_option (\<lambda>(v, t). (Some v, t)) (parseString s)
      else if take 4 s = ''null'' then Some (None, drop 4 s)
      else None)"

lemma parseString_loop_length: "parseString_loop r s = Some (v, t) \<Longrightarrow> length t < length s"
proof (induction r s rule: parseString_loop.induct)
  case (1 r s)
  show ?case
  proof (cases "parseString_step s")
    case (Piece u t')
    with "1.IH" [OF this] "1.prems" parseString_step_length(1) [OF this] show ?thesis
      by (simp add: parseString_loop.simps [of r])
  next
    case (Closed t')
    with "1.prems" parseString_step_length(2) [OF this] show ?thesis
      by (simp add: parseString_loop.simps [of r])
  next
    case Broken
    with "1.prems" show ?thesis by (simp add: parseString_loop.simps [of r])
  qed
qed

lemma expect_length: "expect c s = Some t \<Longrightarrow> length s = Suc (length t)"
  by (auto simp: expect_def split: list.splits if_splits)

lemma parseString_length: "parseString s = Some (v, t) \<Longrightarrow> length t < length s"
  by (auto simp: parseString_def bind_eq_Some_conv dest!: parseString_loop_length expect_length)

lemma skipWhitespace_length [simp]: "length (skipWhitespace s) \<le> length s"
  by (simp add: skipWhitespace_def length_dropWhile_le)

lemma parse_member_value_length: "parse_member_value s = Some (v, t) \<Longrightarrow> length t < length s"
  by (cases s) (auto simp: parse_member_value_def dest!: parseString_length split: if_splits)

text \<open>One round of the member loop: the key, the value and what follows, before the
  separator.  The keys read so far are passed for the duplicate test.\<close>

definition parse_member :: "(string \<times> string option) list \<Rightarrow> string \<Rightarrow>
    ((string \<times> string option) list \<times> string) option" where
  "parse_member result s = do {
     (key, s) \<leftarrow> parseString (skipWhitespace s);
     if map_of result key \<noteq> None then None
     else do {
       s \<leftarrow> expect CHR '':'' (skipWhitespace s);
       (v, s) \<leftarrow> parse_member_value (skipWhitespace s);
       Some (result @ [(key, v)], skipWhitespace s)
     }
   }"

lemma parse_member_length: "parse_member r s = Some (r', t) \<Longrightarrow> length t < length s"
proof -
  assume "parse_member r s = Some (r', t)"
  then obtain k s1 s2 v s3 where
    1: "parseString (skipWhitespace s) = Some (k, s1)"
      "expect CHR '':'' (skipWhitespace s1) = Some s2"
      "parse_member_value (skipWhitespace s2) = Some (v, s3)" "t = skipWhitespace s3"
    by (auto simp: parse_member_def bind_eq_Some_conv split: if_splits)
  from 1(1-3) have "length s1 < length (skipWhitespace s)" "length s2 < length (skipWhitespace s1)"
    "length s3 < length (skipWhitespace s2)"
    by (auto dest: parseString_length expect_length parse_member_value_length)
  then show ?thesis
    unfolding 1(4) using skipWhitespace_length [of s] skipWhitespace_length [of s1]
      skipWhitespace_length [of s2] skipWhitespace_length [of s3] by linarith
qed

function parse_members :: "(string \<times> string option) list \<Rightarrow> string \<Rightarrow>
    ((string \<times> string option) list \<times> string) option" where
  "parse_members result s =
     (case parse_member result s of
        None \<Rightarrow> None
      | Some (result, s) \<Rightarrow>
          (case s of
             [] \<Rightarrow> None
           | c # t \<Rightarrow>
               if c = CHR ''}'' then Some (result, t)
               else if c = CHR '','' then parse_members result t
               else None))"
  by pat_completeness auto
termination
  by (relation "measure (\<lambda>(_, s). length s)") (auto dest!: parse_member_length)

declare parse_members.simps [simp del]

text \<open>\<open>FlatJsonObjectParser::parse\<close>.  The \<open>unordered_map\<close> is the association list of its
  members; the duplicate test keeps the keys distinct.\<close>

definition parse_object :: "string \<Rightarrow> (string \<times> string option) list option" where
  "parse_object s = do {
     s \<leftarrow> expect CHR ''{'' (skipWhitespace s);
     (case skipWhitespace s of
        c # t \<Rightarrow>
          if c = CHR ''}'' then (if skipWhitespace t \<noteq> [] then None else Some [])
          else do {
            (result, t) \<leftarrow> parse_members [] (c # t);
            if skipWhitespace t \<noteq> [] then None else Some result
          }
      | [] \<Rightarrow> None)
   }"

definition kMaxAuthJsonBytes :: nat where
  "kMaxAuthJsonBytes = 64 * 1024"

definition parseFlatJsonObject :: "string \<Rightarrow> (string \<times> string option) list option" where
  "parseFlatJsonObject body =
     (if length body > kMaxAuthJsonBytes then None else parse_object body)"

definition jsonStringField :: "(string \<times> string option) list \<Rightarrow> string \<Rightarrow> string option" where
  "jsonStringField object key =
     (case map_of object key of None \<Rightarrow> None | Some None \<Rightarrow> None | Some (Some v) \<Rightarrow> Some v)"

section \<open>The codec\<close>

lemma parseString_loop_acc:
  "parseString_loop r s = map_option (\<lambda>(v, t). (r @ v, t)) (parseString_loop [] s)"
proof (induction s arbitrary: r rule: length_induct)
  case (1 s)
  show ?case
  proof (cases "parseString_step s")
    case (Piece u t)
    with "1.IH" parseString_step_length(1) [OF this]
    have IH: "parseString_loop q t = map_option (\<lambda>(v, w). (q @ v, w)) (parseString_loop [] t)" for q
      by blast
    show ?thesis
      unfolding parseString_loop.simps [of r s] parseString_loop.simps [of "[]" s]
      by (simp add: Piece IH [of "r @ u"] IH [of u] option.map_comp comp_def case_prod_unfold)
  qed (simp_all add: parseString_loop.simps [of _ s])
qed

lemma hex_value_zero: "hex_value CHR ''0'' = Some 0"
  by (simp add: hex_value_def isdigit_def)

lemma parseHex4_loop_four: "parseHex4_loop 4 = parseHex4_loop (Suc (Suc (Suc (Suc 0))))"
  by (simp add: eval_nat_numeral)

lemma parseHex4_control:
  assumes "byte c < 32"
  shows "parseHex4 (''00'' @ hex_byte c @ t) = Some (word_of_nat (byte c), t)"
proof -
  have "parseHex4_loop 4 0 (''00'' @ hex_byte c @ t) =
      Some (push_bit 4 (word_of_nat (byte c div 16)) OR word_of_nat (byte c mod 16), t)"
    unfolding parseHex4_loop_four by (simp add: hex_byte_def hex_value_zero)
  moreover have "push_bit 4 (word_of_nat (n div 16) :: 32 word) OR word_of_nat (n mod 16) = word_of_nat n"
    if "n < 32" for n
  proof -
    have "n div 16 \<in> {0, 1}" using that by auto
    moreover have "n mod 16 \<in> {0, 1, 2, 3, 4, 5, 6, 7, 8, 9, 10, 11, 12, 13, 14, 15}"
      by (rule less_16_cases) simp
    ultimately have "push_bit 4 (word_of_nat (n div 16) :: 32 word) OR word_of_nat (n mod 16) =
        word_of_nat (16 * (n div 16) + n mod 16)"
      by (elim insertE) simp_all
    then show ?thesis by simp
  qed
  ultimately show ?thesis using assms by (simp add: parseHex4_def hex_byte_def)
qed

lemma unat_byte: "unat (word_of_nat (byte c) :: 32 word) = byte c"
proof -
  have "byte c < 2 ^ 32" by (rule order.strict_trans [OF byte_less]) simp
  then show ?thesis by (simp only: unat_of_nat) simp
qed

lemma parse_code_point_control:
  assumes "byte c < 32"
  shows "parse_code_point (''00'' @ hex_byte c @ t) = Some (word_of_nat (byte c), t)"
proof -
  have "(word_of_nat (byte c) :: 32 word) < 0xd800"
    using assms unat_byte [of c] by (simp add: word_less_nat_alt)
  moreover have "(word_of_nat (byte c) :: 32 word) < 0xdc00"
    using assms unat_byte [of c] by (simp add: word_less_nat_alt)
  ultimately show ?thesis
    unfolding parse_code_point_def parseHex4_control [OF assms] by (simp add: not_le [symmetric])
qed

lemma appendUtf8_ascii: "byte c < 128 \<Longrightarrow> appendUtf8 (word_of_nat (byte c)) = Some [c]"
  using unat_byte [of c] by (simp add: appendUtf8_def to_char_def word_le_nat_alt)

lemma parseString_step_escape: "parseString_step (jsonEscape_char c @ t) = Piece [c] t"
proof (cases "byte c < 32 \<and> c \<notin> {BS, FF, LF, CR, TAB}")
  case True
  from True have "c \<noteq> BACKSLASH \<and> c \<noteq> QUOTE" by (elim conjE, intro conjI) (rule notI, simp)+
  with True have "jsonEscape_char c = [BACKSLASH, CHR ''u''] @ ''00'' @ hex_byte c"
    by (simp add: jsonEscape_char_def)
  moreover have "parseString_step ([BACKSLASH, CHR ''u''] @ ''00'' @ hex_byte c @ t) = Piece [c] t"
    using True parse_code_point_control [of c t] appendUtf8_ascii [of c]
    by (simp add: simple_escape_def)
  ultimately show ?thesis by simp
next
  case False
  then show ?thesis by (auto simp: jsonEscape_char_def simple_escape_def)
qed

interpretation flat: char_codec jsonEscape_char "parseString_loop []" "\<lambda>_. True"
proof unfold_locales
  show "parseString_loop [] (QUOTE # t) = Some ([], t)" for t
    by (simp add: parseString_loop.simps)
  show "parseString_loop [] (jsonEscape_char c @ t) = map_option (\<lambda>(s, u). (c # s, u)) (parseString_loop [] t)" for c t
    unfolding parseString_loop.simps [of "[]" "jsonEscape_char c @ t"] parseString_step_escape
    by (simp add: parseString_loop_acc [of "[c]"])
qed

lemma parseString_quoted: "parseString (QUOTE # jsonEscape s @ QUOTE # t) = Some (s, t)"
  using flat.reader_escaped [of s t] by (simp add: parseString_def expect_def jsonEscape_def)

section \<open>Writing objects\<close>

text \<open>The shape in which the daemon writes flat objects, without white space.\<close>

definition value_text :: "string option \<Rightarrow> string" where
  "value_text v = (case v of None \<Rightarrow> ''null'' | Some s \<Rightarrow> QUOTE # jsonEscape s @ [QUOTE])"

definition member_text :: "string \<times> string option \<Rightarrow> string" where
  "member_text m = QUOTE # jsonEscape (fst m) @ QUOTE # CHR '':'' # value_text (snd m)"

definition object_text :: "(string \<times> string option) list \<Rightarrow> string" where
  "object_text ms = CHR ''{'' # join_with CHR '','' (map member_text ms) @ [CHR ''}'']"

lemma skipWhitespace_id: "s \<noteq> [] \<Longrightarrow> \<not> is_blank (hd s) \<Longrightarrow> skipWhitespace s = s"
  by (cases s) (simp_all add: skipWhitespace_def)

lemma skipWhitespace_Cons [simp]: "\<not> is_blank c \<Longrightarrow> skipWhitespace (c # s) = c # s"
  by (simp add: skipWhitespace_def)

lemma not_blank [simp]:
  "\<not> is_blank QUOTE" "\<not> is_blank CHR '':''" "\<not> is_blank CHR ''}''" "\<not> is_blank CHR '',''"
  "\<not> is_blank CHR ''{''" "\<not> is_blank CHR ''n''"
  by (simp_all add: is_blank_def)

lemma parse_member_value_text:
  "parse_member_value (value_text v @ t) = Some (v, t) \<and> skipWhitespace (value_text v @ t) = value_text v @ t"
  by (cases v) (simp_all add: parse_member_value_def value_text_def parseString_quoted)

lemma parse_member_text:
  assumes "k \<notin> fst ` set r" and "c = CHR '','' \<or> c = CHR ''}''"
  shows "parse_member r (member_text (k, v) @ c # t) = Some (r @ [(k, v)], c # t)"
proof -
  have "map_of r k = None" using assms(1) by (simp add: map_of_eq_None_iff)
  moreover have "\<not> is_blank c" using assms(2) by auto
  ultimately show ?thesis
    by (simp add: parse_member_def member_text_def parseString_quoted expect_def parse_member_value_text)
qed

lemma parse_members_text:
  "ms \<noteq> [] \<Longrightarrow> distinct (map fst (r @ ms)) \<Longrightarrow>
     parse_members r (join_with CHR '','' (map member_text ms) @ CHR ''}'' # t) = Some (r @ ms, t)"
proof (induction ms arbitrary: r)
  case (Cons m ms)
  obtain k v where m: "m = (k, v)" by fastforce
  have k: "k \<notin> fst ` set r" using Cons.prems(2) by (auto simp: m)
  show ?case
  proof (cases ms)
    case Nil
    with parse_member_text [OF k, of "CHR ''}''" v t] show ?thesis
      by (simp add: m parse_members.simps [of r])
  next
    case (Cons m' ms')
    let ?rest = "join_with CHR '','' (map member_text ms) @ CHR ''}'' # t"
    have "parse_members (r @ [m]) ?rest = Some ((r @ [m]) @ ms, t)"
      using Cons.prems by (intro Cons.IH) (simp_all add: Cons)
    with parse_member_text [OF k, of "CHR '',''" v ?rest] show ?thesis
      by (simp add: m Cons parse_members.simps [of r])
  qed
qed simp

lemma parse_object_text:
  assumes "distinct (map fst ms)"
  shows "parse_object (object_text ms) = Some ms"
proof (cases ms)
  case Nil
  then show ?thesis by (simp add: parse_object_def object_text_def expect_def skipWhitespace_def)
next
  case (Cons m ms')
  let ?body = "join_with CHR '','' (map member_text ms) @ [CHR ''}'']"
  obtain u where u: "?body = QUOTE # u"
    by (cases ms') (simp_all add: Cons member_text_def)
  have "parse_members [] ?body = Some (ms, [])"
    using parse_members_text [of ms "[]" "[]"] assms Cons by simp
  then show ?thesis
    unfolding object_text_def u by (simp add: parse_object_def expect_def skipWhitespace_def [of "[]"])
qed

end
