(* ===== verification/Auth_Data.thy ===== *)
theory Auth_Data
  imports Decimal "HOL-Library.AList" "HOL-Library.Signed_Division" "HOL-Library.Word"
begin

text \<open>
  The data of the authentication store and its helpers (\<open>apps/sisterd/auth.hpp\<close> and the
  first part of \<open>auth.cpp\<close>): hexadecimal codec, random identifiers, password derivation,
  field validation, and the text of the two files in which the file backend keeps users and
  sessions.  SHA-256 and PBKDF2 are the fields of \<open>Crypto\<close>; the bytes a call to
  \<open>RAND_bytes\<close> delivers, the clock and whether a file can be written are the fields of
  \<open>AuthEnv\<close>, one environment per operation.  Times are nanoseconds since the epoch.
\<close>

unbundle bit_operations_syntax

section \<open>Records\<close>

record AuthUser =
  au_id :: string
  au_name :: string
  au_email :: string
  au_role :: string

record AuthResult =
  ar_user :: AuthUser
  ar_token :: string

record StoredUser =
  publicUser :: AuthUser
  salt :: string
  su_hash :: string

record Session =
  ses_userId :: string
  ses_expiresAt :: int

text \<open>The two association lists of the class and the contents of its two files.\<close>

record AuthStore =
  st_users :: "StoredUser list"
  st_sessions :: "(string \<times> Session) list"
  users_file :: string
  sessions_file :: string

record Crypto =
  SHA256 :: "string \<Rightarrow> string"
  PBKDF2 :: "string \<Rightarrow> string \<Rightarrow> nat \<Rightarrow> string option"

record AuthEnv =
  env_now :: int
  uuid_entropy :: "string option"
  salt_entropy :: "string option"
  token_entropy :: "string option"
  users_writable :: bool
  sessions_writable :: bool

section \<open>Helpers\<close>

definition passwordIterations :: nat where
  "passwordIterations = 210000"

definition sessionLifetime :: int where
  "sessionLifetime = 8 * 3600 * 1000000000"

definition hexEncode :: "string \<Rightarrow> string" where
  "hexEncode data = hex_string data"

text \<open>\<open>std::stoul(text, nullptr, 16)\<close>: leading space, a sign and a \<open>0x\<close> prefix are accepted,
  the longest run of hexadecimal digits is read, the rest is ignored.\<close>

definition hex_number :: "string \<Rightarrow> nat" where
  "hex_number ds = foldl (\<lambda>v c. 16 * v + the (hex_value c)) 0 ds"

definition is_hex :: "char \<Rightarrow> bool" where
  "is_hex c \<longleftrightarrow> hex_value c \<noteq> None"

definition stoul16 :: "string \<Rightarrow> nat option" where
  "stoul16 s =
     (let s = dropWhile isspace s;
          neg = (s \<noteq> [] \<and> hd s = CHR ''-'');
          s = (if s \<noteq> [] \<and> (hd s = CHR ''-'' \<or> hd s = CHR ''+'') then tl s else s);
          s = (case s of
                 z # x # h # _ \<Rightarrow>
                   if z = CHR ''0'' \<and> (x = CHR ''x'' \<or> x = CHR ''X'') \<and> is_hex h then drop 2 s else s
               | _ \<Rightarrow> s);
          ds = takeWhile is_hex s
      in if ds = [] then None
         else Some (if neg then (2 ^ 64 - hex_number ds) mod 2 ^ 64 else hex_number ds))"

fun hexDecode_pairs :: "string \<Rightarrow> string option" where
  "hexDecode_pairs (a # b # s) =
     (case stoul16 [a, b] of
        None \<Rightarrow> None
      | Some v \<Rightarrow> map_option (\<lambda>t. char_of (v mod 256) # t) (hexDecode_pairs s))"
| "hexDecode_pairs s = Some []"

definition hexDecode :: "string \<Rightarrow> string" where
  "hexDecode value =
     (if length value mod 2 \<noteq> 0 then []
      else case hexDecode_pairs value of None \<Rightarrow> [] | Some bytes \<Rightarrow> bytes)"

definition randomHex :: "string option \<Rightarrow> (string, string) result" where
  "randomHex bytes =
     (case bytes of
        None \<Rightarrow> Error ''secure random generation failed''
      | Some b \<Rightarrow> Okay (hexEncode b))"

definition uuid_groups :: "string \<Rightarrow> string" where
  "uuid_groups hex = take 8 hex @ ''-'' @ take 4 (drop 8 hex) @ ''-'' @ take 4 (drop 12 hex) @ ''-'' @
     take 4 (drop 16 hex) @ ''-'' @ drop 20 hex"

definition randomUuid :: "string option \<Rightarrow> (string, string) result" where
  "randomUuid entropy =
     (case entropy of
        None \<Rightarrow> Error ''secure random generation failed''
      | Some bytes \<Rightarrow>
          let bytes = bytes[6 := char_of ((byte (bytes ! 6) AND 0x0f) OR 0x40 :: nat)];
              bytes = bytes[8 := char_of ((byte (bytes ! 8) AND 0x3f) OR 0x80 :: nat)];
              hex = hexEncode bytes
          in Okay (uuid_groups hex))"

definition sha256 :: "Crypto \<Rightarrow> string \<Rightarrow> string" where
  "sha256 cr value = hexEncode (SHA256 cr value)"

definition passwordHash :: "Crypto \<Rightarrow> string \<Rightarrow> string \<Rightarrow> nat \<Rightarrow> (string, string) result" where
  "passwordHash cr password saltHex iterations =
     (let salt_bytes = hexDecode saltHex in
      if salt_bytes = [] then Error ''password derivation failed''
      else case PBKDF2 cr password salt_bytes iterations of
          None \<Rightarrow> Error ''password derivation failed''
        | Some out \<Rightarrow> Okay (hexEncode out))"

definition normalizeEmail :: "string \<Rightarrow> string" where
  "normalizeEmail email = lowercase (trim email)"

definition validField :: "string \<Rightarrow> bool" where
  "validField value \<longleftrightarrow> value \<noteq> [] \<and> TAB \<notin> set value \<and> LF \<notin> set value \<and> CR \<notin> set value"

text \<open>The classes of the UUID pattern, one per position of the 36 characters.\<close>

definition lower_hex :: "char \<Rightarrow> bool" where
  "lower_hex c \<longleftrightarrow> isdigit c \<or> (97 \<le> byte c \<and> byte c \<le> 102)"

definition uuid_pattern :: "(char \<Rightarrow> bool) list" where
  "uuid_pattern =
     replicate 8 lower_hex @ [\<lambda>c. c = CHR ''-''] @ replicate 4 lower_hex @ [\<lambda>c. c = CHR ''-''] @
     (\<lambda>c. 49 \<le> byte c \<and> byte c \<le> 53) # replicate 3 lower_hex @ [\<lambda>c. c = CHR ''-''] @
     (\<lambda>c. c \<in> {CHR ''8'', CHR ''9'', CHR ''a'', CHR ''b''}) # replicate 3 lower_hex @
     [\<lambda>c. c = CHR ''-''] @ replicate 12 lower_hex"

definition validUuid :: "string \<Rightarrow> bool" where
  "validUuid value = list_all2 (\<lambda>p c. p c) uuid_pattern value"

definition validRole :: "string \<Rightarrow> bool" where
  "validRole role \<longleftrightarrow> role = ''admin'' \<or> role = ''user'' \<or> role = ''registered_user'' \<or>
     role = ''researcher'' \<or> role = ''project_lead'' \<or> role = ''guest''"

section \<open>The files\<close>

definition user_line :: "StoredUser \<Rightarrow> string" where
  "user_line u = au_id (publicUser u) @ [TAB] @ au_name (publicUser u) @ [TAB] @
     au_email (publicUser u) @ [TAB] @ au_role (publicUser u) @ [TAB] @ salt u @ [TAB] @ su_hash u"

definition save :: "AuthEnv \<Rightarrow> AuthStore \<Rightarrow> (string, unit) result \<times> AuthStore" where
  "save env st =
     (if \<not> users_writable env then (Error ''unable to persist users'', st)
      else (Okay (), st\<lparr>users_file := concat (map (\<lambda>u. user_line u @ [LF]) (st_users st))\<rparr>))"

definition load_line :: "string \<Rightarrow> StoredUser list" where
  "load_line line =
     (if line = [] then []
      else case getlines TAB line of
          [i, n, e, r, s, h] \<Rightarrow>
            if i = [] then [] else [\<lparr>publicUser = \<lparr>au_id = i, au_name = n, au_email = e, au_role = r\<rparr>,
              salt = s, su_hash = h\<rparr>]
        | [i, n, e, s, h] \<Rightarrow>
            if i = [] then [] else [\<lparr>publicUser = \<lparr>au_id = i, au_name = n, au_email = e, au_role = ''user''\<rparr>,
              salt = s, su_hash = h\<rparr>]
        | _ \<Rightarrow> [])"

definition load :: "AuthStore \<Rightarrow> AuthStore" where
  "load st = st\<lparr>st_users := concat (map load_line (getlines LF (users_file st)))\<rparr>"

definition session_line :: "string \<times> Session \<Rightarrow> string" where
  "session_line e = fst e @ [TAB] @ ses_userId (snd e) @ [TAB] @
     show_int (ses_expiresAt (snd e) sdiv 1000000000)"

definition saveSessions :: "AuthEnv \<Rightarrow> AuthStore \<Rightarrow> (string, unit) result \<times> AuthStore" where
  "saveSessions env st =
     (if \<not> sessions_writable env then (Error ''unable to persist sessions'', st)
      else (Okay (), st\<lparr>sessions_file := concat (map (\<lambda>e. session_line e @ [LF]) (st_sessions st))\<rparr>))"

text \<open>One \<open>std::getline(row, field, d)\<close>: it fails on an exhausted stream.\<close>

definition getline1 :: "char \<Rightarrow> string \<Rightarrow> (string \<times> string) option" where
  "getline1 d s =
     (if s = [] then None
      else Some (takeWhile (\<lambda>c. c \<noteq> d) s, tl (dropWhile (\<lambda>c. c \<noteq> d) s)))"

definition load_session_line :: "StoredUser list \<Rightarrow> int \<Rightarrow> string \<Rightarrow> (string \<times> Session) option" where
  "load_session_line us now line =
     (case getline1 TAB line of
        None \<Rightarrow> None
      | Some (tokenHash, row) \<Rightarrow>
          (case getline1 TAB row of
             None \<Rightarrow> None
           | Some (userId, row) \<Rightarrow>
               (case getline1 LF row of
                  None \<Rightarrow> None
                | Some (expiresValue, _) \<Rightarrow>
                    if length tokenHash \<noteq> 64 \<or> \<not> list_all lower_hex tokenHash then None
                    else (case from_chars int64_min int64_max expiresValue of
                        Some (expiresSeconds, []) \<Rightarrow>
                          let expiresAt = expiresSeconds * 1000000000;
                              knownUser = list_ex (\<lambda>u. au_id (publicUser u) = userId) us in
                          if knownUser \<and> expiresAt > now
                          then Some (tokenHash, \<lparr>ses_userId = userId, ses_expiresAt = expiresAt\<rparr>)
                          else None
                      | _ \<Rightarrow> None))))"

definition loadSessions :: "AuthEnv \<Rightarrow> AuthStore \<Rightarrow> AuthStore" where
  "loadSessions env st =
     st\<lparr>st_sessions := fold (\<lambda>line ss.
          case load_session_line (st_users st) (env_now env) line of
            None \<Rightarrow> ss
          | Some (h, s) \<Rightarrow> AList.update h s ss)
        (getlines LF (sessions_file st)) []\<rparr>"

text \<open>The constructor with the file backend: both files are read.\<close>

definition AuthStore_open :: "AuthEnv \<Rightarrow> string \<Rightarrow> string \<Rightarrow> AuthStore" where
  "AuthStore_open env ufile sfile =
     loadSessions env (load \<lparr>st_users = [], st_sessions = [], users_file = ufile, sessions_file = sfile\<rparr>)"

end
