(* ===== verification/Auth_Store.thy ===== *)
theory Auth_Store
  imports Auth_Data
begin

text \<open>
  The operations of the authentication store with the file backend
  (\<open>apps/sisterd/auth.cpp\<close>).  An operation returns an outcome and the new store: it throws
  (the store keeps what was changed before the exception), it refuses (\<open>nullopt\<close> or
  \<open>false\<close>, with the reason written to \<open>errorOut\<close>), or it is done.  The mutex is held
  for the whole body, so executions are sequences of operations.
\<close>

section \<open>Outcomes\<close>

datatype auth_error =
    EmailTaken | InvalidName | InvalidEmail | ShortPassword | InvalidRole | UserNotFound
  | EmailTakenByOther | SoleAdminRole | ShortNewPassword | OwnAccount | SoleAdminDelete
  | Unavailable | NotPersisted | UpdateNotPersisted | DeleteFailed | Rejected

datatype 'a outcome = Throws string | Refused auth_error | Done 'a

section \<open>Operations\<close>

definition bootstrapOpen :: "AuthStore \<Rightarrow> bool" where
  "bootstrapOpen st \<longleftrightarrow> st_users st = []"

text \<open>The tail shared by the three operations that add a user: salt, hash, append, save.\<close>

definition store_new_user ::
  "Crypto \<Rightarrow> AuthEnv \<Rightarrow> AuthUser \<Rightarrow> string \<Rightarrow> AuthStore \<Rightarrow> AuthUser outcome \<times> AuthStore" where
  "store_new_user cr env u password st =
     (case randomHex (salt_entropy env) of
        Error e \<Rightarrow> (Throws e, st)
      | Okay s \<Rightarrow>
          (case passwordHash cr password s passwordIterations of
             Error e \<Rightarrow> (Throws e, st)
           | Okay h \<Rightarrow>
               let st = st\<lparr>st_users := st_users st @ [\<lparr>publicUser = u, salt = s, su_hash = h\<rparr>]\<rparr> in
               (case save env st of
                  (Error e, st) \<Rightarrow> (Throws e, st)
                | (Okay _, st) \<Rightarrow> (Done u, st))))"

definition bootstrapAdminUnlocked ::
  "Crypto \<Rightarrow> AuthEnv \<Rightarrow> string \<Rightarrow> string \<Rightarrow> string \<Rightarrow> AuthStore \<Rightarrow> AuthUser outcome \<times> AuthStore" where
  "bootstrapAdminUnlocked cr env name rawEmail password st =
     (let email = normalizeEmail rawEmail in
      if st_users st \<noteq> [] \<or> length name < 2 \<or> length password < 12 \<or>
         CHR ''@'' \<notin> set email \<or> \<not> validField name \<or> \<not> validField email
      then (Refused Rejected, st)
      else case randomUuid (uuid_entropy env) of
          Error e \<Rightarrow> (Throws e, st)
        | Okay i \<Rightarrow> store_new_user cr env
            \<lparr>au_id = i, au_name = name, au_email = email, au_role = ''admin''\<rparr> password st)"

definition bootstrapAdmin ::
  "Crypto \<Rightarrow> AuthEnv \<Rightarrow> string \<Rightarrow> string \<Rightarrow> string \<Rightarrow> AuthStore \<Rightarrow> AuthUser outcome \<times> AuthStore" where
  "bootstrapAdmin cr env name rawEmail password st = bootstrapAdminUnlocked cr env name rawEmail password st"

definition createSession ::
  "Crypto \<Rightarrow> AuthEnv \<Rightarrow> StoredUser \<Rightarrow> AuthStore \<Rightarrow> AuthResult outcome \<times> AuthStore" where
  "createSession cr env user st =
     (case randomHex (token_entropy env) of
        Error e \<Rightarrow> (Throws e, st)
      | Okay token \<Rightarrow>
          let st = st\<lparr>st_sessions := AList.update (sha256 cr token)
                \<lparr>ses_userId = au_id (publicUser user), ses_expiresAt = env_now env + sessionLifetime\<rparr>
                (st_sessions st)\<rparr> in
          (case saveSessions env st of
             (Error e, st) \<Rightarrow> (Throws e, st)
           | (Okay _, st) \<Rightarrow> (Done \<lparr>ar_user = publicUser user, ar_token = token\<rparr>, st)))"

definition registerAdmin ::
  "Crypto \<Rightarrow> AuthEnv \<Rightarrow> string \<Rightarrow> string \<Rightarrow> string \<Rightarrow> AuthStore \<Rightarrow> AuthResult outcome \<times> AuthStore" where
  "registerAdmin cr env name rawEmail password st =
     (case bootstrapAdminUnlocked cr env name rawEmail password st of
        (Throws e, st) \<Rightarrow> (Throws e, st)
      | (Refused e, st) \<Rightarrow> (Refused e, st)
      | (Done _, st) \<Rightarrow> createSession cr env (last (st_users st)) st)"

definition login ::
  "Crypto \<Rightarrow> AuthEnv \<Rightarrow> string \<Rightarrow> string \<Rightarrow> AuthStore \<Rightarrow> AuthResult outcome \<times> AuthStore" where
  "login cr env rawEmail password st =
     (let email = normalizeEmail rawEmail;
          found = find (\<lambda>u. au_email (publicUser u) = email) (st_users st);
          fallbackSalt = replicate 32 (CHR ''0'') in
      case passwordHash cr password (case found of None \<Rightarrow> fallbackSalt | Some u \<Rightarrow> salt u) passwordIterations of
        Error e \<Rightarrow> (Throws e, st)
      | Okay candidate \<Rightarrow>
          let expected = (case found of None \<Rightarrow> replicate 64 (CHR ''0'') | Some u \<Rightarrow> su_hash u);
              valid = (length candidate = length expected \<and> candidate = expected) in
          (case found of
             None \<Rightarrow> (Refused Rejected, st)
           | Some u \<Rightarrow> if \<not> valid then (Refused Rejected, st) else createSession cr env u st))"

definition users_list :: "AuthStore \<Rightarrow> AuthUser list" where
  "users_list st = map publicUser (st_users st)"

definition createUser ::
  "Crypto \<Rightarrow> AuthEnv \<Rightarrow> string \<Rightarrow> string \<Rightarrow> string \<Rightarrow> string \<Rightarrow> AuthStore \<Rightarrow> AuthUser outcome \<times> AuthStore" where
  "createUser cr env rawName rawEmail password role st =
     (let name = trim rawName; email = normalizeEmail rawEmail in
      if list_ex (\<lambda>u. au_email (publicUser u) = email) (st_users st) then (Refused EmailTaken, st)
      else if length name < 2 \<or> \<not> validField name then (Refused InvalidName, st)
      else if CHR ''@'' \<notin> set email \<or> \<not> validField email then (Refused InvalidEmail, st)
      else if length password < 12 then (Refused ShortPassword, st)
      else if \<not> validRole role then (Refused InvalidRole, st)
      else case randomUuid (uuid_entropy env) of
          Error e \<Rightarrow> (Throws e, st)
        | Okay i \<Rightarrow> store_new_user cr env
            \<lparr>au_id = i, au_name = name, au_email = email, au_role = role\<rparr> password st)"

definition admin_count :: "StoredUser list \<Rightarrow> nat" where
  "admin_count us = length (filter (\<lambda>u. au_role (publicUser u) = ''admin'') us)"

text \<open>\<open>updateUser\<close> works on the entry at the iterator \<open>target\<close>; when the derivation of the
  new hash throws, the new salt has already been written.\<close>

definition updateUser ::
  "Crypto \<Rightarrow> AuthEnv \<Rightarrow> string \<Rightarrow> string \<Rightarrow> string \<Rightarrow> string \<Rightarrow> string \<Rightarrow> AuthStore \<Rightarrow>
     AuthUser outcome \<times> AuthStore" where
  "updateUser cr env i rawName rawEmail role optionalPassword st =
     (let name = trim rawName; email = normalizeEmail rawEmail; us = st_users st in
      case find_idx (\<lambda>u. au_id (publicUser u) = i) us of
        None \<Rightarrow> (Refused UserNotFound, st)
      | Some target \<Rightarrow>
          if list_ex (\<lambda>u. au_id (publicUser u) \<noteq> i \<and> au_email (publicUser u) = email) us
          then (Refused EmailTakenByOther, st)
          else if length name < 2 \<or> \<not> validField name then (Refused InvalidName, st)
          else if CHR ''@'' \<notin> set email \<or> \<not> validField email then (Refused InvalidEmail, st)
          else if \<not> validRole role then (Refused InvalidRole, st)
          else if au_role (publicUser (us ! target)) = ''admin'' \<and> role \<noteq> ''admin'' \<and> admin_count us \<le> 1
          then (Refused SoleAdminRole, st)
          else if optionalPassword \<noteq> [] \<and> length optionalPassword < 12
          then (Refused ShortNewPassword, st)
          else
            let u = us ! target;
                pu = \<lparr>au_id = au_id (publicUser u), au_name = name, au_email = email, au_role = role\<rparr>;
                finish = (\<lambda>u. let st = st\<lparr>st_users := us[target := u\<lparr>publicUser := pu\<rparr>]\<rparr> in
                  (case save env st of
                     (Error e, st) \<Rightarrow> (Throws e, st)
                   | (Okay _, st) \<Rightarrow> (Done pu, st))) in
            if optionalPassword = [] then finish u
            else case randomHex (salt_entropy env) of
                Error e \<Rightarrow> (Throws e, st)
              | Okay s \<Rightarrow>
                  (case passwordHash cr optionalPassword s passwordIterations of
                     Error e \<Rightarrow> (Throws e, st\<lparr>st_users := us[target := u\<lparr>salt := s\<rparr>]\<rparr>)
                   | Okay h \<Rightarrow> finish (u\<lparr>salt := s, su_hash := h\<rparr>)))"

definition remove_nth :: "nat \<Rightarrow> 'a list \<Rightarrow> 'a list" where
  "remove_nth n xs = take n xs @ drop (Suc n) xs"

definition deleteUser ::
  "AuthEnv \<Rightarrow> string \<Rightarrow> string \<Rightarrow> AuthStore \<Rightarrow> unit outcome \<times> AuthStore" where
  "deleteUser env i currentActorId st =
     (let us = st_users st in
      case find_idx (\<lambda>u. au_id (publicUser u) = i) us of
        None \<Rightarrow> (Refused UserNotFound, st)
      | Some target \<Rightarrow>
          if i = currentActorId then (Refused OwnAccount, st)
          else if au_role (publicUser (us ! target)) = ''admin'' \<and> admin_count us \<le> 1
          then (Refused SoleAdminDelete, st)
          else
            let st = st\<lparr>st_users := remove_nth target us,
                        st_sessions := filter (\<lambda>(_, s). ses_userId s \<noteq> i) (st_sessions st)\<rparr> in
            (case save env st of
               (Error e, st) \<Rightarrow> (Throws e, st)
             | (Okay _, st) \<Rightarrow>
                 (case saveSessions env st of
                    (Error e, st) \<Rightarrow> (Throws e, st)
                  | (Okay _, st) \<Rightarrow> (Done (), st))))"

definition importUser ::
  "Crypto \<Rightarrow> AuthEnv \<Rightarrow> string \<Rightarrow> string \<Rightarrow> string \<Rightarrow> string \<Rightarrow> string \<Rightarrow> AuthStore \<Rightarrow>
     AuthUser outcome \<times> AuthStore" where
  "importUser cr env i name rawEmail password role st =
     (let email = normalizeEmail rawEmail in
      if list_ex (\<lambda>u. au_id (publicUser u) = i \<or> au_email (publicUser u) = email) (st_users st) \<or>
         \<not> validUuid i \<or> length name < 2 \<or> length password < 12 \<or> CHR ''@'' \<notin> set email \<or>
         \<not> validRole role \<or> \<not> validField name \<or> \<not> validField email
      then (Refused Rejected, st)
      else store_new_user cr env
             \<lparr>au_id = i, au_name = name, au_email = email, au_role = role\<rparr> password st)"

definition userForToken ::
  "Crypto \<Rightarrow> AuthEnv \<Rightarrow> string \<Rightarrow> AuthStore \<Rightarrow> AuthUser outcome \<times> AuthStore" where
  "userForToken cr env token st =
     (if token = [] then (Refused Rejected, st)
      else
        let session_token_hash = sha256 cr token in
        case map_of (st_sessions st) session_token_hash of
          None \<Rightarrow> (Refused Rejected, st)
        | Some session \<Rightarrow>
            if ses_expiresAt session \<le> env_now env
            then (case saveSessions env
                    (st\<lparr>st_sessions := AList.delete session_token_hash (st_sessions st)\<rparr>) of
                    (Error e, st) \<Rightarrow> (Throws e, st)
                  | (Okay _, st) \<Rightarrow> (Refused Rejected, st))
            else (case find (\<lambda>u. au_id (publicUser u) = ses_userId session) (st_users st) of
                    None \<Rightarrow> (Refused Rejected, st)
                  | Some u \<Rightarrow> (Done (publicUser u), st)))"

definition logout :: "Crypto \<Rightarrow> AuthEnv \<Rightarrow> string \<Rightarrow> AuthStore \<Rightarrow> unit outcome \<times> AuthStore" where
  "logout cr env token st =
     (if token = [] then (Done (), st)
      else (case saveSessions env
              (st\<lparr>st_sessions := AList.delete (sha256 cr token) (st_sessions st)\<rparr>) of
              (Error e, st) \<Rightarrow> (Throws e, st)
            | (Okay _, st) \<Rightarrow> (Done (), st)))"

end
