(* ===== verification/Auth_Invariants.thy ===== *)
theory Auth_Invariants
  imports Auth_Store
begin

text \<open>
  The contract of the authentication store: every operation, whether it is done, refuses or
  throws, is a sequence of atomic effects on the store; the invariants are proved once for
  the effects and hold of every execution, restarts included.
\<close>

section \<open>Assumptions on the environment\<close>

text \<open>The documented sizes: SHA-256 and the PBKDF2 call deliver 32 bytes, \<open>RAND_bytes\<close> fills
  the buffer it is given.\<close>

definition crypto_sizes :: "Crypto \<Rightarrow> bool" where
  "crypto_sizes cr \<longleftrightarrow> (\<forall>m. length (SHA256 cr m) = 32) \<and>
     (\<forall>p s n out. PBKDF2 cr p s n = Some out \<longrightarrow> length out = 32)"

definition entropy_sizes :: "AuthEnv \<Rightarrow> bool" where
  "entropy_sizes env \<longleftrightarrow> (\<forall>b. uuid_entropy env = Some b \<longrightarrow> length b = 16) \<and>
     (\<forall>b. salt_entropy env = Some b \<longrightarrow> length b = 16) \<and>
     (\<forall>b. token_entropy env = Some b \<longrightarrow> length b = 32)"

section \<open>Well-formed users and stores\<close>

definition plain :: "string \<Rightarrow> bool" where
  "plain s \<longleftrightarrow> TAB \<notin> set s \<and> LF \<notin> set s"

definition user_wf :: "StoredUser \<Rightarrow> bool" where
  "user_wf u \<longleftrightarrow> au_id (publicUser u) \<noteq> [] \<and> su_hash u \<noteq> [] \<and>
     plain (au_id (publicUser u)) \<and> plain (salt u) \<and> plain (su_hash u) \<and>
     validField (au_name (publicUser u)) \<and> validField (au_email (publicUser u)) \<and>
     normalizeEmail (au_email (publicUser u)) = au_email (publicUser u) \<and>
     validRole (au_role (publicUser u))"

abbreviation ids :: "StoredUser list \<Rightarrow> string list" where
  "ids us \<equiv> map (\<lambda>u. au_id (publicUser u)) us"

abbreviation emails :: "StoredUser list \<Rightarrow> string list" where
  "emails us \<equiv> map (\<lambda>u. au_email (publicUser u)) us"

definition users_wf :: "StoredUser list \<Rightarrow> bool" where
  "users_wf us \<longleftrightarrow> distinct (ids us) \<and> distinct (emails us) \<and> list_all user_wf us"

definition users_text :: "StoredUser list \<Rightarrow> string" where
  "users_text us = concat (map (\<lambda>u. user_line u @ [LF]) us)"

definition sessions_text :: "(string \<times> Session) list \<Rightarrow> string" where
  "sessions_text ss = concat (map (\<lambda>e. session_line e @ [LF]) ss)"

definition sessions_wf :: "StoredUser list \<Rightarrow> (string \<times> Session) list \<Rightarrow> bool" where
  "sessions_wf us ss \<longleftrightarrow> distinct (map fst ss) \<and>
     (\<forall>(h, s) \<in> set ss. length h = 64 \<and> list_all lower_hex h \<and> ses_userId s \<in> set (ids us))"

definition auth_wf :: "AuthStore \<Rightarrow> bool" where
  "auth_wf st \<longleftrightarrow> users_wf (st_users st) \<and> sessions_wf (st_users st) (st_sessions st) \<and>
     (\<exists>us. users_wf us \<and> users_file st = users_text us)"

section \<open>Atomic effects\<close>

definition keeps_admin :: "StoredUser list \<Rightarrow> nat \<Rightarrow> bool" where
  "keeps_admin us t \<longleftrightarrow> au_role (publicUser (us ! t)) \<noteq> ''admin'' \<or> 1 < admin_count us"

inductive auth_effect :: "AuthStore \<Rightarrow> AuthStore \<Rightarrow> bool" where
  eff_add: "user_wf u \<Longrightarrow> au_id (publicUser u) \<notin> set (ids us) \<Longrightarrow>
    au_email (publicUser u) \<notin> set (emails us) \<Longrightarrow> us = st_users st \<Longrightarrow>
    auth_effect st (st\<lparr>st_users := us @ [u]\<rparr>)"
| eff_modify: "us = st_users st \<Longrightarrow> t < length us \<Longrightarrow> user_wf u \<Longrightarrow>
    au_id (publicUser u) = au_id (publicUser (us ! t)) \<Longrightarrow>
    (\<forall>j < length us. j \<noteq> t \<longrightarrow> au_email (publicUser (us ! j)) \<noteq> au_email (publicUser u)) \<Longrightarrow>
    au_role (publicUser u) = ''admin'' \<or> keeps_admin us t \<Longrightarrow>
    auth_effect st (st\<lparr>st_users := us[t := u]\<rparr>)"
| eff_remove: "us = st_users st \<Longrightarrow> t < length us \<Longrightarrow> keeps_admin us t \<Longrightarrow>
    auth_effect st (st\<lparr>st_users := remove_nth t us,
      st_sessions := filter (\<lambda>(_, s). ses_userId s \<noteq> au_id (publicUser (us ! t))) (st_sessions st)\<rparr>)"
| eff_session: "length h = 64 \<Longrightarrow> list_all lower_hex h \<Longrightarrow> ses_userId s \<in> set (ids (st_users st)) \<Longrightarrow>
    auth_effect st (st\<lparr>st_sessions := AList.update h s (st_sessions st)\<rparr>)"
| eff_drop: "auth_effect st (st\<lparr>st_sessions := AList.delete h (st_sessions st)\<rparr>)"
| eff_save: "auth_effect st (st\<lparr>users_file := users_text (st_users st)\<rparr>)"
| eff_save_sessions: "auth_effect st (st\<lparr>sessions_file := sessions_text (st_sessions st)\<rparr>)"

section \<open>The invariant\<close>

lemma distinct_remove_nth: "distinct (map f xs) \<Longrightarrow> distinct (map f (remove_nth t xs))"
proof (cases "t < length xs")
  case True
  assume "distinct (map f xs)"
  then have "distinct (map f (take t xs @ xs ! t # drop (Suc t) xs))"
    using id_take_nth_drop [OF True] by simp
  then show ?thesis by (auto simp: remove_nth_def)
qed (simp add: remove_nth_def)

lemma set_remove_nth: "set (remove_nth t xs) \<subseteq> set xs"
  by (auto simp: remove_nth_def dest: in_set_takeD in_set_dropD)

lemma remove_nth_others:
  "t < length xs \<Longrightarrow> x \<in> set xs \<Longrightarrow> x \<noteq> xs ! t \<Longrightarrow> x \<in> set (remove_nth t xs)"
proof -
  assume t: "t < length xs" and x: "x \<in> set xs" "x \<noteq> xs ! t"
  have "xs = take t xs @ xs ! t # drop (Suc t) xs" using t by (rule id_take_nth_drop)
  then have "set xs = insert (xs ! t) (set (remove_nth t xs))"
    unfolding remove_nth_def by (metis list.simps(15) set_append Un_insert_right)
  with x show ?thesis by blast
qed

lemma users_wf_add:
  "users_wf us \<Longrightarrow> user_wf u \<Longrightarrow> au_id (publicUser u) \<notin> set (ids us) \<Longrightarrow>
     au_email (publicUser u) \<notin> set (emails us) \<Longrightarrow> users_wf (us @ [u])"
  by (auto simp: users_wf_def)

lemma distinct_update_fresh:
  assumes "distinct (map f xs)" and "t < length xs"
    and "\<forall>j < length xs. j \<noteq> t \<longrightarrow> f (xs ! j) \<noteq> f u"
  shows "distinct (map f (xs[t := u]))"
proof -
  have "\<forall>j < length (map f xs). j \<noteq> t \<longrightarrow> map f xs ! j \<noteq> f u" using assms(3) by simp
  with assms(1,2) show ?thesis
    unfolding map_update distinct_conv_nth by (auto simp: nth_list_update) 
qed

lemma users_wf_modify:
  assumes "users_wf us" "t < length us" "user_wf u" "au_id (publicUser u) = au_id (publicUser (us ! t))"
    "\<forall>j < length us. j \<noteq> t \<longrightarrow> au_email (publicUser (us ! j)) \<noteq> au_email (publicUser u)"
  shows "users_wf (us[t := u])"
proof -
  have "ids (us[t := u]) = ids us" using assms(2,4) by (metis list_update_id map_update nth_map)
  moreover have "distinct (emails (us[t := u]))"
    using assms(1,2,5) by (intro distinct_update_fresh) (auto simp: users_wf_def)
  moreover have "list_all user_wf (us[t := u])"
    using assms(1,3) by (auto simp: users_wf_def list_all_iff dest!: set_update_subset_insert [THEN subsetD])
  ultimately show ?thesis using assms(1) by (simp add: users_wf_def)
qed

lemma users_wf_remove: "users_wf us \<Longrightarrow> users_wf (remove_nth t us)"
  using set_remove_nth [of t us] by (auto simp: users_wf_def list_all_iff distinct_remove_nth)

lemma sessions_wf_mono:
  "sessions_wf us ss \<Longrightarrow> set (ids us) \<subseteq> set (ids us') \<Longrightarrow> sessions_wf us' ss"
  unfolding sessions_wf_def by fast

lemma ids_remove_nth:
  assumes "t < length us" "i \<in> set (ids us)" "i \<noteq> au_id (publicUser (us ! t))"
  shows "i \<in> set (ids (remove_nth t us))"
  using assms remove_nth_others [OF assms(1)] by (auto simp: image_iff)

lemma sessions_wf_remove:
  assumes "sessions_wf us ss" "t < length us"
  shows "sessions_wf (remove_nth t us)
    (filter (\<lambda>(_, s). ses_userId s \<noteq> au_id (publicUser (us ! t))) ss)"
  using assms ids_remove_nth [OF assms(2)]
  by (fastforce simp: sessions_wf_def distinct_map_filter)

lemma set_update_sub: "set (AList.update k v al) \<subseteq> insert (k, v) (set al)"
  by (induction al) auto

lemma sessions_wf_update:
  assumes "sessions_wf us ss" "length h = 64" "list_all lower_hex h" "ses_userId s \<in> set (ids us)"
  shows "sessions_wf us (AList.update h s ss)"
  using assms set_update_sub [of h s ss]
  unfolding sessions_wf_def by (auto simp: distinct_update)

lemma sessions_wf_delete: "sessions_wf us ss \<Longrightarrow> sessions_wf us (AList.delete h ss)"
  unfolding sessions_wf_def AList.delete_eq by (auto simp: distinct_map_filter)

lemma auth_effect_wf: "auth_effect st st' \<Longrightarrow> auth_wf st \<Longrightarrow> auth_wf st'"
proof (induction rule: auth_effect.induct)
  case (eff_add u us st)
  then show ?case
    by (auto simp: auth_wf_def intro: users_wf_add elim!: sessions_wf_mono)
next
  case (eff_modify us st t u)
  then have "ids (us[t := u]) = ids us" by (metis list_update_id map_update nth_map)
  with eff_modify users_wf_modify [of us t u] show ?case
    by (auto simp: auth_wf_def elim!: sessions_wf_mono)
next
  case (eff_remove us st t)
  then show ?case
    by (auto simp: auth_wf_def intro: users_wf_remove sessions_wf_remove)
qed (auto simp: auth_wf_def intro: sessions_wf_update sessions_wf_delete)

text \<open>Once there is an administrator there always is one.\<close>

lemma admin_count_split:
  "t < length us \<Longrightarrow> admin_count us = admin_count (remove_nth t us) +
     (if au_role (publicUser (us ! t)) = ''admin'' then 1 else 0)"
proof -
  assume "t < length us"
  then have "us = take t us @ us ! t # drop (Suc t) us" by (rule id_take_nth_drop)
  then have "admin_count us = admin_count (take t us @ us ! t # drop (Suc t) us)" by simp
  then show ?thesis by (simp add: admin_count_def remove_nth_def)
qed

lemma remove_nth_update: "remove_nth t (us[t := u]) = remove_nth t us"
  by (simp add: remove_nth_def)

lemma auth_effect_admin:
  "auth_effect st st' \<Longrightarrow> 0 < admin_count (st_users st) \<Longrightarrow> 0 < admin_count (st_users st')"
proof (induction rule: auth_effect.induct)
  case (eff_modify us st t u)
  then show ?case
    using admin_count_split [of t us] admin_count_split [of t "us[t := u]"]
    by (auto simp: remove_nth_update keeps_admin_def split: if_splits)
next
  case (eff_remove us st t)
  then show ?case
    using admin_count_split [of t us] by (auto simp: keeps_admin_def split: if_splits)
qed (auto simp: admin_count_def)

section \<open>Generated values\<close>

lemma hex_plain [simp]: "plain (hexEncode b)"
  unfolding plain_def hexEncode_def by (auto dest!: hex_string_chars simp: isdigit_def)

lemma hexEncode_Nil [simp]: "hexEncode b = [] \<longleftrightarrow> b = []"
  unfolding hexEncode_def by (cases b) (simp_all add: hex_string_def hex_byte_def)

lemma plain_append [simp]: "plain (s @ t) \<longleftrightarrow> plain s \<and> plain t"
  by (auto simp: plain_def)

lemma plain_take_drop: "plain s \<Longrightarrow> plain (take n s) \<and> plain (drop n s)"
  by (auto simp: plain_def dest: in_set_takeD in_set_dropD)

lemma plain_dash [simp]: "plain (CHR ''-'' # s) \<longleftrightarrow> plain s"
  by (simp add: plain_def)

lemma plain_Nil [simp]: "plain []"
  by (simp add: plain_def)

lemma randomHex_okay: "randomHex e = Okay h \<longleftrightarrow> (\<exists>b. e = Some b \<and> h = hexEncode b)"
  by (auto simp: randomHex_def split: option.splits)

lemma randomUuid_plain:
  assumes "randomUuid e = Okay i"
  shows "plain i \<and> i \<noteq> []"
proof -
  obtain b where "i = uuid_groups (hexEncode b)"
    using assms by (auto simp: randomUuid_def Let_def split: option.splits)
  then show ?thesis by (simp add: uuid_groups_def plain_take_drop)
qed

lemma passwordHash_wf:
  assumes "crypto_sizes cr" "passwordHash cr p s n = Okay h"
  shows "plain h \<and> h \<noteq> []"
proof -
  obtain out where "PBKDF2 cr p (hexDecode s) n = Some out" "h = hexEncode out"
    using assms(2) by (auto simp: passwordHash_def Let_def split: if_splits option.splits)
  moreover have "length out = 32" using assms(1) calculation(1) by (auto simp: crypto_sizes_def)
  ultimately show ?thesis by auto
qed

lemma sha256_wf: "crypto_sizes cr \<Longrightarrow> length (sha256 cr m) = 64 \<and> list_all lower_hex (sha256 cr m)"
  by (auto simp: sha256_def hexEncode_def crypto_sizes_def list_all_iff lower_hex_def
      dest: hex_string_chars)

lemma normalizeEmail_idem [simp]: "normalizeEmail (normalizeEmail e) = normalizeEmail e"
  by (simp add: normalizeEmail_def trim_lowercase)

lemma uuid_lower_hex: "lower_hex c \<Longrightarrow> c \<noteq> TAB \<and> c \<noteq> LF"
  by (auto simp: lower_hex_def isdigit_def)

lemma validUuid_plain:
  assumes "validUuid i"
  shows "plain i \<and> i \<noteq> []"
proof -
  have len: "length i = length uuid_pattern" and at: "\<forall>k < length i. (uuid_pattern ! k) (i ! k)"
    using assms unfolding validUuid_def by (auto simp: list_all2_conv_all_nth)
  have "\<forall>p \<in> set uuid_pattern. \<forall>c. p c \<longrightarrow> c \<noteq> TAB \<and> c \<noteq> LF"
    by (auto simp: uuid_pattern_def dest: uuid_lower_hex)
  then have "c \<noteq> TAB \<and> c \<noteq> LF" if "c \<in> set i" for c
    using that at len by (metis in_set_conv_nth nth_mem)
  moreover have "i \<noteq> []" using len by (auto simp: uuid_pattern_def)
  ultimately show ?thesis by (auto simp: plain_def)
qed

section \<open>Every operation is a sequence of effects\<close>

abbreviation effects :: "AuthStore \<Rightarrow> AuthStore \<Rightarrow> bool" where
  "effects \<equiv> auth_effect\<^sup>*\<^sup>*"

lemma effect_then: "auth_effect st st1 \<Longrightarrow> effects st1 st2 \<Longrightarrow> effects st st2"
  by (rule converse_rtranclp_into_rtranclp)

lemma save_effects: "save env st = (r, st') \<Longrightarrow> effects st st'"
  unfolding save_def users_text_def [symmetric]
  by (auto split: if_splits intro: r_into_rtranclp eff_save)

lemma save_snd_effects: "snd (save env st) = st' \<Longrightarrow> effects st st'"
  by (cases "save env st") (auto intro: save_effects)

lemma saveSessions_effects: "saveSessions env st = (r, st') \<Longrightarrow> effects st st'"
  unfolding saveSessions_def sessions_text_def [symmetric]
  by (auto split: if_splits intro: r_into_rtranclp eff_save_sessions)

lemma store_new_user_effects:
  assumes cr: "crypto_sizes cr" and op: "store_new_user cr env u password st = (r, st')"
    and u: "plain (au_id u)" "au_id u \<noteq> []" "validField (au_name u)" "validField (au_email u)"
      "normalizeEmail (au_email u) = au_email u" "validRole (au_role u)"
    and fresh: "au_id u \<notin> set (ids (st_users st))" "au_email u \<notin> set (emails (st_users st))"
  shows "effects st st'"
proof (cases "\<exists>s h. randomHex (salt_entropy env) = Okay s \<and> passwordHash cr password s passwordIterations = Okay h")
  case True
  then obtain s h where s: "randomHex (salt_entropy env) = Okay s"
    and h: "passwordHash cr password s passwordIterations = Okay h" by blast
  let ?u = "\<lparr>publicUser = u, salt = s, su_hash = h\<rparr>"
  have "user_wf ?u"
    using u s passwordHash_wf [OF cr h] by (auto simp: user_wf_def randomHex_okay)
  then have "auth_effect st (st\<lparr>st_users := st_users st @ [?u]\<rparr>)"
    using fresh by (intro eff_add) auto
  moreover have "effects (st\<lparr>st_users := st_users st @ [?u]\<rparr>) st'"
    using op s h by (auto simp: store_new_user_def Let_def split: prod.splits sum.splits intro: save_effects)
  ultimately show ?thesis by (rule effect_then)
next
  case False
  with op have "st' = st" by (auto simp: store_new_user_def split: sum.splits)
  then show ?thesis by simp
qed

lemma fresh_emails: "\<not> list_ex (\<lambda>u. au_email (publicUser u) = e) us \<Longrightarrow> e \<notin> set (emails us)"
  by (auto simp: list_ex_iff)

lemma bootstrap_effects:
  assumes "crypto_sizes cr" "bootstrapAdminUnlocked cr env name e password st = (r, st')"
  shows "effects st st'"
  using assms
  by (auto simp: bootstrapAdminUnlocked_def Let_def validRole_def dest: randomUuid_plain
      split: if_splits sum.splits elim!: store_new_user_effects)

lemma createUser_effects:
  assumes cr: "crypto_sizes cr" and op: "createUser cr env name e password role st = (r, st')"
    and "\<And>i. randomUuid (uuid_entropy env) = Okay i \<Longrightarrow> i \<notin> set (ids (st_users st))"
  shows "effects st st'"
proof (cases "st' = st")
  case False
  let ?us = "st_users st"
  from False op obtain i where i: "randomUuid (uuid_entropy env) = Okay i"
    and ok: "\<not> list_ex (\<lambda>u. au_email (publicUser u) = normalizeEmail e) ?us" "validField (trim name)"
      "validField (normalizeEmail e)" "validRole role"
    and s: "store_new_user cr env \<lparr>au_id = i, au_name = trim name, au_email = normalizeEmail e,
      au_role = role\<rparr> password st = (r, st')"
    by (simp add: createUser_def Let_def split: if_split_asm sum.split_asm)
  show ?thesis
    by (rule store_new_user_effects [OF cr s])
      (use ok randomUuid_plain [OF i] assms(3) [OF i] fresh_emails [OF ok(1)] in simp_all)
qed simp

lemma importUser_effects:
  assumes cr: "crypto_sizes cr" and op: "importUser cr env i name e password role st = (r, st')"
  shows "effects st st'"
proof (cases "st' = st")
  case False
  let ?us = "st_users st"
  from False op
  have ok: "\<not> list_ex (\<lambda>u. au_id (publicUser u) = i \<or> au_email (publicUser u) = normalizeEmail e) ?us"
      "validUuid i" "validField name" "validField (normalizeEmail e)" "validRole role"
    and s: "store_new_user cr env \<lparr>au_id = i, au_name = name, au_email = normalizeEmail e,
      au_role = role\<rparr> password st = (r, st')"
    by (simp_all add: importUser_def Let_def split: if_split_asm)
  have "i \<notin> set (ids ?us)" "normalizeEmail e \<notin> set (emails ?us)"
    using ok(1) by (auto simp: list_ex_iff)
  then show ?thesis
    by (intro store_new_user_effects [OF cr s]) (use ok validUuid_plain [OF ok(2)] in simp_all)
qed simp

lemma createSession_effects:
  assumes "crypto_sizes cr" "createSession cr env u st = (r, st')" "u \<in> set (st_users st)"
  shows "effects st st'"
proof (cases "randomHex (token_entropy env)")
  case (Inl e)
  with assms(2) show ?thesis by (simp add: createSession_def)
next
  case (Inr token)
  let ?s = "\<lparr>ses_userId = au_id (publicUser u), ses_expiresAt = env_now env + sessionLifetime\<rparr>"
  have "auth_effect st (st\<lparr>st_sessions := AList.update (sha256 cr token) ?s (st_sessions st)\<rparr>)"
    using sha256_wf [OF assms(1)] assms(3) by (intro eff_session) auto
  moreover have "effects (st\<lparr>st_sessions := AList.update (sha256 cr token) ?s (st_sessions st)\<rparr>) st'"
    using assms(2) Inr
    by (auto simp: createSession_def Let_def split: prod.splits sum.splits intro: saveSessions_effects)
  ultimately show ?thesis by (rule effect_then)
qed

lemma login_effects:
  assumes "crypto_sizes cr" "login cr env e password st = (r, st')"
  shows "effects st st'"
  using assms(2)
  by (auto simp: login_def Let_def find_Some_iff split: sum.splits option.splits if_splits
      elim!: createSession_effects [OF assms(1)])

lemma store_new_user_done:
  "store_new_user cr env u password st = (Done v, st') \<Longrightarrow>
     v = u \<and> (\<exists>s h. st_users st' = st_users st @ [\<lparr>publicUser = u, salt = s, su_hash = h\<rparr>]) \<and>
     st_sessions st' = st_sessions st \<and> users_file st' = users_text (st_users st')"
  by (auto simp: store_new_user_def Let_def save_def users_text_def split: sum.splits if_splits)

lemma bootstrap_done_ne:
  "bootstrapAdminUnlocked cr env name e password st = (Done v, st') \<Longrightarrow> st_users st' \<noteq> []"
  by (auto simp: bootstrapAdminUnlocked_def Let_def dest!: store_new_user_done
      split: if_splits sum.splits)

lemma registerAdmin_effects:
  assumes cr: "crypto_sizes cr" and op: "registerAdmin cr env name e password st = (r, st')"
  shows "effects st st'"
proof (cases "bootstrapAdminUnlocked cr env name e password st")
  case (Pair b st1)
  from bootstrap_effects [OF cr Pair] have first: "effects st st1" .
  show ?thesis
  proof (cases b)
    case (Done v)
    then have "last (st_users st1) \<in> set (st_users st1)"
      using bootstrap_done_ne Pair by fastforce
    moreover have "createSession cr env (last (st_users st1)) st1 = (r, st')"
      using op Pair Done by (simp add: registerAdmin_def)
    ultimately have "effects st1 st'" by (intro createSession_effects [OF cr])
    with first show ?thesis by (rule rtranclp_trans)
  qed (use op Pair first in \<open>simp_all add: registerAdmin_def\<close>)
qed

lemma target_found:
  assumes "find_idx (\<lambda>u. au_id (publicUser u) = i) us = Some t" and "distinct (ids us)"
  shows "t < length us" and "au_id (publicUser (us ! t)) = i"
    and "\<And>j. j < length us \<Longrightarrow> j \<noteq> t \<Longrightarrow> au_id (publicUser (us ! j)) \<noteq> i"
proof -
  show t: "t < length us" and i: "au_id (publicUser (us ! t)) = i"
    using assms(1) by (auto simp: find_idx_Some)
  fix j
  assume "j < length us" "j \<noteq> t"
  with t i assms(2) show "au_id (publicUser (us ! j)) \<noteq> i"
    by (auto simp: distinct_conv_nth)
qed

lemma updateUser_effects:
  assumes cr: "crypto_sizes cr" and wf: "users_wf (st_users st)"
    and op: "updateUser cr env i name e role pw st = (r, st')"
  shows "effects st st'"
proof (cases "st' = st")
  case False
  let ?us = "st_users st" and ?e = "normalizeEmail e"
  from op False obtain t where t: "find_idx (\<lambda>u. au_id (publicUser u) = i) ?us = Some t"
    by (cases "find_idx (\<lambda>u. au_id (publicUser u) = i) ?us") (auto simp: updateUser_def Let_def)
  have d: "distinct (ids ?us)" using wf by (simp add: users_wf_def)
  note tf = target_found [OF t d]
  let ?u = "?us ! t"
  let ?pu = "\<lparr>au_id = au_id (publicUser ?u), au_name = trim name, au_email = ?e, au_role = role\<rparr>"
  have u: "user_wf ?u" using wf tf(1) by (simp add: users_wf_def list_all_length)
  from op False t have ok: "\<not> list_ex (\<lambda>u. au_id (publicUser u) \<noteq> i \<and> au_email (publicUser u) = ?e) ?us"
      "validField (trim name)" "validField ?e" "validRole role"
      "\<not> (au_role (publicUser ?u) = ''admin'' \<and> role \<noteq> ''admin'' \<and> admin_count ?us \<le> 1)"
    by (simp_all add: updateUser_def Let_def split: if_split_asm)
  have others: "\<forall>j < length ?us. j \<noteq> t \<longrightarrow> au_email (publicUser (?us ! j)) \<noteq> ?e"
    using ok(1) tf(3) unfolding list_ex_iff by (meson nth_mem)
  have adm: "role = ''admin'' \<or> keeps_admin ?us t" using ok(5) by (auto simp: keeps_admin_def)
  have modify: "auth_effect st (st\<lparr>st_users := ?us[t := v\<lparr>publicUser := ?pu\<rparr>]\<rparr>)"
    if "user_wf (v\<lparr>publicUser := ?pu\<rparr>)" for v :: StoredUser
    by (rule eff_modify) (use that others adm tf(1) in simp_all)
  have pu: "user_wf (v\<lparr>publicUser := ?pu\<rparr>)"
    if "plain (salt v)" "plain (su_hash v)" "su_hash v \<noteq> []" for v :: StoredUser
    using that ok(2-4) u by (simp add: user_wf_def)
  consider (keep) "snd (save env (st\<lparr>st_users := ?us[t := ?u\<lparr>publicUser := ?pu\<rparr>]\<rparr>)) = st'"
    | (salted) s where "randomHex (salt_entropy env) = Okay s" "st' = st\<lparr>st_users := ?us[t := ?u\<lparr>salt := s\<rparr>]\<rparr>"
    | (rehashed) s h where "randomHex (salt_entropy env) = Okay s" "passwordHash cr pw s passwordIterations = Okay h"
      "snd (save env (st\<lparr>st_users := ?us[t := ?u\<lparr>salt := s, su_hash := h\<rparr>\<lparr>publicUser := ?pu\<rparr>]\<rparr>)) = st'"
    using op False t by (auto simp: updateUser_def Let_def split: if_split_asm sum.split_asm prod.split_asm)
  then show ?thesis
  proof cases
    case keep
    have "plain (salt ?u)" "plain (su_hash ?u)" "su_hash ?u \<noteq> []" using u by (simp_all add: user_wf_def)
    from effect_then [OF modify [OF pu [OF this]] save_snd_effects [OF keep]] show ?thesis .
  next
    case (salted s)
    then have "user_wf (?u\<lparr>salt := s\<rparr>)" using u by (auto simp: user_wf_def randomHex_okay)
    moreover have "\<forall>j < length ?us. j \<noteq> t \<longrightarrow> au_email (publicUser (?us ! j)) \<noteq> au_email (publicUser ?u)"
      using wf tf(1) by (auto simp: users_wf_def distinct_conv_nth)
    moreover have "au_role (publicUser (?u\<lparr>salt := s\<rparr>)) = ''admin'' \<or> keeps_admin ?us t"
      by (auto simp: keeps_admin_def)
    ultimately have "auth_effect st (st\<lparr>st_users := ?us[t := ?u\<lparr>salt := s\<rparr>]\<rparr>)"
      by (intro eff_modify [OF refl tf(1)]) simp_all
    then show ?thesis unfolding salted(2) by (rule r_into_rtranclp)
  next
    case (rehashed s h)
    have "plain s" using rehashed(1) by (auto simp: randomHex_okay)
    then have "user_wf (?u\<lparr>salt := s, su_hash := h\<rparr>\<lparr>publicUser := ?pu\<rparr>)"
      using passwordHash_wf [OF cr rehashed(2)] by (intro pu) simp_all
    note first = modify [OF this]
    show ?thesis
      by (rule effect_then [OF first]) (rule save_snd_effects [OF rehashed(3)])
  qed
qed simp

lemma deleteUser_effects:
  assumes wf: "users_wf (st_users st)" and op: "deleteUser env i actor st = (r, st')"
  shows "effects st st'"
proof (cases "st' = st")
  case False
  let ?us = "st_users st"
  from op False obtain t where t: "find_idx (\<lambda>u. au_id (publicUser u) = i) ?us = Some t"
    by (cases "find_idx (\<lambda>u. au_id (publicUser u) = i) ?us") (auto simp: deleteUser_def Let_def)
  have d: "distinct (ids ?us)" using wf by (simp add: users_wf_def)
  note tf = target_found [OF t d]
  let ?st1 = "st\<lparr>st_users := remove_nth t ?us,
      st_sessions := filter (\<lambda>(_, s). ses_userId s \<noteq> i) (st_sessions st)\<rparr>"
  have "keeps_admin ?us t" using op False t
    by (auto simp: deleteUser_def Let_def keeps_admin_def split: if_split_asm)
  then have "auth_effect st ?st1" using eff_remove [OF refl tf(1)] tf(2) by simp
  moreover obtain r1 st2 where s1: "save env ?st1 = (r1, st2)" by fastforce
  moreover have "effects st2 st'"
    using op False t s1 
    by (auto simp: deleteUser_def Let_def split: if_split_asm sum.split_asm prod.split_asm
        intro: saveSessions_effects)
  ultimately show ?thesis
    using effect_then save_effects [OF s1] rtranclp_trans by metis
qed simp

lemma drop_session_effects:
  "saveSessions env (st\<lparr>st_sessions := AList.delete h (st_sessions st)\<rparr>) = (r, st') \<Longrightarrow> effects st st'"
  by (rule effect_then [OF eff_drop]) (rule saveSessions_effects)

lemma userForToken_effects: "userForToken cr env token st = (r, st') \<Longrightarrow> effects st st'"
  by (auto simp: userForToken_def Let_def intro: drop_session_effects
      split: if_split_asm option.split_asm sum.split_asm prod.split_asm)

lemma logout_effects: "logout cr env token st = (r, st') \<Longrightarrow> effects st st'"
  by (auto simp: logout_def intro: drop_session_effects
      split: if_split_asm sum.split_asm prod.split_asm)

section \<open>The users file\<close>

lemma user_line_fields:
  assumes "user_wf u"
  shows "load_line (user_line u) = [u]" and "LF \<notin> set (user_line u)"
proof -
  let ?p = "publicUser u"
  let ?fs = "[au_id ?p, au_name ?p, au_email ?p, au_role ?p, salt u, su_hash u]"
  have role: "plain (au_role ?p)"
    using assms by (auto simp: user_wf_def validRole_def plain_def)
  have line: "user_line u = join_with TAB ?fs" by (simp add: user_line_def)
  have tabs: "\<forall>f \<in> set ?fs. TAB \<notin> set f" and "\<forall>f \<in> set ?fs. LF \<notin> set f"
    using assms role by (auto simp: user_wf_def plain_def validField_def)
  then show "LF \<notin> set (user_line u)" by (simp add: line)
  have "getlines TAB (user_line u) = ?fs"
    unfolding line by (rule getlines_join) (use tabs assms in \<open>simp_all add: user_wf_def\<close>)
  moreover have "user_line u \<noteq> []" by (simp add: user_line_def)
  ultimately show "load_line (user_line u) = [u]"
    using assms by (simp add: load_line_def user_wf_def)
qed

lemma load_users_text:
  assumes "list_all user_wf us"
  shows "concat (map load_line (getlines LF (users_text us))) = us"
proof -
  have t: "users_text us = concat (map (\<lambda>l. l @ [LF]) (map user_line us))"
    by (simp add: users_text_def comp_def)
  have "getlines LF (users_text us) = map user_line us"
    unfolding t by (rule getlines_concat) (use assms user_line_fields(2) in \<open>auto simp: list_all_iff\<close>)
  moreover have "concat (map load_line (map user_line us)) = us"
    using assms by (induction us) (simp_all add: user_line_fields(1))
  ultimately show ?thesis by simp
qed

section \<open>The sessions file\<close>

lemma load_session_line_wf:
  "load_session_line us now line = Some (h, s) \<Longrightarrow>
     length h = 64 \<and> list_all lower_hex h \<and> ses_userId s \<in> set (ids us) \<and> now < ses_expiresAt s"
  by (auto simp: load_session_line_def Let_def list_ex_iff
      split: option.split_asm prod.split_asm if_split_asm list.split_asm)

lemma loadSessions_wf:
  assumes "sessions_wf us ss"
  shows "sessions_wf us (fold (\<lambda>line ss. case load_session_line us now line of
      None \<Rightarrow> ss | Some (h, s) \<Rightarrow> AList.update h s ss) lines ss)"
  using assms
proof (induction lines arbitrary: ss)
  case (Cons line lines)
  have "sessions_wf us (case load_session_line us now line of
      None \<Rightarrow> ss | Some (h, s) \<Rightarrow> AList.update h s ss)"
    using Cons.prems load_session_line_wf [of us now line]
    by (auto split: option.split intro: sessions_wf_update)
  then show ?case using Cons.IH by simp
qed simp

lemma restart_wf:
  assumes "auth_wf st"
  shows "auth_wf (AuthStore_open env (users_file st) (sessions_file st))"
proof -
  obtain us where us: "users_wf us" "users_file st = users_text us"
    using assms by (auto simp: auth_wf_def)
  have "sessions_wf us []" by (simp add: sessions_wf_def)
  then show ?thesis
    using us load_users_text [of us] loadSessions_wf [of us "[]"]
    by (auto simp: auth_wf_def AuthStore_open_def load_def loadSessions_def users_wf_def)
qed

section \<open>Executions\<close>

text \<open>One call of a public operation.  A generated user id is new: \<open>randomUuid\<close> has 122
  random bits and the code relies on it.\<close>

definition fresh_uuid :: "AuthEnv \<Rightarrow> AuthStore \<Rightarrow> bool" where
  "fresh_uuid env st \<longleftrightarrow>
     (\<forall>i. randomUuid (uuid_entropy env) = Okay i \<longrightarrow> i \<notin> set (ids (st_users st)))"

inductive auth_call :: "Crypto \<Rightarrow> AuthStore \<Rightarrow> AuthStore \<Rightarrow> bool" for cr :: Crypto where
  call_bootstrap: "auth_call cr st (snd (bootstrapAdmin cr env n e p st))"
| call_register: "auth_call cr st (snd (registerAdmin cr env n e p st))"
| call_login: "auth_call cr st (snd (login cr env e p st))"
| call_create: "fresh_uuid env st \<Longrightarrow> auth_call cr st (snd (createUser cr env n e p r st))"
| call_update: "auth_call cr st (snd (updateUser cr env i n e r p st))"
| call_delete: "auth_call cr st (snd (deleteUser env i a st))"
| call_import: "auth_call cr st (snd (importUser cr env i n e p r st))"
| call_token: "auth_call cr st (snd (userForToken cr env t st))"
| call_logout: "auth_call cr st (snd (logout cr env t st))"

text \<open>An execution of the store: calls, and restarts that read the files again.\<close>

inductive auth_step :: "Crypto \<Rightarrow> AuthStore \<Rightarrow> AuthStore \<Rightarrow> bool" for cr :: Crypto where
  step_call: "auth_call cr st st' \<Longrightarrow> auth_step cr st st'"
| step_restart: "auth_step cr st (AuthStore_open env (users_file st) (sessions_file st))"

definition auth_start :: "AuthStore \<Rightarrow> bool" where
  "auth_start st \<longleftrightarrow> st = \<lparr>st_users = [], st_sessions = [], users_file = [], sessions_file = []\<rparr>"

lemma auth_call_effects:
  assumes "crypto_sizes cr" "auth_wf st" "auth_call cr st st'"
  shows "effects st st'"
  using assms(3)
proof cases
  case (call_create env n e p r)
  then have "createUser cr env n e p r st = (fst (createUser cr env n e p r st), st')" by simp
  then show ?thesis
    by (rule createUser_effects [OF assms(1)]) (use call_create(2) in \<open>auto simp: fresh_uuid_def\<close>)
next
  case call_update
  then show ?thesis using updateUser_effects [OF assms(1)] assms(2) by (metis auth_wf_def prod.collapse)
next
  case call_delete
  then show ?thesis using deleteUser_effects assms(2) by (metis auth_wf_def prod.collapse)
qed (use assms(1) bootstrap_effects registerAdmin_effects login_effects importUser_effects
    userForToken_effects logout_effects in \<open>metis bootstrapAdmin_def prod.collapse\<close>)+

lemma effects_wf: "effects st st' \<Longrightarrow> auth_wf st \<Longrightarrow> auth_wf st'"
  by (induction rule: rtranclp_induct) (auto intro: auth_effect_wf)

lemma effects_admin:
  "effects st st' \<Longrightarrow> 0 < admin_count (st_users st) \<Longrightarrow> 0 < admin_count (st_users st')"
  by (induction rule: rtranclp_induct) (auto intro: auth_effect_admin)

lemma auth_step_wf: "crypto_sizes cr \<Longrightarrow> auth_wf st \<Longrightarrow> auth_step cr st st' \<Longrightarrow> auth_wf st'"
  by (erule auth_step.cases) (auto intro: restart_wf effects_wf auth_call_effects)

lemma auth_start_wf: "auth_start st \<Longrightarrow> auth_wf st"
proof -
  have "users_wf []" "[] = users_text []" by (simp_all add: users_wf_def users_text_def)
  then show "auth_start st \<Longrightarrow> auth_wf st"
    unfolding auth_wf_def auth_start_def by (auto simp: sessions_wf_def)
qed

text \<open>The execution contract, for a cryptographic library with the documented sizes.\<close>

interpretation auth_system: invariant_system auth_start
  "\<lambda>st st'. crypto_sizes cr \<and> auth_step cr st st'" auth_wf
  for cr :: Crypto
  by unfold_locales (auto intro: auth_start_wf auth_step_wf)

lemma auth_reach_wf:
  assumes "crypto_sizes cr" "reach auth_start (auth_step cr) st"
  shows "auth_wf st"
proof (rule auth_system.reach_inv)
  show "reach auth_start (\<lambda>st st'. crypto_sizes cr \<and> auth_step cr st st') st"
    using assms by simp
qed

end
