(* ===== verification/Auth_Properties.thy ===== *)
theory Auth_Properties
  imports Auth_Invariants "HOL-Library.Code_Target_Numeral"
begin

text \<open>
  What the authentication store promises to the daemon: consistency of every reachable
  store, the last administrator, the life of a session, deletion, durability of users and
  sessions across restarts, and the shape of generated identifiers.
\<close>

section \<open>Sessions\<close>

lemma find_SomeD: "find P xs = Some x \<Longrightarrow> x \<in> set xs \<and> P x"
  by (auto simp: find_Some_iff)

lemma find_distinct_id:
  assumes "distinct (ids us)" "u \<in> set us"
  shows "find (\<lambda>v. au_id (publicUser v) = au_id (publicUser u)) us = Some u"
  using assms
proof (induction us)
  case (Cons v us)
  then show ?case by (auto simp: image_iff)
qed simp

lemma createSession_done:
  assumes "createSession cr env u st = (Done res, st')"
  obtains b where "token_entropy env = Some b" "ar_token res = hexEncode b" "ar_user res = publicUser u"
    and "st_users st' = st_users st" and "users_file st' = users_file st"
    and "st_sessions st' = AList.update (sha256 cr (ar_token res))
      \<lparr>ses_userId = au_id (publicUser u), ses_expiresAt = env_now env + sessionLifetime\<rparr> (st_sessions st)"
    and "sessions_file st' = sessions_text (st_sessions st')"
  using assms
  by (auto simp: createSession_def Let_def saveSessions_def sessions_text_def randomHex_def
      split: option.split_asm if_split_asm)

lemma login_done:
  assumes "login cr env e p st = (Done res, st')"
  obtains u where "u \<in> set (st_users st)" "au_email (publicUser u) = normalizeEmail e"
    and "passwordHash cr p (salt u) passwordIterations = Okay (su_hash u)"
    and "createSession cr env u st = (Done res, st')"
  using assms
  by (auto simp: login_def Let_def dest!: find_SomeD split: sum.split_asm option.split_asm if_split_asm)

lemma userForToken_live:
  assumes "distinct (ids (st_users st))" "u \<in> set (st_users st)" "token \<noteq> []"
    and "map_of (st_sessions st) (sha256 cr token) = Some s" "ses_userId s = au_id (publicUser u)"
    and "env_now env < ses_expiresAt s"
  shows "userForToken cr env token st = (Done (publicUser u), st)"
  using assms find_distinct_id [OF assms(1,2)] by (simp add: userForToken_def)

lemma userForToken_expired:
  assumes "map_of (st_sessions st) (sha256 cr token) = Some s" "ses_expiresAt s \<le> env_now env"
  shows "\<nexists>u. fst (userForToken cr env token st) = Done u"
  using assms by (auto simp: userForToken_def Let_def split: prod.split sum.split)

lemma userForToken_done:
  "fst (userForToken cr env token st) = Done v \<Longrightarrow>
     \<exists>u s. u \<in> set (st_users st) \<and> v = publicUser u \<and>
       map_of (st_sessions st) (sha256 cr token) = Some s \<and> ses_userId s = au_id v \<and>
       env_now env < ses_expiresAt s"
  by (auto simp: userForToken_def Let_def dest!: find_SomeD
      split: if_split_asm option.split_asm sum.split_asm prod.split_asm)

section \<open>Deletion and durability\<close>

lemma remove_nth_filter:
  assumes "distinct (map f xs)" "t < length xs"
  shows "remove_nth t xs = filter (\<lambda>x. f x \<noteq> f (xs ! t)) xs"
proof -
  have split: "xs = take t xs @ xs ! t # drop (Suc t) xs" using assms(2) by (rule id_take_nth_drop)
  then have "distinct (map f (take t xs @ xs ! t # drop (Suc t) xs))" using assms(1) by simp
  then have "f (xs ! t) \<notin> f ` set (take t xs)" "f (xs ! t) \<notin> f ` set (drop (Suc t) xs)" by auto
  then have "filter (\<lambda>x. f x \<noteq> f (xs ! t)) (take t xs) = take t xs"
    "filter (\<lambda>x. f x \<noteq> f (xs ! t)) (drop (Suc t) xs) = drop (Suc t) xs"
    by (simp_all only: filter_id_conv) (auto simp: image_iff)
  then have "filter (\<lambda>x. f x \<noteq> f (xs ! t)) (take t xs @ xs ! t # drop (Suc t) xs) = remove_nth t xs"
    by (simp add: remove_nth_def)
  with split show ?thesis by simp
qed

lemma deleteUser_done:
  assumes "users_wf (st_users st)" "deleteUser env i a st = (Done x, st')"
  shows "i \<noteq> a \<and> i \<in> set (ids (st_users st)) \<and>
    st_users st' = filter (\<lambda>u. au_id (publicUser u) \<noteq> i) (st_users st) \<and>
    st_sessions st' = filter (\<lambda>(_, s). ses_userId s \<noteq> i) (st_sessions st) \<and>
    users_file st' = users_text (st_users st') \<and> sessions_file st' = sessions_text (st_sessions st')"
proof -
  let ?us = "st_users st"
  obtain t where t: "find_idx (\<lambda>u. au_id (publicUser u) = i) ?us = Some t"
    using assms(2) by (cases "find_idx (\<lambda>u. au_id (publicUser u) = i) ?us")
      (auto simp: deleteUser_def Let_def)
  have d: "distinct (ids ?us)" using assms(1) by (simp add: users_wf_def)
  note tf = target_found [OF t d]
  have "i \<in> set (ids ?us)" using tf(1,2) by (metis length_map nth_map nth_mem)
  moreover have "remove_nth t ?us = filter (\<lambda>u. au_id (publicUser u) \<noteq> i) ?us"
    using remove_nth_filter [OF d tf(1)] tf(2) by simp
  ultimately show ?thesis
    using assms(2) t
    by (simp add: deleteUser_def Let_def save_def saveSessions_def users_text_def sessions_text_def
        split: if_split_asm) auto
qed

lemma restart_users:
  assumes "users_wf us" "users_file st = users_text us"
  shows "st_users (AuthStore_open env (users_file st) sfile) = us"
  using assms load_users_text [of us] by (simp add: AuthStore_open_def load_def loadSessions_def users_wf_def)

section \<open>Sessions across a restart\<close>

lemma getline1_piece: "d \<notin> set p \<Longrightarrow> getline1 d (p @ d # s) = Some (p, s)"
  by (simp add: getline1_def)

lemma getline1_last: "d \<notin> set p \<Longrightarrow> p \<noteq> [] \<Longrightarrow> getline1 d p = Some (p, [])"
  by (auto simp: getline1_def takeWhile_eq_all_conv)

lemma show_int_chars: "c \<in> set (show_int v) \<Longrightarrow> isdigit c \<or> c = CHR ''-''"
  by (auto simp: show_int_def split: if_splits)

lemma show_int_plain [simp]: "plain (show_int v)" "show_int v \<noteq> []"
proof -
  show "plain (show_int v)"
    unfolding plain_def by (auto dest!: show_int_chars simp: isdigit_def)
  show "show_int v \<noteq> []"
    by (cases "v < 0") (simp_all add: show_int_def)
qed

lemma lower_hex_no_tab: "list_all lower_hex h \<Longrightarrow> plain h"
  by (auto simp: plain_def list_all_iff dest: uuid_lower_hex)

definition entry_ok :: "string \<times> Session \<Rightarrow> bool" where
  "entry_ok e \<longleftrightarrow> length (fst e) = 64 \<and> list_all lower_hex (fst e) \<and> plain (ses_userId (snd e))"

lemma session_line_fields:
  assumes "entry_ok (h, s)"
  shows "getline1 TAB (session_line (h, s)) =
      Some (h, ses_userId s @ TAB # show_int (ses_expiresAt s sdiv 1000000000))"
    and "getline1 TAB (ses_userId s @ TAB # show_int (ses_expiresAt s sdiv 1000000000)) =
      Some (ses_userId s, show_int (ses_expiresAt s sdiv 1000000000))"
    and "LF \<notin> set (session_line (h, s))"
  using assms lower_hex_no_tab [of h] show_int_plain(1) [of "ses_expiresAt s sdiv 1000000000"]
  by (auto simp: session_line_def entry_ok_def plain_def intro: getline1_piece)

lemma load_session_key:
  assumes "entry_ok e" "load_session_line us now (session_line e) = Some (h', s')"
  shows "h' = fst e"
  using assms session_line_fields [of "fst e" "snd e"]
  by (cases e) (auto simp: load_session_line_def Let_def
      split: option.split_asm prod.split_asm if_split_asm list.split_asm)

lemma load_session_entry:
  assumes "entry_ok (h, s)" "ses_userId s \<in> set (ids us)"
    and v: "v = ses_expiresAt s sdiv 1000000000" "0 \<le> v" "v \<le> int64_max" "now < v * 1000000000"
  shows "load_session_line us now (session_line (h, s)) =
    Some (h, \<lparr>ses_userId = ses_userId s, ses_expiresAt = v * 1000000000\<rparr>)"
proof -
  have num: "getline1 LF (show_int v) = Some (show_int v, [])"
    using show_int_plain [of v] by (intro getline1_last) (auto simp: plain_def)
  have "from_chars int64_min int64_max (show_int v) = Some (v, [])"
    using from_chars_show_nat [of "nat v" int64_max int64_min "[]"] v(2,3) by (simp add: show_int_def)
  moreover have "list_ex (\<lambda>u. au_id (publicUser u) = ses_userId s) us"
    using assms(2) by (auto simp: list_ex_iff)
  moreover note session_line_fields(1,2) [OF assms(1), folded v(1)]
  ultimately show ?thesis
    using assms(1) v(4) num by (simp add: load_session_line_def entry_ok_def)
qed

abbreviation add_loaded :: "StoredUser list \<Rightarrow> int \<Rightarrow> string \<Rightarrow> (string \<times> Session) list \<Rightarrow> (string \<times> Session) list" where
  "add_loaded us now line ss \<equiv> (case load_session_line us now line of
     None \<Rightarrow> ss | Some (h, s) \<Rightarrow> AList.update h s ss)"

lemma fold_loaded_other:
  assumes "\<forall>e \<in> set es. entry_ok e \<and> fst e \<noteq> h"
  shows "map_of (fold (add_loaded us now) (map session_line es) ss) h = map_of ss h"
  using assms
proof (induction es arbitrary: ss)
  case (Cons e es)
  have "map_of (add_loaded us now (session_line e) ss) h = map_of ss h"
    using Cons.prems load_session_key [of e us now] by (auto simp: update_conv split: option.split)
  then show ?case using Cons by simp
qed simp

lemma fold_loaded_entry:
  assumes "\<forall>e \<in> set es. entry_ok e" "distinct (map fst es)" "(h, s) \<in> set es"
    and "load_session_line us now (session_line (h, s)) = Some (h, s')"
  shows "map_of (fold (add_loaded us now) (map session_line es) ss) h = Some s'"
  using assms(1-3)
proof (induction es arbitrary: ss)
  case (Cons e es)
  show ?case
  proof (cases "e = (h, s)")
    case True
    with Cons.prems have "\<forall>e \<in> set es. entry_ok e \<and> fst e \<noteq> h" by force
    from fold_loaded_other [OF this] True assms(4) show ?thesis by (simp add: update_conv)
  next
    case False
    with Cons show ?thesis by simp
  qed
qed simp

lemma getlines_sessions_text:
  "\<forall>e \<in> set ss. entry_ok e \<Longrightarrow> getlines LF (sessions_text ss) = map session_line ss"
proof -
  assume ok: "\<forall>e \<in> set ss. entry_ok e"
  have t: "sessions_text ss = concat (map (\<lambda>l. l @ [LF]) (map session_line ss))"
    by (simp add: sessions_text_def comp_def)
  show ?thesis unfolding t
    by (rule getlines_concat) (use ok session_line_fields(3) in force)
qed

lemma wf_entries_ok:
  assumes wf: "auth_wf st" and e: "e \<in> set (st_sessions st)"
  shows "entry_ok e"
proof -
  obtain h s where hs: "e = (h, s)" by fastforce
  have "length h = 64 \<and> list_all lower_hex h \<and> ses_userId s \<in> set (ids (st_users st))"
    using wf e by (auto simp: auth_wf_def sessions_wf_def hs)
  moreover have "plain i" if "i \<in> set (ids (st_users st))" for i
    using wf that by (auto simp: auth_wf_def users_wf_def list_all_iff user_wf_def)
  ultimately show ?thesis by (simp add: entry_ok_def hs)
qed

section \<open>Identifiers\<close>

lemma take_bit_or_exp:
  assumes "k \<le> m"
  shows "take_bit k n OR 2 ^ m = take_bit k n + (2 :: nat) ^ m"
proof -
  have "take_bit k n AND (2 :: nat) ^ m = 0"
    using assms by (intro bit_eqI) (auto simp: bit_and_iff bit_take_bit_iff bit_exp_iff)
  then show ?thesis by (rule disjunctive_add_eq_or [symmetric])
qed

lemma uuid_bits:
  "(byte c AND 0x0f) OR 0x40 = byte c mod 16 + 64" "(byte c AND 0x3f) OR 0x80 = byte c mod 64 + (128 :: nat)"
proof -
  have "byte c AND 0x0f = take_bit 4 (byte c)" "byte c AND 0x3f = take_bit 6 (byte c)"
    by (simp_all add: take_bit_eq_mask mask_eq_exp_minus_1)
  then show "(byte c AND 0x0f) OR 0x40 = byte c mod 16 + 64"
    "(byte c AND 0x3f) OR 0x80 = byte c mod 64 + (128 :: nat)"
    using take_bit_or_exp [of 4 6 "byte c"] take_bit_or_exp [of 6 7 "byte c"]
    by (simp_all add: take_bit_eq_mod)
qed

lemma hex_string_nth:
  "k < length b \<Longrightarrow> hex_string b ! (2 * k) = hex_char (byte (b ! k) div 16) \<and>
     hex_string b ! (2 * k + 1) = hex_char (byte (b ! k) mod 16)"
proof (induction b arbitrary: k)
  case (Cons c b)
  have "hex_string (c # b) = hex_byte c @ hex_string b" by (simp add: hex_string_def)
  then show ?case using Cons by (cases k) (simp_all add: hex_byte_def)
qed simp

lemma hex_char_lower: "d < 16 \<Longrightarrow> lower_hex (hex_char d)"
  using hex_char_chars [of d] by (auto simp: lower_hex_def)

lemma hex_string_lower: "k < length (hex_string b) \<Longrightarrow> lower_hex (hex_string b ! k)"
  using hex_string_chars [OF nth_mem] by (auto simp: lower_hex_def)

lemma list_all2_replicate:
  "length s = n \<Longrightarrow> list_all P s \<Longrightarrow> list_all2 (\<lambda>p c. p c) (replicate n P) s"
  by (simp add: list_all2_conv_all_nth list_all_length)

lemma uuid_groups_valid:
  assumes len: "length h = 32" and lower: "list_all lower_hex h"
    and v: "49 \<le> byte (h ! 12) \<and> byte (h ! 12) \<le> 53"
    and r: "h ! 16 \<in> {CHR ''8'', CHR ''9'', CHR ''a'', CHR ''b''}"
  shows "validUuid (uuid_groups h)"
proof -
  have piece: "list_all2 (\<lambda>p c. p c) (replicate n lower_hex) (take n (drop k h))" if "k + n \<le> 32" for k n
    by (rule list_all2_replicate)
      (use that len lower in \<open>auto simp: list_all_iff dest: in_set_takeD in_set_dropD\<close>)
  have c12: "take 4 (drop 12 h) = h ! 12 # take 3 (drop 13 h)"
    using len by (simp add: take_Suc_conv_app_nth Cons_nth_drop_Suc [symmetric] eval_nat_numeral)
  have c16: "take 4 (drop 16 h) = h ! 16 # take 3 (drop 17 h)"
    using len by (simp add: take_Suc_conv_app_nth Cons_nth_drop_Suc [symmetric] eval_nat_numeral)
  have last: "drop 20 h = take 12 (drop 20 h)" using len by simp
  show ?thesis
    unfolding validUuid_def uuid_pattern_def uuid_groups_def c12 c16
    using piece [of 0 8] piece [of 8 4] piece [of 13 3] piece [of 17 3] piece [of 20 12] v r last
    by (intro list_all2_appendI) (simp_all add: list_all2_appendI)
qed

lemma randomUuid_groups:
  assumes "length b = 16" "randomUuid (Some b) = Okay i"
  obtains h where "i = uuid_groups h" "length h = 32" "list_all lower_hex h"
    "h ! 12 = CHR ''4''" "h ! 16 \<in> {CHR ''8'', CHR ''9'', CHR ''a'', CHR ''b''}"
proof -
  let ?b6 = "b[6 := char_of ((byte (b ! 6) AND 0x0f) OR 0x40 :: nat)]"
  let ?b = "?b6[8 := char_of ((byte (?b6 ! 8) AND 0x3f) OR 0x80 :: nat)]"
  have b6: "byte (?b ! 6) = byte (b ! 6) mod 16 + 64" and b8: "byte (?b ! 8) = byte (b ! 8) mod 64 + 128"
    using assms(1) by (simp_all add: uuid_bits byte_char_of)
  have "hex_string ?b ! 12 = hex_char (byte (?b ! 6) div 16)"
    and "hex_string ?b ! 16 = hex_char (byte (?b ! 8) div 16)"
    using hex_string_nth [of 6 ?b] hex_string_nth [of 8 ?b] assms(1) by simp_all
  moreover have "byte (?b ! 6) div 16 = 4" unfolding b6 by simp
  moreover have "byte (?b ! 8) div 16 \<in> {8, 9, 10, 11}"
  proof -
    have "byte (b ! 8) mod 64 < 64" by simp
    then have "8 \<le> byte (?b ! 8) div 16" "byte (?b ! 8) div 16 < 12"
      unfolding b8 by linarith+
    then have "byte (?b ! 8) div 16 = 8 \<or> byte (?b ! 8) div 16 = 9 \<or> byte (?b ! 8) div 16 = 10 \<or>
        byte (?b ! 8) div 16 = 11"
      by linarith
    then show ?thesis by blast
  qed
  ultimately have "hex_string ?b ! 12 = CHR ''4''"
    "hex_string ?b ! 16 \<in> {CHR ''8'', CHR ''9'', CHR ''a'', CHR ''b''}"
    by (auto simp: hex_char_def)
  moreover have "list_all lower_hex (hex_string ?b)"
    by (simp add: list_all_length hex_string_lower)
  moreover have "i = uuid_groups (hex_string ?b)"
    using assms(2) by (simp add: randomUuid_def Let_def hexEncode_def)
  ultimately show thesis using that assms(1) by simp
qed

section \<open>A sample store\<close>

definition sample_crypto :: Crypto where
  "sample_crypto = \<lparr>SHA256 = (\<lambda>m. take 32 (m @ replicate 32 (CHR ''x''))),
     PBKDF2 = (\<lambda>p s n. Some (take 32 (p @ s @ replicate 32 (CHR ''y''))))\<rparr>"

definition sample_env :: "int \<Rightarrow> AuthEnv" where
  "sample_env t = \<lparr>env_now = t, uuid_entropy = Some (replicate 16 (CHR ''u'')),
     salt_entropy = Some (replicate 16 (CHR ''s'')), token_entropy = Some (replicate 32 (CHR ''t'')),
     users_writable = True, sessions_writable = True\<rparr>"

definition empty_store :: AuthStore where
  "empty_store = \<lparr>st_users = [], st_sessions = [], users_file = [], sessions_file = []\<rparr>"

definition sample_password :: string where
  "sample_password = ''correct horse battery''"

definition admin_store :: AuthStore where
  "admin_store = snd (bootstrapAdmin sample_crypto (sample_env 0) ''Ana'' '' Ana@Sister.org '' sample_password empty_store)"

lemma sample_crypto_sizes: "crypto_sizes sample_crypto"
  by (auto simp: crypto_sizes_def sample_crypto_def)

lemma sample_entropy_sizes: "entropy_sizes (sample_env t)"
  by (auto simp: entropy_sizes_def sample_env_def)

lemma admin_store_reach: "reach auth_start (auth_step sample_crypto) admin_store"
  unfolding admin_store_def
  by (rule reach_step [OF reach_init [of auth_start empty_store]])
    (auto simp: auth_start_def empty_store_def intro: step_call call_bootstrap)

lemma admin_store_admins: "admin_count (st_users admin_store) = 1"
  by code_simp

lemma admin_store_login:
  "\<exists>res st'. login sample_crypto (sample_env 5) ''ana@sister.org'' sample_password admin_store = (Done res, st')"
proof -
  have "(case fst (login sample_crypto (sample_env 5) ''ana@sister.org'' sample_password admin_store) of
      Done _ \<Rightarrow> True | _ \<Rightarrow> False)"
    by code_simp
  then show ?thesis
    by (cases "login sample_crypto (sample_env 5) ''ana@sister.org'' sample_password admin_store")
      (auto split: outcome.splits)
qed

section \<open>Properties\<close>

text \<open>C15: In every execution of the store from an empty installation (any calls in any order,
  calls that refuse or throw, failed writes, restarts), user ids and e-mails are unique, every
  user has a valid role and a normalised e-mail, and every session belongs to an existing
  user.\<close>

theorem auth_store_consistent:
  assumes "crypto_sizes cr" and "reach auth_start (auth_step cr) st"
  shows "distinct (map (\<lambda>u. au_id (publicUser u)) (st_users st)) \<and>
    distinct (map (\<lambda>u. au_email (publicUser u)) (st_users st)) \<and>
    list_all (\<lambda>u. validRole (au_role (publicUser u)) \<and>
      normalizeEmail (au_email (publicUser u)) = au_email (publicUser u)) (st_users st) \<and>
    list_all (\<lambda>(_, s). list_ex (\<lambda>u. au_id (publicUser u) = ses_userId s) (st_users st)) (st_sessions st)"
proof -
  have wf: "auth_wf st" using assms by (rule auth_reach_wf)
  then have "list_all (\<lambda>(_, s). list_ex (\<lambda>u. au_id (publicUser u) = ses_userId s) (st_users st)) (st_sessions st)"
    unfolding auth_wf_def sessions_wf_def by (fastforce simp: list_all_iff list_ex_iff)
  with wf show ?thesis by (auto simp: auth_wf_def users_wf_def user_wf_def list_all_iff)
qed

theorem auth_store_consistent_witness:
  "distinct (map (\<lambda>u. au_email (publicUser u)) (st_users admin_store)) \<and> admin_count (st_users admin_store) = 1"
  using auth_store_consistent [OF sample_crypto_sizes admin_store_reach] admin_store_admins by simp

text \<open>Once an installation has an administrator, no call of the store, whatever its
  arguments and outcome, leaves it without one.\<close>

theorem auth_last_admin:
  assumes "crypto_sizes cr" and "reach auth_start (auth_step cr) st"
    and "auth_call cr st st'" and "0 < admin_count (st_users st)"
  shows "0 < admin_count (st_users st')"
  using auth_call_effects [OF assms(1) auth_reach_wf [OF assms(1,2)] assms(3)] assms(4)
  by (rule effects_admin)

theorem auth_last_admin_witness:
  "0 < admin_count (st_users (snd (deleteUser (sample_env 9) (au_id (publicUser (hd (st_users admin_store)))) ''other'' admin_store)))"
  by (rule auth_last_admin [OF sample_crypto_sizes admin_store_reach call_delete])
    (simp add: admin_store_admins)

lemma login_identifies:
  assumes "distinct (ids (st_users st))" and "entropy_sizes env" and "login cr env e p st = (Done res, st')"
  shows "au_email (ar_user res) = normalizeEmail e \<and>
    (\<exists>u. u \<in> set (st_users st) \<and> publicUser u = ar_user res \<and>
       passwordHash cr p (salt u) passwordIterations = Okay (su_hash u)) \<and>
    (if env_now env' < env_now env + sessionLifetime
     then userForToken cr env' (ar_token res) st' = (Done (ar_user res), st')
     else \<not> (\<exists>v. fst (userForToken cr env' (ar_token res) st') = Done v))"
proof -
  note d = assms(1)
  from assms(3) obtain u where u: "u \<in> set (st_users st)" "au_email (publicUser u) = normalizeEmail e"
    "passwordHash cr p (salt u) passwordIterations = Okay (su_hash u)"
    and cs: "createSession cr env u st = (Done res, st')" by (rule login_done)
  from cs obtain b where b: "token_entropy env = Some b" "ar_token res = hexEncode b"
    and res: "ar_user res = publicUser u" "st_users st' = st_users st"
    and s: "st_sessions st' = AList.update (sha256 cr (ar_token res))
      \<lparr>ses_userId = au_id (publicUser u), ses_expiresAt = env_now env + sessionLifetime\<rparr> (st_sessions st)"
    by (rule createSession_done)
  have ne: "ar_token res \<noteq> []" using assms(2) b by (auto simp: entropy_sizes_def)
  have m: "map_of (st_sessions st') (sha256 cr (ar_token res)) =
      Some \<lparr>ses_userId = au_id (publicUser u), ses_expiresAt = env_now env + sessionLifetime\<rparr>"
    by (simp add: s update_conv)
  have live: "userForToken cr env' (ar_token res) st' = (Done (publicUser u), st')"
    if "env_now env' < env_now env + sessionLifetime"
    by (rule userForToken_live [OF _ _ _ m]) (use that d u(1) res(2) ne in simp_all)
  have "\<nexists>v. fst (userForToken cr env' (ar_token res) st') = Done v"
    if "\<not> env_now env' < env_now env + sessionLifetime"
    by (rule userForToken_expired [OF m]) (use that in simp)
  with live u res(1) show ?thesis by auto
qed

text \<open>C16: A successful login presented the password of the user registered under the normalised
  e-mail, and its token identifies exactly that user for eight hours and nobody afterwards.\<close>

theorem auth_session_lifetime:
  assumes "crypto_sizes cr" and "reach auth_start (auth_step cr) st" and "entropy_sizes env"
    and "login cr env e p st = (Done res, st')"
  shows "au_email (ar_user res) = normalizeEmail e \<and>
    (\<exists>u. u \<in> set (st_users st) \<and> publicUser u = ar_user res \<and>
       passwordHash cr p (salt u) passwordIterations = Okay (su_hash u)) \<and>
    (if env_now env' < env_now env + sessionLifetime
     then userForToken cr env' (ar_token res) st' = (Done (ar_user res), st')
     else \<not> (\<exists>v. fst (userForToken cr env' (ar_token res) st') = Done v))"
proof -
  have "distinct (ids (st_users st))"
    using auth_reach_wf [OF assms(1,2)] by (simp add: auth_wf_def users_wf_def)
  from login_identifies [OF this assms(3,4)] show ?thesis .
qed

theorem auth_session_lifetime_witness:
  "\<exists>res st'. login sample_crypto (sample_env 5) ''ana@sister.org'' sample_password admin_store = (Done res, st') \<and>
     userForToken sample_crypto (sample_env 6) (ar_token res) st' = (Done (ar_user res), st')"
proof -
  obtain res st' where l: "login sample_crypto (sample_env 5) ''ana@sister.org'' sample_password admin_store = (Done res, st')"
    using admin_store_login by blast
  have "env_now (sample_env 6) < env_now (sample_env 5) + sessionLifetime"
    by (simp add: sample_env_def sessionLifetime_def)
  with auth_session_lifetime [OF sample_crypto_sizes admin_store_reach sample_entropy_sizes l, of "sample_env 6"] l
  show ?thesis by auto
qed

text \<open>After a logout the token identifies nobody, whether or not the session file could be
  written.\<close>

theorem auth_logout_revokes:
  "\<not> (\<exists>v. fst (userForToken cr env' token (snd (logout cr env token st))) = Done v)"
proof (cases "token = []")
  case False
  have "st_sessions (snd (logout cr env token st)) = AList.delete (sha256 cr token) (st_sessions st)"
    using False by (auto simp: logout_def saveSessions_def)
  then show ?thesis
    by (auto dest!: userForToken_done simp: delete_conv)
qed (simp add: userForToken_def)

text \<open>A successful deletion removes exactly the user with that id, who is not the caller,
  and every session of it: no token identifies the deleted user any more.\<close>

theorem auth_delete_revokes:
  assumes "crypto_sizes cr" and "reach auth_start (auth_step cr) st"
    and "deleteUser env i a st = (Done (), st')"
  shows "i \<noteq> a \<and> users_list st' = filter (\<lambda>u. au_id u \<noteq> i) (users_list st) \<and>
    \<not> (\<exists>token v. fst (userForToken cr env' token st') = Done v \<and> au_id v = i)"
proof -
  have wf: "users_wf (st_users st)" using auth_reach_wf [OF assms(1,2)] by (simp add: auth_wf_def)
  note d = deleteUser_done [OF wf assms(3)]
  have "au_id v \<noteq> i" if "fst (userForToken cr env' token st') = Done v" for token v
    using userForToken_done [OF that] d by auto
  with d show ?thesis by (auto simp: users_list_def filter_map comp_def)
qed

definition import_env :: AuthEnv where
  "import_env = (sample_env 1)\<lparr>uuid_entropy := None\<rparr>"

definition two_users_store :: AuthStore where
  "two_users_store = snd (importUser sample_crypto import_env
     ''00000000-0000-4000-8000-000000000000'' ''Bia'' ''bia@sister.org'' sample_password ''guest'' admin_store)"

lemma two_users_reach: "reach auth_start (auth_step sample_crypto) two_users_store"
  unfolding two_users_store_def
  by (rule reach_step [OF admin_store_reach]) (intro step_call call_import)

lemma two_users_delete:
  "fst (deleteUser (sample_env 2) ''00000000-0000-4000-8000-000000000000'' ''other'' two_users_store) = Done ()"
  by code_simp

theorem auth_delete_revokes_witness:
  "users_list (snd (deleteUser (sample_env 2) ''00000000-0000-4000-8000-000000000000'' ''other'' two_users_store)) =
     filter (\<lambda>u. au_id u \<noteq> ''00000000-0000-4000-8000-000000000000'') (users_list two_users_store)"
proof -
  let ?d = "deleteUser (sample_env 2) ''00000000-0000-4000-8000-000000000000'' ''other'' two_users_store"
  have "?d = (Done (), snd ?d)" using two_users_delete by (metis prod.collapse)
  from auth_delete_revokes [OF sample_crypto_sizes two_users_reach this] show ?thesis by blast
qed

lemma updateUser_done:
  "updateUser cr env i n e r p st = (Done u, st') \<Longrightarrow> users_file st' = users_text (st_users st')"
  by (auto simp: updateUser_def Let_def save_def users_text_def
      split: option.split_asm if_split_asm sum.split_asm)

lemma createUser_done:
  "createUser cr env n e p r st = (Done u, st') \<Longrightarrow> users_file st' = users_text (st_users st')"
  by (auto simp: createUser_def Let_def dest!: store_new_user_done split: if_split_asm sum.split_asm)

lemma importUser_done:
  "importUser cr env i n e p r st = (Done u, st') \<Longrightarrow> users_file st' = users_text (st_users st')"
  by (auto simp: importUser_def Let_def dest!: store_new_user_done split: if_split_asm)

text \<open>What an administrator was told is done survives a restart: after a creation, an
  update, a deletion or an import that succeeded, reading the users file again gives exactly
  the users in memory, passwords included.\<close>

theorem auth_users_durable:
  assumes "crypto_sizes cr" and "reach auth_start (auth_step cr) st" and "fresh_uuid env st"
    and "createUser cr env n e p r st = (Done u, st') \<or> updateUser cr env i n e r p st = (Done u, st') \<or>
      importUser cr env i n e p r st = (Done u, st') \<or> deleteUser env i a st = (Done (), st')"
  shows "st_users (AuthStore_open env' (users_file st') (sessions_file st')) = st_users st'"
proof -
  have wf: "auth_wf st" using assms(1,2) by (rule auth_reach_wf)
  have "auth_call cr st st'"
    using assms(3,4) call_create [of env st] call_update call_import call_delete by (metis snd_conv)
  then have "auth_wf st'" using wf assms(1) by (blast intro: effects_wf auth_call_effects)
  moreover have "users_file st' = users_text (st_users st')"
    using assms(4) wf [unfolded auth_wf_def]
    by (elim disjE) (erule createUser_done updateUser_done importUser_done |
        drule conjunct1, drule deleteUser_done, assumption, blast)+
  ultimately show ?thesis by (intro restart_users) (simp_all add: auth_wf_def)
qed

lemma two_users_import:
  "\<exists>u. importUser sample_crypto import_env ''00000000-0000-4000-8000-000000000000'' ''Bia'' ''bia@sister.org''
     sample_password ''guest'' admin_store = (Done u, two_users_store)"
proof -
  have "(case fst (importUser sample_crypto import_env ''00000000-0000-4000-8000-000000000000'' ''Bia''
      ''bia@sister.org'' sample_password ''guest'' admin_store) of Done _ \<Rightarrow> True | _ \<Rightarrow> False)"
    by code_simp
  then show ?thesis unfolding two_users_store_def
    by (cases "importUser sample_crypto import_env ''00000000-0000-4000-8000-000000000000'' ''Bia''
      ''bia@sister.org'' sample_password ''guest'' admin_store") (auto split: outcome.splits)
qed

theorem auth_users_durable_witness:
  "st_users (AuthStore_open (sample_env 7) (users_file two_users_store) (sessions_file two_users_store)) =
     st_users two_users_store \<and> length (st_users two_users_store) = 2"
proof -
  have fresh: "fresh_uuid import_env admin_store"
    by (simp add: fresh_uuid_def import_env_def randomUuid_def)
  obtain u where "importUser sample_crypto import_env ''00000000-0000-4000-8000-000000000000'' ''Bia''
      ''bia@sister.org'' sample_password ''guest'' admin_store = (Done u, two_users_store)"
    using two_users_import by blast
  then have "st_users (AuthStore_open (sample_env 7) (users_file two_users_store) (sessions_file two_users_store)) =
     st_users two_users_store"
    by (intro auth_users_durable [OF sample_crypto_sizes admin_store_reach fresh]) blast
  moreover have "length (st_users two_users_store) = 2" by code_simp
  ultimately show ?thesis by simp
qed

lemma open_sessions_lookup:
  assumes wf: "auth_wf st" and uf: "users_file st = users_text (st_users st)"
    and sf: "sessions_file st = sessions_text (st_sessions st)" and e: "(h, s) \<in> set (st_sessions st)"
    and v: "v = ses_expiresAt s sdiv 1000000000" "0 \<le> v" "v \<le> int64_max" "env_now env < v * 1000000000"
  shows "map_of (st_sessions (AuthStore_open env (users_file st) (sessions_file st))) h =
    Some \<lparr>ses_userId = ses_userId s, ses_expiresAt = v * 1000000000\<rparr>"
proof -
  have us: "users_wf (st_users st)" and ss: "sessions_wf (st_users st) (st_sessions st)"
    using wf by (auto simp: auth_wf_def)
  have entries: "\<forall>e \<in> set (st_sessions st). entry_ok e" using wf wf_entries_ok by blast
  have "ses_userId s \<in> set (ids (st_users st))" "distinct (map fst (st_sessions st))"
    using ss e by (auto simp: sessions_wf_def)
  with fold_loaded_entry [OF entries _ e load_session_entry [OF _ _ v]] entries e
  have "map_of (fold (add_loaded (st_users st) (env_now env)) (map session_line (st_sessions st)) []) h =
      Some \<lparr>ses_userId = ses_userId s, ses_expiresAt = v * 1000000000\<rparr>" by blast
  then show ?thesis
    using load_users_text [of "st_users st"] us getlines_sessions_text [OF entries]
    by (simp add: AuthStore_open_def load_def loadSessions_def uf sf users_wf_def)
qed

text \<open>A session survives a restart of the daemon: the token of a successful login identifies
  the same user after both files are read again, up to the expiry rounded down to a second.\<close>

theorem auth_session_survives_restart:
  assumes "crypto_sizes cr" and "reach auth_start (auth_step cr) st" and "entropy_sizes env"
    and "users_file st = users_text (st_users st)" and "login cr env e p st = (Done res, st')"
    and "0 \<le> env_now env" and "env_now env + sessionLifetime \<le> int64_max"
    and "env_now env' < (env_now env + sessionLifetime) div 1000000000 * 1000000000"
  shows "fst (userForToken cr env' (ar_token res)
      (AuthStore_open env' (users_file st') (sessions_file st'))) = Done (ar_user res)"
proof -
  let ?st = "AuthStore_open env' (users_file st') (sessions_file st')"
  let ?s = "\<lparr>ses_userId = au_id (ar_user res), ses_expiresAt = env_now env + sessionLifetime\<rparr>"
  have "auth_call cr st st'" using call_login [of cr st env e p] assms(5) by simp
  then have wf': "auth_wf st'"
    using auth_reach_wf [OF assms(1,2)] assms(1) by (blast intro: effects_wf auth_call_effects)
  from assms(5) obtain u where u: "u \<in> set (st_users st)" and cs: "createSession cr env u st = (Done res, st')"
    by (rule login_done)
  from cs obtain b where b: "token_entropy env = Some b" "ar_token res = hexEncode b"
    and res: "ar_user res = publicUser u" and frame: "st_users st' = st_users st" "users_file st' = users_file st"
    and ses: "st_sessions st' = AList.update (sha256 cr (ar_token res))
      \<lparr>ses_userId = au_id (publicUser u), ses_expiresAt = env_now env + sessionLifetime\<rparr> (st_sessions st)"
    and sf: "sessions_file st' = sessions_text (st_sessions st')"
    by (rule createSession_done)
  have "map_of (st_sessions st') (sha256 cr (ar_token res)) = Some ?s" by (simp add: ses update_conv res)
  then have e: "(sha256 cr (ar_token res), ?s) \<in> set (st_sessions st')" by (rule map_of_SomeD)
  let ?v = "(env_now env + sessionLifetime) div 1000000000"
  have pos: "0 < env_now env + sessionLifetime" using assms(6) by (simp add: sessionLifetime_def)
  then have v: "?v = ses_expiresAt ?s sdiv 1000000000" by (simp add: signed_divide_int_def)
  have "?v \<le> env_now env + sessionLifetime" using pos by (simp add: int_div_less_self order.strict_implies_order)
  then have "?v \<le> int64_max" using assms(7) by linarith
  moreover have "0 \<le> ?v" using pos by (simp add: pos_imp_zdiv_nonneg_iff)
  ultimately have m: "map_of (st_sessions ?st) (sha256 cr (ar_token res)) =
      Some \<lparr>ses_userId = au_id (ar_user res), ses_expiresAt = ?v * 1000000000\<rparr>"
    using open_sessions_lookup [OF wf' _ sf e v, of env'] assms(4,8) frame by simp
  have users: "st_users ?st = st_users st'"
    using wf' assms(4) frame by (intro restart_users) (simp_all add: auth_wf_def)
  have ne: "ar_token res \<noteq> []" using assms(3) b by (auto simp: entropy_sizes_def)
  have "userForToken cr env' (ar_token res) ?st = (Done (publicUser u), ?st)"
    by (rule userForToken_live [OF _ _ ne m])
      (use users frame u res wf' assms(8) in \<open>auto simp: auth_wf_def users_wf_def\<close>)
  then show ?thesis by (simp add: res)
qed

lemma bootstrap_file_current:
  "users_writable env \<Longrightarrow> users_file st = users_text (st_users st) \<Longrightarrow>
     bootstrapAdmin cr env name e password st = (r, st') \<Longrightarrow> users_file st' = users_text (st_users st')"
  by (auto simp: bootstrapAdmin_def bootstrapAdminUnlocked_def store_new_user_def save_def users_text_def Let_def
      split: if_splits sum.splits)

lemma admin_store_file: "users_file admin_store = users_text (st_users admin_store)"
  unfolding admin_store_def
  by (rule bootstrap_file_current [OF _ _ surjective_pairing]) (simp_all add: sample_env_def empty_store_def users_text_def)

theorem auth_session_survives_restart_witness:
  "\<exists>res st'. login sample_crypto (sample_env 5) ''ana@sister.org'' sample_password admin_store = (Done res, st') \<and>
     fst (userForToken sample_crypto (sample_env 6) (ar_token res)
       (AuthStore_open (sample_env 6) (users_file st') (sessions_file st'))) = Done (ar_user res)"
proof -
  obtain res st' where l: "login sample_crypto (sample_env 5) ''ana@sister.org'' sample_password admin_store = (Done res, st')"
    using admin_store_login by blast
  with auth_session_survives_restart [OF sample_crypto_sizes admin_store_reach sample_entropy_sizes
      admin_store_file l, of "sample_env 6"]
  show ?thesis by (simp add: sample_env_def sessionLifetime_def)
qed

text \<open>Changing a password with the file backend does not touch the sessions: a token that
  identified a user before \<open>updateUser\<close> with a new password identifies the same id after it.
  (The database backend revokes the sessions of the user in the same statement.)\<close>

theorem auth_password_change_keeps_sessions:
  "st_sessions (snd (updateUser cr env i n e r p st)) = st_sessions st"
  by (auto simp: updateUser_def Let_def save_def split: option.split sum.split)

text \<open>A generated identifier is always one that the import accepts: sixteen random bytes
  give a version 4 UUID in the canonical lower-case form.\<close>

theorem randomUuid_valid:
  assumes "length b = 16" and "randomUuid (Some b) = Okay i"
  shows "validUuid i \<and> length i = 36 \<and> i ! 14 = CHR ''4''"
proof -
  obtain h where h: "i = uuid_groups h" "length h = 32" "list_all lower_hex h"
    "h ! 12 = CHR ''4''" "h ! 16 \<in> {CHR ''8'', CHR ''9'', CHR ''a'', CHR ''b''}"
    using assms by (rule randomUuid_groups)
  have "validUuid i" unfolding h(1) using h by (intro uuid_groups_valid) simp_all
  moreover have "i ! 14 = h ! 12" using h(2) by (simp add: h(1) uuid_groups_def nth_append nth_Cons)
  moreover have "length i = 36" using h(2) by (simp add: h(1) uuid_groups_def)
  ultimately show ?thesis using h(4) by simp
qed

theorem randomUuid_valid_witness:
  "\<exists>i. randomUuid (Some (replicate 16 (CHR ''u''))) = Okay i \<and> validUuid i"
proof -
  have "\<exists>i. randomUuid (Some (replicate 16 (CHR ''u''))) = Okay i" by (simp add: randomUuid_def Let_def)
  with randomUuid_valid [of "replicate 16 (CHR ''u'')"] show ?thesis by auto
qed

end
