(* ===== verification/Assertion.thy ===== *)
theory Assertion
  imports Json_Codec Decimal "HOL-Library.AList" "HOL-Library.Signed_Division" "HOL-Library.Monad_Syntax"
begin

text \<open>
  Internal identity assertions (\<open>apps/sisterd/identity/internal_assertion.cpp\<close>): compact
  signed tokens that the daemon sends to subsystems and that they verify once.  OpenSSL
  (base64 blocks, PEM keys, Ed25519) is the record \<open>AssertionCrypto\<close>; the clock is an
  argument in nanoseconds.  The JSON reader's position is the remaining input; all its
  exceptions are caught in \<open>verify\<close>, so a failing step is \<open>None\<close>.
\<close>

section \<open>Data\<close>

record InternalAssertionClaims =
  issuer :: string
  subject :: string
  audience :: string
  cl_capabilities :: "string list"
  cl_purpose :: string
  issuedAt :: int
  expiresAt :: int
  jti :: string
  requestId :: string

record VerificationRequirements =
  rq_audience :: string
  rq_capability :: string
  rq_purpose :: string
  clockSkew :: int
  maximumLifetime :: int

record VerificationResult =
  vr_valid :: bool
  vr_error :: string
  vr_claims :: InternalAssertionClaims

record SigningKey =
  sk_kid :: string
  privateKeyPem :: string

record AssertionVerifier =
  publicKeys :: "(string \<times> string) list"
  seenJtis :: "(string \<times> int) list"

text \<open>What the code uses of OpenSSL: \<open>EVP_EncodeBlock\<close> and \<open>EVP_DecodeBlock\<close> (\<open>None\<close> for a
  negative count), the two PEM readers with the key type test, and the signature calls.\<close>

record AssertionCrypto =
  EncodeBlock :: "string \<Rightarrow> string option"
  DecodeBlock :: "string \<Rightarrow> string option"
  private_pem :: "string \<Rightarrow> bool"
  public_pem :: "string \<Rightarrow> bool"
  DigestSignInit :: "string \<Rightarrow> bool"
  DigestSign :: "string \<Rightarrow> string \<Rightarrow> string option"
  DigestVerifyInit :: "string \<Rightarrow> bool"
  DigestVerify :: "string \<Rightarrow> string \<Rightarrow> string \<Rightarrow> bool"

definition kMaximumAssertionBytes :: nat where
  "kMaximumAssertionBytes = 16 * 1024"

definition kMaximumKeyBytes :: nat where
  "kMaximumKeyBytes = 64 * 1024"

section \<open>Tokens and capabilities\<close>

definition validKid :: "string \<Rightarrow> bool" where
  "validKid value \<longleftrightarrow> value \<noteq> [] \<and> length value \<le> 64 \<and>
     list_all (\<lambda>c. isalnum c \<or> c = CHR ''.'' \<or> c = CHR ''_'' \<or> c = CHR ''-'') value"

definition validToken :: "string \<Rightarrow> nat \<Rightarrow> nat \<Rightarrow> bool" where
  "validToken value minimum maximum \<longleftrightarrow> minimum \<le> length value \<and> length value \<le> maximum \<and>
     list_all (\<lambda>c. isalnum c \<or> c = CHR ''.'' \<or> c = CHR ''_'' \<or> c = CHR ''-'' \<or> c = CHR '':'') value"

fun validCapability_loop :: "nat \<Rightarrow> bool \<Rightarrow> string \<Rightarrow> bool" where
  "validCapability_loop dots segmentStart [] = (dots = 2 \<and> \<not> segmentStart)"
| "validCapability_loop dots segmentStart (c # s) =
     (if c = CHR ''.'' then
        if segmentStart then False else validCapability_loop (dots + 1) True s
      else if segmentStart \<and> \<not> islower c then False
      else if \<not> islower c \<and> \<not> isdigit c \<and> c \<noteq> CHR ''_'' then False
      else validCapability_loop dots False s)"

definition validCapability :: "string \<Rightarrow> bool" where
  "validCapability value \<longleftrightarrow>
     (if value = [] \<or> length value > 120 then False else validCapability_loop 0 True value)"

section \<open>Writing claims\<close>

definition claim_escape_char :: "char \<Rightarrow> string" where
  "claim_escape_char c =
     (if c = QUOTE then [BACKSLASH, QUOTE]
      else if c = BACKSLASH then [BACKSLASH, BACKSLASH]
      else if c = BS then [BACKSLASH, CHR ''b'']
      else if c = FF then [BACKSLASH, CHR ''f'']
      else if c = LF then [BACKSLASH, CHR ''n'']
      else if c = CR then [BACKSLASH, CHR ''r'']
      else if c = TAB then [BACKSLASH, CHR ''t'']
      else [c])"

definition claim_printable :: "char \<Rightarrow> bool" where
  "claim_printable c \<longleftrightarrow> c \<in> {QUOTE, BACKSLASH, BS, FF, LF, CR, TAB} \<or> (32 \<le> byte c \<and> byte c \<le> 126)"

definition claim_jsonEscape :: "string \<Rightarrow> (string, string) result" where
  "claim_jsonEscape value =
     (if list_all claim_printable value then Okay (concat (map claim_escape_char value))
      else Error ''assertion claims must contain printable ASCII'')"

definition claim_text ::
  "string \<Rightarrow> string \<Rightarrow> string list \<Rightarrow> string \<Rightarrow> int \<Rightarrow> int \<Rightarrow> string \<Rightarrow> string \<Rightarrow> string" where
  "claim_text sub aud caps pur iat ex j rid =
     ''{'' @ [QUOTE] @ ''iss'' @ [QUOTE] @ '':'' @ [QUOTE] @ ''sisterd'' @ [QUOTE] @ '','' @
     [QUOTE] @ ''sub'' @ [QUOTE] @ '':'' @ [QUOTE] @ sub @ [QUOTE] @ '','' @
     [QUOTE] @ ''aud'' @ [QUOTE] @ '':'' @ [QUOTE] @ aud @ [QUOTE] @ '','' @
     [QUOTE] @ ''capabilities'' @ [QUOTE] @ '':['' @
       join_with CHR '','' (map (\<lambda>c. [QUOTE] @ c @ [QUOTE]) caps) @ ''],'' @
     [QUOTE] @ ''purpose'' @ [QUOTE] @ '':'' @ [QUOTE] @ pur @ [QUOTE] @ '','' @
     [QUOTE] @ ''iat'' @ [QUOTE] @ '':'' @ show_int iat @ '','' @
     [QUOTE] @ ''exp'' @ [QUOTE] @ '':'' @ show_int ex @ '','' @
     [QUOTE] @ ''jti'' @ [QUOTE] @ '':'' @ [QUOTE] @ j @ [QUOTE] @ '','' @
     [QUOTE] @ ''request_id'' @ [QUOTE] @ '':'' @ [QUOTE] @ rid @ [QUOTE] @ ''}''"

definition claims_invalid :: "InternalAssertionClaims \<Rightarrow> bool" where
  "claims_invalid c \<longleftrightarrow> issuer c \<noteq> ''sisterd'' \<or> \<not> validToken (subject c) 1 120 \<or>
     \<not> validToken (audience c) 3 64 \<or> \<not> validToken (cl_purpose c) 3 120 \<or>
     \<not> validToken (jti c) 16 120 \<or> \<not> validToken (requestId c) 16 128 \<or>
     cl_capabilities c = [] \<or> length (cl_capabilities c) > 8 \<or>
     issuedAt c < 0 \<or> expiresAt c \<le> issuedAt c"

text \<open>The seven escaped fields; each failing escape throws the same exception.\<close>

definition serializeClaims :: "InternalAssertionClaims \<Rightarrow> (string, string) result" where
  "serializeClaims c =
     (if claims_invalid c then Error ''invalid internal assertion claims''
      else if \<not> list_all validCapability (cl_capabilities c)
      then Error ''invalid internal assertion capability''
      else if \<not> list_all (list_all claim_printable)
                (subject c # audience c # cl_purpose c # jti c # requestId c # cl_capabilities c)
      then Error ''assertion claims must contain printable ASCII''
      else let esc = (\<lambda>s. concat (map claim_escape_char s)) in
        Okay (claim_text (esc (subject c)) (esc (audience c)) (map esc (cl_capabilities c))
          (esc (cl_purpose c)) (issuedAt c) (expiresAt c) (esc (jti c)) (esc (requestId c))))"

section \<open>Base64url\<close>

definition base64UrlEncode :: "AssertionCrypto \<Rightarrow> string \<Rightarrow> (string, string) result" where
  "base64UrlEncode ac value =
     (if length value > 2 ^ 31 - 1 then Error ''value too large to encode''
      else case EncodeBlock ac value of
          None \<Rightarrow> Error ''base64 encoding failed''
        | Some encoded \<Rightarrow>
            let encoded = rev (dropWhile (\<lambda>c. c = CHR ''='') (rev encoded)) in
            Okay (map (\<lambda>c. if c = CHR ''/'' then CHR ''_'' else c)
                    (map (\<lambda>c. if c = CHR ''+'' then CHR ''-'' else c) encoded)))"

definition url_char :: "char \<Rightarrow> char option" where
  "url_char c =
     (if c = CHR ''-'' then Some (CHR ''+'')
      else if c = CHR ''_'' then Some (CHR ''/'')
      else if \<not> isalnum c \<and> c \<noteq> CHR ''+'' \<and> c \<noteq> CHR ''/'' then None
      else Some c)"

definition pad4 :: "string \<Rightarrow> string" where
  "pad4 s = s @ replicate ((4 - length s mod 4) mod 4) (CHR ''='')"

definition base64UrlDecode :: "AssertionCrypto \<Rightarrow> string \<Rightarrow> string option" where
  "base64UrlDecode ac value =
     (if value = [] \<or> length value > kMaximumAssertionBytes \<or> length value mod 4 = 1 then None
      else case those (map url_char value) of
          None \<Rightarrow> None
        | Some chars \<Rightarrow>
            let padded = pad4 chars in
            (case DecodeBlock ac padded of
               None \<Rightarrow> None
             | Some decoded \<Rightarrow>
                 let size = length decoded;
                     size = (if last padded = CHR ''='' then size - 1 else size);
                     size = (if length padded \<ge> 2 \<and> padded ! (length padded - 2) = CHR ''=''
                             then size - 1 else size)
                 in Some (take size decoded)))"

section \<open>The JSON reader\<close>

definition rd_whitespace :: "string \<Rightarrow> string" where
  "rd_whitespace s = dropWhile isspace s"

definition rd_expect :: "char \<Rightarrow> string \<Rightarrow> string option" where
  "rd_expect c s = (case s of [] \<Rightarrow> None | d # t \<Rightarrow> if d = c then Some t else None)"

text \<open>\<open>objectStart\<close>, \<open>arrayStart\<close>, \<open>comma\<close> and \<open>colon\<close>: skip white space and expect one
  character; \<open>objectEnd\<close> and \<open>arrayEnd\<close>: skip white space and consume it if it is there.\<close>

definition rd_token :: "char \<Rightarrow> string \<Rightarrow> string option" where
  "rd_token c s = rd_expect c (rd_whitespace s)"

definition rd_end :: "char \<Rightarrow> string \<Rightarrow> bool \<times> string" where
  "rd_end c s =
     (let s = rd_whitespace s in
      case rd_expect c s of Some t \<Rightarrow> (True, t) | None \<Rightarrow> (False, s))"

definition rd_escape :: "char \<Rightarrow> char option" where
  "rd_escape e =
     (if e = QUOTE then Some QUOTE
      else if e = BACKSLASH then Some BACKSLASH
      else if e = CHR ''/'' then Some (CHR ''/'')
      else if e = CHR ''b'' then Some BS
      else if e = CHR ''f'' then Some FF
      else if e = CHR ''n'' then Some LF
      else if e = CHR ''r'' then Some CR
      else if e = CHR ''t'' then Some TAB
      else None)"

fun rd_string_loop :: "string \<Rightarrow> (string \<times> string) option" where
  "rd_string_loop [] = None"
| "rd_string_loop (c # s) =
     (if c = QUOTE then Some ([], s)
      else if byte c < 32 then None
      else if c \<noteq> BACKSLASH then map_option (\<lambda>(v, t). (c # v, t)) (rd_string_loop s)
      else case s of
          [] \<Rightarrow> None
        | e # s' \<Rightarrow>
            (case rd_escape e of
               None \<Rightarrow> None
             | Some d \<Rightarrow> map_option (\<lambda>(v, t). (d # v, t)) (rd_string_loop s')))"

definition rd_string :: "string \<Rightarrow> (string \<times> string) option" where
  "rd_string s = do { s \<leftarrow> rd_token QUOTE s; rd_string_loop s }"

text \<open>An optional sign and a run of digits, converted with the bounds of \<open>int64_t\<close>.\<close>

definition rd_integer :: "string \<Rightarrow> (int \<times> string) option" where
  "rd_integer s =
     (let s = rd_whitespace s;
          sign = (if s \<noteq> [] \<and> hd s = CHR ''-'' then [CHR ''-''] else []);
          body = drop (length sign) s;
          digits = takeWhile isdigit body in
      if digits = [] then None
      else case from_chars int64_min int64_max (sign @ digits) of
          Some (v, []) \<Rightarrow> Some (v, dropWhile isdigit body)
        | _ \<Rightarrow> None)"

definition rd_done :: "string \<Rightarrow> bool" where
  "rd_done s \<longleftrightarrow> rd_whitespace s = []"

lemma rd_whitespace_length: "length (rd_whitespace s) \<le> length s"
  by (simp add: rd_whitespace_def length_dropWhile_le)

lemma rd_expect_length: "rd_expect c s = Some t \<Longrightarrow> length t < length s"
  by (auto simp: rd_expect_def split: list.splits if_splits)

lemma rd_token_length: "rd_token c s = Some t \<Longrightarrow> length t < length s"
  using rd_whitespace_length [of s] by (auto simp: rd_token_def dest!: rd_expect_length)

lemma rd_string_loop_length: "rd_string_loop s = Some (v, t) \<Longrightarrow> length t < length s"
proof (induction s arbitrary: v t rule: rd_string_loop.induct)
  case (2 c s)
  then show ?case
    by (fastforce split: if_splits list.splits option.splits)
qed simp

lemma rd_string_length: "rd_string s = Some (v, t) \<Longrightarrow> length t < length s"
  by (auto simp: rd_string_def bind_eq_Some_conv dest!: rd_string_loop_length rd_token_length)

lemma rd_integer_length: "rd_integer s = Some (v, t) \<Longrightarrow> length t \<le> length s"
proof -
  assume "rd_integer s = Some (v, t)"
  then have "t = dropWhile isdigit (drop (length (if rd_whitespace s \<noteq> [] \<and> hd (rd_whitespace s) = CHR ''-''
      then [CHR ''-''] else [])) (rd_whitespace s))"
    unfolding rd_integer_def Let_def by (auto split: if_split_asm option.split_asm list.split_asm)
  then obtain k where "t = dropWhile isdigit (drop k (rd_whitespace s))" by blast
  then have "length t \<le> length (rd_whitespace s)"
    using length_dropWhile_le [of isdigit "drop k (rd_whitespace s)"] by simp
  then show ?thesis using rd_whitespace_length [of s] by linarith
qed

lemma rd_end_length: "rd_end c s = (b, t) \<Longrightarrow> length t \<le> length s"
  using rd_whitespace_length [of s]
  by (auto simp: rd_end_def Let_def dest!: rd_expect_length split: option.splits)

lemma rd_end_length_sym: "(b, t) = rd_end c s \<Longrightarrow> length t \<le> length s"
  by (rule rd_end_length) (rule sym)

section \<open>Reading headers and claims\<close>

text \<open>A field and its seen flag are one option.\<close>

record Header =
  hd_alg :: "string option"
  hd_typ :: "string option"
  hd_kid :: "string option"

text \<open>The name of a member and its colon, after the separator unless it is the first.\<close>

definition rd_name :: "bool \<Rightarrow> string \<Rightarrow> (string \<times> string) option" where
  "rd_name is_first s = do {
     s \<leftarrow> (if is_first then Some s else rd_token CHR '','' s);
     (name, s) \<leftarrow> rd_string s;
     s \<leftarrow> rd_token CHR '':'' s;
     Some (name, s)
   }"

lemma rd_name_length: "rd_name f s = Some (n, t) \<Longrightarrow> length t < length s"
  by (auto simp: rd_name_def bind_eq_Some_conv dest!: rd_token_length rd_string_length split: if_splits)

definition header_member :: "Header \<Rightarrow> string \<Rightarrow> string \<Rightarrow> (Header \<times> string) option" where
  "header_member h name s =
     (if name = ''alg'' \<and> hd_alg h = None then
        map_option (\<lambda>(v, t). (h\<lparr>hd_alg := Some v\<rparr>, t)) (rd_string s)
      else if name = ''typ'' \<and> hd_typ h = None then
        map_option (\<lambda>(v, t). (h\<lparr>hd_typ := Some v\<rparr>, t)) (rd_string s)
      else if name = ''kid'' \<and> hd_kid h = None then
        map_option (\<lambda>(v, t). (h\<lparr>hd_kid := Some v\<rparr>, t)) (rd_string s)
      else None)"

lemma header_member_length: "header_member h n s = Some (h', t) \<Longrightarrow> length t \<le> length s"
  by (auto simp: header_member_def dest!: rd_string_length split: if_splits)

function header_loop :: "bool \<Rightarrow> Header \<Rightarrow> string \<Rightarrow> (Header \<times> string) option" where
  "header_loop is_first h s =
     (case rd_end CHR ''}'' s of
        (True, t) \<Rightarrow> Some (h, t)
      | (False, s1) \<Rightarrow>
          (case rd_name is_first s1 of
             None \<Rightarrow> None
           | Some (name, s2) \<Rightarrow>
               (case header_member h name s2 of
                  None \<Rightarrow> None
                | Some (h', s3) \<Rightarrow> header_loop False h' s3)))"
  by pat_completeness auto
termination
  by (relation "measure (\<lambda>(_, _, s). length s)")
    (auto dest!: rd_name_length header_member_length rd_end_length_sym)

declare header_loop.simps [simp del]

definition parseHeader :: "string \<Rightarrow> string option" where
  "parseHeader json = do {
     s \<leftarrow> rd_token CHR ''{'' json;
     (h, s) \<leftarrow> header_loop True \<lparr>hd_alg = None, hd_typ = None, hd_kid = None\<rparr> s;
     (case (hd_alg h, hd_typ h, hd_kid h) of
        (Some alg, Some typ, Some kid) \<Rightarrow>
          if \<not> rd_done s \<or> alg \<noteq> ''EdDSA'' \<or> typ \<noteq> ''sister-internal+jwt'' \<or> \<not> validKid kid then None
          else Some kid
      | _ \<Rightarrow> None)
   }"

function capabilities_loop :: "bool \<Rightarrow> string list \<Rightarrow> string \<Rightarrow> (string list \<times> string) option" where
  "capabilities_loop is_first acc s =
     (case rd_end CHR '']'' s of
        (True, t) \<Rightarrow> Some (acc, t)
      | (False, s1) \<Rightarrow>
          (case (if is_first then Some s1 else rd_token CHR '','' s1) of
             None \<Rightarrow> None
           | Some s2 \<Rightarrow>
               (case rd_string s2 of
                  None \<Rightarrow> None
                | Some (v, s3) \<Rightarrow>
                    if length (acc @ [v]) > 8 then None
                    else capabilities_loop False (acc @ [v]) s3)))"
  by pat_completeness auto
termination
  by (relation "measure (\<lambda>(_, _, s). length s)")
    (auto dest!: rd_token_length rd_string_length rd_end_length_sym split: if_splits)

declare capabilities_loop.simps [simp del]

record ClaimFields =
  f_iss :: "string option"
  f_sub :: "string option"
  f_aud :: "string option"
  f_capabilities :: "string list option"
  f_purpose :: "string option"
  f_iat :: "int option"
  f_exp :: "int option"
  f_jti :: "string option"
  f_requestId :: "string option"

definition no_fields :: ClaimFields where
  "no_fields = \<lparr>f_iss = None, f_sub = None, f_aud = None, f_capabilities = None, f_purpose = None,
     f_iat = None, f_exp = None, f_jti = None, f_requestId = None\<rparr>"

definition claim_member :: "ClaimFields \<Rightarrow> string \<Rightarrow> string \<Rightarrow> (ClaimFields \<times> string) option" where
  "claim_member f name s =
     (if name = ''iss'' \<and> f_iss f = None then
        map_option (\<lambda>(v, t). (f\<lparr>f_iss := Some v\<rparr>, t)) (rd_string s)
      else if name = ''sub'' \<and> f_sub f = None then
        map_option (\<lambda>(v, t). (f\<lparr>f_sub := Some v\<rparr>, t)) (rd_string s)
      else if name = ''aud'' \<and> f_aud f = None then
        map_option (\<lambda>(v, t). (f\<lparr>f_aud := Some v\<rparr>, t)) (rd_string s)
      else if name = ''purpose'' \<and> f_purpose f = None then
        map_option (\<lambda>(v, t). (f\<lparr>f_purpose := Some v\<rparr>, t)) (rd_string s)
      else if name = ''iat'' \<and> f_iat f = None then
        map_option (\<lambda>(v, t). (f\<lparr>f_iat := Some v\<rparr>, t)) (rd_integer s)
      else if name = ''exp'' \<and> f_exp f = None then
        map_option (\<lambda>(v, t). (f\<lparr>f_exp := Some v\<rparr>, t)) (rd_integer s)
      else if name = ''jti'' \<and> f_jti f = None then
        map_option (\<lambda>(v, t). (f\<lparr>f_jti := Some v\<rparr>, t)) (rd_string s)
      else if name = ''request_id'' \<and> f_requestId f = None then
        map_option (\<lambda>(v, t). (f\<lparr>f_requestId := Some v\<rparr>, t)) (rd_string s)
      else if name = ''capabilities'' \<and> f_capabilities f = None then do {
        s \<leftarrow> rd_token CHR ''['' s;
        (v, t) \<leftarrow> capabilities_loop True [] s;
        Some (f\<lparr>f_capabilities := Some v\<rparr>, t)
      }
      else None)"

lemma capabilities_loop_length: "capabilities_loop b acc s = Some (v, t) \<Longrightarrow> length t \<le> length s"
proof (induction b acc s rule: capabilities_loop.induct)
  case (1 b acc s)
  obtain e s1 where e: "rd_end CHR '']'' s = (e, s1)" by fastforce
  note le = rd_end_length [OF e]
  show ?case
  proof (cases e)
    case True
    with "1.prems" e le show ?thesis by (simp add: capabilities_loop.simps [of b])
  next
    case False
    with "1.prems" e obtain s2 w s3 where
      2: "(if b then Some s1 else rd_token CHR '','' s1) = Some s2" "rd_string s2 = Some (w, s3)"
        "\<not> length (acc @ [w]) > 8" "capabilities_loop False (acc @ [w]) s3 = Some (v, t)"
      by (simp add: capabilities_loop.simps [of b] split: option.split_asm if_split_asm prod.split_asm)
    have "length t \<le> length s3"
      using "1.IH" e False 2 by fastforce
    with 2(1,2) le show ?thesis
      by (auto dest!: rd_token_length rd_string_length split: if_splits)
  qed
qed

lemma claim_member_length: "claim_member f n s = Some (f', t) \<Longrightarrow> length t \<le> length s"
  by (auto simp: claim_member_def bind_eq_Some_conv split: if_splits
      dest!: rd_string_length rd_integer_length rd_token_length capabilities_loop_length)

function claims_loop :: "bool \<Rightarrow> ClaimFields \<Rightarrow> string \<Rightarrow> (ClaimFields \<times> string) option" where
  "claims_loop is_first f s =
     (case rd_end CHR ''}'' s of
        (True, t) \<Rightarrow> Some (f, t)
      | (False, s1) \<Rightarrow>
          (case rd_name is_first s1 of
             None \<Rightarrow> None
           | Some (name, s2) \<Rightarrow>
               (case claim_member f name s2 of
                  None \<Rightarrow> None
                | Some (f', s3) \<Rightarrow> claims_loop False f' s3)))"
  by pat_completeness auto
termination
  by (relation "measure (\<lambda>(_, _, s). length s)")
    (auto dest!: rd_name_length claim_member_length rd_end_length_sym)

declare claims_loop.simps [simp del]

definition parseClaims :: "string \<Rightarrow> InternalAssertionClaims option" where
  "parseClaims json = do {
     s \<leftarrow> rd_token CHR ''{'' json;
     (f, s) \<leftarrow> claims_loop True no_fields s;
     if \<not> rd_done s then None
     else do {
       iss \<leftarrow> f_iss f; sub \<leftarrow> f_sub f; aud \<leftarrow> f_aud f; caps \<leftarrow> f_capabilities f;
       pur \<leftarrow> f_purpose f; iat \<leftarrow> f_iat f; ex \<leftarrow> f_exp f; j \<leftarrow> f_jti f; rid \<leftarrow> f_requestId f;
       let c = \<lparr>issuer = iss, subject = sub, audience = aud, cl_capabilities = caps,
                cl_purpose = pur, issuedAt = iat, expiresAt = ex, jti = j, requestId = rid\<rparr> in
       (case serializeClaims c of Error _ \<Rightarrow> None | Okay _ \<Rightarrow> Some c)
     }
   }"

section \<open>Keys in files\<close>

text \<open>What the code asks of the file system about one path: whether it names a regular file, the
  nine permission bits, and the bytes read from it (\<open>None\<close> when it cannot be opened).\<close>

record KeyFile =
  kf_regular :: bool
  kf_permissions :: nat
  kf_content :: "string option"

record FileKeyProvider =
  privateKeyPath :: string
  fk_kid :: string

definition is_absolute :: "string \<Rightarrow> bool" where
  "is_absolute path \<longleftrightarrow> path \<noteq> [] \<and> hd path = CHR ''/''"

definition readFile :: "KeyFile \<Rightarrow> (string, string) result" where
  "readFile file =
     (case kf_content file of
        None \<Rightarrow> Error ''cannot read internal identity key file''
      | Some value \<Rightarrow>
          if value = [] \<or> length value > kMaximumKeyBytes
          then Error ''invalid internal identity key file size''
          else Okay value)"

definition FileKeyProvider_new :: "string \<Rightarrow> string \<Rightarrow> (string, FileKeyProvider) result" where
  "FileKeyProvider_new path kid =
     (if \<not> is_absolute path then Error ''internal identity private key path must be absolute''
      else if \<not> validKid kid then Error ''invalid internal identity key id''
      else Okay \<lparr>privateKeyPath = path, fk_kid = kid\<rparr>)"

text \<open>The group and other bits are the six low bits of the permissions.\<close>

definition currentSigningKey ::
  "AssertionCrypto \<Rightarrow> (string \<Rightarrow> KeyFile) \<Rightarrow> FileKeyProvider \<Rightarrow> (string, SigningKey) result" where
  "currentSigningKey ac fs provider =
     (let file = fs (privateKeyPath provider) in
      if \<not> kf_regular file then Error ''internal identity private key must be a regular file''
      else if kf_permissions file mod 64 \<noteq> 0
      then Error ''internal identity private key permissions must be 0600 or stricter''
      else case readFile file of
          Error e \<Rightarrow> Error e
        | Okay pem \<Rightarrow>
            if \<not> private_pem ac pem then Error ''internal identity private key must be Ed25519 PEM''
            else Okay \<lparr>sk_kid = fk_kid provider, privateKeyPem = pem\<rparr>)"

section \<open>Signing\<close>

text \<open>The key is what the key provider returns.\<close>

definition sign :: "AssertionCrypto \<Rightarrow> SigningKey \<Rightarrow> InternalAssertionClaims \<Rightarrow> (string, string) result" where
  "sign ac key claims =
     (if \<not> validKid (sk_kid key) then Error ''invalid internal identity key id''
      else if \<not> private_pem ac (privateKeyPem key)
      then Error ''internal identity private key must be Ed25519 PEM''
      else case claim_jsonEscape (sk_kid key) of Error e \<Rightarrow> Error e | Okay kid \<Rightarrow>
        let header = ''{'' @ [QUOTE] @ ''alg'' @ [QUOTE] @ '':'' @ [QUOTE] @ ''EdDSA'' @ [QUOTE] @ '','' @
              [QUOTE] @ ''typ'' @ [QUOTE] @ '':'' @ [QUOTE] @ ''sister-internal+jwt'' @ [QUOTE] @ '','' @
              [QUOTE] @ ''kid'' @ [QUOTE] @ '':'' @ [QUOTE] @ kid @ [QUOTE] @ ''}'' in
        case serializeClaims claims of Error e \<Rightarrow> Error e | Okay payload \<Rightarrow>
        case base64UrlEncode ac header of Error e \<Rightarrow> Error e | Okay h \<Rightarrow>
        case base64UrlEncode ac payload of Error e \<Rightarrow> Error e | Okay p \<Rightarrow>
        let signingInput = h @ ''.'' @ p in
        if \<not> DigestSignInit ac (privateKeyPem key)
        then Error ''cannot initialize internal assertion signature''
        else case DigestSign ac (privateKeyPem key) signingInput of
            None \<Rightarrow> Error ''cannot sign internal assertion''
          | Some signature \<Rightarrow>
              (case base64UrlEncode ac signature of
                 Error e \<Rightarrow> Error e
               | Okay sg \<Rightarrow> Okay (signingInput @ ''.'' @ sg)))"

section \<open>Verifying\<close>

definition addPublicKey ::
  "AssertionCrypto \<Rightarrow> string \<Rightarrow> string \<Rightarrow> AssertionVerifier \<Rightarrow> (string, AssertionVerifier) result" where
  "addPublicKey ac kid pem v =
     (if \<not> validKid kid then Error ''invalid internal identity key id''
      else if \<not> public_pem ac pem then Error ''internal identity public key must be Ed25519 PEM''
      else Okay (v\<lparr>publicKeys := AList.update kid pem (publicKeys v)\<rparr>))"

definition addPublicKeyFile ::
  "AssertionCrypto \<Rightarrow> (string \<Rightarrow> KeyFile) \<Rightarrow> string \<Rightarrow> string \<Rightarrow> AssertionVerifier \<Rightarrow>
     (string, AssertionVerifier) result" where
  "addPublicKeyFile ac fs kid path v =
     (if \<not> is_absolute path then Error ''internal identity public key path must be absolute''
      else case readFile (fs path) of
          Error e \<Rightarrow> Error e
        | Okay pem \<Rightarrow> addPublicKey ac kid pem v)"

definition no_claims :: InternalAssertionClaims where
  "no_claims = \<lparr>issuer = ''sisterd'', subject = [], audience = [], cl_capabilities = [], cl_purpose = [],
     issuedAt = 0, expiresAt = 0, jti = [], requestId = []\<rparr>"

definition failure :: "string \<Rightarrow> VerificationResult" where
  "failure e = \<lparr>vr_valid = False, vr_error = e, vr_claims = no_claims\<rparr>"

text \<open>The three parts of a compact assertion: exactly two dots.\<close>

definition split_assertion :: "string \<Rightarrow> (string \<times> string \<times> string) option" where
  "split_assertion s = (case split_on CHR ''.'' s of [a, b, c] \<Rightarrow> Some (a, b, c) | _ \<Rightarrow> None)"

text \<open>From the compact form to the claims: everything before the policy checks.  A caught
  exception is \<open>malformed_assertion\<close>.\<close>

definition authenticate ::
  "AssertionCrypto \<Rightarrow> (string \<times> string) list \<Rightarrow> string \<Rightarrow> (string, InternalAssertionClaims) result" where
  "authenticate ac keys compact =
     (if compact = [] \<or> length compact > kMaximumAssertionBytes then Error ''malformed_assertion''
      else case split_assertion compact of
          None \<Rightarrow> Error ''malformed_assertion''
        | Some (h, p, sg) \<Rightarrow>
            (case (base64UrlDecode ac h, base64UrlDecode ac p, base64UrlDecode ac sg) of
               (Some header, Some payload, Some signature) \<Rightarrow>
                 if length signature \<noteq> 64 then Error ''malformed_assertion''
                 else (case parseHeader header of
                     None \<Rightarrow> Error ''malformed_assertion''
                   | Some kid \<Rightarrow>
                       (case map_of keys kid of
                          None \<Rightarrow> Error ''unknown_key''
                        | Some pem \<Rightarrow>
                            if \<not> public_pem ac pem then Error ''malformed_assertion''
                            else if \<not> DigestVerifyInit ac pem then Error ''verification_failure''
                            else if \<not> DigestVerify ac pem (h @ ''.'' @ p) signature
                            then Error ''invalid_signature''
                            else (case parseClaims payload of
                                None \<Rightarrow> Error ''malformed_assertion''
                              | Some claims \<Rightarrow> Okay claims)))
             | _ \<Rightarrow> Error ''malformed_assertion''))"

definition policy_error :: "VerificationRequirements \<Rightarrow> int \<Rightarrow> InternalAssertionClaims \<Rightarrow> string option" where
  "policy_error rq nowSeconds c =
     (if issuer c \<noteq> ''sisterd'' then Some ''invalid_issuer''
      else if audience c \<noteq> rq_audience rq then Some ''invalid_audience''
      else if cl_purpose c \<noteq> rq_purpose rq then Some ''invalid_purpose''
      else if rq_capability rq \<notin> set (cl_capabilities c) then Some ''capability_missing''
      else if issuedAt c > nowSeconds + clockSkew rq then Some ''issued_in_future''
      else if expiresAt c \<le> nowSeconds - clockSkew rq then Some ''assertion_expired''
      else if expiresAt c - issuedAt c > maximumLifetime rq then Some ''lifetime_exceeded''
      else None)"

definition verify ::
  "AssertionCrypto \<Rightarrow> string \<Rightarrow> VerificationRequirements \<Rightarrow> int \<Rightarrow> AssertionVerifier \<Rightarrow>
     VerificationResult \<times> AssertionVerifier" where
  "verify ac compact rq now v =
     (case authenticate ac (publicKeys v) compact of
        Error e \<Rightarrow> (failure e, v)
      | Okay claims \<Rightarrow>
          let nowSeconds = now sdiv 1000000000 in
          (case policy_error rq nowSeconds claims of
             Some e \<Rightarrow> (failure e, v)
           | None \<Rightarrow>
               let v = v\<lparr>seenJtis := filter (\<lambda>(_, ex). \<not> ex \<le> nowSeconds - clockSkew rq) (seenJtis v)\<rparr> in
               if map_of (seenJtis v) (jti claims) \<noteq> None then (failure ''assertion_replayed'', v)
               else (\<lparr>vr_valid = True, vr_error = [], vr_claims = claims\<rparr>,
                     v\<lparr>seenJtis := (jti claims, expiresAt claims) # seenJtis v\<rparr>)))"

definition randomAssertionId :: "nat \<Rightarrow> string option \<Rightarrow> (string, string) result" where
  "randomAssertionId bytes entropy =
     (if bytes < 8 \<or> bytes > 60 then Error ''invalid assertion id size''
      else case entropy of
          None \<Rightarrow> Error ''cannot generate assertion id''
        | Some random \<Rightarrow> Okay (hex_string random))"

section \<open>Capabilities against a grammar\<close>

definition segment_char :: "char \<Rightarrow> bool" where
  "segment_char c \<longleftrightarrow> islower c \<or> isdigit c \<or> c = CHR ''_''"

definition segment :: "string \<Rightarrow> bool" where
  "segment s \<longleftrightarrow> s \<noteq> [] \<and> islower (hd s) \<and> list_all segment_char s"

lemma dot_class [simp]: "\<not> islower CHR ''.''" "\<not> isdigit CHR ''.''"
  by (simp_all add: islower_def isdigit_def)

lemma segment_simps [simp]:
  "\<not> segment []" "segment (c # s) \<longleftrightarrow> islower c \<and> segment_char c \<and> list_all segment_char s"
  by (auto simp: segment_def)

text \<open>The loop, started inside a segment whose beginning has been checked, or at its start.\<close>

lemma validCapability_loop_split:
  "validCapability_loop d st s \<longleftrightarrow> d + length (split_on CHR ''.'' s) = 3 \<and>
     (if st then segment (hd (split_on CHR ''.'' s)) else list_all segment_char (hd (split_on CHR ''.'' s))) \<and>
     list_all segment (tl (split_on CHR ''.'' s))"
proof (induction s arbitrary: d st)
  case Nil
  then show ?case by auto
next
  case (Cons c s)
  obtain p ps where sp: "split_on CHR ''.'' s = p # ps" by (meson neq_Nil_conv split_on_ne)
  show ?case
  proof (cases "c = CHR ''.''")
    case True
    have "validCapability_loop d st (c # s) \<longleftrightarrow> \<not> st \<and> validCapability_loop (d + 1) True s"
      using True by simp
    also have "\<dots> \<longleftrightarrow> \<not> st \<and> d + 1 + length (p # ps) = 3 \<and> segment p \<and> list_all segment ps"
      unfolding Cons.IH [of "d + 1" True] sp by simp
    finally show ?thesis using True by (auto simp: sp)
  next
    case False
    have "validCapability_loop d st (c # s) \<longleftrightarrow> (st \<longrightarrow> islower c) \<and> segment_char c \<and> validCapability_loop d False s"
      using False by (auto simp: segment_char_def)
    also have "\<dots> \<longleftrightarrow> (st \<longrightarrow> islower c) \<and> segment_char c \<and>
        d + length (p # ps) = 3 \<and> list_all segment_char p \<and> list_all segment ps"
      unfolding Cons.IH [of d False] sp by simp
    finally show ?thesis using False by (auto simp: sp)
  qed
qed

end
