(* ===== verification/Assertion_Properties.thy ===== *)
theory Assertion_Properties
  imports Assertion "HOL-Library.Code_Target_Numeral"
begin

text \<open>
  Correctness of internal assertions: the claims that are read are the claims that were
  written, an assertion that was signed is accepted, acceptance implies every check, and an
  assertion is accepted at most once.
\<close>

section \<open>Strings\<close>

lemma rd_string_loop_char:
  "claim_printable c \<Longrightarrow>
     rd_string_loop (claim_escape_char c @ t) = map_option (\<lambda>(v, u). (c # v, u)) (rd_string_loop t)"
  by (auto simp: claim_printable_def claim_escape_char_def rd_escape_def)

interpretation claims: char_codec claim_escape_char rd_string_loop claim_printable
  by unfold_locales (simp_all add: rd_string_loop_char)

lemma rd_whitespace_Cons [simp]: "\<not> isspace c \<Longrightarrow> rd_whitespace (c # s) = c # s"
  by (simp add: rd_whitespace_def)

lemma not_space [simp]:
  "\<not> isspace QUOTE" "\<not> isspace CHR '':''" "\<not> isspace CHR '',''" "\<not> isspace CHR ''{''" "\<not> isspace CHR ''}''"
  "\<not> isspace CHR ''[''" "\<not> isspace CHR '']''"
  by (simp_all add: isspace_def)

lemma rd_token_here [simp]: "\<not> isspace c \<Longrightarrow> rd_token c (c # s) = Some s"
  by (simp add: rd_token_def rd_expect_def)

lemma rd_string_escaped:
  "list_all claim_printable v \<Longrightarrow>
     rd_string (QUOTE # concat (map claim_escape_char v) @ QUOTE # t) = Some (v, t)"
  using claims.reader_escaped [of v t] by (simp add: rd_string_def list_all_iff)

definition plain_char :: "char \<Rightarrow> bool" where
  "plain_char c \<longleftrightarrow> c \<noteq> QUOTE \<and> c \<noteq> BACKSLASH \<and> 32 \<le> byte c"

lemma rd_string_plain: "list_all plain_char v \<Longrightarrow> rd_string (QUOTE # v @ QUOTE # t) = Some (v, t)"
proof -
  assume "list_all plain_char v"
  then have "rd_string_loop (v @ QUOTE # t) = Some (v, t)"
    by (induction v) (auto simp: plain_char_def)
  then show ?thesis by (simp add: rd_string_def)
qed

section \<open>Members\<close>

lemma rd_end_other: "\<not> isspace c \<Longrightarrow> c \<noteq> e \<Longrightarrow> rd_end e (c # s) = (False, c # s)"
  by (simp add: rd_end_def rd_expect_def)

lemma rd_end_here: "\<not> isspace e \<Longrightarrow> rd_end e (e # s) = (True, s)"
  by (simp add: rd_end_def rd_expect_def)

lemma rd_name_text:
  assumes "list_all plain_char name"
  shows "rd_name True (QUOTE # name @ QUOTE # CHR '':'' # body) = Some (name, body)"
    and "rd_name False (CHR '','' # QUOTE # name @ QUOTE # CHR '':'' # body) = Some (name, body)"
  using rd_string_plain [OF assms] by (simp_all add: rd_name_def)

lemma claims_loop_member:
  assumes "list_all plain_char name" and "claim_member f name body = Some (f', rest)"
  shows "claims_loop True f (QUOTE # name @ QUOTE # CHR '':'' # body) = claims_loop False f' rest"
    and "claims_loop False f (CHR '','' # QUOTE # name @ QUOTE # CHR '':'' # body) = claims_loop False f' rest"
  unfolding claims_loop.simps [of _ f]
  using rd_name_text [OF assms(1), of body] assms(2) by (simp_all add: rd_end_other)

lemma header_loop_member:
  assumes "list_all plain_char name" and "header_member h name body = Some (h', rest)"
  shows "header_loop True h (QUOTE # name @ QUOTE # CHR '':'' # body) = header_loop False h' rest"
    and "header_loop False h (CHR '','' # QUOTE # name @ QUOTE # CHR '':'' # body) = header_loop False h' rest"
  unfolding header_loop.simps [of _ h]
  using rd_name_text [OF assms(1), of body] assms(2) by (simp_all add: rd_end_other)

lemma claims_loop_end: "claims_loop b f (CHR ''}'' # t) = Some (f, t)"
  by (simp add: claims_loop.simps rd_end_here)

lemma header_loop_end: "header_loop b h (CHR ''}'' # t) = Some (h, t)"
  by (simp add: header_loop.simps rd_end_here)

lemma rd_integer_text:
  assumes "0 \<le> v" "v \<le> int64_max" "c = CHR '','' \<or> c = CHR ''}''"
  shows "rd_integer (show_int v @ c # t) = Some (v, c # t)"
proof -
  obtain d ds where d: "show_nat (nat v) = d # ds" by (meson neq_Nil_conv show_nat_ne)
  have dig: "isdigit d" using show_nat_digits [of d "nat v"] by (simp add: d)
  have ws: "rd_whitespace (show_nat (nat v) @ c # t) = show_nat (nat v) @ c # t"
    using dig by (simp add: d isspace_def isdigit_def)
  have nosign: "hd (show_nat (nat v) @ c # t) \<noteq> CHR ''-''" using dig by (auto simp: d isdigit_def)
  have "\<not> isdigit c" using assms(3) by (auto simp: isdigit_def)
  then have td: "takeWhile isdigit (show_nat (nat v) @ c # t) = show_nat (nat v)"
    "dropWhile isdigit (show_nat (nat v) @ c # t) = c # t"
    using takeWhile_digits [of "show_nat (nat v)" "c # t"] by auto
  have "from_chars int64_min int64_max (show_nat (nat v)) = Some (v, [])"
    using from_chars_show_nat [of "nat v" int64_max int64_min "[]"] assms(1,2) by simp
  with ws nosign td assms(1) show ?thesis by (simp add: rd_integer_def show_int_def Let_def)
qed

abbreviation quoted_claim :: "string \<Rightarrow> string" where
  "quoted_claim v \<equiv> QUOTE # concat (map claim_escape_char v) @ [QUOTE]"

lemma capabilities_loop_text:
  "list_all (list_all claim_printable) caps \<Longrightarrow> length (acc @ caps) \<le> 8 \<Longrightarrow> caps \<noteq> [] \<Longrightarrow>
     capabilities_loop True acc (join_with CHR '','' (map quoted_claim caps) @ CHR '']'' # t) = Some (acc @ caps, t) \<and>
     capabilities_loop False acc (CHR '','' # join_with CHR '','' (map quoted_claim caps) @ CHR '']'' # t) = Some (acc @ caps, t)"
proof (induction caps arbitrary: acc)
  case (Cons v caps)
  let ?rest = "if caps = [] then CHR '']'' # t
    else CHR '','' # join_with CHR '','' (map quoted_claim caps) @ CHR '']'' # t"
  have joined: "join_with CHR '','' (map quoted_claim (v # caps)) @ CHR '']'' # t =
      QUOTE # concat (map claim_escape_char v) @ QUOTE # ?rest"
    by (cases caps) simp_all
  have rd: "rd_string (QUOTE # concat (map claim_escape_char v) @ QUOTE # ?rest) = Some (v, ?rest)"
    using Cons.prems(1) by (intro rd_string_escaped) simp
  have rest: "capabilities_loop False (acc @ [v]) ?rest = Some (acc @ v # caps, t)"
  proof (cases "caps = []")
    case True
    then show ?thesis by (simp add: capabilities_loop.simps rd_end_here)
  next
    case False
    with Cons.prems Cons.IH [of "acc @ [v]"] show ?thesis by simp
  qed
  have len: "length acc < 8" using Cons.prems(2) by simp
  show ?case
    unfolding joined capabilities_loop.simps [of True acc] capabilities_loop.simps [of False acc "CHR '','' # _"]
    using rd rest len by (simp add: rd_end_other)
qed simp

section \<open>Claims\<close>

text \<open>The text of the members after the first, as a chain.\<close>

abbreviation member_chain :: "string \<Rightarrow> string \<Rightarrow> string \<Rightarrow> string" where
  "member_chain name value rest \<equiv> CHR '','' # QUOTE # name @ QUOTE # CHR '':'' # value @ rest"

definition claims_tail :: "InternalAssertionClaims \<Rightarrow> string" where
  "claims_tail c =
     member_chain ''purpose'' (quoted_claim (cl_purpose c))
      (member_chain ''iat'' (show_int (issuedAt c))
        (member_chain ''exp'' (show_int (expiresAt c))
          (member_chain ''jti'' (quoted_claim (jti c))
            (member_chain ''request_id'' (quoted_claim (requestId c)) ''}''))))"

lemma names_plain:
  "list_all plain_char ''iss''" "list_all plain_char ''sub''" "list_all plain_char ''aud''"
  "list_all plain_char ''capabilities''" "list_all plain_char ''purpose''" "list_all plain_char ''iat''"
  "list_all plain_char ''exp''" "list_all plain_char ''jti''" "list_all plain_char ''request_id''"
  "list_all plain_char ''alg''" "list_all plain_char ''typ''" "list_all plain_char ''kid''"
  by (simp_all add: plain_char_def)

lemma claims_tail_read:
  assumes "list_all claim_printable (cl_purpose c)" "list_all claim_printable (jti c)"
    "list_all claim_printable (requestId c)"
    and "0 \<le> issuedAt c" "issuedAt c \<le> int64_max" "0 \<le> expiresAt c" "expiresAt c \<le> int64_max"
    and "f_purpose f = None" "f_iat f = None" "f_exp f = None" "f_jti f = None" "f_requestId f = None"
  shows "claims_loop False f (claims_tail c) =
    Some (f\<lparr>f_purpose := Some (cl_purpose c), f_iat := Some (issuedAt c), f_exp := Some (expiresAt c),
      f_jti := Some (jti c), f_requestId := Some (requestId c)\<rparr>, [])"
proof -
  let ?t5 = "''}''"
  let ?t4 = "member_chain ''request_id'' (quoted_claim (requestId c)) ?t5"
  let ?t3 = "member_chain ''jti'' (quoted_claim (jti c)) ?t4"
  let ?t2 = "member_chain ''exp'' (show_int (expiresAt c)) ?t3"
  let ?t1 = "member_chain ''iat'' (show_int (issuedAt c)) ?t2"
  let ?f1 = "f\<lparr>f_purpose := Some (cl_purpose c)\<rparr>"
  let ?f2 = "?f1\<lparr>f_iat := Some (issuedAt c)\<rparr>"
  let ?f3 = "?f2\<lparr>f_exp := Some (expiresAt c)\<rparr>"
  let ?f4 = "?f3\<lparr>f_jti := Some (jti c)\<rparr>"
  let ?f5 = "?f4\<lparr>f_requestId := Some (requestId c)\<rparr>"
  have m1: "claim_member f ''purpose'' (quoted_claim (cl_purpose c) @ ?t1) = Some (?f1, ?t1)"
    using assms(1,8) by (simp add: claim_member_def rd_string_escaped)
  have m2: "claim_member ?f1 ''iat'' (show_int (issuedAt c) @ ?t2) = Some (?f2, ?t2)"
    using assms(4,5,9) by (simp add: claim_member_def rd_integer_text)
  have m3: "claim_member ?f2 ''exp'' (show_int (expiresAt c) @ ?t3) = Some (?f3, ?t3)"
    using assms(6,7,10) by (simp add: claim_member_def rd_integer_text)
  have m4: "claim_member ?f3 ''jti'' (quoted_claim (jti c) @ ?t4) = Some (?f4, ?t4)"
    using assms(2,11) by (simp add: claim_member_def rd_string_escaped)
  have m5: "claim_member ?f4 ''request_id'' (quoted_claim (requestId c) @ ?t5) = Some (?f5, ?t5)"
    using assms(3,12) by (simp add: claim_member_def rd_string_escaped)
  have "claims_loop False f (claims_tail c) = claims_loop False ?f1 ?t1"
    unfolding claims_tail_def by (rule claims_loop_member(2) [OF names_plain(5) m1])
  also have "\<dots> = claims_loop False ?f2 ?t2" by (rule claims_loop_member(2) [OF names_plain(6) m2])
  also have "\<dots> = claims_loop False ?f3 ?t3" by (rule claims_loop_member(2) [OF names_plain(7) m3])
  also have "\<dots> = claims_loop False ?f4 ?t4" by (rule claims_loop_member(2) [OF names_plain(8) m4])
  also have "\<dots> = claims_loop False ?f5 ?t5" by (rule claims_loop_member(2) [OF names_plain(9) m5])
  finally show ?thesis by (simp add: claims_loop_end)
qed

lemma claim_text_chain:
  "claim_text (concat (map claim_escape_char (subject c))) (concat (map claim_escape_char (audience c)))
     (map (\<lambda>s. concat (map claim_escape_char s)) (cl_capabilities c))
     (concat (map claim_escape_char (cl_purpose c))) (issuedAt c) (expiresAt c)
     (concat (map claim_escape_char (jti c))) (concat (map claim_escape_char (requestId c))) =
   CHR ''{'' # QUOTE # ''iss'' @ QUOTE # CHR '':'' # (QUOTE # ''sisterd'' @ QUOTE #
    member_chain ''sub'' (quoted_claim (subject c))
     (member_chain ''aud'' (quoted_claim (audience c))
       (member_chain ''capabilities''
          (CHR ''['' # join_with CHR '','' (map quoted_claim (cl_capabilities c)) @ [CHR '']'']) (claims_tail c))))"
  by (simp add: claim_text_def claims_tail_def comp_def)

lemma claims_text_read:
  assumes p: "list_all claim_printable (subject c)" "list_all claim_printable (audience c)"
    "list_all claim_printable (cl_purpose c)" "list_all claim_printable (jti c)"
    "list_all claim_printable (requestId c)" "list_all (list_all claim_printable) (cl_capabilities c)"
    and n: "cl_capabilities c \<noteq> []" "length (cl_capabilities c) \<le> 8"
    and t: "0 \<le> issuedAt c" "issuedAt c \<le> int64_max" "0 \<le> expiresAt c" "expiresAt c \<le> int64_max"
  shows "claims_loop True no_fields (QUOTE # ''iss'' @ QUOTE # CHR '':'' # (QUOTE # ''sisterd'' @ QUOTE #
    member_chain ''sub'' (quoted_claim (subject c))
     (member_chain ''aud'' (quoted_claim (audience c))
       (member_chain ''capabilities''
          (CHR ''['' # join_with CHR '','' (map quoted_claim (cl_capabilities c)) @ [CHR '']'']) (claims_tail c))))) =
    Some (\<lparr>f_iss = Some ''sisterd'', f_sub = Some (subject c), f_aud = Some (audience c),
      f_capabilities = Some (cl_capabilities c), f_purpose = Some (cl_purpose c),
      f_iat = Some (issuedAt c), f_exp = Some (expiresAt c), f_jti = Some (jti c),
      f_requestId = Some (requestId c)\<rparr>, [])"
proof -
  let ?t4 = "claims_tail c"
  let ?t3 = "member_chain ''capabilities''
      (CHR ''['' # join_with CHR '','' (map quoted_claim (cl_capabilities c)) @ [CHR '']'']) ?t4"
  let ?t2 = "member_chain ''aud'' (quoted_claim (audience c)) ?t3"
  let ?t1 = "member_chain ''sub'' (quoted_claim (subject c)) ?t2"
  let ?f1 = "no_fields\<lparr>f_iss := Some ''sisterd''\<rparr>"
  let ?f2 = "?f1\<lparr>f_sub := Some (subject c)\<rparr>"
  let ?f3 = "?f2\<lparr>f_aud := Some (audience c)\<rparr>"
  let ?f4 = "?f3\<lparr>f_capabilities := Some (cl_capabilities c)\<rparr>"
  have iss: "rd_string (QUOTE # ''sisterd'' @ QUOTE # ?t1) = Some (''sisterd'', ?t1)"
    by (rule rd_string_plain) (simp add: plain_char_def)
  have m1: "claim_member no_fields ''iss'' (QUOTE # ''sisterd'' @ QUOTE # ?t1) = Some (?f1, ?t1)"
    unfolding claim_member_def iss by (simp add: no_fields_def)
  have m2: "claim_member ?f1 ''sub'' (quoted_claim (subject c) @ ?t2) = Some (?f2, ?t2)"
    using p(1) by (simp add: claim_member_def rd_string_escaped no_fields_def)
  have m3: "claim_member ?f2 ''aud'' (quoted_claim (audience c) @ ?t3) = Some (?f3, ?t3)"
    using p(2) by (simp add: claim_member_def rd_string_escaped no_fields_def)
  have "capabilities_loop True [] (join_with CHR '','' (map quoted_claim (cl_capabilities c)) @ CHR '']'' # ?t4) =
      Some (cl_capabilities c, ?t4)"
    using capabilities_loop_text [OF p(6), of "[]"] n by simp
  then have m4: "claim_member ?f3 ''capabilities''
      ((CHR ''['' # join_with CHR '','' (map quoted_claim (cl_capabilities c)) @ [CHR '']'']) @ ?t4) = Some (?f4, ?t4)"
    by (simp add: claim_member_def no_fields_def)
  have "claims_loop True no_fields (QUOTE # ''iss'' @ QUOTE # CHR '':'' # (QUOTE # ''sisterd'' @ QUOTE # ?t1)) =
      claims_loop False ?f1 ?t1"
    by (rule claims_loop_member(1) [OF names_plain(1) m1])
  also have "\<dots> = claims_loop False ?f2 ?t2" by (rule claims_loop_member(2) [OF names_plain(2) m2])
  also have "\<dots> = claims_loop False ?f3 ?t3" by (rule claims_loop_member(2) [OF names_plain(3) m3])
  also have "\<dots> = claims_loop False ?f4 ?t4" by (rule claims_loop_member(2) [OF names_plain(4) m4])
  also have "\<dots> = Some (?f4\<lparr>f_purpose := Some (cl_purpose c), f_iat := Some (issuedAt c),
      f_exp := Some (expiresAt c), f_jti := Some (jti c), f_requestId := Some (requestId c)\<rparr>, [])"
    using p t by (intro claims_tail_read) (simp_all add: no_fields_def)
  finally show ?thesis by (simp add: no_fields_def)
qed

lemma serializeClaims_okay:
  assumes "serializeClaims c = Okay payload"
  shows "\<not> claims_invalid c" and "list_all validCapability (cl_capabilities c)"
    and "list_all (list_all claim_printable)
      (subject c # audience c # cl_purpose c # jti c # requestId c # cl_capabilities c)"
    and "payload = CHR ''{'' # QUOTE # ''iss'' @ QUOTE # CHR '':'' # (QUOTE # ''sisterd'' @ QUOTE #
    member_chain ''sub'' (quoted_claim (subject c))
     (member_chain ''aud'' (quoted_claim (audience c))
       (member_chain ''capabilities''
          (CHR ''['' # join_with CHR '','' (map quoted_claim (cl_capabilities c)) @ [CHR '']'']) (claims_tail c))))"
proof -
  note s = assms [unfolded serializeClaims_def Let_def if_error_okay_iff, simplified sum.inject]
  from s show "\<not> claims_invalid c" "list_all validCapability (cl_capabilities c)" by blast+
  from s show "list_all (list_all claim_printable)
      (subject c # audience c # cl_purpose c # jti c # requestId c # cl_capabilities c)" by simp
  from s show "payload = CHR ''{'' # QUOTE # ''iss'' @ QUOTE # CHR '':'' # (QUOTE # ''sisterd'' @ QUOTE #
    member_chain ''sub'' (quoted_claim (subject c))
     (member_chain ''aud'' (quoted_claim (audience c))
       (member_chain ''capabilities''
          (CHR ''['' # join_with CHR '','' (map quoted_claim (cl_capabilities c)) @ [CHR '']'']) (claims_tail c))))"
    using claim_text_chain [of c] by simp
qed

lemma parse_serialized_claims:
  assumes "serializeClaims c = Okay payload" and "expiresAt c \<le> int64_max"
  shows "parseClaims payload = Some c"
proof -
  note s = serializeClaims_okay [OF assms(1)]
  have i: "issuer c = ''sisterd''" "cl_capabilities c \<noteq> []" "length (cl_capabilities c) \<le> 8"
    "0 \<le> issuedAt c" "issuedAt c < expiresAt c"
    using s(1) by (auto simp: claims_invalid_def)
  have c: "\<lparr>issuer = ''sisterd'', subject = subject c, audience = audience c,
      cl_capabilities = cl_capabilities c, cl_purpose = cl_purpose c, issuedAt = issuedAt c,
      expiresAt = expiresAt c, jti = jti c, requestId = requestId c\<rparr> = c"
    using i(1) by (cases c) simp
  have "claims_loop True no_fields (tl payload) =
    Some (\<lparr>f_iss = Some ''sisterd'', f_sub = Some (subject c), f_aud = Some (audience c),
      f_capabilities = Some (cl_capabilities c), f_purpose = Some (cl_purpose c),
      f_iat = Some (issuedAt c), f_exp = Some (expiresAt c), f_jti = Some (jti c),
      f_requestId = Some (requestId c)\<rparr>, [])"
    unfolding s(4) list.sel using s(3) i assms(2) by (intro claims_text_read) simp_all
  moreover have "payload = CHR ''{'' # tl payload" unfolding s(4) by simp
  then have "rd_token CHR ''{'' payload = Some (tl payload)" by (metis not_space(4) rd_token_here)
  ultimately show ?thesis
    by (simp add: parseClaims_def rd_done_def rd_whitespace_def c assms(1))
qed

section \<open>Base64url\<close>

text \<open>The documented behaviour of \<open>EVP_EncodeBlock\<close> and \<open>EVP_DecodeBlock\<close>: four characters
  of the standard alphabet for every three bytes, padded with \<open>=\<close>; decoding returns whole
  groups, with a zero byte for every padding character.\<close>

definition std64 :: "char \<Rightarrow> bool" where
  "std64 c \<longleftrightarrow> isalnum c \<or> c = CHR ''+'' \<or> c = CHR ''/''"

definition padding :: "string \<Rightarrow> nat" where
  "padding s = (3 - length s mod 3) mod 3"

definition base64_laws :: "AssertionCrypto \<Rightarrow> bool" where
  "base64_laws ac \<longleftrightarrow> (\<forall>s. \<exists>body. list_all std64 body \<and>
     length body + padding s = 4 * ((length s + 2) div 3) \<and>
     EncodeBlock ac s = Some (body @ replicate (padding s) (CHR ''='')) \<and>
     DecodeBlock ac (body @ replicate (padding s) (CHR ''='')) = Some (s @ replicate (padding s) NUL))"

definition to_url :: "char \<Rightarrow> char" where
  "to_url c = (if c = CHR ''+'' then CHR ''-'' else if c = CHR ''/'' then CHR ''_'' else c)"

lemma url_char_to_url: "std64 c \<Longrightarrow> url_char (to_url c) = Some c"
  by (auto simp: std64_def url_char_def to_url_def isalnum_def isdigit_def islower_def isupper_def)

lemma those_url: "list_all std64 b \<Longrightarrow> those (map url_char (map to_url b)) = Some b"
  by (induction b) (auto simp: url_char_to_url)

lemma to_url_no_dot: "list_all std64 b \<Longrightarrow> CHR ''.'' \<notin> set (map to_url b)"
  by (auto simp: list_all_iff std64_def to_url_def isalnum_def isdigit_def islower_def isupper_def split: if_splits)

lemma padding_cases:
  assumes "length body + padding s = 4 * ((length s + 2) div 3)"
  shows "padding s \<in> {0, 1, 2}" and "length body mod 4 \<noteq> 1"
    and "(4 - length body mod 4) mod 4 = padding s" and "s \<noteq> [] \<Longrightarrow> 2 \<le> length body"
proof -
  have "padding s < 3" by (simp add: padding_def)
  then show k: "padding s \<in> {0, 1, 2}" by auto
  let ?m = "(length s + 2) div 3"
  have b: "length body = 4 * ?m - padding s" using assms by simp
  show ne: "s \<noteq> [] \<Longrightarrow> 2 \<le> length body"
  proof -
    assume "s \<noteq> []"
    then have "1 \<le> ?m" by (cases s) simp_all
    with k b show ?thesis by auto
  qed
  have "length body mod 4 = (if padding s = 0 then 0 else 4 - padding s)"
  proof (cases "?m = 0")
    case True
    then have "length s + 2 < 3" by (simp add: div_eq_0_iff)
    then have "padding s = 0" by (simp add: padding_def)
    with b True show ?thesis by simp
  next
    case False
    then obtain q where q: "?m = Suc q" by (cases ?m) auto
    from k show ?thesis
    proof (elim insertE)
      assume p: "padding s = 1"
      then have "length body = 3 + 4 * q" using b q by simp
      with p show ?thesis by (simp only: mod_mult_self2) simp
    next
      assume p: "padding s = 2"
      then have "length body = 2 + 4 * q" using b q by simp
      with p show ?thesis by (simp only: mod_mult_self2) simp
    qed (use b q in simp_all)
  qed
  with k show "length body mod 4 \<noteq> 1" and "(4 - length body mod 4) mod 4 = padding s" by auto
qed

lemma strip_padding:
  assumes "list_all std64 body" "body \<noteq> []"
  shows "rev (dropWhile (\<lambda>c. c = CHR ''='') (rev (body @ replicate k (CHR ''='')))) = body"
proof -
  have "last body \<noteq> CHR ''=''"
    using assms by (auto simp: list_all_iff std64_def isalnum_def isdigit_def islower_def isupper_def dest!: last_in_set)
  then have "dropWhile (\<lambda>c. c = CHR ''='') (rev body) = rev body"
    using assms(2) by (cases body rule: rev_cases) auto
  then have "dropWhile (\<lambda>c. c = CHR ''='') (replicate k (CHR ''='') @ rev body) = rev body"
    by (induction k) simp_all
  then show ?thesis by (simp add: rev_replicate)
qed

lemma padded_ends:
  assumes "2 \<le> length body" "\<forall>c \<in> set body. c \<noteq> e" "k \<in> {0, 1, 2}"
  shows "(last (body @ replicate k e) = e) = (1 \<le> k)"
    and "(length (body @ replicate k e) \<ge> 2 \<and>
      (body @ replicate k e) ! (length (body @ replicate k e) - 2) = e) = (2 \<le> k)"
proof -
  obtain xs y z where b: "body = xs @ [y, z]"
  proof -
    obtain ys z where "body = ys @ [z]" using assms(1) by (cases body rule: rev_cases) auto
    moreover from this assms(1) obtain xs y where "ys = xs @ [y]" by (cases ys rule: rev_cases) auto
    ultimately show thesis using that [of xs y z] by simp
  qed
  have yz: "y \<noteq> e" "z \<noteq> e" using assms(2) by (auto simp: b)
  consider "k = 0" | "k = 1" | "k = 2" using assms(3) by blast
  then show "(last (body @ replicate k e) = e) = (1 \<le> k)"
    and "(length (body @ replicate k e) \<ge> 2 \<and>
      (body @ replicate k e) ! (length (body @ replicate k e) - 2) = e) = (2 \<le> k)"
    by (cases; use yz in \<open>simp add: b nth_append numeral_2_eq_2\<close>)+
qed

lemma base64Url_roundtrip:
  assumes laws: "base64_laws ac" and enc: "base64UrlEncode ac s = Okay e"
    and ne: "s \<noteq> []" and short: "length e \<le> kMaximumAssertionBytes"
  shows "base64UrlDecode ac e = Some s \<and> CHR ''.'' \<notin> set e \<and> e \<noteq> []"
proof -
  let ?k = "padding s"
  obtain body where std: "list_all std64 body" and len: "length body + ?k = 4 * ((length s + 2) div 3)"
    and en: "EncodeBlock ac s = Some (body @ replicate ?k (CHR ''=''))"
    and de: "DecodeBlock ac (body @ replicate ?k (CHR ''='')) = Some (s @ replicate ?k NUL)"
    using laws unfolding base64_laws_def by meson
  note pc = padding_cases [OF len]
  have b: "body \<noteq> []" using pc(4) ne by auto
  have e: "e = map to_url body"
    using enc strip_padding [OF std b, of ?k] 
    by (simp add: base64UrlEncode_def en Let_def to_url_def split: if_split_asm) (auto simp: to_url_def)
  have last: "\<forall>c \<in> set body. c \<noteq> CHR ''=''"
    using std by (auto simp: list_all_iff std64_def isalnum_def isdigit_def islower_def isupper_def)
  have pad: "pad4 body = body @ replicate ?k (CHR ''='')" using pc(3) by (simp add: pad4_def)
  have ends: "(last (pad4 body) = CHR ''='') = (1 \<le> ?k)"
    "(length (pad4 body) \<ge> 2 \<and> pad4 body ! (length (pad4 body) - 2) = CHR ''='') = (2 \<le> ?k)"
    unfolding pad using padded_ends [OF pc(4) [OF ne] last pc(1)] by blast+
  have "base64UrlDecode ac e = Some s"
    using short b pc(1,2) ends unfolding e base64UrlDecode_def
    by (auto simp: those_url [OF std, unfolded list.map_comp] Let_def de [folded pad] list.map_comp)
  then show ?thesis using to_url_no_dot [OF std] b e by simp
qed

section \<open>Signing and verifying\<close>

text \<open>The documented behaviour of Ed25519 in OpenSSL for a key pair: signatures have 64 bytes
  and verify under the public key.\<close>

definition signature_laws :: "AssertionCrypto \<Rightarrow> string \<Rightarrow> string \<Rightarrow> bool" where
  "signature_laws ac priv pub \<longleftrightarrow> public_pem ac pub \<and> DigestVerifyInit ac pub \<and>
     (\<forall>m sg. DigestSign ac priv m = Some sg \<longrightarrow> length sg = 64 \<and> DigestVerify ac pub m sg)"

definition header_text :: "string \<Rightarrow> string" where
  "header_text kid = CHR ''{'' # QUOTE # ''alg'' @ QUOTE # CHR '':'' # (QUOTE # ''EdDSA'' @ QUOTE #
     member_chain ''typ'' (QUOTE # ''sister-internal+jwt'' @ [QUOTE])
      (member_chain ''kid'' (quoted_claim kid) ''}''))"

lemma isalnum_printable: "isalnum c \<Longrightarrow> claim_printable c"
  unfolding claim_printable_def isalnum_def isdigit_def islower_def isupper_def by linarith

lemma punctuation_printable:
  "claim_printable CHR ''.''" "claim_printable CHR ''_''" "claim_printable CHR ''-''"
  by (simp_all add: claim_printable_def)

lemma validKid_printable: "validKid kid \<Longrightarrow> list_all claim_printable kid"
  unfolding validKid_def by (auto simp: list_all_iff punctuation_printable intro: isalnum_printable)

lemma parseHeader_text:
  assumes "validKid kid"
  shows "parseHeader (header_text kid) = Some kid"
proof -
  let ?t3 = "''}''"
  let ?t2 = "member_chain ''kid'' (quoted_claim kid) ?t3"
  let ?t1 = "member_chain ''typ'' (QUOTE # ''sister-internal+jwt'' @ [QUOTE]) ?t2"
  let ?h0 = "\<lparr>hd_alg = None, hd_typ = None, hd_kid = None\<rparr>"
  let ?h1 = "?h0\<lparr>hd_alg := Some ''EdDSA''\<rparr>"
  let ?h2 = "?h1\<lparr>hd_typ := Some ''sister-internal+jwt''\<rparr>"
  let ?h3 = "?h2\<lparr>hd_kid := Some kid\<rparr>"
  have alg: "rd_string (QUOTE # ''EdDSA'' @ QUOTE # ?t1) = Some (''EdDSA'', ?t1)"
    by (rule rd_string_plain) (simp add: plain_char_def)
  have ty: "rd_string (QUOTE # ''sister-internal+jwt'' @ QUOTE # ?t2) = Some (''sister-internal+jwt'', ?t2)"
    by (rule rd_string_plain) (simp add: plain_char_def)
  have m1: "header_member ?h0 ''alg'' (QUOTE # ''EdDSA'' @ QUOTE # ?t1) = Some (?h1, ?t1)"
    unfolding header_member_def alg by simp
  have m2: "header_member ?h1 ''typ'' ((QUOTE # ''sister-internal+jwt'' @ [QUOTE]) @ ?t2) = Some (?h2, ?t2)"
    using ty unfolding header_member_def by simp
  have m3: "header_member ?h2 ''kid'' (quoted_claim kid @ ?t3) = Some (?h3, ?t3)"
    using validKid_printable [OF assms] by (simp add: header_member_def rd_string_escaped)
  have "header_loop True ?h0 (QUOTE # ''alg'' @ QUOTE # CHR '':'' # (QUOTE # ''EdDSA'' @ QUOTE # ?t1)) =
      header_loop False ?h1 ?t1"
    by (rule header_loop_member(1) [OF names_plain(10) m1])
  also have "\<dots> = header_loop False ?h2 ?t2" by (rule header_loop_member(2) [OF names_plain(11) m2])
  also have "\<dots> = header_loop False ?h3 ?t3" by (rule header_loop_member(2) [OF names_plain(12) m3])
  finally have loop: "header_loop True ?h0 (QUOTE # ''alg'' @ QUOTE # CHR '':'' # (QUOTE # ''EdDSA'' @ QUOTE # ?t1)) =
      Some (?h3, [])" by (simp add: header_loop_end)
  have "rd_token CHR ''{'' (header_text kid) =
      Some (QUOTE # ''alg'' @ QUOTE # CHR '':'' # (QUOTE # ''EdDSA'' @ QUOTE # ?t1))"
    unfolding header_text_def by (rule rd_token_here) simp
  with loop assms show ?thesis by (simp add: parseHeader_def rd_done_def rd_whitespace_def)
qed

lemma sign_okay:
  assumes "sign ac key c = Okay compact"
  obtains payload h p signature sg where "validKid (sk_kid key)" "serializeClaims c = Okay payload"
    "base64UrlEncode ac (header_text (sk_kid key)) = Okay h" "base64UrlEncode ac payload = Okay p"
    "DigestSign ac (privateKeyPem key) (h @ ''.'' @ p) = Some signature"
    "base64UrlEncode ac signature = Okay sg" "compact = (h @ ''.'' @ p) @ ''.'' @ sg"
proof -
  have kid: "claim_jsonEscape (sk_kid key) = Okay (concat (map claim_escape_char (sk_kid key)))"
    if "validKid (sk_kid key)"
    using validKid_printable [OF that] by (simp add: claim_jsonEscape_def)
  have text_eq: "''{'' @ [QUOTE] @ ''alg'' @ [QUOTE] @ '':'' @ [QUOTE] @ ''EdDSA'' @ [QUOTE] @ '','' @
      [QUOTE] @ ''typ'' @ [QUOTE] @ '':'' @ [QUOTE] @ ''sister-internal+jwt'' @ [QUOTE] @ '','' @
      [QUOTE] @ ''kid'' @ [QUOTE] @ '':'' @ [QUOTE] @ concat (map claim_escape_char (sk_kid key)) @ [QUOTE] @ ''}'' =
    header_text (sk_kid key)"
    by (simp add: header_text_def)
  have v: "validKid (sk_kid key)" using assms by (simp add: sign_def split: if_split_asm)
  show thesis
    using assms v unfolding sign_def Let_def kid [OF v] sum.case text_eq
    by (auto split: if_split_asm sum.split_asm option.split_asm intro: that)
qed

lemma split_assertion_parts:
  assumes "CHR ''.'' \<notin> set h" "CHR ''.'' \<notin> set p" "CHR ''.'' \<notin> set sg"
  shows "split_assertion ((h @ ''.'' @ p) @ ''.'' @ sg) = Some (h, p, sg)"
  using assms by (simp add: split_assertion_def split_on_append split_on_no)

lemma authenticate_signed:
  assumes laws: "base64_laws ac" "signature_laws ac (privateKeyPem key) pub"
    and sg: "sign ac key c = Okay compact" and short: "length compact \<le> kMaximumAssertionBytes"
    and time: "expiresAt c \<le> int64_max" and key: "map_of keys (sk_kid key) = Some pub"
  shows "authenticate ac keys compact = Okay c"
proof -
  obtain payload h p signature e where kid: "validKid (sk_kid key)" and pay: "serializeClaims c = Okay payload"
    and h: "base64UrlEncode ac (header_text (sk_kid key)) = Okay h" and p: "base64UrlEncode ac payload = Okay p"
    and s: "DigestSign ac (privateKeyPem key) (h @ ''.'' @ p) = Some signature"
    and e: "base64UrlEncode ac signature = Okay e" and compact: "compact = (h @ ''.'' @ p) @ ''.'' @ e"
    using sg by (rule sign_okay)
  have len: "length h \<le> kMaximumAssertionBytes" "length p \<le> kMaximumAssertionBytes" "length e \<le> kMaximumAssertionBytes"
    using short by (simp_all add: compact)
  have sig: "length signature = 64" "DigestVerify ac pub (h @ ''.'' @ p) signature"
    using laws(2) s by (auto simp: signature_laws_def)
  have "payload \<noteq> []" using serializeClaims_okay(4) [OF pay] by simp
  note rp = base64Url_roundtrip [OF laws(1) p this len(2)]
  have "header_text (sk_kid key) \<noteq> []" by (simp add: header_text_def)
  note rh = base64Url_roundtrip [OF laws(1) h this len(1)]
  have "signature \<noteq> []" using sig(1) by auto
  note rs = base64Url_roundtrip [OF laws(1) e this len(3)]
  have "split_assertion compact = Some (h, p, e)"
    unfolding compact using rh rp rs by (intro split_assertion_parts) simp_all
  then show ?thesis
    using short rh rp rs sig key laws(2) parseHeader_text [OF kid] parse_serialized_claims [OF pay time]
    by (simp add: authenticate_def compact signature_laws_def)
qed

section \<open>Acceptance\<close>

lemma verify_accepts:
  assumes "vr_valid (fst (verify ac compact rq now v))"
  obtains c where "authenticate ac (publicKeys v) compact = Okay c"
    and "policy_error rq (now sdiv 1000000000) c = None"
    and "map_of (filter (\<lambda>(_, ex). \<not> ex \<le> now sdiv 1000000000 - clockSkew rq) (seenJtis v)) (jti c) = None"
    and "verify ac compact rq now v = (\<lparr>vr_valid = True, vr_error = [], vr_claims = c\<rparr>,
      v\<lparr>seenJtis := (jti c, expiresAt c) #
        filter (\<lambda>(_, ex). \<not> ex \<le> now sdiv 1000000000 - clockSkew rq) (seenJtis v)\<rparr>)"
  using assms
  by (auto simp: verify_def Let_def failure_def split: sum.split_asm option.split_asm if_split_asm)

lemma authenticate_okay:
  assumes "authenticate ac keys compact = Okay c"
  obtains h p sg header payload signature kid pem where "split_assertion compact = Some (h, p, sg)"
    "base64UrlDecode ac h = Some header" "base64UrlDecode ac p = Some payload"
    "base64UrlDecode ac sg = Some signature" "parseHeader header = Some kid"
    "map_of keys kid = Some pem" "DigestVerify ac pem (h @ ''.'' @ p) signature" "parseClaims payload = Some c"
  using assms
  by (auto simp: authenticate_def split: if_split_asm option.split_asm intro: that)

lemma split_assertion_join:
  assumes "split_assertion compact = Some (h, p, sg)"
  shows "compact = h @ ''.'' @ p @ ''.'' @ sg"
proof -
  have "split_on CHR ''.'' compact = [h, p, sg]"
    using assms by (auto simp: split_assertion_def split: list.split_asm)
  from arg_cong [OF this, of "join_with CHR ''.''"] show ?thesis by (simp add: join_split_on)
qed

section \<open>Single use\<close>

text \<open>A verifier's life: keys are added, assertions are verified with a clock that does not go
  back and one clock skew.  The log holds the claims that were accepted.\<close>

inductive verify_run :: "AssertionCrypto \<Rightarrow> int \<Rightarrow> AssertionVerifier \<Rightarrow> InternalAssertionClaims list \<Rightarrow> int \<Rightarrow> bool"
  for ac :: AssertionCrypto and skew :: int where
  vrun_new: "verify_run ac skew \<lparr>publicKeys = [], seenJtis = []\<rparr> [] t"
| vrun_key: "verify_run ac skew v log t \<Longrightarrow> addPublicKey ac kid pem v = Okay v' \<Longrightarrow> verify_run ac skew v' log t"
| vrun_key_file: "verify_run ac skew v log t \<Longrightarrow> addPublicKeyFile ac fs kid path v = Okay v' \<Longrightarrow> verify_run ac skew v' log t"
| vrun_verify: "verify_run ac skew v log t \<Longrightarrow> clockSkew rq = skew \<Longrightarrow> t \<le> now sdiv 1000000000 \<Longrightarrow>
    verify ac compact rq now v = (r, v') \<Longrightarrow>
    verify_run ac skew v' (if vr_valid r then log @ [vr_claims r] else log) (now sdiv 1000000000)"

lemma policy_not_expired:
  "policy_error rq t c = None \<Longrightarrow> \<not> expiresAt c \<le> t - clockSkew rq"
  by (simp add: policy_error_def split: if_split_asm)

lemma verify_seen:
  assumes "verify ac compact rq now v = (r, v')" "(j, ex) \<in> set (seenJtis v)"
    "\<not> ex \<le> now sdiv 1000000000 - clockSkew rq"
  shows "(j, ex) \<in> set (seenJtis v')"
  using assms
  by (auto simp: verify_def Let_def split: sum.split_asm option.split_asm if_split_asm)

lemma verify_run_log:
  "verify_run ac skew v log t \<Longrightarrow> distinct log \<and>
     (\<forall>c \<in> set log. expiresAt c \<le> t - skew \<or> (jti c, expiresAt c) \<in> set (seenJtis v))"
proof (induction rule: verify_run.induct)
  case (vrun_key v log t kid pem v')
  then show ?case by (auto simp: addPublicKey_def split: if_split_asm)
next
  case (vrun_key_file v log t fs kid path v')
  then show ?case by (auto simp: addPublicKeyFile_def addPublicKey_def split: if_split_asm sum.split_asm)
next
  case (vrun_verify v log t rq now compact r v')
  let ?now = "now sdiv 1000000000"
  have old: "expiresAt c \<le> ?now - skew \<or> (jti c, expiresAt c) \<in> set (seenJtis v')" if "c \<in> set log" for c
    using vrun_verify.IH vrun_verify.hyps(2,3) that verify_seen [OF vrun_verify.hyps(4)] by fastforce
  show ?case
  proof (cases "vr_valid r")
    case False
    with vrun_verify.IH old show ?thesis by simp
  next
    case True
    then have "vr_valid (fst (verify ac compact rq now v))" using vrun_verify.hyps(4) by simp
    then obtain c where pol: "policy_error rq ?now c = None"
      and new: "map_of (filter (\<lambda>(_, ex). \<not> ex \<le> ?now - clockSkew rq) (seenJtis v)) (jti c) = None"
      and res: "verify ac compact rq now v = (\<lparr>vr_valid = True, vr_error = [], vr_claims = c\<rparr>,
        v\<lparr>seenJtis := (jti c, expiresAt c) # filter (\<lambda>(_, ex). \<not> ex \<le> ?now - clockSkew rq) (seenJtis v)\<rparr>)"
      by (rule verify_accepts)
    have live: "\<not> expiresAt c \<le> ?now - skew" using policy_not_expired [OF pol] vrun_verify.hyps(2) by simp
    have "c \<notin> set log"
    proof
      assume "c \<in> set log"
      then have "(jti c, expiresAt c) \<in> set (seenJtis v)"
        using vrun_verify.IH live vrun_verify.hyps(3) by force
      then have "(jti c, expiresAt c) \<in> set (filter (\<lambda>(_, ex). \<not> ex \<le> ?now - clockSkew rq) (seenJtis v))"
        using live vrun_verify.hyps(2) by simp
      with new show False by (auto simp: map_of_eq_None_iff image_iff)
    qed
    moreover have "r = \<lparr>vr_valid = True, vr_error = [], vr_claims = c\<rparr>" "(jti c, expiresAt c) \<in> set (seenJtis v')"
      using res vrun_verify.hyps(4) by auto
    ultimately show ?thesis using vrun_verify.IH old by auto
  qed
qed simp

end
