(* ===== verification/Base64_Model.thy ===== *)
theory Base64_Model
  imports Bytes "HOL-Library.Code_Target_Numeral"
begin

text \<open>
  A reference implementation of the two base64 block functions of OpenSSL.  The assertion
  theory only assumes their documented laws; this instance shows that the laws can hold and
  lets concrete assertions be evaluated.
\<close>

definition b64_alphabet :: string where
  "b64_alphabet = ''ABCDEFGHIJKLMNOPQRSTUVWXYZabcdefghijklmnopqrstuvwxyz0123456789+/''"

definition sextet :: "nat \<Rightarrow> char" where
  "sextet i = b64_alphabet ! i"

definition sextet_value :: "char \<Rightarrow> nat option" where
  "sextet_value c = (if c = CHR ''='' then Some 0 else find_idx (\<lambda>d. d = c) b64_alphabet)"

definition group_sextets :: "nat \<Rightarrow> string" where
  "group_sextets n = [sextet (n div 262144), sextet (n div 4096 mod 64), sextet (n div 64 mod 64), sextet (n mod 64)]"

definition group_number :: "char \<Rightarrow> char \<Rightarrow> char \<Rightarrow> nat" where
  "group_number a b c = byte a * 65536 + byte b * 256 + byte c"

fun b64_body :: "string \<Rightarrow> string" where
  "b64_body (a # b # c # s) = group_sextets (group_number a b c) @ b64_body s"
| "b64_body [a, b] = take 3 (group_sextets (group_number a b NUL))"
| "b64_body [a] = take 2 (group_sextets (group_number a NUL NUL))"
| "b64_body [] = []"

definition group_bytes :: "nat \<Rightarrow> string" where
  "group_bytes n = [char_of (n div 65536), char_of (n div 256 mod 256), char_of (n mod 256)]"

fun b64_decode :: "string \<Rightarrow> string option" where
  "b64_decode (w # x # y # z # s) =
     (case (sextet_value w, sextet_value x, sextet_value y, sextet_value z) of
        (Some i, Some j, Some k, Some l) \<Rightarrow>
          map_option (\<lambda>t. group_bytes (i * 262144 + j * 4096 + k * 64 + l) @ t) (b64_decode s)
      | _ \<Rightarrow> None)"
| "b64_decode [] = Some []"
| "b64_decode s = None"

definition b64_padding :: "string \<Rightarrow> string" where
  "b64_padding s = replicate ((3 - length s mod 3) mod 3) (CHR ''='')"

definition b64_encode :: "string \<Rightarrow> string" where
  "b64_encode s = b64_body s @ b64_padding s"

section \<open>Laws\<close>

lemma sextet_table:
  "list_all (\<lambda>i. sextet_value (sextet i) = Some i \<and>
     (isalnum (sextet i) \<or> sextet i = CHR ''+'' \<or> sextet i = CHR ''/'')) [0..<64]"
  by code_simp

lemma sextet_facts:
  assumes "i < 64"
  shows "sextet_value (sextet i) = Some i"
    and "isalnum (sextet i) \<or> sextet i = CHR ''+'' \<or> sextet i = CHR ''/''"
  using sextet_table assms by (auto simp: list_all_iff)

lemma group_number_less: "group_number a b c < 16777216"
proof -
  have "byte a \<le> 255" "byte b \<le> 255" "byte c \<le> 255" using byte_less [of a] byte_less [of b] byte_less [of c] by linarith+
  then show ?thesis unfolding group_number_def by linarith
qed

lemma digits_base:
  fixes n q1 q2 q3 r1 r2 r3 :: nat
  assumes "q1 * 64 + r1 = n" and "q2 * 64 + r2 = q1" and "q3 * 64 + r3 = q2"
  shows "q3 * 262144 + r3 * 4096 + r2 * 64 + r1 = n"
  unfolding assms(1) [symmetric] assms(2) [symmetric] assms(3) [symmetric] by (simp add: algebra_simps)

lemma group_digits:
  "(n :: nat) div 262144 * 262144 + n div 4096 mod 64 * 4096 + n div 64 mod 64 * 64 + n mod 64 = n"
proof -
  have "n div 4096 = n div 64 div 64" "n div 262144 = n div 64 div 64 div 64" by (simp_all flip: div_mult2_eq)
  then show ?thesis
    by (simp only:) (rule digits_base [OF div_mult_mod_eq div_mult_mod_eq div_mult_mod_eq])
qed

lemma low_digit:
  assumes "(r :: nat) < 256"
  shows "(q * 256 + r) div 256 = q" and "(q * 256 + r) mod 256 = r"
  using assms by (simp_all add: mult.commute)

lemma group_bytes_number: "group_bytes (group_number a b c) = [a, b, c]"
proof -
  let ?n = "group_number a b c"
  have lt: "byte b < 256" "byte c < 256" by simp_all
  have n: "?n = (byte a * 256 + byte b) * 256 + byte c" by (simp add: group_number_def)
  have d: "?n div 256 = byte a * 256 + byte b" "?n mod 256 = byte c"
    unfolding n using low_digit [OF lt(2)] by blast+
  have "?n div 65536 = ?n div 256 div 256" by (simp flip: div_mult2_eq)
  then have "?n div 65536 = byte a" "?n div 256 mod 256 = byte b"
    unfolding d using low_digit [OF lt(1)] by simp_all
  with d(2) show ?thesis by (simp only: group_bytes_def) simp
qed

lemma group_sextets_facts:
  assumes "n < 16777216"
  shows "b64_decode (group_sextets n @ t) = map_option (\<lambda>u. group_bytes n @ u) (b64_decode t)"
    and "list_all (\<lambda>c. isalnum c \<or> c = CHR ''+'' \<or> c = CHR ''/'') (group_sextets n)"
proof -
  have "n div 262144 < 64" using assms by (simp add: less_mult_imp_div_less)
  then show "b64_decode (group_sextets n @ t) = map_option (\<lambda>u. group_bytes n @ u) (b64_decode t)"
    and "list_all (\<lambda>c. isalnum c \<or> c = CHR ''+'' \<or> c = CHR ''/'') (group_sextets n)"
    by (simp_all add: group_sextets_def sextet_facts group_digits)
qed

lemma list_all_take: "list_all P xs \<Longrightarrow> list_all P (take n xs)"
  by (auto simp: list_all_iff dest: in_set_takeD)

lemma b64_body_chars: "list_all (\<lambda>c. isalnum c \<or> c = CHR ''+'' \<or> c = CHR ''/'') (b64_body s)"
  by (induction s rule: b64_body.induct)
    (simp_all add: group_sextets_facts group_number_less list_all_take)

lemma group_sextets_length [simp]: "length (group_sextets n) = 4"
  by (simp add: group_sextets_def)

lemma mod3_3: "(n + 3) mod 3 = (n :: nat) mod 3" "(n + 5) div 3 = Suc ((n + 2) div 3)"
  by simp_all

lemma b64_body_length: "length (b64_body s) + (3 - length s mod 3) mod 3 = 4 * ((length s + 2) div 3)"
proof (induction s rule: b64_body.induct)
  case (1 a b c s)
  have "length (a # b # c # s) = length s + 3" by simp
  with 1 mod3_3 [of "length s"] show ?case by (simp add: add.commute)
qed simp_all

lemma sextet_zero: "sextet_value (CHR ''='') = sextet_value (sextet 0)"
  using sextet_facts(1) [of 0] by (simp add: sextet_value_def)

lemma b64_decode_padded:
  "group_sextets n = [w, x, y, sextet 0] \<Longrightarrow> b64_decode [w, x, y, CHR ''=''] = b64_decode (group_sextets n)"
  "group_sextets n = [w, x, sextet 0, sextet 0] \<Longrightarrow> b64_decode [w, x, CHR ''='', CHR ''=''] = b64_decode (group_sextets n)"
  by (simp_all add: sextet_zero)

lemma b64_decode_encode:
  "b64_decode (b64_body s @ b64_padding s) = Some (s @ replicate ((3 - length s mod 3) mod 3) NUL)"
proof (induction s rule: b64_body.induct)
  case (1 a b c s)
  have "b64_padding (a # b # c # s) = b64_padding s"
    using mod3_3(1) [of "length s"] by (simp add: b64_padding_def)
  with 1 mod3_3(1) [of "length s"] show ?case
    by (simp add: group_sextets_facts(1) group_number_less group_bytes_number)
next
  case (2 a b)
  let ?n = "group_number a b NUL"
  have "?n mod 64 = 0" by (simp add: group_number_def mod_mult_eq [of "_ * 256" 64, symmetric] mod_add_eq [symmetric])
  then have g: "group_sextets ?n = take 3 (group_sextets ?n) @ [sextet 0]" by (simp add: group_sextets_def)
  have "b64_decode (take 3 (group_sextets ?n) @ ''='') = b64_decode (group_sextets ?n)"
    using b64_decode_padded(1) [of ?n] \<open>?n mod 64 = 0\<close> by (simp add: group_sextets_def)
  also have "\<dots> = Some [a, b, NUL]"
    using group_sextets_facts(1) [OF group_number_less, of a b NUL "[]"] by (simp add: group_bytes_number)
  finally show ?case by (simp add: b64_padding_def)
next
  case (3 a)
  let ?n = "group_number a NUL NUL"
  have z: "?n mod 64 = 0" "?n div 64 mod 64 = 0" by (auto simp: group_number_def)
  have "b64_decode (take 2 (group_sextets ?n) @ ''=='') = b64_decode (group_sextets ?n)"
    using b64_decode_padded(2) [of ?n] z by (simp add: group_sextets_def)
  also have "\<dots> = Some [a, NUL, NUL]"
    using group_sextets_facts(1) [OF group_number_less, of a NUL NUL "[]"] by (simp add: group_bytes_number)
  finally show ?case by (simp add: b64_padding_def numeral_2_eq_2)
qed (simp add: b64_padding_def)

end
