(* ===== verification/Assertion_Contract.thy ===== *)
theory Assertion_Contract
  imports Assertion_Properties Base64_Model
begin

text \<open>
  The contract of internal assertions, as properties of \<open>sign\<close> and \<open>verify\<close> with concrete
  instances.  The instances use the reference base64 of \<open>Base64_Model\<close> and a signature scheme
  whose signature is a 64 byte prefix of the padded message.
\<close>

section \<open>A concrete instance\<close>

definition sample_signature :: "string \<Rightarrow> string" where
  "sample_signature m = take 64 (m @ replicate 64 (CHR ''x''))"

definition sample_ac :: AssertionCrypto where
  "sample_ac = \<lparr>EncodeBlock = (\<lambda>s. Some (b64_encode s)), DecodeBlock = b64_decode,
     private_pem = (\<lambda>p. p = ''private''), public_pem = (\<lambda>p. p = ''public''),
     DigestSignInit = (\<lambda>_. True), DigestSign = (\<lambda>_ m. Some (sample_signature m)),
     DigestVerifyInit = (\<lambda>_. True), DigestVerify = (\<lambda>_ m s. s = sample_signature m)\<rparr>"

definition sample_key :: SigningKey where
  "sample_key = \<lparr>sk_kid = ''k1'', privateKeyPem = ''private''\<rparr>"

definition sample_claims :: InternalAssertionClaims where
  "sample_claims = \<lparr>issuer = ''sisterd'', subject = ''user-1'', audience = ''sisagro'',
     cl_capabilities = [''sisagro.dados.ler''], cl_purpose = ''integration'', issuedAt = 1000,
     expiresAt = 1060, jti = ''0123456789abcdef'', requestId = ''fedcba9876543210''\<rparr>"

definition sample_requirements :: VerificationRequirements where
  "sample_requirements = \<lparr>rq_audience = ''sisagro'', rq_capability = ''sisagro.dados.ler'',
     rq_purpose = ''integration'', clockSkew = 5, maximumLifetime = 120\<rparr>"

definition sample_verifier :: AssertionVerifier where
  "sample_verifier = \<lparr>publicKeys = [(''k1'', ''public'')], seenJtis = []\<rparr>"

lemma sample_base64: "base64_laws sample_ac"
  unfolding base64_laws_def
proof
  fix s
  show "\<exists>body. list_all std64 body \<and> length body + padding s = 4 * ((length s + 2) div 3) \<and>
      EncodeBlock sample_ac s = Some (body @ replicate (padding s) (CHR ''='')) \<and>
      DecodeBlock sample_ac (body @ replicate (padding s) (CHR ''='')) = Some (s @ replicate (padding s) NUL)"
    using b64_body_chars [of s] b64_body_length [of s] b64_decode_encode [of s]
    by (intro exI [of _ "b64_body s"])
      (simp add: sample_ac_def b64_encode_def b64_padding_def padding_def std64_def [abs_def])
qed

lemma sample_signature_length [simp]: "length (sample_signature m) = 64"
  by (auto simp: sample_signature_def)

lemma sample_signature_laws: "signature_laws sample_ac p ''public''"
  by (simp add: signature_laws_def sample_ac_def)

text \<open>Characters that may stand in a header.\<close>

definition graphic :: "char \<Rightarrow> bool" where
  "graphic c \<longleftrightarrow> 32 < byte c \<and> byte c < 127"

lemma b64_graphic: "list_all graphic (b64_encode s)"
proof -
  have "graphic c" if "isalnum c \<or> c = CHR ''+'' \<or> c = CHR ''/''" for c
    using that by (auto simp: graphic_def isalnum_def isdigit_def islower_def isupper_def)
  then have "list_all graphic (b64_body s)" using b64_body_chars [of s] by (auto simp: list_all_iff)
  moreover have "graphic CHR ''=''" by (simp add: graphic_def)
  ultimately show ?thesis by (auto simp: b64_encode_def b64_padding_def list_all_iff)
qed

lemma sample_encode:
  assumes "length s \<le> 2 ^ 31 - 1"
  shows "\<exists>e. base64UrlEncode sample_ac s = Okay e \<and> length e \<le> 4 * ((length s + 2) div 3) \<and> list_all graphic e"
proof -
  let ?f = "\<lambda>t. map (\<lambda>c. if c = CHR ''/'' then CHR ''_'' else c)
    (map (\<lambda>c. if c = CHR ''+'' then CHR ''-'' else c) (rev (dropWhile (\<lambda>c. c = CHR ''='') (rev t))))"
  have "length (b64_encode s) = 4 * ((length s + 2) div 3)"
    using b64_body_length [of s] by (simp add: b64_encode_def b64_padding_def)
  moreover have "length (dropWhile P (rev t)) \<le> length t" for P and t :: string
    using length_dropWhile_le [of P "rev t"] by simp
  ultimately have "length (?f (b64_encode s)) \<le> 4 * ((length s + 2) div 3)" by (metis length_map length_rev)
  moreover have "list_all graphic (?f t)" if "list_all graphic t" for t
    using that by (auto simp: list_all_iff graphic_def dest!: set_dropWhileD)
  ultimately show ?thesis
    using assms b64_graphic [of s] by (simp add: base64UrlEncode_def sample_ac_def Let_def)
qed

lemma sample_payload: "\<exists>payload. serializeClaims sample_claims = Okay payload \<and> length payload \<le> 1000"
proof -
  have "case serializeClaims sample_claims of Okay p \<Rightarrow> length p \<le> 1000 | Error _ \<Rightarrow> False" by code_simp
  then show ?thesis by (auto split: sum.split_asm)
qed

lemma sample_sign_any:
  assumes p: "serializeClaims c = Okay payload" "length payload \<le> 1000"
  shows "\<exists>compact. sign sample_ac sample_key c = Okay compact \<and> length compact \<le> 2000 \<and> list_all graphic compact"
proof -
  let ?header = "''{'' @ [QUOTE] @ ''alg'' @ [QUOTE] @ '':'' @ [QUOTE] @ ''EdDSA'' @ [QUOTE] @ '','' @
    [QUOTE] @ ''typ'' @ [QUOTE] @ '':'' @ [QUOTE] @ ''sister-internal+jwt'' @ [QUOTE] @ '','' @
    [QUOTE] @ ''kid'' @ [QUOTE] @ '':'' @ [QUOTE] @ ''k1'' @ [QUOTE] @ ''}''"
  obtain h where h: "base64UrlEncode sample_ac ?header = Okay h" "length h \<le> 4 * ((length ?header + 2) div 3)"
      "list_all graphic h"
    using sample_encode [of ?header] by auto
  obtain b where b: "base64UrlEncode sample_ac payload = Okay b" "length b \<le> 4 * ((length payload + 2) div 3)"
      "list_all graphic b"
    using sample_encode [of payload] p(2) by auto
  let ?input = "h @ ''.'' @ b"
  obtain sg where sg: "base64UrlEncode sample_ac (sample_signature ?input) = Okay sg"
      "length sg \<le> 4 * ((length (sample_signature ?input) + 2) div 3)" "list_all graphic sg"
    using sample_encode [of "sample_signature ?input"] by auto
  have kid: "validKid ''k1''" "claim_jsonEscape ''k1'' = Okay ''k1''" by code_simp+
  have "sign sample_ac sample_key c = Okay (?input @ ''.'' @ sg)"
    unfolding sign_def sample_key_def SigningKey.simps kid sum.case Let_def p(1) h(1) b(1)
    using sg(1) by (simp add: sample_ac_def kid)
  moreover have "length h \<le> 200" using h(2) by simp
  moreover have "length b \<le> 4 * ((1000 + 2) div 3)"
    using b(2) p(2) by (meson add_le_mono1 div_le_mono mult_le_mono2 order_trans)
  moreover have "length sg \<le> 100" using sg(2) by simp
  moreover have "graphic CHR ''.''" by (simp add: graphic_def)
  ultimately show ?thesis using h(3) b(3) sg(3) by simp
qed

lemma sample_sign:
  "\<exists>compact. sign sample_ac sample_key sample_claims = Okay compact \<and> length compact \<le> kMaximumAssertionBytes"
proof -
  obtain payload where "serializeClaims sample_claims = Okay payload" "length payload \<le> 1000"
    using sample_payload by blast
  from sample_sign_any [OF this] show ?thesis by (auto simp: kMaximumAssertionBytes_def)
qed

lemma sample_policy: "policy_error sample_requirements (1030000000000 sdiv 1000000000) sample_claims = None"
  by code_simp

lemma sample_key_known: "map_of (publicKeys sample_verifier) (sk_kid sample_key) = Some ''public''"
  by (simp add: sample_verifier_def sample_key_def)

lemma sample_times: "expiresAt sample_claims \<le> int64_max"
  by (simp add: sample_claims_def)

lemma sample_verify:
  "\<exists>compact. verify sample_ac compact sample_requirements 1030000000000 sample_verifier =
     (\<lparr>vr_valid = True, vr_error = [], vr_claims = sample_claims\<rparr>,
      sample_verifier\<lparr>seenJtis := [(jti sample_claims, expiresAt sample_claims)]\<rparr>)"
proof -
  obtain compact where s: "sign sample_ac sample_key sample_claims = Okay compact"
      "length compact \<le> kMaximumAssertionBytes"
    using sample_sign by blast
  have "seenJtis sample_verifier = []" by (simp add: sample_verifier_def)
  then show ?thesis
    using authenticate_signed [OF sample_base64 sample_signature_laws s sample_times sample_key_known] sample_policy
    by (intro exI [of _ compact]) (simp add: verify_def Let_def)
qed

section \<open>Properties\<close>

text \<open>C23: An assertion that was signed is accepted by a verifier that knows the key and has not seen
  it, at every time and for all requirements the claims satisfy, and the claims that come out are
  the claims that were signed.  OpenSSL is assumed to encode and decode base64 and to verify its
  own signatures.\<close>

theorem signed_assertion_accepted:
  assumes "base64_laws ac" and "signature_laws ac (privateKeyPem key) pub"
    and "sign ac key c = Okay compact" and "length compact \<le> kMaximumAssertionBytes"
    and "expiresAt c \<le> int64_max" and "map_of (publicKeys v) (sk_kid key) = Some pub"
    and "policy_error rq (now sdiv 1000000000) c = None"
    and "jti c \<notin> fst ` set (seenJtis v)"
  shows "fst (verify ac compact rq now v) = \<lparr>vr_valid = True, vr_error = [], vr_claims = c\<rparr>"
proof -
  have "map_of (filter (\<lambda>(_, ex). \<not> ex \<le> now sdiv 1000000000 - clockSkew rq) (seenJtis v)) (jti c) = None"
    using assms(8) by (auto simp: map_of_eq_None_iff)
  then show ?thesis
    using authenticate_signed [OF assms(1-6)] assms(7) by (simp add: verify_def Let_def)
qed

theorem signed_assertion_accepted_witness:
  "\<exists>compact. sign sample_ac sample_key sample_claims = Okay compact \<and>
     fst (verify sample_ac compact sample_requirements 1030000000000 sample_verifier) =
     \<lparr>vr_valid = True, vr_error = [], vr_claims = sample_claims\<rparr>"
proof -
  obtain compact where s: "sign sample_ac sample_key sample_claims = Okay compact"
      "length compact \<le> kMaximumAssertionBytes"
    using sample_sign by blast
  have "jti sample_claims \<notin> fst ` set (seenJtis sample_verifier)" by (simp add: sample_verifier_def)
  with signed_assertion_accepted [OF sample_base64 sample_signature_laws s sample_times sample_key_known sample_policy] s(1)
  show ?thesis by blast
qed

text \<open>C20: Whatever the verifier accepts carries, in its three parts, a signature that verifies
  under a registered key over header and payload, a payload that parses to the claims it returns,
  and claims that name the issuer, the required audience, purpose and capability and lie within
  their time window.\<close>

theorem accepted_assertion_sound:
  assumes "verify ac compact rq now v = (r, v')" and "vr_valid r"
  shows "\<exists>h p sg payload signature kid pem. compact = h @ ''.'' @ p @ ''.'' @ sg \<and>
     base64UrlDecode ac p = Some payload \<and> base64UrlDecode ac sg = Some signature \<and>
     map_of (publicKeys v) kid = Some pem \<and> DigestVerify ac pem (h @ ''.'' @ p) signature \<and>
     parseClaims payload = Some (vr_claims r) \<and> issuer (vr_claims r) = ''sisterd'' \<and>
     audience (vr_claims r) = rq_audience rq \<and> cl_purpose (vr_claims r) = rq_purpose rq \<and>
     rq_capability rq \<in> set (cl_capabilities (vr_claims r)) \<and>
     issuedAt (vr_claims r) \<le> now sdiv 1000000000 + clockSkew rq \<and>
     now sdiv 1000000000 - clockSkew rq < expiresAt (vr_claims r) \<and>
     expiresAt (vr_claims r) - issuedAt (vr_claims r) \<le> maximumLifetime rq"
proof -
  have "vr_valid (fst (verify ac compact rq now v))" using assms by simp
  then obtain c where a: "authenticate ac (publicKeys v) compact = Okay c"
    and pol: "policy_error rq (now sdiv 1000000000) c = None"
    and res: "verify ac compact rq now v = (\<lparr>vr_valid = True, vr_error = [], vr_claims = c\<rparr>,
      v\<lparr>seenJtis := (jti c, expiresAt c) #
        filter (\<lambda>(_, ex). \<not> ex \<le> now sdiv 1000000000 - clockSkew rq) (seenJtis v)\<rparr>)"
    by (rule verify_accepts)
  have c: "vr_claims r = c" using res assms(1) by simp
  obtain h p sg header payload signature kid pem where parts: "split_assertion compact = Some (h, p, sg)"
    and auth: "base64UrlDecode ac p = Some payload" "base64UrlDecode ac sg = Some signature"
      "map_of (publicKeys v) kid = Some pem" "DigestVerify ac pem (h @ ''.'' @ p) signature"
      "parseClaims payload = Some c"
    using a by (rule authenticate_okay)
  have "issuer c = ''sisterd'' \<and> audience c = rq_audience rq \<and> cl_purpose c = rq_purpose rq \<and>
      rq_capability rq \<in> set (cl_capabilities c) \<and> issuedAt c \<le> now sdiv 1000000000 + clockSkew rq \<and>
      now sdiv 1000000000 - clockSkew rq < expiresAt c \<and> expiresAt c - issuedAt c \<le> maximumLifetime rq"
    using pol by (simp add: policy_error_def split: if_split_asm)
  with split_assertion_join [OF parts] auth show ?thesis unfolding c by blast
qed

theorem accepted_assertion_sound_witness:
  "\<exists>compact r v'. verify sample_ac compact sample_requirements 1030000000000 sample_verifier = (r, v') \<and>
     audience (vr_claims r) = ''sisagro'' \<and> ''sisagro.dados.ler'' \<in> set (cl_capabilities (vr_claims r))"
proof -
  obtain compact r v' where r: "verify sample_ac compact sample_requirements 1030000000000 sample_verifier = (r, v')"
      "vr_valid r"
    using sample_verify by fastforce
  then show ?thesis using accepted_assertion_sound [OF r] unfolding sample_requirements_def by auto
qed



text \<open>The claims a subsystem reads are the claims the daemon wrote: whatever the serializer
  accepts, with times that fit a 64 bit integer, the strict parser reads back unchanged.\<close>

theorem claims_roundtrip:
  assumes "serializeClaims c = Okay payload" and "expiresAt c \<le> int64_max"
  shows "parseClaims payload = Some c"
  using assms by (rule parse_serialized_claims)

theorem claims_roundtrip_witness:
  "\<exists>payload. serializeClaims sample_claims = Okay payload \<and> parseClaims payload = Some sample_claims"
  using sample_payload claims_roundtrip [OF _ sample_times] by blast

text \<open>A capability name is valid exactly when it has at most 120 characters and consists of
  three parts separated by dots, each a lower-case letter followed by lower-case letters, digits
  and underscores.\<close>

theorem validCapability_grammar:
  "validCapability s \<longleftrightarrow> length s \<le> 120 \<and> length (split_on CHR ''.'' s) = 3 \<and>
     list_all segment (split_on CHR ''.'' s)"
proof -
  obtain p ps where sp: "split_on CHR ''.'' s = p # ps" by (meson neq_Nil_conv split_on_ne)
  have "s = [] \<Longrightarrow> ps = []" using sp by auto
  then show ?thesis
    by (auto simp: validCapability_def validCapability_loop_split sp)
qed

end
