(* ===== verification/Http_Request.thy ===== *)
theory Http_Request
  imports Content_Length Decimal
begin

text \<open>
  Reading an HTTP request (\<open>apps/sisterd/main.cpp\<close>): the helpers on header and path
  characters and \<open>readRequest\<close>, with the socket as the list of results of its \<open>recv\<close>
  calls.  \<open>Received []\<close> is the return value 0 (the peer has closed), as is the end of the
  list; the three other results are the error numbers the code distinguishes.  The headers
  are an association list in place of an unordered map.
\<close>

section \<open>Data\<close>

record HttpRequest =
  req_method :: string
  req_target :: string
  req_path :: string
  req_query :: string
  req_version :: string
  req_headers :: "(string \<times> string) list"
  req_body :: string

record ReadFailure =
  rf_status :: nat
  rf_reason :: string
  rf_detail :: string

type_synonym ReadRequestResult = "(ReadFailure, HttpRequest) result"

datatype recv_result = Received string | Interrupted | WouldBlock | RecvFailed

definition kMaxHeaderBytes :: nat where
  "kMaxHeaderBytes = 64 * 1024"

definition kMaxBodyBytes :: nat where
  "kMaxBodyBytes = 16 * 1024 * 1024"

definition kMaxRequestTargetBytes :: nat where
  "kMaxRequestTargetBytes = 8 * 1024"

definition kMaxHeaderCount :: nat where
  "kMaxHeaderCount = 100"

definition kMaxHeaderLineBytes :: nat where
  "kMaxHeaderLineBytes = 8 * 1024"

definition CRLF :: string where
  "CRLF = [CR, LF]"

section \<open>Messages\<close>

text \<open>The UTF-8 bytes of the messages of the failures.\<close>

definition detail_invalid_request :: string where
  "detail_invalid_request = ''Requisi'' @ [CHR 0xC3, CHR 0xA7, CHR 0xC3, CHR 0xA3] @ ''o inv'' @ [CHR 0xC3, CHR 0xA1] @ ''lida.''"

definition detail_closed_head :: string where
  "detail_closed_head = ''Conex'' @ [CHR 0xC3, CHR 0xA3] @ ''o encerrada antes do cabe'' @ [CHR 0xC3, CHR 0xA7] @ ''alho HTTP completo.''"

definition detail_timeout_head :: string where
  "detail_timeout_head = ''Tempo excedido ao receber a requisi'' @ [CHR 0xC3, CHR 0xA7, CHR 0xC3, CHR 0xA3] @ ''o.''"

definition detail_head_too_large :: string where
  "detail_head_too_large = ''Cabe'' @ [CHR 0xC3, CHR 0xA7] @ ''alhos HTTP excedem o limite permitido.''"

definition detail_start_line :: string where
  "detail_start_line = ''Linha inicial HTTP inv'' @ [CHR 0xC3, CHR 0xA1] @ ''lida.''"

definition detail_method :: string where
  "detail_method = ''M'' @ [CHR 0xC3, CHR 0xA9] @ ''todo HTTP inv'' @ [CHR 0xC3, CHR 0xA1] @ ''lido.''"

definition detail_version :: string where
  "detail_version = ''Apenas HTTP/1.0 e HTTP/1.1 s'' @ [CHR 0xC3, CHR 0xA3] @ ''o aceitos.''"

definition detail_target :: string where
  "detail_target = ''Alvo da requisi'' @ [CHR 0xC3, CHR 0xA7, CHR 0xC3, CHR 0xA3] @ ''o inv'' @ [CHR 0xC3, CHR 0xA1] @ ''lido.''"

definition detail_header_count :: string where
  "detail_header_count = ''Quantidade ou tamanho dos cabe'' @ [CHR 0xC3, CHR 0xA7] @ ''alhos excede o limite.''"

definition detail_continuation :: string where
  "detail_continuation = ''Continua'' @ [CHR 0xC3, CHR 0xA7, CHR 0xC3, CHR 0xA3] @ ''o obsoleta de cabe'' @ [CHR 0xC3, CHR 0xA7] @ ''alho n'' @ [CHR 0xC3, CHR 0xA3] @ ''o '' @ [CHR 0xC3, CHR 0xA9] @ '' aceita.''"

definition detail_header :: string where
  "detail_header = ''Cabe'' @ [CHR 0xC3, CHR 0xA7] @ ''alho HTTP malformado.''"

definition detail_header_chars :: string where
  "detail_header_chars = ''Nome ou valor de cabe'' @ [CHR 0xC3, CHR 0xA7] @ ''alho inv'' @ [CHR 0xC3, CHR 0xA1] @ ''lido.''"

definition detail_duplicate :: string where
  "detail_duplicate = ''Cabe'' @ [CHR 0xC3, CHR 0xA7] @ ''alhos duplicados n'' @ [CHR 0xC3, CHR 0xA3] @ ''o s'' @ [CHR 0xC3, CHR 0xA3] @ ''o aceitos.''"

definition detail_host :: string where
  "detail_host = ''Cabe'' @ [CHR 0xC3, CHR 0xA7] @ ''alho Host obrigat'' @ [CHR 0xC3, CHR 0xB3] @ ''rio em HTTP/1.1.''"

definition detail_transfer :: string where
  "detail_transfer = ''Transfer-Encoding n'' @ [CHR 0xC3, CHR 0xA3] @ ''o '' @ [CHR 0xC3, CHR 0xA9] @ '' aceito neste servidor.''"

definition detail_expectation :: string where
  "detail_expectation = ''Expect n'' @ [CHR 0xC3, CHR 0xA3] @ ''o '' @ [CHR 0xC3, CHR 0xA9] @ '' suportado.''"

definition detail_length :: string where
  "detail_length = ''Content-Length inv'' @ [CHR 0xC3, CHR 0xA1] @ ''lido.''"

definition detail_body_too_large :: string where
  "detail_body_too_large = ''Corpo HTTP excede o limite permitido.''"

definition detail_closed_body :: string where
  "detail_closed_body = ''Corpo HTTP encerrado antes do tamanho declarado.''"

definition detail_timeout_body :: string where
  "detail_timeout_body = ''Tempo excedido ao receber o corpo da requisi'' @ [CHR 0xC3, CHR 0xA7, CHR 0xC3, CHR 0xA3] @ ''o.''"

definition detail_excess :: string where
  "detail_excess = ''Dados excedentes inesperados ap'' @ [CHR 0xC3, CHR 0xB3] @ ''s o corpo HTTP.''"

definition detail_path :: string where
  "detail_path = ''Caminho de URL inv'' @ [CHR 0xC3, CHR 0xA1] @ ''lido.''"

definition bad_request :: "string \<Rightarrow> ReadFailure" where
  "bad_request detail = \<lparr>rf_status = 400, rf_reason = ''Bad Request'', rf_detail = detail\<rparr>"

definition timeout :: "string \<Rightarrow> ReadFailure" where
  "timeout detail = \<lparr>rf_status = 408, rf_reason = ''Request Timeout'', rf_detail = detail\<rparr>"

definition too_large :: "string \<Rightarrow> ReadFailure" where
  "too_large detail = \<lparr>rf_status = 431, rf_reason = ''Request Header Fields Too Large'', rf_detail = detail\<rparr>"

section \<open>Characters\<close>

definition isTokenCharacter :: "char \<Rightarrow> bool" where
  "isTokenCharacter c \<longleftrightarrow> isalnum c \<or> c \<in> set (''!#$%&'' @ [CHR 0x27] @ ''*+-.^_'' @ [CHR 0x60] @ ''|~'')"

definition containsInvalidHeaderValueCharacter :: "string \<Rightarrow> bool" where
  "containsInvalidHeaderValueCharacter s \<longleftrightarrow>
     list_ex (\<lambda>c. (byte c < 32 \<and> c \<noteq> TAB) \<or> byte c = 127) s"

definition isValidHeaderName :: "string \<Rightarrow> bool" where
  "isValidHeaderName name \<longleftrightarrow> name \<noteq> [] \<and> list_all isTokenCharacter name"

definition path_char :: "char \<Rightarrow> bool" where
  "path_char c \<longleftrightarrow> \<not> (byte c = 0 \<or> c = BACKSLASH \<or> byte c < 32 \<or> byte c = 127)"

fun percentDecodePath :: "string \<Rightarrow> string option" where
  "percentDecodePath [] = Some []"
| "percentDecodePath (c # s) =
     (if c = CHR ''%'' then
        (case s of
           h # l # t \<Rightarrow>
             (case (hex_value h, hex_value l) of
                (Some high, Some low) \<Rightarrow>
                  let v = char_of (16 * high + low) in
                  if path_char v then map_option (Cons v) (percentDecodePath t) else None
              | _ \<Rightarrow> None)
         | _ \<Rightarrow> None)
      else if path_char c then map_option (Cons c) (percentDecodePath s)
      else None)"

section \<open>The head of a request\<close>

text \<open>Receiving until the blank line, with the two size checks.  The result is the position of
  the blank line, the bytes received so far and the calls that are left.\<close>

fun read_head :: "recv_result list \<Rightarrow> string \<Rightarrow> (ReadFailure, nat \<times> string \<times> recv_result list) result" where
  "read_head [] raw = Error (bad_request detail_closed_head)"
| "read_head (Interrupted # rs) raw = read_head rs raw"
| "read_head (WouldBlock # rs) raw = Error (timeout detail_timeout_head)"
| "read_head (RecvFailed # rs) raw = Error (bad_request detail_invalid_request)"
| "read_head (Received buffer # rs) raw =
     (if buffer = [] then Error (bad_request detail_closed_head)
      else
        let raw = raw @ buffer in
        (case find_sub (CRLF @ CRLF) raw of
           None \<Rightarrow>
             if length raw > kMaxHeaderBytes then Error (too_large detail_head_too_large)
             else read_head rs raw
         | Some headerEnd \<Rightarrow>
             if headerEnd > kMaxHeaderBytes then Error (too_large detail_head_too_large)
             else Okay (headerEnd, raw, rs)))"

definition chop_cr :: "string \<Rightarrow> string" where
  "chop_cr line = (if line \<noteq> [] \<and> last line = CR then butlast line else line)"

text \<open>\<open>stream >> word\<close>: skip white space and take the characters up to the next.\<close>

definition next_word :: "string \<Rightarrow> string \<times> string" where
  "next_word s =
     (let s = dropWhile isspace s in (takeWhile (\<lambda>c. \<not> isspace c) s, dropWhile (\<lambda>c. \<not> isspace c) s))"

definition parse_start_line :: "string \<Rightarrow> (ReadFailure, string \<times> string \<times> string) result" where
  "parse_start_line line =
     (let (m, s1) = next_word line; (t, s2) = next_word s1; (v, s3) = next_word s2; (extra, _) = next_word s3 in
      if m = [] \<or> t = [] \<or> v = [] \<or> extra \<noteq> [] then Error (bad_request detail_start_line)
      else if m = [] \<or> length m > 16 \<or> \<not> list_all isTokenCharacter m then Error (bad_request detail_method)
      else if v \<noteq> ''HTTP/1.1'' \<and> v \<noteq> ''HTTP/1.0''
      then Error \<lparr>rf_status = 505, rf_reason = ''HTTP Version Not Supported'', rf_detail = detail_version\<rparr>
      else if t = [] \<or> length t > kMaxRequestTargetBytes \<or> hd t \<noteq> CHR ''/'' \<or> CHR ''#'' \<in> set t \<or>
        containsInvalidHeaderValueCharacter t
      then Error \<lparr>rf_status = 414, rf_reason = ''URI Too Long'', rf_detail = detail_target\<rparr>
      else Okay (m, t, v))"

text \<open>One header line that is not empty, then the loop over the lines.\<close>

definition header_line :: "string \<Rightarrow> (string \<times> string) list \<Rightarrow> (ReadFailure, (string \<times> string) list) result" where
  "header_line line headers =
     (if hd line = CHR '' '' \<or> hd line = TAB then Error (bad_request detail_continuation)
      else case find_idx (\<lambda>c. c = CHR '':'') line of
          None \<Rightarrow> Error (bad_request detail_header)
        | Some separator \<Rightarrow>
            let name = lowercase (trim (take separator line));
                val = trim (drop (separator + 1) line) in
            if \<not> isValidHeaderName name \<or> containsInvalidHeaderValueCharacter val
            then Error (bad_request detail_header_chars)
            else case map_of headers name of
                None \<Rightarrow> Okay (headers @ [(name, val)])
              | Some old \<Rightarrow>
                  if name = ''cookie''
                  then Okay (map (\<lambda>(n, v). if n = name then (n, v @ ''; '' @ val) else (n, v)) headers)
                  else Error (bad_request detail_duplicate))"

fun header_lines :: "nat \<Rightarrow> string list \<Rightarrow> (string \<times> string) list \<Rightarrow> (ReadFailure, (string \<times> string) list) result" where
  "header_lines headerCount [] headers = Okay headers"
| "header_lines headerCount (line # lines) headers =
     (let line = chop_cr line in
      if line = [] then header_lines headerCount lines headers
      else if headerCount + 1 > kMaxHeaderCount \<or> length line > kMaxHeaderLineBytes
      then Error (too_large detail_header_count)
      else case header_line line headers of
          Error e \<Rightarrow> Error e
        | Okay headers' \<Rightarrow> header_lines (headerCount + 1) lines headers')"

text \<open>What the headers must say about the body; the result is the content length.\<close>

definition body_size :: "string \<Rightarrow> (string \<times> string) list \<Rightarrow> (ReadFailure, nat) result" where
  "body_size version headers =
     (if version = ''HTTP/1.1'' \<and> map_of headers ''host'' = None then Error (bad_request detail_host)
      else if map_of headers ''transfer-encoding'' \<noteq> None
      then Error \<lparr>rf_status = 501, rf_reason = ''Not Implemented'', rf_detail = detail_transfer\<rparr>
      else if map_of headers ''expect'' \<noteq> None
      then Error \<lparr>rf_status = 417, rf_reason = ''Expectation Failed'', rf_detail = detail_expectation\<rparr>
      else case map_of headers ''content-length'' of
          None \<Rightarrow> Okay 0
        | Some len \<Rightarrow>
            let parsed = parseContentLength len (word_of_nat kMaxBodyBytes) in
            (case cl_status parsed of
               cl_invalid \<Rightarrow> Error (bad_request detail_length)
             | cl_tooLarge \<Rightarrow>
                 Error \<lparr>rf_status = 413, rf_reason = ''Payload Too Large'', rf_detail = detail_body_too_large\<rparr>
             | cl_valid \<Rightarrow> Okay (unat (cl_value parsed))))"

section \<open>The body and the path\<close>

fun read_body :: "recv_result list \<Rightarrow> string \<Rightarrow> nat \<Rightarrow> (ReadFailure, string) result" where
  "read_body rs raw expectedSize =
     (if expectedSize \<le> length raw then Okay raw
      else case rs of
          [] \<Rightarrow> Error (bad_request detail_closed_body)
        | Interrupted # rs' \<Rightarrow> read_body rs' raw expectedSize
        | WouldBlock # rs' \<Rightarrow> Error (timeout detail_timeout_body)
        | RecvFailed # rs' \<Rightarrow> Error (bad_request detail_invalid_request)
        | Received buffer # rs' \<Rightarrow>
            if buffer = [] then Error (bad_request detail_closed_body)
            else
              let raw = raw @ buffer in
              if length raw > expectedSize + 8192 then Error (bad_request detail_excess)
              else read_body rs' raw expectedSize)"

declare read_body.simps [simp del]

definition split_target :: "string \<Rightarrow> string \<times> string" where
  "split_target target = (takeWhile (\<lambda>c. c \<noteq> CHR ''?'') target, dropWhile (\<lambda>c. c \<noteq> CHR ''?'') target)"

definition readRequest :: "recv_result list \<Rightarrow> ReadRequestResult" where
  "readRequest rs =
     (case read_head rs [] of
        Error e \<Rightarrow> Error e
      | Okay (headerEnd, raw, rs') \<Rightarrow>
          (case getlines LF (take headerEnd raw) of
             [] \<Rightarrow> Error (bad_request detail_invalid_request)
           | line # lines \<Rightarrow>
               (case parse_start_line (chop_cr line) of
                  Error e \<Rightarrow> Error e
                | Okay (m, t, v) \<Rightarrow>
                    (case header_lines 0 lines [] of
                       Error e \<Rightarrow> Error e
                     | Okay headers \<Rightarrow>
                         (case body_size v headers of
                            Error e \<Rightarrow> Error e
                          | Okay contentLength \<Rightarrow>
                              (case read_body rs' raw (headerEnd + 4 + contentLength) of
                                 Error e \<Rightarrow> Error e
                               | Okay raw \<Rightarrow>
                                   let (encodedPath, query) = split_target t in
                                   (case percentDecodePath encodedPath of
                                      None \<Rightarrow> Error (bad_request detail_path)
                                    | Some p \<Rightarrow>
                                        if p = [] \<or> hd p \<noteq> CHR ''/'' then Error (bad_request detail_path)
                                        else Okay \<lparr>req_method = m, req_target = t, req_path = p,
                                          req_query = query, req_version = v, req_headers = headers,
                                          req_body = take contentLength (drop (headerEnd + 4) raw)\<rparr>)))))))"

section \<open>Cookies and origins\<close>

definition cookie_item :: "string \<Rightarrow> string \<Rightarrow> string option" where
  "cookie_item name item =
     (case find_idx (\<lambda>c. c = CHR ''='') (trim item) of
        None \<Rightarrow> None
      | Some separator \<Rightarrow>
          if take separator (trim item) = name then Some (drop (separator + 1) (trim item)) else None)"

definition cookieValue :: "HttpRequest \<Rightarrow> string \<Rightarrow> string" where
  "cookieValue request name =
     (case map_of (req_headers request) ''cookie'' of
        None \<Rightarrow> []
      | Some found \<Rightarrow>
          (case List.map_filter (cookie_item name) (getlines CHR '';'' found) of [] \<Rightarrow> [] | v # _ \<Rightarrow> v))"

definition isUnsafeMethod :: "string \<Rightarrow> bool" where
  "isUnsafeMethod method \<longleftrightarrow> method \<noteq> ''GET'' \<and> method \<noteq> ''HEAD'' \<and> method \<noteq> ''OPTIONS''"

definition authorityFromUrl :: "string \<Rightarrow> string option" where
  "authorityFromUrl url =
     (case find_sub ''://'' url of
        None \<Rightarrow> None
      | Some scheme \<Rightarrow>
          let authority = takeWhile (\<lambda>c. c \<notin> set ''/?#'') (drop (scheme + 3) url) in
          if authority = [] \<or> CHR ''@'' \<in> set authority \<or> CHR '','' \<in> set authority then None
          else Some (lowercase (trim authority)))"

definition sameOriginRequest :: "HttpRequest \<Rightarrow> bool \<Rightarrow> bool" where
  "sameOriginRequest request requireSameOrigin \<longleftrightarrow>
     (if \<not> isUnsafeMethod (req_method request) then True
      else case map_of (req_headers request) ''host'' of
          None \<Rightarrow> \<not> requireSameOrigin
        | Some h \<Rightarrow>
            let host = lowercase (trim h) in
            if host = [] \<or> CHR '','' \<in> set host then False
            else case map_of (req_headers request) ''origin'' of
                Some origin \<Rightarrow>
                  if origin = ''null'' then False else authorityFromUrl origin = Some host
              | None \<Rightarrow>
                  (case map_of (req_headers request) ''referer'' of
                     Some referer \<Rightarrow> authorityFromUrl referer = Some host
                   | None \<Rightarrow>
                       (case map_of (req_headers request) ''sec-fetch-site'' of
                          Some site \<Rightarrow>
                            lowercase (trim site) = ''same-origin'' \<or> lowercase (trim site) = ''none''
                        | None \<Rightarrow> \<not> requireSameOrigin)))"

end
