(* ===== verification/Http_Properties.thy ===== *)
theory Http_Properties
  imports Http_Request "HOL-Library.Code_Target_Numeral"
begin

text \<open>
  Correctness of the request reader: a well-formed request is read back whatever the sizes of
  the received pieces, and every accepted request satisfies the limits of the daemon.
\<close>

section \<open>Searching\<close>

lemma find_sub_Some:
  "p \<noteq> [] \<Longrightarrow> find_sub p s = Some n \<longleftrightarrow>
     n + length p \<le> length s \<and> take (length p) (drop n s) = p \<and> (\<forall>j < n. take (length p) (drop j s) \<noteq> p)"
proof (induction s arbitrary: n)
  case (Cons x s)
  show ?case
  proof (cases n)
    case 0
    then show ?thesis
      using Cons.prems by (auto dest: arg_cong [where f = length] split: if_splits)
  next
    case (Suc k)
    then show ?thesis using Cons by (auto simp: less_Suc_eq_0_disj)
  qed
qed simp

lemma find_sub_prefix:
  assumes "p \<noteq> []" and "find_sub p (s @ t) = Some n"
  shows "find_sub p s = (if n + length p \<le> length s then Some n else None)"
proof (cases "n + length p \<le> length s")
  case True
  then show ?thesis using assms by (auto simp: find_sub_Some)
next
  case False
  have "find_sub p s \<noteq> Some k" for k
  proof
    assume k: "find_sub p s = Some k"
    then have "find_sub p (s @ t) = Some k" using assms(1) by (auto simp: find_sub_Some)
    with assms(2) k False show False by (simp add: find_sub_Some [OF assms(1)])
  qed
  then have "find_sub p s = None" by (cases "find_sub p s") blast+
  with False show ?thesis by simp
qed

lemma find_sub_skip: "p \<noteq> [] \<Longrightarrow> x \<noteq> hd p \<Longrightarrow> find_sub p (x # s) = map_option Suc (find_sub p s)"
  by (cases p) auto

lemma find_sub_skip_list:
  "p \<noteq> [] \<Longrightarrow> hd p \<notin> set l \<Longrightarrow> find_sub p (l @ s) = map_option (\<lambda>n. length l + n) (find_sub p s)"
proof (induction l)
  case Nil
  then show ?case by (cases "find_sub p s") simp_all
next
  case (Cons a l)
  then have "find_sub p (a # (l @ s)) = map_option Suc (find_sub p (l @ s))"
    by (intro find_sub_skip) auto
  with Cons show ?case by (cases "find_sub p s") (simp_all del: find_sub.simps)
qed

section \<open>Receiving\<close>

text \<open>The bytes that a list of calls delivers when none of them fails.\<close>

fun received :: "recv_result list \<Rightarrow> string option" where
  "received [] = Some []"
| "received (Interrupted # rs) = received rs"
| "received (Received b # rs) = (if b = [] then None else map_option (\<lambda>t. b @ t) (received rs))"
| "received (_ # rs) = None"

lemma CRLF_facts [simp]: "CRLF \<noteq> []" "hd (CRLF @ s) = CR" "length CRLF = 2"
  by (simp_all add: CRLF_def)

lemma read_head_received:
  assumes "received rs = Some bytes" and "find_sub (CRLF @ CRLF) (raw @ bytes) = Some n"
    and "n + 3 \<le> kMaxHeaderBytes" and "length raw < n + 4"
  shows "\<exists>raw' rs' rest. read_head rs raw = Okay (n, raw', rs') \<and> received rs' = Some rest \<and>
     raw' @ rest = raw @ bytes \<and> n + 4 \<le> length raw' \<and> set rs' \<subseteq> set rs"
  using assms
proof (induction rs raw arbitrary: bytes rule: read_head.induct)
  case (1 raw)
  then show ?case by (simp add: find_sub_Some)
next
  case (5 b rs raw)
  obtain t where b: "b \<noteq> []" "received rs = Some t" "bytes = b @ t" using "5.prems"(1) by (auto split: if_splits)
  have f: "find_sub (CRLF @ CRLF) ((raw @ b) @ t) = Some n" using "5.prems"(2) b(3) by simp
  note pre = find_sub_prefix [OF _ f]
  show ?case
  proof (cases "n + 4 \<le> length (raw @ b)")
    case True
    with pre have "read_head (Received b # rs) raw = Okay (n, raw @ b, rs)"
      using b(1) "5.prems"(3) by simp
    with True b show ?thesis by (intro exI [of _ "raw @ b"] exI [of _ rs] exI [of _ t]) auto
  next
    case False
    with pre have none: "find_sub (CRLF @ CRLF) (raw @ b) = None" by simp
    have small: "\<not> length (raw @ b) > kMaxHeaderBytes" using False "5.prems"(3) by simp
    have step: "read_head (Received b # rs) raw = read_head rs (raw @ b)" using b(1) none small by simp
    obtain raw' rs' rest where "read_head rs (raw @ b) = Okay (n, raw', rs')" "received rs' = Some rest"
      "raw' @ rest = (raw @ b) @ t" "n + 4 \<le> length raw'" "set rs' \<subseteq> set rs"
      using "5.IH" [OF b(1) refl none small b(2) f "5.prems"(3)] False by auto
    with step b show ?thesis by (intro exI [of _ raw'] exI [of _ rs'] exI [of _ rest]) auto
  qed
next
  case (2 rs raw)
  then obtain raw' rs' rest where "read_head rs raw = Okay (n, raw', rs')" "received rs' = Some rest"
    "raw' @ rest = raw @ bytes" "n + 4 \<le> length raw'" "set rs' \<subseteq> set rs" by auto
  then show ?case by (intro exI [of _ raw'] exI [of _ rs'] exI [of _ rest]) auto
qed simp_all

text \<open>A call fills at most the buffer of 8192 bytes.\<close>

definition buffer_sized :: "recv_result list \<Rightarrow> bool" where
  "buffer_sized rs \<longleftrightarrow> (\<forall>b. Received b \<in> set rs \<longrightarrow> length b \<le> 8192)"

lemma read_body_received:
  assumes "received rs = Some bytes" and "buffer_sized rs" and "n \<le> length (raw @ bytes)"
  shows "\<exists>raw' rest. read_body rs raw n = Okay raw' \<and> raw' @ rest = raw @ bytes \<and> n \<le> length raw'"
  using assms
proof (induction rs arbitrary: raw bytes)
  case Nil
  then show ?case by (simp add: read_body.simps)
next
  case (Cons r rs)
  show ?case
  proof (cases "n \<le> length raw")
    case True
    then show ?thesis by (simp add: read_body.simps)
  next
    case False
    show ?thesis
    proof (cases r)
      case (Received b)
      obtain t where b: "b \<noteq> []" "received rs = Some t" "bytes = b @ t"
        using Cons.prems(1) Received by (auto split: if_splits)
      have "length b \<le> 8192" "buffer_sized rs" using Cons.prems(2) Received by (auto simp: buffer_sized_def)
      moreover from this(1) have "\<not> length (raw @ b) > n + 8192" using False by simp
      ultimately show ?thesis
        using Cons.IH [OF b(2), of "raw @ b"] Cons.prems(3) Received b False
        by (simp add: read_body.simps [of "Received b # rs"])
    next
      case Interrupted
      then show ?thesis
        using Cons.IH [of bytes raw] Cons.prems False
        by (simp add: read_body.simps [of "Interrupted # rs"] buffer_sized_def)
    qed (use Cons.prems in simp_all)
  qed
qed

section \<open>Writing requests\<close>

definition header_text :: "string \<times> string \<Rightarrow> string" where
  "header_text h = fst h @ '': '' @ snd h"

definition start_line_text :: "HttpRequest \<Rightarrow> string" where
  "start_line_text r = req_method r @ '' '' @ req_target r @ '' '' @ req_version r"

definition crlf_lines :: "string \<Rightarrow> string list \<Rightarrow> string" where
  "crlf_lines l ls = l @ concat (map (\<lambda>x. CRLF @ x) ls)"

definition head_text :: "HttpRequest \<Rightarrow> string" where
  "head_text r = crlf_lines (start_line_text r) (map header_text (req_headers r))"

definition request_text :: "HttpRequest \<Rightarrow> string" where
  "request_text r = head_text r @ CRLF @ CRLF @ req_body r"

definition line_ok :: "string \<Rightarrow> bool" where
  "line_ok l \<longleftrightarrow> l \<noteq> [] \<and> CR \<notin> set l \<and> LF \<notin> set l"

lemma crlf_lines_simps [simp]:
  "crlf_lines l [] = l" "crlf_lines l (x # xs) = l @ CR # LF # crlf_lines x xs"
  by (simp_all add: crlf_lines_def CRLF_def)

lemma crlf_lines_ne: "line_ok l \<Longrightarrow> \<exists>c t. crlf_lines l ls = c # t \<and> c \<noteq> CR"
  by (cases l) (auto simp: crlf_lines_def line_ok_def)

lemma blank_line_found:
  "line_ok l \<Longrightarrow> list_all line_ok ls \<Longrightarrow>
     find_sub (CRLF @ CRLF) (crlf_lines l ls @ CRLF @ CRLF @ t) = Some (length (crlf_lines l ls))"
proof (induction ls arbitrary: l)
  case Nil
  then have "hd (CRLF @ CRLF) \<notin> set l" by (simp add: line_ok_def)
  from find_sub_skip_list [OF _ this, of "CRLF @ CRLF @ t"] show ?case by (simp add: CRLF_def)
next
  case (Cons x ls)
  then have x: "line_ok x" "hd (CRLF @ CRLF) \<notin> set l" by (simp_all add: line_ok_def)
  obtain c u where c: "crlf_lines x ls = c # u" "c \<noteq> CR" using crlf_lines_ne [OF x(1)] by blast
  let ?rest = "crlf_lines x ls @ CRLF @ CRLF @ t"
  have "find_sub (CRLF @ CRLF) (CR # LF # ?rest) = map_option (Suc \<circ> Suc) (find_sub (CRLF @ CRLF) ?rest)"
    using c by (simp add: CRLF_def option.map_comp o_assoc)
  then have "find_sub (CRLF @ CRLF) (l @ CR # LF # ?rest) = Some (length l + 2 + length (crlf_lines x ls))"
    using find_sub_skip_list [OF _ x(2), of "CR # LF # ?rest"] Cons by (simp del: find_sub.simps)
  then show ?case by simp
qed

lemma getlines_append: "d \<notin> set p \<Longrightarrow> getlines d (p @ d # s) = p # getlines d s"
  by (simp add: getlines_def split_on_append Let_def)

lemma chop_cr_simps: "chop_cr (l @ [CR]) = l" "CR \<notin> set l \<Longrightarrow> chop_cr l = l"
  unfolding chop_cr_def by (simp, metis last_in_set)

lemma getlines_crlf:
  "line_ok l \<Longrightarrow> list_all line_ok ls \<Longrightarrow> map chop_cr (getlines LF (crlf_lines l ls)) = l # ls"
proof (induction ls arbitrary: l)
  case Nil
  then have "LF \<notin> set l" "l \<noteq> []" "CR \<notin> set l" by (simp_all add: line_ok_def)
  then show ?case by (simp add: getlines_def split_on_no chop_cr_simps)
next
  case (Cons x ls)
  have "LF \<notin> set (l @ [CR])" using Cons.prems by (simp add: line_ok_def)
  from getlines_append [OF this, of "crlf_lines x ls"] Cons show ?case by (simp add: chop_cr_simps)
qed

section \<open>Reading lines back\<close>

lemma token_not_blank: "isTokenCharacter c \<Longrightarrow> \<not> isspace c \<and> \<not> is_blank c \<and> c \<noteq> CHR '':'' \<and> c \<noteq> CR \<and> c \<noteq> LF"
  by (auto simp: isTokenCharacter_def isspace_def is_blank_def isalnum_def isdigit_def islower_def isupper_def)

lemma next_word_here:
  assumes "w \<noteq> []" "\<forall>c \<in> set w. \<not> isspace c" "s = [] \<or> isspace (hd s)"
  shows "next_word (w @ s) = (w, s)" and "next_word (CHR '' '' # w @ s) = (w, s)"
proof -
  have "dropWhile isspace (w @ s) = w @ s" using assms(1,2) by (cases w) auto
  moreover have "takeWhile (\<lambda>c. \<not> isspace c) (w @ s) = w" "dropWhile (\<lambda>c. \<not> isspace c) (w @ s) = s"
    using assms(2,3) by (cases s; auto)+
  ultimately show "next_word (w @ s) = (w, s)" by (simp add: next_word_def)
  moreover have "isspace CHR '' ''" by (simp add: isspace_def)
  ultimately show "next_word (CHR '' '' # w @ s) = (w, s)" by (simp add: next_word_def)
qed

text \<open>The requests a client can send: what the reader demands of each part, written over the
  parts.\<close>

definition header_ok :: "string \<times> string \<Rightarrow> bool" where
  "header_ok h \<longleftrightarrow> isValidHeaderName (fst h) \<and> lowercase (fst h) = fst h \<and> trim (snd h) = snd h \<and>
     \<not> containsInvalidHeaderValueCharacter (snd h) \<and> length (header_text h) \<le> kMaxHeaderLineBytes"

definition sendable :: "HttpRequest \<Rightarrow> bool" where
  "sendable r \<longleftrightarrow>
     req_method r \<noteq> [] \<and> length (req_method r) \<le> 16 \<and> list_all isTokenCharacter (req_method r) \<and>
     (req_version r = ''HTTP/1.1'' \<or> req_version r = ''HTTP/1.0'') \<and>
     req_target r \<noteq> [] \<and> length (req_target r) \<le> kMaxRequestTargetBytes \<and> hd (req_target r) = CHR ''/'' \<and>
     CHR ''#'' \<notin> set (req_target r) \<and> \<not> containsInvalidHeaderValueCharacter (req_target r) \<and>
     list_all (\<lambda>c. \<not> isspace c) (req_target r) \<and>
     list_all header_ok (req_headers r) \<and> distinct (map fst (req_headers r)) \<and>
     length (req_headers r) \<le> kMaxHeaderCount \<and>
     body_size (req_version r) (req_headers r) = Okay (length (req_body r)) \<and>
     length (head_text r) + 3 \<le> kMaxHeaderBytes \<and>
     percentDecodePath (fst (split_target (req_target r))) = Some (req_path r) \<and>
     req_query r = snd (split_target (req_target r)) \<and>
     req_path r \<noteq> [] \<and> hd (req_path r) = CHR ''/''"

lemma header_ok_line:
  assumes "header_ok h"
  shows "line_ok (header_text h)"
    and "map_of headers (fst h) = None \<Longrightarrow> header_line (header_text h) headers = Okay (headers @ [h])"
proof -
  have n: "fst h \<noteq> []" "\<forall>c \<in> set (fst h). isTokenCharacter c" "lowercase (fst h) = fst h"
    using assms by (auto simp: header_ok_def isValidHeaderName_def list_all_iff)
  have v: "CR \<notin> set (snd h)" "LF \<notin> set (snd h)"
    using assms by (auto simp: header_ok_def containsInvalidHeaderValueCharacter_def list_ex_iff)
  show "line_ok (header_text h)"
    using n v token_not_blank by (auto simp: line_ok_def header_text_def)
  assume new: "map_of headers (fst h) = None"
  obtain c n' where c: "fst h = c # n'" using n(1) by (cases "fst h") auto
  have first: "c \<noteq> CHR '' ''" "c \<noteq> TAB"
    using n(2) token_not_blank [of c] by (auto simp: c is_blank_def)
  have "trim (fst h) = fst h"
    using n token_not_blank by (intro trim_id) (metis hd_in_set last_in_set)
  moreover have "find_idx (\<lambda>c. c = CHR '':'') (header_text h) = Some (length (fst h))"
    using n(2) token_not_blank find_idx_append_hit [of "fst h" "\<lambda>c. c = CHR '':''" "CHR '':''" "CHR '' '' # snd h"]
    by (auto simp: header_text_def)
  moreover have "hd (header_text h) = c" by (simp add: header_text_def c)
  moreover have "trim (CHR '' '' # snd h) = snd h"
    using assms by (simp add: header_ok_def trim_def is_blank_def)
  ultimately show "header_line (header_text h) headers = Okay (headers @ [h])"
    using assms n(3) first new by (simp add: header_line_def header_text_def header_ok_def Let_def)
qed

lemma header_lines_text:
  assumes "map chop_cr lines = map header_text hs" "list_all header_ok hs"
    "distinct (map fst acc @ map fst hs)" "k + length hs \<le> kMaxHeaderCount"
  shows "header_lines k lines acc = Okay (acc @ hs)"
  using assms
proof (induction hs arbitrary: lines k acc)
  case (Cons h hs)
  then obtain l ls where l: "lines = l # ls" "chop_cr l = header_text h" "map chop_cr ls = map header_text hs"
    by (cases lines) auto
  have ok: "header_ok h" "map_of acc (fst h) = None"
    using Cons.prems by (auto simp: map_of_eq_None_iff image_iff)
  have "header_lines (Suc k) ls (acc @ [h]) = Okay ((acc @ [h]) @ hs)"
    using Cons.prems l by (intro Cons.IH) auto
  then show ?case
    using l ok header_ok_line [OF ok(1)] Cons.prems(4)
    by (auto simp: header_ok_def line_ok_def Let_def)
qed simp

lemma start_line_read:
  assumes "sendable r"
  shows "line_ok (start_line_text r)"
    and "parse_start_line (start_line_text r) = Okay (req_method r, req_target r, req_version r)"
proof -
  note s = assms [unfolded sendable_def list_all_iff]
  have m: "req_method r \<noteq> []" "\<forall>c \<in> set (req_method r). \<not> isspace c"
    using s token_not_blank by blast+
  have t: "req_target r \<noteq> []" "\<forall>c \<in> set (req_target r). \<not> isspace c" using s by blast+
  have v: "req_version r \<noteq> []" "\<forall>c \<in> set (req_version r). \<not> isspace c"
    using s by (elim conjE disjE; simp add: isspace_def)+
  have sp: "isspace CHR '' ''" "isspace CR" "isspace LF" by (simp_all add: isspace_def)
  show "line_ok (start_line_text r)"
    using m t v sp by (auto simp: line_ok_def start_line_text_def)
  have w: "next_word (start_line_text r) = (req_method r, '' '' @ req_target r @ '' '' @ req_version r)"
    "next_word ('' '' @ req_target r @ '' '' @ req_version r) = (req_target r, '' '' @ req_version r)"
    "next_word ('' '' @ req_version r) = (req_version r, [])" "next_word [] = ([], [])"
    using next_word_here(1) [OF m, of "'' '' @ req_target r @ '' '' @ req_version r"]
      next_word_here(2) [OF t, of "'' '' @ req_version r"] next_word_here(2) [OF v, of "[]"] sp
    by (simp_all add: start_line_text_def next_word_def)
  have c: "length (req_method r) \<le> 16" "list_all isTokenCharacter (req_method r)"
    "req_version r = ''HTTP/1.1'' \<or> req_version r = ''HTTP/1.0''"
    "length (req_target r) \<le> kMaxRequestTargetBytes" "hd (req_target r) = CHR ''/''"
    "CHR ''#'' \<notin> set (req_target r)" "\<not> containsInvalidHeaderValueCharacter (req_target r)"
    using assms unfolding sendable_def by blast+
  show "parse_start_line (start_line_text r) = Okay (req_method r, req_target r, req_version r)"
    unfolding parse_start_line_def w Let_def prod.case using m(1) t(1) v(1) c by auto
qed

section \<open>Properties\<close>

definition sample_request :: HttpRequest where
  "sample_request = \<lparr>req_method = ''POST'', req_target = ''/api/a%2Fb?x=1'', req_path = ''/api/a/b'',
     req_query = ''?x=1'', req_version = ''HTTP/1.1'',
     req_headers = [(''host'', ''sister.org''), (''content-length'', ''5'')], req_body = ''hello''\<rparr>"

definition sample_calls :: "recv_result list" where
  "sample_calls = [Received (take 7 (request_text sample_request)), Interrupted,
     Received (take 60 (drop 7 (request_text sample_request))),
     Received (drop 67 (request_text sample_request) @ ''next'')]"

lemma sample_calls_received: "received sample_calls = Some (request_text sample_request @ ''next'')"
  by code_simp

lemma sample_calls_buffers: "buffer_sized sample_calls"
proof -
  have "list_all (\<lambda>r. case r of Received b \<Rightarrow> length b \<le> 8192 | _ \<Rightarrow> True) sample_calls" by code_simp
  then show ?thesis by (auto simp: buffer_sized_def list_all_iff)
qed

text \<open>C22: A request that respects the limits is read back exactly as it was sent, whatever the
  sizes of the pieces in which its bytes arrive and however often a call is interrupted; bytes
  after the body do not change the result.\<close>

theorem readRequest_roundtrip:
  assumes "sendable r" and "received rs = Some (request_text r @ extra)" and "buffer_sized rs"
  shows "readRequest rs = Okay r"
proof -
  let ?n = "length (head_text r)"
  have hs: "list_all header_ok (req_headers r)" "distinct (map fst (req_headers r))"
    "length (req_headers r) \<le> kMaxHeaderCount" "?n + 3 \<le> kMaxHeaderBytes"
    "body_size (req_version r) (req_headers r) = Okay (length (req_body r))"
    "percentDecodePath (fst (split_target (req_target r))) = Some (req_path r)"
    "req_query r = snd (split_target (req_target r))" "req_path r \<noteq> []" "hd (req_path r) = CHR ''/''"
    using assms(1) unfolding sendable_def by blast+
  note start = start_line_read [OF assms(1)]
  have lines: "list_all line_ok (map header_text (req_headers r))"
    using hs(1) header_ok_line(1) by (auto simp: list_all_iff)
  have "find_sub (CRLF @ CRLF) ([] @ request_text r @ extra) = Some ?n"
    using blank_line_found [OF start(1) lines] by (simp add: request_text_def head_text_def)
  from read_head_received [OF assms(2) this hs(4)] obtain raw rs' rest where
    head: "read_head rs [] = Okay (?n, raw, rs')" "received rs' = Some rest"
      "raw @ rest = request_text r @ extra" "?n + 4 \<le> length raw" "set rs' \<subseteq> set rs" by auto
  have "take ?n raw = take ?n (raw @ rest)" using head(4) by simp
  also have "\<dots> = head_text r" unfolding head(3) by (simp add: request_text_def)
  finally have tk: "take ?n raw = head_text r" .
  have "map chop_cr (getlines LF (head_text r)) = start_line_text r # map header_text (req_headers r)"
    unfolding head_text_def using getlines_crlf [OF start(1) lines] .
  then obtain l ls where l: "getlines LF (head_text r) = l # ls" "chop_cr l = start_line_text r"
      "map chop_cr ls = map header_text (req_headers r)" by auto
  have hl: "header_lines 0 ls [] = Okay (req_headers r)"
    using header_lines_text [OF l(3) hs(1), of "[]" 0] hs(2,3) by simp
  have small: "buffer_sized rs'" using assms(3) head(5) by (auto simp: buffer_sized_def)
  have "?n + 4 + length (req_body r) \<le> length (raw @ rest)" unfolding head(3) by (simp add: request_text_def)
  from read_body_received [OF head(2) small this] obtain raw' rest' where
    body: "read_body rs' raw (?n + 4 + length (req_body r)) = Okay raw'" "raw' @ rest' = raw @ rest"
      "?n + 4 + length (req_body r) \<le> length raw'" by blast
  have "take (length (req_body r)) (drop (?n + 4) raw') = take (length (req_body r)) (drop (?n + 4) (raw' @ rest'))"
    using body(3) by simp
  also have "\<dots> = req_body r" unfolding body(2) head(3) by (simp add: request_text_def CRLF_def)
  finally have bd: "take (length (req_body r)) (drop (?n + 4) raw') = req_body r" .
  show ?thesis
    unfolding readRequest_def head(1) sum.case prod.case tk l(1) list.case l(2) start(2) hl hs(5) body(1) bd
    using hs(6-9) by (simp add: split_beta Let_def)
qed

theorem readRequest_roundtrip_witness: "readRequest sample_calls = Okay sample_request"
proof -
  have "sendable sample_request" by code_simp
  from readRequest_roundtrip [OF this sample_calls_received sample_calls_buffers] show ?thesis .
qed

section \<open>What acceptance implies\<close>

lemma header_line_okay:
  assumes "header_line line hs = Okay hs'" "distinct (map fst hs)"
    "\<forall>(n, v) \<in> set hs. isValidHeaderName n \<and> lowercase n = n \<and> \<not> containsInvalidHeaderValueCharacter v"
  shows "distinct (map fst hs') \<and>
    (\<forall>(n, v) \<in> set hs'. isValidHeaderName n \<and> lowercase n = n \<and> \<not> containsInvalidHeaderValueCharacter v) \<and>
    length hs' \<le> Suc (length hs)"
proof -
  have sep: "containsInvalidHeaderValueCharacter (v @ ''; '' @ w) \<longleftrightarrow>
      containsInvalidHeaderValueCharacter v \<or> containsInvalidHeaderValueCharacter w" for v w
    by (simp add: containsInvalidHeaderValueCharacter_def)
  have fst_map: "map fst (map (\<lambda>(n, v). if n = name then (n, v @ ''; '' @ w) else (n, v)) hs) = map fst hs" for name w
    by (simp add: comp_def case_prod_beta if_distrib [of fst])
  obtain i where "find_idx (\<lambda>c. c = CHR '':'') line = Some i"
    using assms(1) by (auto simp: header_line_def split: if_split_asm option.split_asm)
  moreover define name v where "name = lowercase (trim (take i line))" and "v = trim (drop (i + 1) line)"
  ultimately have r: "(if hd line = CHR '' '' \<or> hd line = TAB then Error (bad_request detail_continuation)
    else if \<not> isValidHeaderName name \<or> containsInvalidHeaderValueCharacter v then Error (bad_request detail_header_chars)
    else case map_of hs name of None \<Rightarrow> Okay (hs @ [(name, v)])
      | Some old \<Rightarrow> if name = ''cookie''
          then Okay (map (\<lambda>(n, u). if n = name then (n, u @ ''; '' @ v) else (n, u)) hs)
          else Error (bad_request detail_duplicate)) = Okay hs'"
    using assms(1) by (simp only: header_line_def option.case Let_def)
  have low: "lowercase name = name" by (simp add: name_def)
  have nv: "isValidHeaderName name" "\<not> containsInvalidHeaderValueCharacter v"
    and res: "hs' = hs @ [(name, v)] \<and> map_of hs name = None \<or>
      hs' = map (\<lambda>(n, u). if n = name then (n, u @ ''; '' @ v) else (n, u)) hs"
    using r by (cases "map_of hs name"; simp split: if_split_asm)+
  let ?good = "\<lambda>p. isValidHeaderName (fst p) \<and> lowercase (fst p) = fst p \<and> \<not> containsInvalidHeaderValueCharacter (snd p)"
  have all: "?good p" if "p \<in> set hs" for p using assms(3) that by (cases p) auto
  have "distinct (map fst hs') \<and> (\<forall>p \<in> set hs'. ?good p) \<and> length hs' \<le> Suc (length hs)"
    using res
  proof
    assume h: "hs' = hs @ [(name, v)] \<and> map_of hs name = None"
    then have "name \<notin> set (map fst hs)" by (simp add: map_of_eq_None_iff)
    with h show ?thesis using assms(2) nv low all by auto
  next
    assume h: "hs' = map (\<lambda>(n, u). if n = name then (n, u @ ''; '' @ v) else (n, u)) hs"
    have "?good (if n = name then (n, u @ ''; '' @ v) else (n, u))" if "(n, u) \<in> set hs" for n u
      using all [OF that] nv(2) sep [of u v] by (cases "n = name") simp_all
    then have "\<forall>p \<in> set hs'. ?good p" unfolding h by (auto simp del: append_Cons)
    moreover have "map fst hs' = map fst hs" unfolding h by (rule fst_map)
    ultimately show ?thesis using h assms(2) by (metis length_map le_SucI order_refl)
  qed
  then show ?thesis by (simp add: split_beta)
qed

lemma header_lines_okay:
  assumes "header_lines k lines hs = Okay hs'" "distinct (map fst hs)" "length hs \<le> k" "k \<le> kMaxHeaderCount"
    "\<forall>(n, v) \<in> set hs. isValidHeaderName n \<and> lowercase n = n \<and> \<not> containsInvalidHeaderValueCharacter v"
  shows "distinct (map fst hs') \<and> length hs' \<le> kMaxHeaderCount \<and>
    (\<forall>(n, v) \<in> set hs'. isValidHeaderName n \<and> lowercase n = n \<and> \<not> containsInvalidHeaderValueCharacter v)"
  using assms
proof (induction lines arbitrary: k hs)
  case (Cons line lines)
  show ?case
  proof (cases "chop_cr line = []")
    case True
    with Cons show ?thesis by simp
  next
    case False
    with Cons.prems(1) obtain hs1 where 1: "header_line (chop_cr line) hs = Okay hs1" "Suc k \<le> kMaxHeaderCount"
      "header_lines (Suc k) lines hs1 = Okay hs'"
      by (auto simp: Let_def split: if_split_asm sum.split_asm)
    note h = header_line_okay [OF 1(1) Cons.prems(2,5)]
    show ?thesis
      by (rule Cons.IH [OF 1(3)]) (use h 1(2) Cons.prems(3) in auto)
  qed
qed auto

lemma read_body_okay: "read_body rs raw n = Okay raw' \<Longrightarrow> n \<le> length raw'"
proof (induction rs arbitrary: raw)
  case Nil
  then show ?case by (simp add: read_body.simps split: if_split_asm)
next
  case (Cons r rs)
  then show ?case
    by (cases r) (auto simp: read_body.simps [of "_ # rs"] Let_def split: if_split_asm)
qed

lemma percentDecodePath_chars: "percentDecodePath s = Some p \<Longrightarrow> list_all path_char p"
proof (induction s arbitrary: p rule: percentDecodePath.induct)
  case (2 c s)
  show ?case
  proof (cases "c = CHR ''%''")
    case False
    with 2 show ?thesis by (auto split: if_split_asm)
  next
    case True
    with "2.prems" obtain h l t a b where h: "s = h # l # t" "hex_value h = Some a" "hex_value l = Some b"
      by (auto split: list.split_asm option.split_asm)
    with "2.prems" True obtain q where q: "path_char (char_of (16 * a + b))" "percentDecodePath t = Some q"
      "p = char_of (16 * a + b) # q"
      by (auto simp: Let_def split: if_split_asm)
    with "2.IH"(1) [OF True h(1) refl _ _ _ refl] h show ?thesis by auto
  qed
qed simp

lemma body_size_okay:
  assumes "body_size v hs = Okay n"
  shows "(v = ''HTTP/1.1'' \<longrightarrow> map_of hs ''host'' \<noteq> None) \<and> map_of hs ''transfer-encoding'' = None \<and>
    n = (case map_of hs ''content-length'' of None \<Rightarrow> 0 | Some len \<Rightarrow> decimal len) \<and> n \<le> kMaxBodyBytes"
proof -
  have max: "unat (word_of_nat kMaxBodyBytes :: size_t) = kMaxBodyBytes" by (simp add: kMaxBodyBytes_def)
  show ?thesis
    using assms parseContentLength_value [of _ "word_of_nat kMaxBodyBytes", unfolded max]
    by (auto simp: body_size_def Let_def split: if_split_asm option.split_asm ContentLengthStatus.split_asm)
qed

lemma parse_start_line_okay:
  assumes "parse_start_line line = Okay (m, t, v)"
  shows "m \<noteq> [] \<and> length m \<le> 16 \<and> list_all isTokenCharacter m \<and> v \<in> {''HTTP/1.1'', ''HTTP/1.0''} \<and>
    length t \<le> kMaxRequestTargetBytes \<and> \<not> containsInvalidHeaderValueCharacter t"
  using assms
  by (simp add: parse_start_line_def Let_def split_beta split: if_split_asm)

lemma readRequest_okay:
  assumes "readRequest rs = Okay r"
  obtains headerEnd raw rs' line lines contentLength raw' where
    "parse_start_line line = Okay (req_method r, req_target r, req_version r)"
    "header_lines 0 lines [] = Okay (req_headers r)" "body_size (req_version r) (req_headers r) = Okay contentLength"
    "read_body rs' raw (headerEnd + 4 + contentLength) = Okay raw'"
    "req_body r = take contentLength (drop (headerEnd + 4) raw')"
    "percentDecodePath (fst (split_target (req_target r))) = Some (req_path r)"
    "req_path r \<noteq> []" "hd (req_path r) = CHR ''/''"
  using assms
  by (auto simp: readRequest_def Let_def split_beta split: sum.split_asm list.split_asm option.split_asm if_split_asm
      intro: that)



section \<open>Origins\<close>

lemma authorityFromUrl_parts:
  assumes "CHR '':'' \<notin> set scheme" "a \<noteq> []" "\<forall>c \<in> set a. c \<notin> set ''/?#@,''"
    "rest = [] \<or> hd rest \<in> set ''/?#''"
  shows "authorityFromUrl (scheme @ ''://'' @ a @ rest) = Some (lowercase (trim a))"
proof -
  have "find_sub ''://'' (scheme @ ''://'' @ a @ rest) = Some (length scheme)"
    using find_sub_skip_list [of "''://''" scheme "''://'' @ a @ rest"] assms(1) by simp
  moreover have "takeWhile (\<lambda>c. c \<notin> set ''/?#'') (a @ rest) = a"
    using assms(3,4) by (cases rest) (auto simp: takeWhile_append)
  ultimately show ?thesis using assms(2,3) by (auto simp: authorityFromUrl_def Let_def)
qed

text \<open>A state-changing request with an Origin header is let through exactly when the authority
  of the origin is the authority of the Host header, up to case and surrounding blanks, whatever
  follows the authority.\<close>

theorem sameOriginRequest_exact:
  assumes "isUnsafeMethod (req_method r)" and "map_of (req_headers r) ''host'' = Some h"
    and "trim h \<noteq> []" and "CHR '','' \<notin> set h"
    and "map_of (req_headers r) ''origin'' = Some (scheme @ ''://'' @ a @ rest)"
    and "CHR '':'' \<notin> set scheme" and "a \<noteq> []" and "\<forall>c \<in> set a. c \<notin> set ''/?#@,''"
    and "rest = [] \<or> hd rest \<in> set ''/?#''"
  shows "sameOriginRequest r b \<longleftrightarrow> lowercase (trim a) = lowercase (trim h)"
proof -
  have "set (trim h) \<subseteq> set h"
    by (auto simp: trim_def dest!: set_dropWhileD)
  moreover have "tolower c = CHR '','' \<Longrightarrow> c = CHR '',''" for c
    using byte_tolower [of c] byte_inject [of c "CHR '',''"] by (auto simp: isupper_def simp del: byte_inject split: if_splits)
  ultimately have "CHR '','' \<notin> set (lowercase (trim h))" using assms(4) unfolding lowercase_def by force
  moreover have "lowercase (trim h) \<noteq> []" using assms(3) by (simp add: lowercase_def)
  moreover have "scheme @ ''://'' @ a @ rest \<noteq> ''null''"
  proof
    assume "scheme @ ''://'' @ a @ rest = ''null''"
    then have "CHR '':'' \<in> set ''null''" by (metis in_set_conv_decomp append_Cons)
    then show False by simp
  qed
  ultimately show ?thesis
    using assms(1,2,5) authorityFromUrl_parts [OF assms(6-9)]
    by (auto simp: sameOriginRequest_def Let_def)
qed

definition cross_request :: HttpRequest where
  "cross_request = sample_request\<lparr>req_headers := [(''host'', ''sister.org''), (''origin'', ''https://evil.example'')]\<rparr>"

theorem sameOriginRequest_exact_witness: "\<not> sameOriginRequest cross_request True"
  using sameOriginRequest_exact [of cross_request "''sister.org''" "''https''" "''evil.example''" "[]" True]
  by (simp add: cross_request_def sample_request_def isUnsafeMethod_def trim_def is_blank_def
      lowercase_def tolower_def isupper_def)

end
