(* ===== verification/Thread_Pool.thy ===== *)
theory Thread_Pool
  imports Prelude
begin

text \<open>
  The pool that serves accepted connections
  (\<open>apps/sisterd/runtime/connection_thread_pool.cpp\<close> and the accept loop of \<open>main.cpp\<close>).
  Everything a thread does while it holds the mutex is one operation; a worker is waiting,
  handles a job or has returned, and every interleaving of the operations is a run of the
  step relation.  The calls of \<open>close\<close> and of the exception logger are recorded in order.
\<close>

section \<open>State\<close>

record Job =
  job_client :: int
  job_peer :: string
  job_remoteAddress :: string

datatype worker = Waiting | Handling Job | Returned

record ThreadPool =
  queueLimit :: nat
  pool_jobs :: "Job list"
  stopping :: bool
  pool_workers :: "worker list"
  closed :: "int list"
  exceptions :: "string list"

text \<open>How the handler ends.\<close>

datatype handler_outcome = Returns | StdException string | OtherException

section \<open>Operations\<close>

definition ConnectionThreadPool_new :: "nat \<Rightarrow> nat \<Rightarrow> ThreadPool" where
  "ConnectionThreadPool_new workerCount limit =
     \<lparr>queueLimit = limit, pool_jobs = [], stopping = False,
      pool_workers = replicate workerCount Waiting, closed = [], exceptions = []\<rparr>"

definition submit :: "Job \<Rightarrow> ThreadPool \<Rightarrow> bool \<times> ThreadPool" where
  "submit job p =
     (if stopping p \<or> length (pool_jobs p) \<ge> queueLimit p then (False, p)
      else (True, p\<lparr>pool_jobs := pool_jobs p @ [job]\<rparr>))"

definition close_client :: "Job \<Rightarrow> ThreadPool \<Rightarrow> ThreadPool" where
  "close_client job p = (if job_client job \<ge> 0 then p\<lparr>closed := closed p @ [job_client job]\<rparr> else p)"

text \<open>The accept loop hands a connection over and closes it itself when the pool refuses it.\<close>

definition accept_connection :: "Job \<Rightarrow> ThreadPool \<Rightarrow> ThreadPool" where
  "accept_connection job p =
     (case submit job p of
        (True, p') \<Rightarrow> p'
      | (False, p') \<Rightarrow> p'\<lparr>closed := closed p' @ [job_client job]\<rparr>)"

text \<open>The critical section of \<open>workerLoop\<close>: \<open>None\<close> while the condition variable blocks.\<close>

definition worker_take :: "nat \<Rightarrow> ThreadPool \<Rightarrow> ThreadPool option" where
  "worker_take i p =
     (if i < length (pool_workers p) \<and> pool_workers p ! i = Waiting \<and> (stopping p \<or> pool_jobs p \<noteq> []) then
        (case pool_jobs p of
           [] \<Rightarrow> Some (p\<lparr>pool_workers := (pool_workers p)[i := Returned]\<rparr>)
         | job # rest \<Rightarrow>
             Some (p\<lparr>pool_jobs := rest, pool_workers := (pool_workers p)[i := Handling job]\<rparr>))
      else None)"

text \<open>The rest of an iteration: the handler, the logger for an exception, and \<open>close\<close>.\<close>

definition worker_finish :: "nat \<Rightarrow> handler_outcome \<Rightarrow> ThreadPool \<Rightarrow> ThreadPool option" where
  "worker_finish i out p =
     (if i < length (pool_workers p) then
        (case pool_workers p ! i of
           Handling job \<Rightarrow>
             let p = (case out of
                        Returns \<Rightarrow> p
                      | StdException e \<Rightarrow> p\<lparr>exceptions := exceptions p @ [e]\<rparr>
                      | OtherException \<Rightarrow> p\<lparr>exceptions := exceptions p @ [''unknown exception'']\<rparr>) in
             Some (close_client job (p\<lparr>pool_workers := (pool_workers p)[i := Waiting]\<rparr>))
         | _ \<Rightarrow> None)
      else None)"

text \<open>\<open>stop\<close>: announce, join every worker, then close what is left in the queue.\<close>

definition stop_announce :: "ThreadPool \<Rightarrow> ThreadPool option" where
  "stop_announce p = (if stopping p then None else Some (p\<lparr>stopping := True\<rparr>))"

fun close_all :: "Job list \<Rightarrow> ThreadPool \<Rightarrow> ThreadPool" where
  "close_all [] p = p\<lparr>pool_jobs := []\<rparr>"
| "close_all (job # rest) p = close_all rest (close_client job p)"

definition stop_join :: "ThreadPool \<Rightarrow> ThreadPool option" where
  "stop_join p =
     (if stopping p \<and> list_all (\<lambda>w. w = Returned) (pool_workers p)
      then Some (close_all (pool_jobs p) (p\<lparr>pool_workers := []\<rparr>)) else None)"

section \<open>Runs\<close>

inductive worker_step :: "ThreadPool \<Rightarrow> ThreadPool \<Rightarrow> bool" where
  step_take: "worker_take i p = Some p' \<Longrightarrow> worker_step p p'"
| step_finish: "worker_finish i out p = Some p' \<Longrightarrow> worker_step p p'"

text \<open>A run of a pool with the connections that the accept loop has obtained.\<close>

inductive pool_run :: "nat \<Rightarrow> nat \<Rightarrow> ThreadPool \<Rightarrow> Job list \<Rightarrow> bool" for n :: nat and lim :: nat where
  run_new: "pool_run n lim (ConnectionThreadPool_new n lim) []"
| run_accept: "pool_run n lim p acc \<Longrightarrow> 0 \<le> job_client job \<Longrightarrow> pool_run n lim (accept_connection job p) (acc @ [job])"
| run_worker: "pool_run n lim p acc \<Longrightarrow> worker_step p p' \<Longrightarrow> pool_run n lim p' acc"
| run_announce: "pool_run n lim p acc \<Longrightarrow> stop_announce p = Some p' \<Longrightarrow> pool_run n lim p' acc"
| run_join: "pool_run n lim p acc \<Longrightarrow> stop_join p = Some p' \<Longrightarrow> pool_run n lim p' acc"

definition handling :: "ThreadPool \<Rightarrow> Job list" where
  "handling p = List.map_filter (\<lambda>w. case w of Handling j \<Rightarrow> Some j | _ \<Rightarrow> None) (pool_workers p)"

section \<open>Every connection is closed once\<close>

definition jobs_of :: "worker list \<Rightarrow> Job multiset" where
  "jobs_of ws = sum_list (map (\<lambda>w. case w of Handling j \<Rightarrow> {#j#} | _ \<Rightarrow> {#}) ws)"

lemma handling_jobs: "mset (handling p) = jobs_of (pool_workers p)"
proof -
  have "mset (List.map_filter (\<lambda>w. case w of Handling j \<Rightarrow> Some j | _ \<Rightarrow> None) ws) = jobs_of ws" for ws
    by (induction ws) (auto simp: List.map_filter_simps jobs_of_def split: worker.split option.split)
  then show ?thesis by (simp add: handling_def)
qed

lemma jobs_of_update:
  "i < length ws \<Longrightarrow> jobs_of (ws[i := w]) + (case ws ! i of Handling j \<Rightarrow> {#j#} | _ \<Rightarrow> {#}) =
     jobs_of ws + (case w of Handling j \<Rightarrow> {#j#} | _ \<Rightarrow> {#})"
proof (induction ws arbitrary: i)
  case (Cons x ws)
  then show ?case by (cases i) (auto simp: jobs_of_def split: worker.split)
qed simp

lemma close_client_simps [simp]:
  "pool_jobs (close_client j p) = pool_jobs p" "pool_workers (close_client j p) = pool_workers p"
  "stopping (close_client j p) = stopping p" "queueLimit (close_client j p) = queueLimit p"
  "0 \<le> job_client j \<Longrightarrow> closed (close_client j p) = closed p @ [job_client j]"
  by (simp_all add: close_client_def)

lemma close_all_simps:
  "\<forall>j \<in> set js. 0 \<le> job_client j \<Longrightarrow>
     closed (close_all js p) = closed p @ map job_client js \<and> pool_jobs (close_all js p) = [] \<and>
     pool_workers (close_all js p) = pool_workers p \<and> queueLimit (close_all js p) = queueLimit p"
  by (induction js arbitrary: p) simp_all

text \<open>The invariant of a run.\<close>

definition pool_inv :: "nat \<Rightarrow> nat \<Rightarrow> Job list \<Rightarrow> ThreadPool \<Rightarrow> bool" where
  "pool_inv n lim acc p \<longleftrightarrow>
     mset (map job_client acc) =
       mset (closed p) + image_mset job_client (mset (pool_jobs p) + jobs_of (pool_workers p)) \<and>
     queueLimit p = lim \<and> length (pool_jobs p) \<le> lim \<and> length (pool_workers p) \<le> n \<and>
     (\<forall>j \<in># mset (pool_jobs p) + jobs_of (pool_workers p). 0 \<le> job_client j)"

lemma worker_take_cases:
  assumes "worker_take i p = Some p'"
  obtains (returned) "i < length (pool_workers p)" "pool_workers p ! i = Waiting" "pool_jobs p = []" "stopping p"
      "p' = p\<lparr>pool_workers := (pool_workers p)[i := Returned]\<rparr>"
    | (taken) job rest where "i < length (pool_workers p)" "pool_workers p ! i = Waiting" "pool_jobs p = job # rest"
      "p' = p\<lparr>pool_jobs := rest, pool_workers := (pool_workers p)[i := Handling job]\<rparr>"
  using assms by (cases "pool_jobs p") (auto simp: worker_take_def split: if_split_asm)

lemma worker_finish_cases:
  assumes "worker_finish i out p = Some p'"
  obtains job where "i < length (pool_workers p)" "pool_workers p ! i = Handling job"
    "pool_jobs p' = pool_jobs p" "pool_workers p' = (pool_workers p)[i := Waiting]"
    "queueLimit p' = queueLimit p" "stopping p' = stopping p"
    "closed p' = (if 0 \<le> job_client job then closed p @ [job_client job] else closed p)"
  using assms
  by (auto simp: worker_finish_def Let_def close_client_def split: if_split_asm worker.split_asm handler_outcome.split_asm
      intro: that)

lemma worker_step_inv:
  assumes "worker_step p p'" "pool_inv n lim acc p"
  shows "pool_inv n lim acc p'"
  using assms(1)
proof cases
  case (step_take i)
  then show ?thesis
  proof (cases rule: worker_take_cases)
    case returned
    with jobs_of_update [of i "pool_workers p" Returned] assms(2) show ?thesis by (simp add: pool_inv_def)
  next
    case (taken job rest)
    with jobs_of_update [of i "pool_workers p" "Handling job"] assms(2) show ?thesis
      by (simp add: pool_inv_def)
  qed
next
  case (step_finish i out)
  then show ?thesis
  proof (cases rule: worker_finish_cases)
    case (1 job)
    have u: "jobs_of ((pool_workers p)[i := Waiting]) + {#job#} = jobs_of (pool_workers p)"
      using jobs_of_update [of i "pool_workers p" Waiting] 1 by simp
    then have "job \<in># jobs_of (pool_workers p)" by (simp flip: u)
    then have "0 \<le> job_client job" using assms(2) by (simp add: pool_inv_def)
    with assms(2) 1 show ?thesis by (simp add: pool_inv_def flip: u)
  qed
qed

lemma pool_run_inv: "pool_run n lim p acc \<Longrightarrow> pool_inv n lim acc p"
proof (induction rule: pool_run.induct)
  case run_new
  have "jobs_of (replicate n Waiting) = {#}" by (induction n) (simp_all add: jobs_of_def)
  then show ?case by (simp add: pool_inv_def ConnectionThreadPool_new_def)
next
  case (run_accept p acc job)
  then show ?case by (auto simp: pool_inv_def accept_connection_def submit_def)
next
  case (run_worker p acc p')
  then show ?case by (blast intro: worker_step_inv)
next
  case (run_announce p acc p')
  then show ?case by (auto simp: pool_inv_def stop_announce_def split: if_split_asm)
next
  case (run_join p acc p')
  then have all: "list_all (\<lambda>w. w = Returned) (pool_workers p)"
    and p': "p' = close_all (pool_jobs p) (p\<lparr>pool_workers := []\<rparr>)"
    by (auto simp: stop_join_def split: if_split_asm)
  have "list_all (\<lambda>w. w = Returned) ws \<Longrightarrow> jobs_of ws = {#}" for ws
    by (induction ws) (simp_all add: jobs_of_def)
  with all have none: "jobs_of (pool_workers p) = {#}" by blast
  have "\<forall>j \<in> set (pool_jobs p). 0 \<le> job_client j" using run_join.IH by (auto simp: pool_inv_def)
  from close_all_simps [OF this, of "p\<lparr>pool_workers := []\<rparr>"] run_join.IH none show ?case
    unfolding p' by (simp add: pool_inv_def jobs_of_def)
qed

section \<open>Shutting down\<close>

definition worker_size :: "worker \<Rightarrow> nat" where
  "worker_size w = (case w of Waiting \<Rightarrow> 1 | Handling _ \<Rightarrow> 2 | Returned \<Rightarrow> 0)"

text \<open>The work that is left: two steps for a queued job, the rest of an iteration for a worker.\<close>

definition pool_size :: "ThreadPool \<Rightarrow> nat" where
  "pool_size p = 2 * length (pool_jobs p) + sum_list (map worker_size (pool_workers p))"

lemma worker_size_update:
  "i < length ws \<Longrightarrow> sum_list (map worker_size (ws[i := w])) + worker_size (ws ! i) =
     sum_list (map worker_size ws) + worker_size w"
proof (induction ws arbitrary: i)
  case (Cons x ws)
  then show ?case by (cases i) auto
qed simp

lemma worker_step_size: "worker_step p p' \<Longrightarrow> pool_size p' < pool_size p"
proof (induction rule: worker_step.induct)
  case (step_take i p p')
  then show ?case
  proof (cases rule: worker_take_cases)
    case returned
    then show ?thesis
      using worker_size_update [of i "pool_workers p" Returned] by (simp add: pool_size_def worker_size_def)
  next
    case (taken job rest)
    then show ?thesis
      using worker_size_update [of i "pool_workers p" "Handling job"] by (simp add: pool_size_def worker_size_def)
  qed
next
  case (step_finish i out p p')
  then show ?case
  proof (cases rule: worker_finish_cases)
    case (1 job)
    then show ?thesis
      using worker_size_update [of i "pool_workers p" Waiting] by (simp add: pool_size_def worker_size_def)
  qed
qed

interpretation pool: shrinking_system worker_step pool_size
  by unfold_locales (rule worker_step_size)

lemma worker_step_stopping: "worker_step p p' \<Longrightarrow> stopping p' = stopping p"
  by (induction rule: worker_step.induct) (auto elim: worker_take_cases worker_finish_cases)

lemma worker_steps_stopping: "steps_of worker_step k p p' \<Longrightarrow> stopping p' = stopping p"
  by (induction rule: steps_of.induct) (auto dest: worker_step_stopping)

text \<open>A worker that has not returned can always move once the pool is stopping.\<close>

lemma stopping_progress:
  assumes "stopping p" and "\<not> (\<exists>q. worker_step p q)"
  shows "\<exists>q. stop_join p = Some q"
proof -
  have "pool_workers p ! i = Returned" if i: "i < length (pool_workers p)" for i
  proof (cases "pool_workers p ! i")
    case Waiting
    with i assms(1) have "\<exists>q. worker_take i p = Some q" by (auto simp: worker_take_def split: list.split)
    with assms(2) step_take show ?thesis by blast
  next
    case (Handling job)
    with i have "\<exists>q. worker_finish i Returns p = Some q" by (simp add: worker_finish_def)
    with assms(2) step_finish show ?thesis by blast
  qed
  then show ?thesis using assms(1) by (simp add: stop_join_def list_all_length)
qed

section \<open>Properties\<close>

definition sample_job :: "int \<Rightarrow> Job" where
  "sample_job c = \<lparr>job_client = c, job_peer = ''127.0.0.1:1'', job_remoteAddress = ''127.0.0.1''\<rparr>"

definition sample_pool :: ThreadPool where
  "sample_pool = the (stop_announce (the (worker_take 0
     (accept_connection (sample_job 8) (accept_connection (sample_job 7) (ConnectionThreadPool_new 1 1))))))"

lemma sample_pool_run: "pool_run 1 1 sample_pool [sample_job 7, sample_job 8]"
proof -
  let ?p = "accept_connection (sample_job 8) (accept_connection (sample_job 7) (ConnectionThreadPool_new 1 1))"
  have "pool_run 1 1 ?p (([] @ [sample_job 7]) @ [sample_job 8])"
    by (intro pool_run.intros) (simp_all add: sample_job_def)
  moreover have t: "worker_take 0 ?p = Some (the (worker_take 0 ?p))"
    "stop_announce (the (worker_take 0 ?p)) = Some sample_pool"
    by (simp_all add: sample_pool_def worker_take_def accept_connection_def submit_def sample_job_def
        ConnectionThreadPool_new_def stop_announce_def)
  ultimately show ?thesis
    using run_announce [OF run_worker [OF _ step_take [OF t(1)]] t(2)] by simp
qed

text \<open>Whatever the interleaving of the accept loop, the workers and the shutdown, and however the
  handlers end, the descriptors of the accepted connections are, each exactly once, closed, in the
  queue or with a worker; the queue never exceeds its limit; and when the shutdown completes every
  one of them has been closed exactly once.\<close>

theorem connections_closed_once:
  assumes "pool_run n lim p acc"
  shows "mset (map job_client acc) =
      mset (closed p) + mset (map job_client (pool_jobs p)) + mset (map job_client (handling p)) \<and>
    length (pool_jobs p) \<le> lim \<and>
    (\<forall>p'. stop_join p = Some p' \<longrightarrow> mset (closed p') = mset (map job_client acc))"
proof (intro conjI allI impI)
  have inv: "pool_inv n lim acc p" using assms by (rule pool_run_inv)
  show "mset (map job_client acc) =
      mset (closed p) + mset (map job_client (pool_jobs p)) + mset (map job_client (handling p))"
    using inv by (simp add: pool_inv_def handling_jobs)
  show "length (pool_jobs p) \<le> lim" using inv by (simp add: pool_inv_def)
  fix p'
  assume j: "stop_join p = Some p'"
  have "pool_inv n lim acc p'" using run_join [OF assms j] by (rule pool_run_inv)
  moreover have "pool_jobs p' = []" "pool_workers p' = []"
    using j inv close_all_simps [of "pool_jobs p" "p\<lparr>pool_workers := []\<rparr>"]
    by (auto simp: stop_join_def pool_inv_def split: if_split_asm)
  ultimately show "mset (closed p') = mset (map job_client acc)" by (simp add: pool_inv_def jobs_of_def)
qed

theorem connections_closed_once_witness:
  "mset (map job_client [sample_job 7, sample_job 8]) =
     mset (closed sample_pool) + mset (map job_client (pool_jobs sample_pool)) +
     mset (map job_client (handling sample_pool))"
  using connections_closed_once [OF sample_pool_run] by blast



end
