(* ===== verification/Projection.thy ===== *)
theory Projection
  imports Flat_Json
begin

text \<open>
  What the two projection parsers share (\<open>apps/sisterd/ecosystem\<close>): lines without their
  carriage return, comments dropped, split at tabs; and the JSON escaping of
  \<open>ecosystem_view.cpp\<close>, which is that of \<open>main.cpp\<close>.
\<close>

definition trimCarriageReturn :: "string \<Rightarrow> string" where
  "trimCarriageReturn line = (if line \<noteq> [] \<and> last line = CR then butlast line else line)"

definition splitByTab :: "string \<Rightarrow> string list" where
  "splitByTab line = split_on TAB line"

definition projection_lines :: "string \<Rightarrow> string list" where
  "projection_lines content =
     filter (\<lambda>line. line \<noteq> [] \<and> hd line \<noteq> CHR ''#'') (map trimCarriageReturn (getlines LF content))"

definition view_escape_char :: "char \<Rightarrow> string" where
  "view_escape_char c =
     (if c = QUOTE then [BACKSLASH, QUOTE]
      else if c = BACKSLASH then [BACKSLASH, BACKSLASH]
      else if c = BS then [BACKSLASH, CHR ''b'']
      else if c = FF then [BACKSLASH, CHR ''f'']
      else if c = LF then [BACKSLASH, CHR ''n'']
      else if c = CR then [BACKSLASH, CHR ''r'']
      else if c = TAB then [BACKSLASH, CHR ''t'']
      else if byte c < 32 then [BACKSLASH, CHR ''u''] @ ''00'' @ hex_byte c
      else [c])"

definition view_jsonEscape :: "string \<Rightarrow> string" where
  "view_jsonEscape s = concat (map view_escape_char s)"

lemma view_escape_char_eq: "view_escape_char c = jsonEscape_char c"
  by (simp add: view_escape_char_def jsonEscape_char_def)

text \<open>So the strings of the views are read back by the flat parser.\<close>

interpretation view_codec: char_codec view_escape_char "parseString_loop []" "\<lambda>_. True"
  using flat.char_codec_axioms by (simp add: view_escape_char_eq [abs_def])

section \<open>Lines of fields\<close>

text \<open>A line of fields as a producer writes it.\<close>

definition field_ok :: "string \<Rightarrow> bool" where
  "field_ok s \<longleftrightarrow> CR \<notin> set s \<and> LF \<notin> set s \<and> TAB \<notin> set s"

definition fields_line :: "string list \<Rightarrow> string" where
  "fields_line fs = join_with TAB fs @ [LF]"

lemma set_join_with: "set (join_with d fs) \<subseteq> insert d (\<Union> (set ` set fs))"
  by (induction d fs rule: join_with.induct) auto

lemma splitByTab_join: "fs \<noteq> [] \<Longrightarrow> list_all field_ok fs \<Longrightarrow> splitByTab (join_with TAB fs) = fs"
  unfolding splitByTab_def by (rule split_on_join) (auto simp: list_all_iff field_ok_def)

lemma projection_lines_fields:
  assumes "\<forall>fs \<in> set fss. list_all field_ok fs \<and> (\<exists>c t gs. fs = (c # t) # gs \<and> c \<noteq> CHR ''#'')"
  shows "projection_lines (concat (map fields_line fss)) = map (join_with TAB) fss"
proof -
  have hash: "join_with TAB fs \<noteq> [] \<and> hd (join_with TAB fs) \<noteq> CHR ''#''" if fs: "fs \<in> set fss" for fs
  proof -
    obtain c t gs where "fs = (c # t) # gs" "c \<noteq> CHR ''#''"
      using bspec [OF assms fs] by (elim conjE exE)
    then show ?thesis by (cases gs) auto
  qed
  have chars: "LF \<notin> set (join_with TAB fs) \<and> CR \<notin> set (join_with TAB fs)" if "fs \<in> set fss" for fs
  proof -
    have "list_all field_ok fs" using bspec [OF assms that] by (elim conjE)
    then have "\<forall>f \<in> set fs. LF \<notin> set f \<and> CR \<notin> set f" by (simp add: list_all_iff field_ok_def)
    moreover have "LF \<noteq> TAB" "CR \<noteq> TAB" by simp_all
    ultimately show ?thesis using set_join_with [of TAB fs] by blast
  qed
  have "getlines LF (concat (map (\<lambda>l. l @ [LF]) (map (join_with TAB) fss))) = map (join_with TAB) fss"
    using chars by (intro getlines_concat) auto
  moreover have "map fields_line fss = map (\<lambda>l. l @ [LF]) (map (join_with TAB) fss)"
    by (simp add: fields_line_def)
  ultimately have lines: "getlines LF (concat (map fields_line fss)) = map (join_with TAB) fss" by argo
  have "trimCarriageReturn (join_with TAB fs) = join_with TAB fs" if "fs \<in> set fss" for fs
    using chars [OF that] hash [OF that] last_in_set [of "join_with TAB fs"] unfolding trimCarriageReturn_def by metis
  then have "map trimCarriageReturn (map (join_with TAB) fss) = map (join_with TAB) fss" by simp
  then show ?thesis unfolding projection_lines_def lines using hash by simp
qed

end
