(* ===== verification/Semantic_View.thy ===== *)
theory Semantic_View
  imports Projection
begin

text \<open>
  The semantic view of the ecosystem (\<open>apps/sisterd/ecosystem/semantic_view.cpp\<close>): a
  tab-separated projection of an authoritative source is parsed into participants and their
  capabilities, and served as JSON.  Input without a valid header gives an empty view.
\<close>

section \<open>Data\<close>

record SemanticCapability =
  capabilityId :: string
  cap_label :: string
  cap_authorityScope :: string

record SemanticParticipant =
  participantId :: string
  par_label :: string
  declaredState :: string
  par_authorityScope :: string
  provenanceRef :: string
  par_capabilities :: "SemanticCapability list"

record SemanticView =
  sourceStatus :: string
  sourceRevision :: string
  participants :: "SemanticParticipant list"

definition kMaxSemanticProjectionBytes :: nat where
  "kMaxSemanticProjectionBytes = 1024 * 1024"

definition empty_semantic_view :: SemanticView where
  "empty_semantic_view = \<lparr>sourceStatus = ''not_configured'', sourceRevision = [], participants = []\<rparr>"

definition validText :: "string \<Rightarrow> bool" where
  "validText s \<longleftrightarrow> s \<noteq> [] \<and> CR \<notin> set s \<and> LF \<notin> set s \<and> TAB \<notin> set s"

section \<open>Parsing\<close>

text \<open>\<open>push_back\<close> on the first participant with the id.\<close>

fun add_capability :: "string \<Rightarrow> SemanticCapability \<Rightarrow> SemanticParticipant list \<Rightarrow> SemanticParticipant list" where
  "add_capability i c [] = []"
| "add_capability i c (p # ps) =
     (if participantId p = i then p\<lparr>par_capabilities := par_capabilities p @ [c]\<rparr> # ps
      else p # add_capability i c ps)"

definition semantic_line :: "bool \<times> SemanticView \<Rightarrow> string \<Rightarrow> bool \<times> SemanticView" where
  "semantic_line st line =
     (let (authoritativeHeader, view) = st; tokens = splitByTab line in
      if tokens ! 0 = ''META'' then
        let ok = (length tokens \<ge> 3 \<and> tokens ! 1 = ''sister.semantic-ecosystem-source/1.0.0'' \<and>
                  validText (tokens ! 2)) in
        (ok, if ok then view\<lparr>sourceRevision := tokens ! 2\<rparr> else view)
      else if \<not> authoritativeHeader then (authoritativeHeader, view)
      else if tokens ! 0 = ''PARTICIPANT'' \<and> length tokens \<ge> 6 \<and> list_all validText (take 5 (drop 1 tokens)) then
        (authoritativeHeader,
         if list_ex (\<lambda>p. participantId p = tokens ! 1) (participants view) then view
         else view\<lparr>participants := participants view @
           [\<lparr>participantId = tokens ! 1, par_label = tokens ! 2, declaredState = tokens ! 3,
             par_authorityScope = tokens ! 4, provenanceRef = tokens ! 5, par_capabilities = []\<rparr>]\<rparr>)
      else if tokens ! 0 = ''CAPABILITY'' \<and> length tokens \<ge> 5 \<and> list_all validText (take 4 (drop 1 tokens)) then
        (authoritativeHeader,
         view\<lparr>participants := add_capability (tokens ! 1)
           \<lparr>capabilityId = tokens ! 2, cap_label = tokens ! 3, cap_authorityScope = tokens ! 4\<rparr>
           (participants view)\<rparr>)
      else (authoritativeHeader, view))"

definition parseSemanticProjection :: "string \<Rightarrow> SemanticView" where
  "parseSemanticProjection content =
     (let (authoritativeHeader, view) =
            foldl semantic_line (False, empty_semantic_view) (projection_lines content) in
      if \<not> authoritativeHeader then empty_semantic_view\<lparr>sourceStatus := ''invalid''\<rparr>
      else view\<lparr>sourceStatus := ''authoritative''\<rparr>)"

text \<open>The file: its path, its size (\<open>None\<close> for an error) and its bytes (\<open>None\<close> when it cannot be
  opened).\<close>

definition parseSemanticProjectionFile :: "string \<Rightarrow> nat option \<Rightarrow> string option \<Rightarrow> SemanticView" where
  "parseSemanticProjectionFile path file_size content =
     (if path = [] then empty_semantic_view
      else case file_size of
          None \<Rightarrow> empty_semantic_view\<lparr>sourceStatus := ''unavailable''\<rparr>
        | Some n \<Rightarrow>
            if n > kMaxSemanticProjectionBytes then empty_semantic_view\<lparr>sourceStatus := ''invalid''\<rparr>
            else case content of
                None \<Rightarrow> empty_semantic_view\<lparr>sourceStatus := ''unavailable''\<rparr>
              | Some c \<Rightarrow> parseSemanticProjection c)"

section \<open>JSON\<close>

definition semantic_capability_json :: "SemanticCapability \<Rightarrow> string" where
  "semantic_capability_json c =
     [LF] @ ''        {'' @ [QUOTE] @ ''capability_id'' @ [QUOTE] @ '': '' @ [QUOTE] @ view_jsonEscape (capabilityId c) @
     [QUOTE] @ '', '' @ [QUOTE] @ ''label'' @ [QUOTE] @ '': '' @ [QUOTE] @ view_jsonEscape (cap_label c) @
     [QUOTE] @ '', '' @ [QUOTE] @ ''authority_scope'' @ [QUOTE] @ '': '' @ [QUOTE] @ view_jsonEscape (cap_authorityScope c) @ [QUOTE] @ ''}''"

definition semantic_participant_json :: "SemanticParticipant \<Rightarrow> string" where
  "semantic_participant_json p =
     [LF] @ ''    {'' @ [LF] @
     ''      '' @ [QUOTE] @ ''participant_id'' @ [QUOTE] @ '': '' @ [QUOTE] @ view_jsonEscape (participantId p) @ [QUOTE] @ '','' @ [LF] @
     ''      '' @ [QUOTE] @ ''label'' @ [QUOTE] @ '': '' @ [QUOTE] @ view_jsonEscape (par_label p) @ [QUOTE] @ '','' @ [LF] @
     ''      '' @ [QUOTE] @ ''declared_state'' @ [QUOTE] @ '': '' @ [QUOTE] @ view_jsonEscape (declaredState p) @ [QUOTE] @ '','' @ [LF] @
     ''      '' @ [QUOTE] @ ''authority_scope'' @ [QUOTE] @ '': '' @ [QUOTE] @ view_jsonEscape (par_authorityScope p) @ [QUOTE] @ '','' @ [LF] @
     ''      '' @ [QUOTE] @ ''provenance_ref'' @ [QUOTE] @ '': '' @ [QUOTE] @ view_jsonEscape (provenanceRef p) @ [QUOTE] @ '','' @ [LF] @
     ''      '' @ [QUOTE] @ ''capabilities'' @ [QUOTE] @ '': ['' @ join_with CHR '','' (map semantic_capability_json (par_capabilities p)) @
     (if par_capabilities p \<noteq> [] then [LF] @ ''      '' else []) @ '']'' @ [LF] @ ''    }''"

definition serializeSemanticViewJson :: "SemanticView \<Rightarrow> string" where
  "serializeSemanticViewJson v =
     ''{'' @ [LF] @ ''  '' @ [QUOTE] @ ''schema'' @ [QUOTE] @ '': '' @ [QUOTE] @ ''sister.semantic-ecosystem-view/1.0.0'' @ [QUOTE] @ '','' @ [LF] @
     ''  '' @ [QUOTE] @ ''source_status'' @ [QUOTE] @ '': '' @ [QUOTE] @ view_jsonEscape (sourceStatus v) @ [QUOTE] @ '','' @ [LF] @
     ''  '' @ [QUOTE] @ ''source_revision'' @ [QUOTE] @ '': '' @ [QUOTE] @ view_jsonEscape (sourceRevision v) @ [QUOTE] @ '','' @ [LF] @
     ''  '' @ [QUOTE] @ ''participants'' @ [QUOTE] @ '': ['' @ join_with CHR '','' (map semantic_participant_json (participants v)) @
     (if participants v \<noteq> [] then [LF] @ ''  '' else []) @
     ''],'' @ [LF] @ ''  '' @ [QUOTE] @ ''relations'' @ [QUOTE] @ '': [],'' @ [LF] @ ''  '' @ [QUOTE] @ ''relations_status'' @ [QUOTE] @ '': '' @ [QUOTE] @ ''not_available'' @ [QUOTE, LF] @ ''}''"

section \<open>Invariant\<close>

definition capability_valid :: "SemanticCapability \<Rightarrow> bool" where
  "capability_valid c \<longleftrightarrow> validText (capabilityId c) \<and> validText (cap_label c) \<and> validText (cap_authorityScope c)"

definition participant_valid :: "SemanticParticipant \<Rightarrow> bool" where
  "participant_valid p \<longleftrightarrow> validText (participantId p) \<and> validText (par_label p) \<and> validText (declaredState p) \<and>
     validText (par_authorityScope p) \<and> validText (provenanceRef p) \<and> list_all capability_valid (par_capabilities p)"

definition participants_wf :: "SemanticParticipant list \<Rightarrow> bool" where
  "participants_wf ps \<longleftrightarrow> distinct (map participantId ps) \<and> list_all participant_valid ps"

lemma add_capability_ids [simp]: "map participantId (add_capability i c ps) = map participantId ps"
  by (induction ps) auto

lemma add_capability_valid:
  "capability_valid c \<Longrightarrow> list_all participant_valid ps \<Longrightarrow> list_all participant_valid (add_capability i c ps)"
  by (induction ps) (auto simp: participant_valid_def)

lemma fields_valid:
  "list_all validText (take 5 (drop 1 ts)) \<Longrightarrow> 6 \<le> length ts \<Longrightarrow> 0 < i \<Longrightarrow> i < 6 \<Longrightarrow> validText (ts ! i)"
  "list_all validText (take 4 (drop 1 ts)) \<Longrightarrow> 5 \<le> length ts \<Longrightarrow> 0 < i \<Longrightarrow> i < 5 \<Longrightarrow> validText (ts ! i)"
proof -
  have gen: "list_all validText (take k (drop 1 ts)) \<Longrightarrow> Suc k \<le> length ts \<Longrightarrow> 0 < i \<Longrightarrow> i < Suc k \<Longrightarrow> validText (ts ! i)" for k
    by (drule list_all_length [THEN iffD1], drule spec [of _ "i - 1"]) simp
  show "list_all validText (take 5 (drop 1 ts)) \<Longrightarrow> 6 \<le> length ts \<Longrightarrow> 0 < i \<Longrightarrow> i < 6 \<Longrightarrow> validText (ts ! i)"
    and "list_all validText (take 4 (drop 1 ts)) \<Longrightarrow> 5 \<le> length ts \<Longrightarrow> 0 < i \<Longrightarrow> i < 5 \<Longrightarrow> validText (ts ! i)"
    using gen [of 5] gen [of 4] by simp_all
qed

lemma semantic_line_wf:
  assumes "participants_wf (participants v)"
  shows "participants_wf (participants (snd (semantic_line (h, v) line)))"
proof -
  let ?ts = "splitByTab line"
  consider (meta) "?ts ! 0 = ''META'' \<or> \<not> h"
    | (par) "?ts ! 0 = ''PARTICIPANT''" h "length ?ts \<ge> 6" "list_all validText (take 5 (drop 1 ?ts))"
    | (cap) "?ts ! 0 = ''CAPABILITY''" h "length ?ts \<ge> 5" "list_all validText (take 4 (drop 1 ?ts))"
    | (other) "\<not> (?ts ! 0 = ''META'' \<or> \<not> h)"
      "\<not> (?ts ! 0 = ''PARTICIPANT'' \<and> length ?ts \<ge> 6 \<and> list_all validText (take 5 (drop 1 ?ts)))"
      "\<not> (?ts ! 0 = ''CAPABILITY'' \<and> length ?ts \<ge> 5 \<and> list_all validText (take 4 (drop 1 ?ts)))"
    by blast
  then show ?thesis
  proof cases
    case meta
    with assms show ?thesis by (auto simp: semantic_line_def Let_def)
  next
    case par
    then have "participant_valid \<lparr>participantId = ?ts ! 1, par_label = ?ts ! 2, declaredState = ?ts ! 3,
        par_authorityScope = ?ts ! 4, provenanceRef = ?ts ! 5, par_capabilities = []\<rparr>"
      using fields_valid(1) [of ?ts] by (simp add: participant_valid_def)
    with par assms show ?thesis
      by (auto simp: semantic_line_def Let_def participants_wf_def list_ex_iff)
  next
    case cap
    then have "capability_valid \<lparr>capabilityId = ?ts ! 2, cap_label = ?ts ! 3, cap_authorityScope = ?ts ! 4\<rparr>"
      using fields_valid(2) [of ?ts] by (simp add: capability_valid_def)
    with cap assms show ?thesis
      by (auto simp: semantic_line_def Let_def participants_wf_def intro: add_capability_valid)
  next
    case other
    with assms show ?thesis unfolding semantic_line_def Let_def prod.case if_not_P [OF other(2)] if_not_P [OF other(3)]
      by simp
  qed
qed

lemma semantic_lines_wf:
  "participants_wf (participants (snd st)) \<Longrightarrow> participants_wf (participants (snd (foldl semantic_line st ls)))"
proof (induction ls arbitrary: st)
  case (Cons l ls)
  then show ?case using semantic_line_wf [of "snd st" "fst st" l] by simp
qed simp

section \<open>Round trip\<close>

definition participant_fields :: "SemanticParticipant \<Rightarrow> string list list" where
  "participant_fields p =
     [''PARTICIPANT'', participantId p, par_label p, declaredState p, par_authorityScope p, provenanceRef p] #
     map (\<lambda>c. [''CAPABILITY'', participantId p, capabilityId c, cap_label c, cap_authorityScope c]) (par_capabilities p)"

definition semantic_fields :: "SemanticView \<Rightarrow> string list list" where
  "semantic_fields v = [''META'', ''sister.semantic-ecosystem-source/1.0.0'', sourceRevision v] #
     concat (map participant_fields (participants v))"

definition semantic_text :: "SemanticView \<Rightarrow> string" where
  "semantic_text v = concat (map fields_line (semantic_fields v))"

lemma validText_field: "validText s \<Longrightarrow> field_ok s"
  by (simp add: validText_def field_ok_def)

lemma literal_fields [simp]:
  "field_ok ''META''" "field_ok ''PARTICIPANT''" "field_ok ''CAPABILITY''"
  "field_ok ''sister.semantic-ecosystem-source/1.0.0''"
  by (simp_all add: field_ok_def)

lemma semantic_line_meta:
  "validText r \<Longrightarrow>
     semantic_line (h, v) (join_with TAB [''META'', ''sister.semantic-ecosystem-source/1.0.0'', r]) =
     (True, v\<lparr>sourceRevision := r\<rparr>)"
  unfolding semantic_line_def using validText_field [of r]
  by (subst splitByTab_join) (simp_all add: Let_def)

lemma semantic_line_participant:
  assumes "participant_valid p" "participantId p \<notin> set (map participantId (participants v))"
  shows "semantic_line (True, v) (join_with TAB (hd (participant_fields p))) =
    (True, v\<lparr>participants := participants v @ [p\<lparr>par_capabilities := []\<rparr>]\<rparr>)"
proof -
  let ?fs = "[''PARTICIPANT'', participantId p, par_label p, declaredState p, par_authorityScope p, provenanceRef p]"
  have ok: "list_all validText (tl ?fs)" using assms(1) by (simp add: participant_valid_def)
  then have "splitByTab (join_with TAB ?fs) = ?fs"
    by (intro splitByTab_join) (auto simp: validText_field)
  moreover have "\<not> list_ex (\<lambda>q. participantId q = participantId p) (participants v)"
    using assms(2) unfolding list_ex_iff set_map by (metis imageI)
  ultimately show ?thesis
    using ok by (cases p) (simp add: semantic_line_def participant_fields_def Let_def)
qed

lemma semantic_line_capability:
  assumes "capability_valid c" "validText i"
  shows "semantic_line (True, v) (join_with TAB [''CAPABILITY'', i, capabilityId c, cap_label c, cap_authorityScope c]) =
    (True, v\<lparr>participants := add_capability i c (participants v)\<rparr>)"
proof -
  let ?fs = "[''CAPABILITY'', i, capabilityId c, cap_label c, cap_authorityScope c]"
  have ok: "list_all validText (tl ?fs)" using assms by (simp add: capability_valid_def)
  then have "splitByTab (join_with TAB ?fs) = ?fs"
    by (intro splitByTab_join) (auto simp: validText_field)
  then show ?thesis using ok by (cases c) (simp add: semantic_line_def Let_def)
qed

lemma add_capability_last:
  "participantId p \<notin> set (map participantId ps) \<Longrightarrow>
     add_capability (participantId p) c (ps @ [p]) = ps @ [p\<lparr>par_capabilities := par_capabilities p @ [c]\<rparr>]"
  by (induction ps) auto

lemma capabilities_read:
  assumes "participantId p \<notin> set (map participantId ps)" "validText (participantId p)" "list_all capability_valid cs"
  shows "foldl semantic_line (True, v\<lparr>participants := ps @ [p]\<rparr>)
     (map (\<lambda>c. join_with TAB [''CAPABILITY'', participantId p, capabilityId c, cap_label c, cap_authorityScope c]) cs) =
    (True, v\<lparr>participants := ps @ [p\<lparr>par_capabilities := par_capabilities p @ cs\<rparr>]\<rparr>)"
  using assms
proof (induction cs arbitrary: p)
  case (Cons c cs)
  then show ?case
    using Cons.IH [of "p\<lparr>par_capabilities := par_capabilities p @ [c]\<rparr>"]
    by (simp add: semantic_line_capability add_capability_last del: join_with.simps)
qed simp

lemma participants_read:
  assumes "participants_wf (participants v @ ps)"
  shows "foldl semantic_line (True, v) (map (join_with TAB) (concat (map participant_fields ps))) =
    (True, v\<lparr>participants := participants v @ ps\<rparr>)"
  using assms
proof (induction ps arbitrary: v)
  case (Cons p ps)
  have new: "participantId p \<notin> set (map participantId (participants v))" and valid: "participant_valid p"
    using Cons.prems by (auto simp: participants_wf_def)
  have caps: "list_all capability_valid (par_capabilities p)" "validText (participantId p)"
    using valid by (simp_all add: participant_valid_def)
  have "foldl semantic_line (True, v) (map (join_with TAB) (participant_fields p)) =
      foldl semantic_line (True, v\<lparr>participants := participants v @ [p\<lparr>par_capabilities := []\<rparr>]\<rparr>)
        (map (\<lambda>c. join_with TAB [''CAPABILITY'', participantId p, capabilityId c, cap_label c, cap_authorityScope c])
          (par_capabilities p))"
    using semantic_line_participant [OF valid new]
    by (simp add: participant_fields_def comp_def del: join_with.simps)
  also have "\<dots> = (True, v\<lparr>participants := participants v @ [p]\<rparr>)"
    using capabilities_read [of "p\<lparr>par_capabilities := []\<rparr>" "participants v" "par_capabilities p" v] new caps by simp
  finally show ?case using Cons.IH [of "v\<lparr>participants := participants v @ [p]\<rparr>"] Cons.prems by simp
qed simp

section \<open>Properties\<close>

definition sample_semantic :: SemanticView where
  "sample_semantic = \<lparr>sourceStatus = ''authoritative'', sourceRevision = ''r1'', participants =
     [\<lparr>participantId = ''agro'', par_label = ''SisAgro'', declaredState = ''active'', par_authorityScope = ''farm'',
       provenanceRef = ''doc'', par_capabilities = [\<lparr>capabilityId = ''read'', cap_label = ''Read'', cap_authorityScope = ''farm''\<rparr>]\<rparr>]\<rparr>"

text \<open>C28: The view of a source is what the source declared: the projection of any view with valid
  texts and distinct participants is parsed back to that view, with the status authoritative.\<close>

theorem semantic_roundtrip:
  assumes "participants_wf (participants v)" and "validText (sourceRevision v)"
  shows "parseSemanticProjection (semantic_text v) = v\<lparr>sourceStatus := ''authoritative''\<rparr>"
proof -
  have par: "list_all field_ok fs \<and> (\<exists>c t gs. fs = (c # t) # gs \<and> c \<noteq> CHR ''#'')"
    if "participant_valid p" "fs \<in> set (participant_fields p)" for p fs
    using that by (auto simp: participant_fields_def participant_valid_def capability_valid_def list_all_iff validText_field)
  have "list_all participant_valid (participants v)" using assms(1) by (simp add: participants_wf_def)
  then have "\<forall>fs \<in> set (semantic_fields v). list_all field_ok fs \<and> (\<exists>c t gs. fs = (c # t) # gs \<and> c \<noteq> CHR ''#'')"
    using par assms(2) by (auto simp: semantic_fields_def list_all_iff validText_field)
  then have "projection_lines (semantic_text v) = map (join_with TAB) (semantic_fields v)"
    unfolding semantic_text_def by (rule projection_lines_fields)
  moreover have "foldl semantic_line (False, empty_semantic_view) (map (join_with TAB) (semantic_fields v)) =
      foldl semantic_line (True, empty_semantic_view\<lparr>sourceRevision := sourceRevision v\<rparr>)
        (map (join_with TAB) (concat (map participant_fields (participants v))))"
    by (simp add: semantic_fields_def semantic_line_meta [OF assms(2)] del: join_with.simps)
  moreover have "\<dots> = (True, empty_semantic_view\<lparr>sourceRevision := sourceRevision v, participants := participants v\<rparr>)"
    using participants_read [of "empty_semantic_view\<lparr>sourceRevision := sourceRevision v\<rparr>" "participants v"] assms(1)
    by (simp add: empty_semantic_view_def)
  ultimately show ?thesis
    by (cases v) (simp add: parseSemanticProjection_def empty_semantic_view_def)
qed

theorem semantic_roundtrip_witness:
  "parseSemanticProjection (semantic_text sample_semantic) = sample_semantic"
proof -
  have "participants_wf (participants sample_semantic)" "validText (sourceRevision sample_semantic)"
    by (simp_all add: sample_semantic_def participants_wf_def participant_valid_def capability_valid_def validText_def)
  from semantic_roundtrip [OF this] show ?thesis by (simp add: sample_semantic_def)
qed

text \<open>Parsing fails closed: whatever the input, the result is either the empty view marked invalid
  or an authoritative view, and its participants have distinct ids and valid texts throughout.\<close>

theorem semantic_fail_closed:
  "(parseSemanticProjection content = \<lparr>sourceStatus = ''invalid'', sourceRevision = [], participants = []\<rparr> \<or>
    sourceStatus (parseSemanticProjection content) = ''authoritative'') \<and>
   participants_wf (participants (parseSemanticProjection content))"
proof -
  have "participants_wf (participants (snd (foldl semantic_line (False, empty_semantic_view) (projection_lines content))))"
    by (rule semantic_lines_wf) (simp add: empty_semantic_view_def participants_wf_def)
  then show ?thesis
    by (auto simp: parseSemanticProjection_def empty_semantic_view_def participants_wf_def split: prod.split)
qed

end
