(* ===== verification/Config.thy ===== *)
theory Config
  imports Decimal "HOL-Library.Word" "HOL-Library.Code_Target_Numeral"
begin

text \<open>
  The configuration of the daemon (\<open>loadConfig\<close> in \<open>apps/sisterd/main.cpp\<close>) as a function of
  the environment, the arguments, the number of hardware threads and the file system's answers
  about the web root.  Exceptions are the error values; settings are read in the order of the
  code, so the first invalid one decides the message.
\<close>

unbundle bit_operations_syntax

section \<open>Data\<close>

record ServerConfig =
  cfg_port :: int
  webRoot :: string
  canonicalWebRoot :: string
  bindHost :: string
  activatedUnixListener :: bool
  activatedSocketPath :: string
  authFile :: string
  authBackend :: string
  maturityRoot :: string
  databaseUrl :: string
  production :: bool
  secureCookie :: bool
  hsts :: bool
  requireSameOrigin :: bool
  httpBootstrapEnabled :: bool
  legacyProxyEnabled :: bool
  legacyWebSocketProxyEnabled :: bool
  workerThreads :: int
  cfg_queueLimit :: int
  clientTimeoutSeconds :: int
  upstreamTimeoutMilliseconds :: int
  referenceSubsystemEnabled :: bool
  referencePort :: int
  nexoContextProjectionEnabled :: bool
  nexoPort :: int
  internalIdentityPrivateKeyFile :: string
  internalIdentityKeyId :: string
  internalIdentityTtlSeconds :: int
  internalProxyToken :: string
  extraConnectSrc :: string
  ecosystemProjectionFile :: string
  semanticEcosystemProjectionFile :: string
  subsystemHealthTimeoutMilliseconds :: int

definition default_config :: ServerConfig where
  "default_config = \<lparr>cfg_port = 8000, webRoot = ''web'', canonicalWebRoot = [], bindHost = ''127.0.0.1'',
     activatedUnixListener = False, activatedSocketPath = ''/run/sister/sisterd.sock'',
     authFile = ''.run/auth-users.tsv'', authBackend = ''file'', maturityRoot = ''.run/maturity'',
     databaseUrl = [], production = True, secureCookie = True, hsts = False, requireSameOrigin = True,
     httpBootstrapEnabled = False, legacyProxyEnabled = False, legacyWebSocketProxyEnabled = False,
     workerThreads = 4, cfg_queueLimit = 256, clientTimeoutSeconds = 10, upstreamTimeoutMilliseconds = 5000,
     referenceSubsystemEnabled = False, referencePort = 19001, nexoContextProjectionEnabled = False,
     nexoPort = 0, internalIdentityPrivateKeyFile = [], internalIdentityKeyId = [],
     internalIdentityTtlSeconds = 60, internalProxyToken = [], extraConnectSrc = [],
     ecosystemProjectionFile = [], semanticEcosystemProjectionFile = [],
     subsystemHealthTimeoutMilliseconds = 800\<rparr>"

text \<open>What the process asks of its surroundings: \<open>getenv\<close>, the thread count of the hardware,
  \<open>weakly_canonical\<close> (\<open>None\<close> for an error) and \<open>is_directory\<close>.\<close>

record Surroundings =
  getenv :: "string \<Rightarrow> string option"
  hardware_concurrency :: nat
  weakly_canonical :: "string \<Rightarrow> string option"
  is_directory :: "string \<Rightarrow> bool"

definition value_or :: "string option \<Rightarrow> string \<Rightarrow> string" where
  "value_or v d = (case v of None \<Rightarrow> d | Some s \<Rightarrow> s)"

section \<open>Values\<close>

definition parseBool :: "string \<Rightarrow> bool \<Rightarrow> (string, bool) result" where
  "parseBool v fallback =
     (if v = [] then Okay fallback
      else
        let normalized = lowercase v in
        if normalized = ''1'' \<or> normalized = ''true'' \<or> normalized = ''yes'' \<or> normalized = ''on'' then Okay True
        else if normalized = ''0'' \<or> normalized = ''false'' \<or> normalized = ''no'' \<or> normalized = ''off'' then Okay False
        else Error (''invalid boolean configuration value: '' @ v))"

text \<open>\<open>parseInteger<Integer>\<close>: the limits of the C++ type come first.\<close>

definition parseInteger :: "int \<Rightarrow> int \<Rightarrow> string \<Rightarrow> int \<Rightarrow> int \<Rightarrow> string \<Rightarrow> (string, int) result" where
  "parseInteger lo hi v minimum maximum label =
     (case from_chars lo hi v of
        Some (r, []) \<Rightarrow>
          if r < minimum \<or> r > maximum then Error (''invalid '' @ label @ '': '' @ v) else Okay r
      | _ \<Rightarrow> Error (''invalid '' @ label @ '': '' @ v))"

abbreviation parse_int :: "string \<Rightarrow> int \<Rightarrow> int \<Rightarrow> string \<Rightarrow> (string, int) result" where
  "parse_int \<equiv> parseInteger (- (2 ^ 31)) (2 ^ 31 - 1)"

abbreviation parse_size :: "string \<Rightarrow> int \<Rightarrow> int \<Rightarrow> string \<Rightarrow> (string, int) result" where
  "parse_size \<equiv> parseInteger 0 (2 ^ 64 - 1)"

abbreviation parse_uint16 :: "string \<Rightarrow> int \<Rightarrow> int \<Rightarrow> string \<Rightarrow> (string, int) result" where
  "parse_uint16 \<equiv> parseInteger 0 65535"

text \<open>\<open>inet_pton(AF_INET, ...)\<close>: four decimal octets without leading zeros.\<close>

definition octet :: "string \<Rightarrow> nat option" where
  "octet s = (if s \<noteq> [] \<and> length s \<le> 3 \<and> list_all isdigit s \<and> (length s = 1 \<or> hd s \<noteq> CHR ''0'') \<and> decimal s \<le> 255
              then Some (decimal s) else None)"

definition inet_pton4 :: "string \<Rightarrow> 32 word option" where
  "inet_pton4 s =
     (case map octet (split_on CHR ''.'' s) of
        [Some a, Some b, Some c, Some d] \<Rightarrow> Some (word_of_nat (((a * 256 + b) * 256 + c) * 256 + d))
      | _ \<Rightarrow> None)"

definition isIpv4Loopback :: "string \<Rightarrow> bool" where
  "isIpv4Loopback host =
     (case inet_pton4 host of None \<Rightarrow> False | Some a \<Rightarrow> a AND 0xff000000 = 0x7f000000)"

section \<open>Loading\<close>

text \<open>The execution profile and the listener.\<close>

definition load_environment :: "Surroundings \<Rightarrow> (string, bool) result" where
  "load_environment sr =
     (let environmentName = lowercase (value_or (getenv sr ''SISTER_ENV'') ''production'') in
      if environmentName = ''production'' \<or> environmentName = ''prod'' then Okay True
      else if environmentName = ''development'' \<or> environmentName = ''dev'' \<or> environmentName = ''test'' then Okay False
      else Error (''invalid SISTER_ENV: '' @ environmentName))"

definition load_listener :: "Surroundings \<Rightarrow> string list \<Rightarrow> ServerConfig \<Rightarrow> (string, ServerConfig) result" where
  "load_listener sr argv c =
     (let listenerMode = lowercase (value_or (getenv sr ''SISTER_LISTENER_MODE'')
            (if production c then ''systemd-unix'' else ''tcp-loopback'')) in
      if listenerMode \<noteq> ''systemd-unix'' \<and> listenerMode \<noteq> ''tcp-loopback''
      then Error (''invalid SISTER_LISTENER_MODE: '' @ listenerMode)
      else
        let c = c\<lparr>activatedUnixListener := (listenerMode = ''systemd-unix''),
                  activatedSocketPath := value_or (getenv sr ''SISTER_ACTIVATED_SOCKET_PATH'') ''/run/sister/sisterd.sock''\<rparr> in
        if production c then
          if \<not> activatedUnixListener c
          then Error ''production sisterd requires the systemd-activated Unix listener''
          else if activatedSocketPath c \<noteq> ''/run/sister/sisterd.sock''
          then Error ''production sisterd requires /run/sister/sisterd.sock''
          else if getenv sr ''SISTER_BIND_HOST'' \<noteq> None \<or> getenv sr ''SISTER_PORT'' \<noteq> None \<or> length argv \<ge> 2
          then Error ''production TCP listener configuration is forbidden''
          else Okay c
        else if \<not> activatedUnixListener c then
          and_then (parse_int (value_or (getenv sr ''SISTER_PORT'') ''8000'') 1 65535 ''SISTER_PORT'') (\<lambda>p.
          and_then (if length argv \<ge> 2 then parse_int (argv ! 1) 1 65535 ''port argument'' else Okay p) (\<lambda>p.
          Okay (c\<lparr>cfg_port := p\<rparr>)))
        else if length argv \<ge> 2
        then Error ''port argument cannot be combined with an activated Unix listener''
        else Okay c)"

definition load_backend :: "Surroundings \<Rightarrow> string list \<Rightarrow> ServerConfig \<Rightarrow> (string, ServerConfig) result" where
  "load_backend sr argv c =
     (let env = getenv sr; yn = (\<lambda>b. if b then ''true'' else ''false'');
          c = c\<lparr>webRoot := (if length argv \<ge> 3 then argv ! 2 else value_or (env ''SISTER_WEB_ROOT'') ''web''),
                bindHost := value_or (env ''SISTER_BIND_HOST'') ''127.0.0.1'',
                authFile := value_or (env ''SISTER_AUTH_FILE'') ''.run/auth-users.tsv'',
                authBackend := lowercase (value_or (env ''SISTER_AUTH_BACKEND'') ''file''),
                maturityRoot := value_or (env ''SISTER_MATURITY_ROOT'') ''.run/maturity'',
                databaseUrl := value_or (env ''SISTER_DATABASE_URL'') []\<rparr> in
      and_then (parseBool (value_or (env ''SISTER_COOKIE_SECURE'') (yn (production c))) (production c)) (\<lambda>secure.
      and_then (parseBool (value_or (env ''SISTER_HSTS'') ''false'') False) (\<lambda>hs.
      and_then (parseBool (value_or (env ''SISTER_REQUIRE_SAME_ORIGIN'') (yn (production c))) (production c)) (\<lambda>same.
      if authBackend c \<noteq> ''file'' \<and> authBackend c \<noteq> ''postgresql''
      then Error (''invalid SISTER_AUTH_BACKEND: '' @ authBackend c)
      else if authBackend c = ''postgresql'' \<and> databaseUrl c = []
      then Error ''SISTER_AUTH_BACKEND=postgresql requires SISTER_DATABASE_URL''
      else Okay (c\<lparr>secureCookie := secure, hsts := hs, requireSameOrigin := same\<rparr>)))))"

definition load_switches :: "Surroundings \<Rightarrow> ServerConfig \<Rightarrow> (string, ServerConfig) result" where
  "load_switches sr c =
     (let env = getenv sr in
      and_then (parseBool (value_or (env ''SISTER_ENABLE_HTTP_BOOTSTRAP'')
          (if production c then ''false'' else ''true'')) (\<not> production c)) (\<lambda>bootstrap.
      and_then (parseBool (value_or (env ''SISTER_ENABLE_LEGACY_PROXY'') ''false'') False) (\<lambda>legacy.
      and_then (parseBool (value_or (env ''SISTER_ENABLE_LEGACY_WEBSOCKET_PROXY'') ''false'') False) (\<lambda>websocket.
      and_then (case env ''SISTER_ALLOW_TCP_FALLBACK'' of None \<Rightarrow> Okay False | Some v \<Rightarrow> parseBool v False) (\<lambda>tcpFallback.
      if tcpFallback then Error ''TCP listener fallback is forbidden''
      else if \<not> activatedUnixListener c \<and> \<not> isIpv4Loopback (bindHost c)
      then Error ''TCP listener requires an IPv4 loopback address''
      else if production c \<and> bootstrap
      then Error ''HTTP administrator bootstrap is forbidden in production; use sisterctl auth bootstrap-admin''
      else if production c \<and> legacy then Error ''legacy HTTP proxy is forbidden in production''
      else if production c \<and> websocket then Error ''legacy WebSocket proxy is forbidden in production''
      else if websocket \<and> \<not> legacy
      then Error ''SISTER_ENABLE_LEGACY_WEBSOCKET_PROXY requires SISTER_ENABLE_LEGACY_PROXY''
      else Okay (c\<lparr>httpBootstrapEnabled := bootstrap, legacyProxyEnabled := legacy,
                   legacyWebSocketProxyEnabled := websocket\<rparr>))))))"

definition load_limits :: "Surroundings \<Rightarrow> ServerConfig \<Rightarrow> (string, ServerConfig) result" where
  "load_limits sr c =
     (let env = getenv sr; hardwareThreads = max 2 (hardware_concurrency sr) in
      and_then (parse_size (value_or (env ''SISTER_WORKERS'') (show_nat (min 16 hardwareThreads))) 1 64 ''SISTER_WORKERS'') (\<lambda>workers.
      and_then (parse_size (value_or (env ''SISTER_QUEUE_LIMIT'') ''256'') 16 4096 ''SISTER_QUEUE_LIMIT'') (\<lambda>queue.
      and_then (parse_int (value_or (env ''SISTER_CLIENT_TIMEOUT_SECONDS'') ''10'') 1 120 ''SISTER_CLIENT_TIMEOUT_SECONDS'') (\<lambda>client.
      and_then (parse_int (value_or (env ''SISTER_UPSTREAM_TIMEOUT_MS'') ''5000'') 100 120000 ''SISTER_UPSTREAM_TIMEOUT_MS'') (\<lambda>upstream.
      and_then (parseBool (value_or (env ''SISTER_ENABLE_REFERENCE_SUBSYSTEM'') ''false'') False) (\<lambda>reference.
      and_then (parse_uint16 (value_or (env ''SISTER_REFERENCE_PORT'') ''19001'') 1 65535 ''SISTER_REFERENCE_PORT'') (\<lambda>refPort.
      Okay (c\<lparr>workerThreads := workers, cfg_queueLimit := queue, clientTimeoutSeconds := client,
              upstreamTimeoutMilliseconds := upstream, referenceSubsystemEnabled := reference,
              referencePort := refPort\<rparr>))))))))"

text \<open>An absolute path in the sense of \<open>std::filesystem\<close> on POSIX.\<close>

definition path_absolute :: "string \<Rightarrow> bool" where
  "path_absolute path \<longleftrightarrow> path \<noteq> [] \<and> hd path = CHR ''/''"

definition load_nexo :: "Surroundings \<Rightarrow> ServerConfig \<Rightarrow> (string, ServerConfig) result" where
  "load_nexo sr c =
     (let env = getenv sr in
      and_then (parseBool (value_or (env ''SISTER_ENABLE_NEXO_CONTEXT_PROJECTION'') ''false'') False) (\<lambda>enabled.
      if \<not> enabled then Okay (c\<lparr>nexoContextProjectionEnabled := False\<rparr>)
      else if value_or (env ''SISTER_NEXO_PORT'') [] = []
      then Error ''SISTER_ENABLE_NEXO_CONTEXT_PROJECTION requires SISTER_NEXO_PORT''
      else
        and_then (parse_uint16 (value_or (env ''SISTER_NEXO_PORT'') []) 1 65535 ''SISTER_NEXO_PORT'') (\<lambda>port.
        let key = value_or (env ''SISTER_INTERNAL_IDENTITY_PRIVATE_KEY_FILE'') [];
            keyId = value_or (env ''SISTER_INTERNAL_IDENTITY_KEY_ID'') [] in
        if key = [] then
          Error ''SISTER_ENABLE_NEXO_CONTEXT_PROJECTION requires SISTER_INTERNAL_IDENTITY_PRIVATE_KEY_FILE''
        else if \<not> path_absolute key then Error ''SISTER_INTERNAL_IDENTITY_PRIVATE_KEY_FILE must be absolute''
        else if keyId = [] then
          Error ''SISTER_ENABLE_NEXO_CONTEXT_PROJECTION requires SISTER_INTERNAL_IDENTITY_KEY_ID''
        else
          and_then (parse_int (value_or (env ''SISTER_INTERNAL_IDENTITY_TTL_SECONDS'') ''60'') 1 300
            ''SISTER_INTERNAL_IDENTITY_TTL_SECONDS'') (\<lambda>ttl.
          Okay (c\<lparr>nexoContextProjectionEnabled := True, nexoPort := port, internalIdentityPrivateKeyFile := key,
                  internalIdentityKeyId := keyId, internalIdentityTtlSeconds := ttl\<rparr>)))))"

definition load_rest :: "Surroundings \<Rightarrow> ServerConfig \<Rightarrow> (string, ServerConfig) result" where
  "load_rest sr c =
     (let env = getenv sr;
          c = c\<lparr>internalProxyToken := value_or (env ''SISTER_INTERNAL_PROXY_TOKEN'') [],
                extraConnectSrc := value_or (env ''SISTER_EXTRA_CONNECT_SRC'') [],
                ecosystemProjectionFile := value_or (env ''SISTER_ECOSYSTEM_PROJECTION_FILE'') [],
                semanticEcosystemProjectionFile := value_or (env ''SISTER_SEMANTIC_ECOSYSTEM_PROJECTION_FILE'') []\<rparr> in
      and_then (parse_int (value_or (env ''SISTER_SUBSYSTEM_HEALTH_TIMEOUT_MS'') ''800'') 100 5000
        ''SISTER_SUBSYSTEM_HEALTH_TIMEOUT_MS'') (\<lambda>health.
      if referenceSubsystemEnabled c \<and> length (internalProxyToken c) < 32
      then Error ''SISTER_ENABLE_REFERENCE_SUBSYSTEM requires SISTER_INTERNAL_PROXY_TOKEN''
      else case weakly_canonical sr (webRoot c) of
          None \<Rightarrow> Error (''web root is not a readable directory: '' @ webRoot c)
        | Some root \<Rightarrow>
            if \<not> is_directory sr root then Error (''web root is not a readable directory: '' @ webRoot c)
            else Okay (c\<lparr>subsystemHealthTimeoutMilliseconds := health, canonicalWebRoot := root\<rparr>)))"

definition loadConfig :: "Surroundings \<Rightarrow> string list \<Rightarrow> (string, ServerConfig) result" where
  "loadConfig sr argv =
     and_then (load_environment sr) (\<lambda>prod.
     and_then (load_listener sr argv (default_config\<lparr>production := prod\<rparr>)) (\<lambda>c.
     and_then (load_backend sr argv c) (\<lambda>c.
     and_then (load_switches sr c) (\<lambda>c.
     and_then (load_limits sr c) (\<lambda>c.
     and_then (load_nexo sr c) (\<lambda>c.
     load_rest sr c))))))"

section \<open>What a section establishes\<close>

lemma parseInteger_okay: "parseInteger lo hi v mn mx l = Okay r \<Longrightarrow> mn \<le> r \<and> r \<le> mx"
  by (auto simp: parseInteger_def split: option.split_asm list.split_asm if_split_asm)

lemma load_listener_okay:
  assumes "load_listener sr argv c = Okay c'"
  shows "production c' = production c"
    and "production c \<Longrightarrow> activatedUnixListener c' \<and> activatedSocketPath c' = ''/run/sister/sisterd.sock'' \<and>
      length argv < 2 \<and> getenv sr ''SISTER_PORT'' = None \<and> getenv sr ''SISTER_BIND_HOST'' = None"
    and "\<not> activatedUnixListener c' \<Longrightarrow> 1 \<le> cfg_port c' \<and> cfg_port c' \<le> 65535"
proof -
  show "production c' = production c"
    using assms by (auto simp: load_listener_def Let_def and_then_okay_iff split: if_split_asm)
  show "production c \<Longrightarrow> activatedUnixListener c' \<and> activatedSocketPath c' = ''/run/sister/sisterd.sock'' \<and>
      length argv < 2 \<and> getenv sr ''SISTER_PORT'' = None \<and> getenv sr ''SISTER_BIND_HOST'' = None"
    using assms by (auto simp: load_listener_def Let_def split: if_split_asm)
  show "\<not> activatedUnixListener c' \<Longrightarrow> 1 \<le> cfg_port c' \<and> cfg_port c' \<le> 65535"
    using assms by (auto simp: load_listener_def Let_def and_then_okay_iff dest!: parseInteger_okay split: if_split_asm)
qed

lemma load_backend_okay:
  assumes "load_backend sr argv c = Okay c'"
  shows "production c' = production c \<and> activatedUnixListener c' = activatedUnixListener c \<and>
    activatedSocketPath c' = activatedSocketPath c \<and> cfg_port c' = cfg_port c \<and>
    (authBackend c' = ''file'' \<or> authBackend c' = ''postgresql'' \<and> databaseUrl c' \<noteq> [])"
  using assms by (auto simp: load_backend_def Let_def and_then_okay_iff split: if_split_asm)

lemma load_switches_okay:
  assumes "load_switches sr c = Okay c'"
  shows "\<exists>b l w. c' = c\<lparr>httpBootstrapEnabled := b, legacyProxyEnabled := l, legacyWebSocketProxyEnabled := w\<rparr> \<and>
    (production c \<longrightarrow> \<not> b \<and> \<not> l \<and> \<not> w) \<and> (activatedUnixListener c \<or> isIpv4Loopback (bindHost c)) \<and> (w \<longrightarrow> l)"
  using assms by (auto simp: load_switches_def Let_def and_then_okay_iff split: if_split_asm)

lemma load_limits_okay:
  assumes "load_limits sr c = Okay c'"
  shows "\<exists>w q t u e p. c' = c\<lparr>workerThreads := w, cfg_queueLimit := q, clientTimeoutSeconds := t,
      upstreamTimeoutMilliseconds := u, referenceSubsystemEnabled := e, referencePort := p\<rparr> \<and>
    1 \<le> w \<and> w \<le> 64 \<and> 16 \<le> q \<and> q \<le> 4096 \<and> 1 \<le> t \<and> t \<le> 120 \<and> 100 \<le> u \<and> u \<le> 120000 \<and> 1 \<le> p \<and> p \<le> 65535"
proof -
  obtain w q t u e p where r: "c' = c\<lparr>workerThreads := w, cfg_queueLimit := q, clientTimeoutSeconds := t,
      upstreamTimeoutMilliseconds := u, referenceSubsystemEnabled := e, referencePort := p\<rparr>"
    and b: "1 \<le> w \<and> w \<le> 64" "16 \<le> q \<and> q \<le> 4096" "1 \<le> t \<and> t \<le> 120" "100 \<le> u \<and> u \<le> 120000" "1 \<le> p \<and> p \<le> 65535"
    using assms unfolding load_limits_def Let_def and_then_okay_iff sum.inject
    by (blast dest: parseInteger_okay)
  then show ?thesis by blast
qed

definition nexo_ok :: "ServerConfig \<Rightarrow> bool" where
  "nexo_ok c \<longleftrightarrow> (nexoContextProjectionEnabled c \<longrightarrow> 1 \<le> nexoPort c \<and> nexoPort c \<le> 65535 \<and>
     path_absolute (internalIdentityPrivateKeyFile c) \<and> internalIdentityKeyId c \<noteq> [] \<and>
     1 \<le> internalIdentityTtlSeconds c \<and> internalIdentityTtlSeconds c \<le> 300)"

lemma load_nexo_okay:
  assumes "load_nexo sr c = Okay c'"
  shows "nexo_ok c' \<and> (\<exists>e p f k t. c' = c\<lparr>nexoContextProjectionEnabled := e, nexoPort := p,
    internalIdentityPrivateKeyFile := f, internalIdentityKeyId := k, internalIdentityTtlSeconds := t\<rparr>)"
proof -
  obtain e where e: "parseBool (value_or (getenv sr ''SISTER_ENABLE_NEXO_CONTEXT_PROJECTION'') ''false'') False = Okay e"
    using assms by (auto simp: load_nexo_def Let_def and_then_okay_iff)
  show ?thesis
  proof (cases e)
    case False
    with assms e have "c' = c\<lparr>nexoContextProjectionEnabled := False\<rparr>" by (simp add: load_nexo_def Let_def)
    then show ?thesis by (cases c) (auto simp: nexo_ok_def)
  next
    case True
    obtain p t where n: "1 \<le> p \<and> p \<le> 65535" "1 \<le> t \<and> t \<le> 300"
      "path_absolute (value_or (getenv sr ''SISTER_INTERNAL_IDENTITY_PRIVATE_KEY_FILE'') [])"
      "value_or (getenv sr ''SISTER_INTERNAL_IDENTITY_KEY_ID'') [] \<noteq> []"
      "c' = c\<lparr>nexoContextProjectionEnabled := True, nexoPort := p,
         internalIdentityPrivateKeyFile := value_or (getenv sr ''SISTER_INTERNAL_IDENTITY_PRIVATE_KEY_FILE'') [],
         internalIdentityKeyId := value_or (getenv sr ''SISTER_INTERNAL_IDENTITY_KEY_ID'') [],
         internalIdentityTtlSeconds := t\<rparr>"
      using assms e True
      by (auto simp: load_nexo_def Let_def and_then_okay_iff dest!: parseInteger_okay split: if_split_asm)
    then have "nexo_ok c'" by (simp add: nexo_ok_def)
    with n(5) show ?thesis by blast
  qed
qed

lemma load_rest_okay:
  assumes "load_rest sr c = Okay c'"
  shows "\<exists>tok x e s h r. c' = c\<lparr>internalProxyToken := tok, extraConnectSrc := x, ecosystemProjectionFile := e,
      semanticEcosystemProjectionFile := s, subsystemHealthTimeoutMilliseconds := h, canonicalWebRoot := r\<rparr> \<and>
    100 \<le> h \<and> h \<le> 5000 \<and> is_directory sr r \<and> (referenceSubsystemEnabled c \<longrightarrow> 32 \<le> length tok)"
proof -
  obtain h r where r: "parse_int (value_or (getenv sr ''SISTER_SUBSYSTEM_HEALTH_TIMEOUT_MS'') ''800'') 100 5000
        ''SISTER_SUBSYSTEM_HEALTH_TIMEOUT_MS'' = Okay h"
    "is_directory sr r"
    "referenceSubsystemEnabled c \<longrightarrow> 32 \<le> length (value_or (getenv sr ''SISTER_INTERNAL_PROXY_TOKEN'') [])"
    "c' = c\<lparr>internalProxyToken := value_or (getenv sr ''SISTER_INTERNAL_PROXY_TOKEN'') [],
        extraConnectSrc := value_or (getenv sr ''SISTER_EXTRA_CONNECT_SRC'') [],
        ecosystemProjectionFile := value_or (getenv sr ''SISTER_ECOSYSTEM_PROJECTION_FILE'') [],
        semanticEcosystemProjectionFile := value_or (getenv sr ''SISTER_SEMANTIC_ECOSYSTEM_PROJECTION_FILE'') [],
        subsystemHealthTimeoutMilliseconds := h, canonicalWebRoot := r\<rparr>"
    using assms by (auto simp: load_rest_def Let_def and_then_okay_iff split: if_split_asm option.split_asm)
  from parseInteger_okay [OF r(1)] r(2-4) show ?thesis by blast
qed

lemma loadConfig_sections:
  assumes "loadConfig sr argv = Okay c"
  obtains prod c1 c2 c3 c4 c5 where "load_environment sr = Okay prod"
    "load_listener sr argv (default_config\<lparr>production := prod\<rparr>) = Okay c1" "load_backend sr argv c1 = Okay c2"
    "load_switches sr c2 = Okay c3" "load_limits sr c3 = Okay c4" "load_nexo sr c4 = Okay c5" "load_rest sr c5 = Okay c"
  using assms by (auto simp: loadConfig_def and_then_okay_iff intro: that)

section \<open>Loopback addresses\<close>

lemma mask_high: "(w :: 32 word) AND 0xff000000 = push_bit 24 (drop_bit 24 w)"
proof -
  have e: "(0xff000000 :: 32 word) = NOT (mask 24)" by (simp add: mask_eq_exp_minus_1)
  show ?thesis
    unfolding e by (rule bit_word_eqI) (auto simp: bit_and_iff bit_not_iff bit_mask_iff bit_push_bit_iff bit_drop_bit_eq)
qed

lemma loopback_word:
  assumes "n < 2 ^ 32"
  shows "(word_of_nat n :: 32 word) AND 0xff000000 = 0x7f000000 \<longleftrightarrow> n div 2 ^ 24 = 127"
proof -
  let ?w = "word_of_nat n :: 32 word"
  have u: "unat (drop_bit 24 ?w) = n div 2 ^ 24"
  proof -
    have "unat ?w = n" using assms by (simp only: unat_of_nat) simp
    then show ?thesis by (simp only: unat_drop_bit_eq) (simp add: drop_bit_eq_div)
  qed
  have "n div 2 ^ 24 < 2 ^ 8" using assms by (simp add: less_mult_imp_div_less)
  then have s: "unat (push_bit 24 (drop_bit 24 ?w)) = n div 2 ^ 24 * 2 ^ 24"
    by (simp add: push_bit_eq_mult unat_word_ariths u)
  have "?w AND 0xff000000 = 0x7f000000 \<longleftrightarrow> unat (push_bit 24 (drop_bit 24 ?w)) = unat (0x7f000000 :: 32 word)"
    by (simp add: mask_high word_unat_eq_iff)
  also have "\<dots> \<longleftrightarrow> n div 2 ^ 24 * 2 ^ 24 = 127 * 2 ^ 24" unfolding s by simp
  also have "\<dots> \<longleftrightarrow> n div 2 ^ 24 = 127" by (rule mult_cancel2 [THEN trans]) simp
  finally show ?thesis .
qed

lemma digits_127:
  fixes x y z :: nat
  assumes "x \<le> 9" "y \<le> 9" "z \<le> 9" "x * 100 + y * 10 + z = 127"
  shows "x = 1" "y = 2" "z = 7"
proof -
  show x: "x = 1" using assms by linarith
  show y: "y = 2" using assms(2-4) x by linarith
  show "z = 7" using assms(4) x y by linarith
qed

lemma octet_Some: "octet s = Some n \<Longrightarrow> n \<le> 255"
  by (simp add: octet_def split: if_split_asm)

text \<open>Three digits at most and no leading zero leave one way to write 127.\<close>

lemma octet_127: "octet s = Some 127 \<longleftrightarrow> s = ''127''"
proof
  assume "octet s = Some 127"
  then have s: "s \<noteq> []" "length s \<le> 3" "list_all isdigit s" "decimal s = 127"
    by (auto simp: octet_def split: if_split_asm)
  have le: "isdigit c \<Longrightarrow> digit_of c \<le> 9" for c by (auto simp: isdigit_def digit_of_def)
  obtain a b c where abc: "s = [a] \<or> s = [a, b] \<or> s = [a, b, c]"
    using s(1,2) by (cases s; cases "tl s"; cases "tl (tl s)") auto
  from abc show "s = ''127''"
  proof (elim disjE)
    assume "s = [a]" then show ?thesis using s(3,4) le [of a] by simp
  next
    assume "s = [a, b]" then show ?thesis using s(3,4) le [of a] le [of b] by simp
  next
    assume x: "s = [a, b, c]"
    then have d: "isdigit a" "isdigit b" "isdigit c" "digit_of a * 100 + digit_of b * 10 + digit_of c = 127"
      using s(3,4) by simp_all
    then have "digit_of a = 1" "digit_of b = 2" "digit_of c = 7"
      using digits_127 [OF le le le] by blast+
    then have "byte a = 49" "byte b = 50" "byte c = 55" using d(1-3) by (simp_all add: digit_of_def isdigit_def)
    then show ?thesis using x byte_inject [of a "CHR ''1''"] byte_inject [of b "CHR ''2''"] byte_inject [of c "CHR ''7''"]
      by (simp del: byte_inject)
  qed
qed (simp add: octet_def isdigit_def digit_of_def decimal_from_def)

section \<open>Properties\<close>

lemma production_hardened:
  assumes "loadConfig sr argv = Okay c" and "production c"
  shows "activatedUnixListener c \<and> activatedSocketPath c = ''/run/sister/sisterd.sock'' \<and>
    length argv < 2 \<and> getenv sr ''SISTER_PORT'' = None \<and> getenv sr ''SISTER_BIND_HOST'' = None \<and>
    \<not> httpBootstrapEnabled c \<and> \<not> legacyProxyEnabled c \<and> \<not> legacyWebSocketProxyEnabled c"
proof -
  obtain prod c1 c2 c3 c4 c5 where s: "load_listener sr argv (default_config\<lparr>production := prod\<rparr>) = Okay c1"
    "load_backend sr argv c1 = Okay c2" "load_switches sr c2 = Okay c3" "load_limits sr c3 = Okay c4"
    "load_nexo sr c4 = Okay c5" "load_rest sr c5 = Okay c"
    using assms(1) by (rule loadConfig_sections)
  note l = load_listener_okay [OF s(1)] and b = load_backend_okay [OF s(2)]
  have frame: "production c = production c2 \<and> activatedUnixListener c = activatedUnixListener c2 \<and>
      activatedSocketPath c = activatedSocketPath c2 \<and>
      (production c2 \<longrightarrow> \<not> httpBootstrapEnabled c \<and> \<not> legacyProxyEnabled c \<and> \<not> legacyWebSocketProxyEnabled c)"
    using load_switches_okay [OF s(3)] load_limits_okay [OF s(4)] load_nexo_okay [OF s(5)] load_rest_okay [OF s(6)]
    by (elim exE conjE) simp
  with assms(2) b l(1) have "production (default_config\<lparr>production := prod\<rparr>)" by simp
  from l(2) [OF this] frame b assms(2) show ?thesis by simp
qed

text \<open>A configuration that loads in production is hardened: the daemon listens on the activated
  Unix socket at its fixed path and on nothing else, was given no port or host, does not offer
  the administrator bootstrap over HTTP and has both legacy proxies off.\<close>

theorem production_config_hardened:
  assumes "loadConfig sr argv = Okay c" and "production c"
  shows "activatedUnixListener c \<and> activatedSocketPath c = ''/run/sister/sisterd.sock'' \<and>
    length argv < 2 \<and> getenv sr ''SISTER_PORT'' = None \<and> getenv sr ''SISTER_BIND_HOST'' = None \<and>
    \<not> httpBootstrapEnabled c \<and> \<not> legacyProxyEnabled c \<and> \<not> legacyWebSocketProxyEnabled c"
  by (rule production_hardened [OF assms])

definition sample_surroundings :: Surroundings where
  "sample_surroundings = \<lparr>getenv = (\<lambda>_. None), hardware_concurrency = 8,
     weakly_canonical = (\<lambda>p. Some (''/srv/'' @ p)), is_directory = (\<lambda>_. True)\<rparr>"

lemma sample_config_loads: "\<exists>c. loadConfig sample_surroundings [''sisterd''] = Okay c \<and> production c"
proof -
  have "case loadConfig sample_surroundings [''sisterd''] of Okay c \<Rightarrow> production c | Error _ \<Rightarrow> False" by code_simp
  then show ?thesis by (auto split: sum.split_asm)
qed

theorem production_config_hardened_witness:
  "\<exists>c. loadConfig sample_surroundings [''sisterd''] = Okay c \<and> activatedUnixListener c \<and> \<not> httpBootstrapEnabled c"
  using sample_config_loads production_config_hardened by blast

text \<open>Every configuration that loads is within bounds: the worker, queue, timeout and port settings
  lie in their ranges, a TCP listener is on a loopback address, the PostgreSQL backend has a
  database, the reference subsystem a proxy token of 32 bytes, and the context projection a port,
  an absolute key path, a key id and a lifetime of at most 300 seconds.\<close>

theorem loadConfig_bounds:
  assumes "loadConfig sr argv = Okay c"
  shows "1 \<le> workerThreads c \<and> workerThreads c \<le> 64 \<and> 16 \<le> cfg_queueLimit c \<and> cfg_queueLimit c \<le> 4096 \<and>
    1 \<le> clientTimeoutSeconds c \<and> clientTimeoutSeconds c \<le> 120 \<and>
    100 \<le> upstreamTimeoutMilliseconds c \<and> upstreamTimeoutMilliseconds c \<le> 120000 \<and>
    1 \<le> referencePort c \<and> referencePort c \<le> 65535 \<and>
    100 \<le> subsystemHealthTimeoutMilliseconds c \<and> subsystemHealthTimeoutMilliseconds c \<le> 5000 \<and>
    (activatedUnixListener c \<or> isIpv4Loopback (bindHost c) \<and> 1 \<le> cfg_port c \<and> cfg_port c \<le> 65535) \<and>
    (authBackend c = ''file'' \<or> authBackend c = ''postgresql'' \<and> databaseUrl c \<noteq> []) \<and>
    (referenceSubsystemEnabled c \<longrightarrow> 32 \<le> length (internalProxyToken c)) \<and>
    nexo_ok c \<and> is_directory sr (canonicalWebRoot c)"
proof -
  obtain prod c1 c2 c3 c4 c5 where s: "load_listener sr argv (default_config\<lparr>production := prod\<rparr>) = Okay c1"
    "load_backend sr argv c1 = Okay c2" "load_switches sr c2 = Okay c3" "load_limits sr c3 = Okay c4"
    "load_nexo sr c4 = Okay c5" "load_rest sr c5 = Okay c"
    using assms(1) by (rule loadConfig_sections)
  have c2: "activatedUnixListener c2 \<or> 1 \<le> cfg_port c2 \<and> cfg_port c2 \<le> 65535"
    "authBackend c2 = ''file'' \<or> authBackend c2 = ''postgresql'' \<and> databaseUrl c2 \<noteq> []"
    using load_listener_okay(3) [OF s(1)] load_backend_okay [OF s(2)] by auto
  have c3: "activatedUnixListener c3 \<or> isIpv4Loopback (bindHost c3) \<and> 1 \<le> cfg_port c3 \<and> cfg_port c3 \<le> 65535"
    "authBackend c3 = ''file'' \<or> authBackend c3 = ''postgresql'' \<and> databaseUrl c3 \<noteq> []"
    using load_switches_okay [OF s(3)] c2 by auto
  have c5: "nexo_ok c5" using load_nexo_okay [OF s(5)] by blast
  from load_limits_okay [OF s(4)] load_nexo_okay [OF s(5)] load_rest_okay [OF s(6)] c3 c5 show ?thesis
    by (elim exE conjE) (simp add: nexo_ok_def)
qed

theorem loadConfig_bounds_witness:
  "\<exists>c. loadConfig sample_surroundings [''sisterd''] = Okay c \<and> workerThreads c \<le> 64"
  using sample_config_loads loadConfig_bounds by blast

text \<open>The loopback test accepts exactly the dotted addresses whose first octet is 127, with three
  further decimal octets: no other spelling of an address passes.\<close>

theorem isIpv4Loopback_exact:
  "isIpv4Loopback host \<longleftrightarrow>
     (case split_on CHR ''.'' host of
        [a, b, c, d] \<Rightarrow> a = ''127'' \<and> octet b \<noteq> None \<and> octet c \<noteq> None \<and> octet d \<noteq> None
      | _ \<Rightarrow> False)"
proof (cases "\<exists>a b c d i j k l. split_on CHR ''.'' host = [a, b, c, d] \<and> octet a = Some i \<and> octet b = Some j \<and>
    octet c = Some k \<and> octet d = Some l")
  case True
  then obtain a b c d i j k l where p: "split_on CHR ''.'' host = [a, b, c, d]" "octet a = Some i" "octet b = Some j"
    "octet c = Some k" "octet d = Some l" by blast
  have le: "i \<le> 255" "j \<le> 255" "k \<le> 255" "l \<le> 255" using p(2-5) octet_Some by blast+
  let ?n = "((i * 256 + j) * 256 + k) * 256 + l"
  have "?n < 2 ^ 32" using le by simp
  moreover have "?n div 2 ^ 24 = i"
  proof -
    have "?n = (j * 65536 + k * 256 + l) + i * 2 ^ 24" by simp
    moreover have "j * 65536 + k * 256 + l < 2 ^ 24" using le by simp
    ultimately show ?thesis by simp
  qed
  moreover have "i = 127 \<longleftrightarrow> a = ''127''" using octet_127 [of a] p(2) by auto
  ultimately have "(word_of_nat ?n :: 32 word) AND 0xff000000 = 0x7f000000 \<longleftrightarrow> a = ''127''"
    by (simp only: loopback_word)
  moreover have "inet_pton4 host = Some (word_of_nat ?n)"
    unfolding inet_pton4_def p(1) list.map p(2-5) list.case option.case ..
  ultimately have "isIpv4Loopback host \<longleftrightarrow> a = ''127''" unfolding isIpv4Loopback_def by (simp only: option.case)
  then show ?thesis using p by simp
next
  case False
  then have "inet_pton4 host = None"
    by (auto simp: inet_pton4_def split: list.split option.split)
  moreover have "octet ''127'' = Some 127" by (simp add: octet_127)
  ultimately show ?thesis using False
    by (auto simp: isIpv4Loopback_def split: list.split)
qed

end
