(* ===== verification/Http_Response.thy ===== *)
theory Http_Response
  imports Http_Properties Flat_Json Config
begin

text \<open>
  Responses of the daemon (\<open>apps/sisterd/main.cpp\<close>): how they are built and serialised, cookies
  and log texts, and the two functions with which the daemon reads the response of a subsystem.
  \<open>send\<close> is the list of results of its calls.
\<close>

section \<open>Building\<close>

record HttpResponse =
  rsp_status :: nat
  rsp_reason :: string
  rsp_body :: string
  rsp_contentType :: string
  rsp_headers :: "(string \<times> string) list"

definition json_type :: string where
  "json_type = ''application/json; charset=utf-8''"

definition no_store :: "(string \<times> string) list" where
  "no_store = [(''Cache-Control'', ''no-store'')]"

definition jsonError :: "nat \<Rightarrow> string \<Rightarrow> string \<Rightarrow> HttpResponse" where
  "jsonError status reason detail =
     \<lparr>rsp_status = status, rsp_reason = reason,
      rsp_body = ''{'' @ [QUOTE] @ ''detail'' @ [QUOTE] @ '':'' @ [QUOTE] @ jsonEscape detail @ [QUOTE] @ ''}'' ,
      rsp_contentType = json_type, rsp_headers = no_store\<rparr>"

definition redirectResponse :: "nat \<Rightarrow> string \<Rightarrow> string \<Rightarrow> HttpResponse" where
  "redirectResponse status reason location =
     \<lparr>rsp_status = status, rsp_reason = reason, rsp_body = [],
      rsp_contentType = ''text/plain; charset=utf-8'',
      rsp_headers = [(''Location'', location), (''Cache-Control'', ''no-store'')]\<rparr>"

text \<open>A response with a JSON body that must not be stored.\<close>

definition json_response :: "nat \<Rightarrow> string \<Rightarrow> string \<Rightarrow> HttpResponse" where
  "json_response status reason body =
     \<lparr>rsp_status = status, rsp_reason = reason, rsp_body = body, rsp_contentType = json_type, rsp_headers = no_store\<rparr>"

definition kSessionCookie :: string where
  "kSessionCookie = ''sister_session''"

definition sessionCookieAttributes :: "ServerConfig \<Rightarrow> string" where
  "sessionCookieAttributes config =
     ''; HttpOnly; SameSite=Strict; Path=/; Max-Age=28800'' @ (if secureCookie config then ''; Secure'' else [])"

definition sessionHeaders :: "string \<Rightarrow> ServerConfig \<Rightarrow> (string \<times> string) list" where
  "sessionHeaders token config =
     [(''Set-Cookie'', kSessionCookie @ ''='' @ token @ sessionCookieAttributes config),
      (''Cache-Control'', ''no-store'')]"

definition clearSessionHeaders :: "ServerConfig \<Rightarrow> (string \<times> string) list" where
  "clearSessionHeaders config =
     [(''Set-Cookie'', kSessionCookie @ ''=; HttpOnly; SameSite=Strict; Path=/; Max-Age=0'' @
         (if secureCookie config then ''; Secure'' else [])),
      (''Cache-Control'', ''no-store'')]"

section \<open>Serialising\<close>

definition safeResponseHeader :: "string \<Rightarrow> string \<Rightarrow> bool" where
  "safeResponseHeader name val \<longleftrightarrow> isValidHeaderName name \<and> \<not> containsInvalidHeaderValueCharacter val \<and>
     CR \<notin> set name \<and> LF \<notin> set name"

text \<open>The lines of the head; each is followed by CRLF in the output.\<close>

definition response_lines :: "HttpResponse \<Rightarrow> ServerConfig \<Rightarrow> string \<Rightarrow> string list" where
  "response_lines r config requestId =
     [''HTTP/1.1 '' @ show_nat (rsp_status r) @ '' '' @ rsp_reason r] @
     (if rsp_contentType r \<noteq> [] then [''Content-Type: '' @ rsp_contentType r] else []) @
     [''Content-Length: '' @ show_nat (length (rsp_body r)),
      ''Connection: close'',
      ''X-Content-Type-Options: nosniff'',
      ''Referrer-Policy: same-origin'',
      ''X-Frame-Options: DENY'',
      ''Permissions-Policy: geolocation=(), microphone=(), camera=()'',
      ''Cross-Origin-Opener-Policy: same-origin'',
      ''Content-Security-Policy: default-src '' @ [CHR 0x27] @ ''self'' @ [CHR 0x27] @ ''; script-src '' @ [CHR 0x27] @ ''self'' @ [CHR 0x27] @ ''; style-src '' @ [CHR 0x27] @ ''self'' @ [CHR 0x27] @ ''; img-src '' @ [CHR 0x27] @ ''self'' @ [CHR 0x27] @ '' data:; connect-src '' @ [CHR 0x27] @ ''self'' @ [CHR 0x27] @
        (if extraConnectSrc config = [] then [] else '' '' @ extraConnectSrc config) @
        ''; font-src '' @ [CHR 0x27] @ ''self'' @ [CHR 0x27] @ ''; object-src '' @ [CHR 0x27] @ ''none'' @ [CHR 0x27] @ ''; base-uri '' @ [CHR 0x27] @ ''self'' @ [CHR 0x27] @ ''; frame-ancestors '' @ [CHR 0x27] @ ''none'' @ [CHR 0x27] @ ''; form-action '' @ [CHR 0x27] @ ''self'' @ [CHR 0x27] ,
      ''X-Request-ID: '' @ requestId] @
     (if hsts config then [''Strict-Transport-Security: max-age=31536000; includeSubDomains''] else []) @
     map (\<lambda>(name, val). name @ '': '' @ val) (rsp_headers r)"

definition serializeResponse ::
  "HttpResponse \<Rightarrow> ServerConfig \<Rightarrow> string \<Rightarrow> bool \<Rightarrow> (string, string) result" where
  "serializeResponse r config requestId headOnly =
     (if containsInvalidHeaderValueCharacter (extraConnectSrc config) then Error ''unsafe SISTER_EXTRA_CONNECT_SRC''
      else if \<not> list_all (\<lambda>(name, val). safeResponseHeader name val) (rsp_headers r) then Error ''unsafe response header''
      else Okay (concat (map (\<lambda>l. l @ CRLF) (response_lines r config requestId)) @ CRLF @
                 (if headOnly then [] else rsp_body r)))"

datatype send_result = Sent nat | SendInterrupted | SendFailed

text \<open>The result and the bytes that went out.\<close>

fun sendAll :: "send_result list \<Rightarrow> string \<Rightarrow> bool \<times> string" where
  "sendAll rs data =
     (if data = [] then (True, [])
      else case rs of
          [] \<Rightarrow> (False, [])
        | SendInterrupted # rs' \<Rightarrow> sendAll rs' data
        | SendFailed # rs' \<Rightarrow> (False, [])
        | Sent n # rs' \<Rightarrow>
            if n = 0 then (False, [])
            else let (ok, out) = sendAll rs' (drop n data) in (ok, take n data @ out))"

declare sendAll.simps [simp del]

definition sendResponse :: "send_result list \<Rightarrow> HttpResponse \<Rightarrow> ServerConfig \<Rightarrow> string \<Rightarrow> bool \<Rightarrow> string" where
  "sendResponse rs r config requestId headOnly =
     (case serializeResponse r config requestId headOnly of
        Error _ \<Rightarrow> []
      | Okay text \<Rightarrow> snd (sendAll rs text))"

section \<open>Logging\<close>

fun logSafe_loop :: "string \<Rightarrow> string \<Rightarrow> string" where
  "logSafe_loop result [] = result"
| "logSafe_loop result (c # s) =
     (if length result \<ge> 512 then result
      else if c = CR \<or> c = LF \<or> c = TAB then logSafe_loop (result @ '' '') s
      else if byte c \<ge> 32 \<and> byte c \<noteq> 127 then logSafe_loop (result @ [c]) s
      else logSafe_loop result s)"

definition logSafe :: "string \<Rightarrow> string" where
  "logSafe v = logSafe_loop [] v"

definition log_event_line ::
  "string \<Rightarrow> string \<Rightarrow> string \<Rightarrow> string \<Rightarrow> string \<Rightarrow> nat \<Rightarrow> nat \<Rightarrow> string \<Rightarrow> string" where
  "log_event_line level requestId peer method path status elapsed detail =
     ''level='' @ level @ '' request_id='' @ logSafe requestId @
     '' peer='' @ [QUOTE] @ logSafe peer @ [QUOTE] @ '' method='' @ [QUOTE] @ logSafe method @ [QUOTE] @ '' path='' @ [QUOTE] @ logSafe path @ [QUOTE] @
     '' status='' @ show_nat status @ '' duration_ms='' @ show_nat elapsed @
     (if detail = [] then [] else '' detail='' @ [QUOTE] @ logSafe detail @ [QUOTE] ) @ [LF]"

section \<open>Reading the response of a subsystem\<close>

definition rawHttpBody :: "string \<Rightarrow> string" where
  "rawHttpBody response =
     (case find_sub (CRLF @ CRLF) response of None \<Rightarrow> [] | Some separator \<Rightarrow> drop (separator + 4) response)"

definition statusFromRawHttpResponse :: "string \<Rightarrow> int" where
  "statusFromRawHttpResponse response =
     (case find_idx (\<lambda>c. c = CHR '' '') response of
        None \<Rightarrow> 502
      | Some firstSpace \<Rightarrow>
          if firstSpace + 4 > length response then 502
          else case from_chars (- (2 ^ 31)) (2 ^ 31 - 1) (take 3 (drop (firstSpace + 1) response)) of
              Some (status, []) \<Rightarrow> status
            | _ \<Rightarrow> 502)"

definition safeProxyHeaderValue :: "string \<Rightarrow> nat \<Rightarrow> (string, string) result" where
  "safeProxyHeaderValue v maximum =
     (if length v > maximum \<or> containsInvalidHeaderValueCharacter v \<or> CR \<in> set v \<or> LF \<in> set v
      then Error ''unsafe identity value for subsystem proxy'' else Okay v)"

section \<open>Sending\<close>

lemma sendAll_prefix: "sendAll rs data = (ok, out) \<Longrightarrow> \<exists>rest. data = out @ rest \<and> (ok \<longrightarrow> rest = [])"
proof (induction rs arbitrary: data ok out)
  case Nil
  then show ?case by (auto simp: sendAll.simps split: if_split_asm)
next
  case (Cons r rs)
  show ?case
  proof (cases "data = []")
    case True
    with Cons.prems show ?thesis by (simp add: sendAll.simps)
  next
    case False
    show ?thesis
    proof (cases r)
      case (Sent n)
      obtain ok' out' where s: "sendAll rs (drop n data) = (ok', out')" by fastforce
      from Cons.IH [OF this] obtain rest where "drop n data = out' @ rest" "ok' \<longrightarrow> rest = []" by blast
      moreover have "data = take n data @ drop n data" by simp
      ultimately show ?thesis
        using Cons.prems False Sent s by (auto simp: sendAll.simps [of "Sent n # rs"] split: if_split_asm)
    qed (use Cons False in \<open>auto simp: sendAll.simps [of "_ # rs"]\<close>)
  qed
qed

section \<open>Framing\<close>

lemma show_nat_three: "100 \<le> n \<Longrightarrow> n < 1000 \<Longrightarrow> length (show_nat n) = 3"
proof -
  assume n: "100 \<le> n" "n < 1000"
  have "show_nat n = show_nat (n div 10) @ [digit_char (n mod 10)]" using n by (simp add: show_nat.simps [of n])
  moreover have "show_nat (n div 10) = show_nat (n div 10 div 10) @ [digit_char (n div 10 mod 10)]"
    using n by (subst show_nat.simps) simp
  moreover have "n div 10 div 10 < 10" using n by simp
  then have "length (show_nat (n div 10 div 10)) = 1" by (subst show_nat.simps) simp
  ultimately show ?thesis by simp
qed

lemma concat_crlf: "concat (map (\<lambda>l. l @ CRLF) (l # ls)) @ CRLF @ t = crlf_lines l ls @ CRLF @ CRLF @ t"
  by (induction ls arbitrary: l) (simp_all add: CRLF_def)

lemma header_value_clean: "\<not> containsInvalidHeaderValueCharacter v \<Longrightarrow> CR \<notin> set v \<and> LF \<notin> set v"
  by (auto simp: containsInvalidHeaderValueCharacter_def list_ex_iff)

lemma show_nat_clean: "CR \<notin> set (show_nat n)" "LF \<notin> set (show_nat n)"
  using show_nat_digits [of CR n] show_nat_digits [of LF n] by (auto simp: isdigit_def)

text \<open>The parts that the code does not check come from constants and generated ids.\<close>

definition clean :: "string \<Rightarrow> bool" where
  "clean s \<longleftrightarrow> CR \<notin> set s \<and> LF \<notin> set s"

lemma response_lines_ok:
  assumes "clean (rsp_reason r)" "clean (rsp_contentType r)" "clean requestId"
    "\<not> containsInvalidHeaderValueCharacter (extraConnectSrc config)"
    "list_all (\<lambda>(name, val). safeResponseHeader name val) (rsp_headers r)"
  shows "list_all line_ok (response_lines r config requestId)"
proof -
  have "line_ok (n @ '': '' @ v)" if "(n, v) \<in> set (rsp_headers r)" for n v
    using assms(5) that header_value_clean [of v] by (auto simp: list_all_iff safeResponseHeader_def line_ok_def)
  moreover note header_value_clean [OF assms(4)]
  ultimately show ?thesis
    using assms(1-3) unfolding response_lines_def
    by (auto simp: line_ok_def clean_def show_nat_clean list_all_iff)
qed

section \<open>Properties\<close>

text \<open>C27: No header can move the boundary of a response: a client that looks for the first blank line
  finds the body exactly as it was given, and reads the status that was given, whatever values the
  headers of the response and the configuration hold.  (Reason, content type and request id are
  constants or generated and contain no line break.)\<close>

theorem response_framing:
  assumes "serializeResponse r config requestId False = Okay msg"
    and "clean (rsp_reason r)" and "clean (rsp_contentType r)" and "clean requestId"
    and "100 \<le> rsp_status r" and "rsp_status r < 1000"
  shows "rawHttpBody msg = rsp_body r \<and> statusFromRawHttpResponse msg = int (rsp_status r)"
proof
  have safe: "\<not> containsInvalidHeaderValueCharacter (extraConnectSrc config)"
    "list_all (\<lambda>(name, val). safeResponseHeader name val) (rsp_headers r)"
    and t: "msg = concat (map (\<lambda>l. l @ CRLF) (response_lines r config requestId)) @ CRLF @ rsp_body r"
    using assms(1) by (auto simp: serializeResponse_def split: if_split_asm)
  let ?first = "''HTTP/1.1 '' @ show_nat (rsp_status r) @ '' '' @ rsp_reason r"
  obtain ls where ls: "response_lines r config requestId = ?first # ls" by (simp add: response_lines_def)
  have "list_all line_ok (?first # ls)" using response_lines_ok [OF assms(2-4) safe] unfolding ls .
  then have ok: "line_ok ?first" "list_all line_ok ls" by simp_all
  have text_eq: "msg = crlf_lines ?first ls @ CRLF @ CRLF @ rsp_body r" unfolding t ls concat_crlf ..
  have "find_sub (CRLF @ CRLF) msg = Some (length (crlf_lines ?first ls))"
    unfolding text_eq by (rule blank_line_found [OF ok])
  then show "rawHttpBody msg = rsp_body r" by (simp add: rawHttpBody_def text_eq CRLF_def)
  obtain rest where rest: "msg = ''HTTP/1.1'' @ '' '' @ show_nat (rsp_status r) @ rest"
    unfolding text_eq by (cases ls) simp_all
  have len: "length (show_nat (rsp_status r)) = 3" using show_nat_three assms(5,6) by blast
  have "find_idx (\<lambda>c. c = CHR '' '') msg = Some 8" by (simp add: rest)
  moreover have "take 3 (drop 9 msg) = show_nat (rsp_status r)" using len by (simp add: rest)
  moreover have "from_chars (- (2 ^ 31)) (2 ^ 31 - 1) (show_nat (rsp_status r)) = Some (int (rsp_status r), [])"
    using from_chars_show_nat [of "rsp_status r" "2 ^ 31 - 1" "- (2 ^ 31)" "[]"] assms(6) by simp
  ultimately show "statusFromRawHttpResponse msg = int (rsp_status r)"
    using len by (simp add: statusFromRawHttpResponse_def rest)
qed

definition sample_response :: HttpResponse where
  "sample_response = jsonError 403 ''Forbidden'' ''no''"

theorem response_framing_witness:
  "\<exists>msg. serializeResponse sample_response default_config ''ab12'' False = Okay msg \<and>
     statusFromRawHttpResponse msg = 403"
proof -
  have "is_okay (serializeResponse sample_response default_config ''ab12'' False)" by code_simp
  then obtain msg where t: "serializeResponse sample_response default_config ''ab12'' False = Okay msg"
    by (auto simp: is_okay_iff)
  from response_framing [OF this] t show ?thesis
    by (simp add: sample_response_def jsonError_def clean_def json_type_def)
qed

end
