(* ===== verification/Database.thy ===== *)
theory Database
  imports Decimal
begin

text \<open>
  The database connection of the daemon (\<open>apps/sisterd/db.cpp\<close>) and the SQL statements it
  sends, on the tables of \<open>storage/migrations\<close>.  A statement either fails as a whole and
  changes nothing or yields rows and a new database; the keys, references and checks of the
  tables are part of its meaning.  libpq appears as the status of the connection
  (\<open>Link\<close>: as it is found, after a reset, of a new one) and as the readiness of the server
  to execute the statement at all; \<open>Postgres\<close> holds what the server supplies: its clock, the
  test of a \<open>jsonb\<close> input and the text of a \<open>jsonb\<close> object.
\<close>

section \<open>Tables\<close>

record Offer =
  offer_id :: string
  off_verified :: bool
  off_status :: string

record Requirement =
  requirement_id :: string
  req_verified :: bool
  req_status :: string

text \<open>The member \<open>approval\<close> of the \<open>contract\<close> column.\<close>

record Approval =
  apr_status :: string
  apr_responsible :: string
  apr_authority :: string
  apr_rationale :: string
  apr_decided_at :: string

record Definition =
  def_id :: string
  def_version :: string
  def_offer :: string
  def_requirement :: string
  def_verified :: bool
  approval_status :: string
  approved_by :: "string option"
  approved_at :: "string option"
  def_approval :: "Approval option"

record Execution =
  exe_id :: string
  exe_integration :: string
  exe_version :: string
  exe_status :: string
  exe_digest :: string
  exe_json :: string
  exe_started :: string
  exe_finished :: "string option"

record Assessment =
  ass_id :: string
  ass_integration :: string
  ass_version :: string
  ass_execution :: string
  ass_result :: string
  ass_action :: string
  ass_human :: bool
  ass_json :: string
  ass_at :: string

record DecisionRow =
  dec_id :: string
  dec_integration :: string
  dec_version :: string
  dec_decision :: string
  dec_by :: string
  dec_authority :: string
  dec_rationale :: string
  dec_at :: string

record ParticipationRow =
  prt_id :: string
  prt_system :: string
  prt_version :: string
  prt_digest :: string
  prt_state :: string
  prt_contract :: string
  prt_by :: string
  prt_source :: string
  prt_commit :: "string option"
  prt_created :: string

record ParticipationAssessment =
  pas_id :: string
  pas_participation :: string
  pas_digest :: string
  pas_commit :: string
  pas_result :: string
  pas_gate :: string
  pas_json :: string
  pas_created :: string

record Database =
  offers :: "Offer list"
  requirements :: "Requirement list"
  definitions :: "Definition list"
  executions :: "Execution list"
  assessments :: "Assessment list"
  decisions :: "DecisionRow list"
  systems :: "string list"
  participations :: "ParticipationRow list"
  participation_assessments :: "ParticipationAssessment list"

section \<open>The connection\<close>

record Link =
  link_now :: bool
  link_reset :: bool
  link_fresh :: bool
  server_ok :: bool

record Postgres =
  pg_now :: string
  pg_epoch :: string
  jsonb_ok :: "string \<Rightarrow> bool"
  jsonb_text :: "(string \<times> string) list \<Rightarrow> string"
  participation_text :: "ParticipationRow \<Rightarrow> string"
  assessment_text :: "ParticipationAssessment \<Rightarrow> string"
  assessments_text :: "ParticipationAssessment list \<Rightarrow> string"
  operational_base :: "Database \<Rightarrow> string"

record DbConn =
  db_url :: string
  conn :: bool

type_synonym DbState = "DbConn \<times> Database"

definition connect :: "Link \<Rightarrow> DbConn \<Rightarrow> DbConn" where
  "connect l c = c\<lparr>conn := link_fresh l\<rparr>"

definition disconnect :: "DbConn \<Rightarrow> DbConn" where
  "disconnect c = c\<lparr>conn := False\<rparr>"

definition DbConn_new :: "Link \<Rightarrow> string \<Rightarrow> DbConn" where
  "DbConn_new l url = connect l \<lparr>db_url = url, conn = False\<rparr>"

definition connected :: "Link \<Rightarrow> DbConn \<Rightarrow> bool" where
  "connected l c \<longleftrightarrow> conn c \<and> link_now l"

definition ensureConnected :: "Link \<Rightarrow> DbConn \<Rightarrow> bool \<times> DbConn" where
  "ensureConnected l c =
     (if connected l c then (True, c)
      else if conn c \<and> link_reset l then (True, c)
      else let c = connect l (if conn c then disconnect c else c) in (conn c, c))"

type_synonym json_text = string

text \<open>A statement: the values of its single column, row by row, and the new database.\<close>

type_synonym statement = "Database \<Rightarrow> (string list \<times> Database) option"

definition PQexecParams :: "Link \<Rightarrow> statement \<Rightarrow> Database \<Rightarrow> string list option \<times> Database" where
  "PQexecParams l stmt db =
     (if \<not> server_ok l then (None, db)
      else case stmt db of None \<Rightarrow> (None, db) | Some (rows, db') \<Rightarrow> (Some rows, db'))"

text \<open>The shape of the methods whose statement has to yield exactly one row.\<close>

definition one_row :: "Link \<Rightarrow> statement \<Rightarrow> DbState \<Rightarrow> string option \<times> DbState" where
  "one_row l stmt s =
     (case ensureConnected l (fst s) of
        (False, c) \<Rightarrow> (None, (c, snd s))
      | (True, c) \<Rightarrow>
          (case PQexecParams l stmt (snd s) of
             (None, db) \<Rightarrow> (None, (c, db))
           | (Some rows, db) \<Rightarrow> (if length rows \<noteq> 1 then None else Some (hd rows), (c, db))))"

definition json_array :: "string list \<Rightarrow> string" where
  "json_array rows = ''['' @ concat (case rows of [] \<Rightarrow> [] | r # rs \<Rightarrow> r # map (\<lambda>r. '','' @ r) rs) @ '']''"

text \<open>The four listings read tables that this program never writes: \<open>rows\<close> is what they hold.\<close>

definition execJsonArray :: "Link \<Rightarrow> string list \<Rightarrow> DbState \<Rightarrow> string option \<times> DbState" where
  "execJsonArray l rows s =
     (case ensureConnected l (fst s) of
        (False, c) \<Rightarrow> (None, (c, snd s))
      | (True, c) \<Rightarrow> (if server_ok l then Some (json_array rows) else None, (c, snd s)))"

definition queryOperationalBase :: "Postgres \<Rightarrow> Link \<Rightarrow> DbState \<Rightarrow> string option \<times> DbState" where
  "queryOperationalBase pg l s = one_row l (\<lambda>db. Some ([operational_base pg db], db)) s"

section \<open>Integrations\<close>

text \<open>The join of \<open>integrationApproved\<close> and of the \<open>approved\<close> part of
  \<open>recordIntegrationExecution\<close>.\<close>

definition approved_join :: "string \<Rightarrow> string \<Rightarrow> Database \<Rightarrow> Definition list" where
  "approved_join i v db =
     [d. d \<leftarrow> definitions db, o' \<leftarrow> offers db, offer_id o' = def_offer d,
         r \<leftarrow> requirements db, requirement_id r = def_requirement d,
         def_id d = i \<and> def_version d = v \<and> approval_status d = ''approved'' \<and> def_verified d \<and>
         off_verified o' \<and> req_verified r]"

definition integrationApproved :: "Link \<Rightarrow> string \<Rightarrow> string \<Rightarrow> DbState \<Rightarrow> bool \<times> DbState" where
  "integrationApproved l integrationId version s =
     (case ensureConnected l (fst s) of
        (False, c) \<Rightarrow> (False, (c, snd s))
      | (True, c) \<Rightarrow>
          (case PQexecParams l (\<lambda>db. Some ([if approved_join (c_str integrationId) (c_str version) db \<noteq> []
               then ''t'' else ''f''], db)) (snd s) of
             (None, db) \<Rightarrow> (False, (c, db))
           | (Some rows, db) \<Rightarrow> (length rows = 1 \<and> hd rows = ''t'', (c, db))))"

definition decision_key :: "Postgres \<Rightarrow> string \<Rightarrow> string \<Rightarrow> string" where
  "decision_key pg i v = ''decision-'' @ i @ ''-'' @ v @ ''-'' @ pg_epoch pg"

definition decide_offer :: "string \<Rightarrow> Definition \<Rightarrow> Offer \<Rightarrow> Offer" where
  "decide_offer decision t o' =
     (if offer_id o' = def_offer t \<and> decision = ''approved''
      then o'\<lparr>off_verified := True, off_status := ''active''\<rparr> else o')"

definition decide_requirement :: "string \<Rightarrow> Definition \<Rightarrow> Requirement \<Rightarrow> Requirement" where
  "decide_requirement decision t r =
     (if requirement_id r = def_requirement t \<and> decision = ''approved''
      then r\<lparr>req_verified := True, req_status := ''satisfied''\<rparr> else r)"

definition decide_definition ::
  "Postgres \<Rightarrow> string \<Rightarrow> string \<Rightarrow> string \<Rightarrow> string \<Rightarrow> string \<Rightarrow> Definition \<Rightarrow> Definition" where
  "decide_definition pg i v decision decidedBy rationale d =
     (if def_id d = i \<and> def_version d = v
      then d\<lparr>approval_status := decision,
             def_verified := (if decision = ''approved'' then True else def_verified d),
             approved_by := Some decidedBy,
             approved_at := Some (pg_now pg),
             def_approval := Some \<lparr>apr_status = decision, apr_responsible = decidedBy,
               apr_authority = ''integration.approve'', apr_rationale = rationale, apr_decided_at = pg_now pg\<rparr>\<rparr>
      else d)"

definition decide_stmt ::
  "Postgres \<Rightarrow> string \<Rightarrow> string \<Rightarrow> string \<Rightarrow> string \<Rightarrow> string \<Rightarrow> statement" where
  "decide_stmt pg i v decision decidedBy rationale db =
     (case find (\<lambda>d. def_id d = i \<and> def_version d = v) (definitions db) of
        None \<Rightarrow> Some ([], db)
      | Some t \<Rightarrow>
          if list_ex (\<lambda>d. dec_id d = decision_key pg i v) (decisions db) then None
          else Some
            ([jsonb_text pg [(''integration_id'', i), (''version'', v), (''decision'', decision),
                (''decided_by'', decidedBy), (''decided_at'', pg_now pg),
                (''decision_id'', decision_key pg i v)]],
             db\<lparr>offers := map (decide_offer decision t) (offers db),
                requirements := map (decide_requirement decision t) (requirements db),
                definitions := map (decide_definition pg i v decision decidedBy rationale) (definitions db),
                decisions := decisions db @
                  [\<lparr>dec_id = decision_key pg i v, dec_integration = i, dec_version = v,
                    dec_decision = decision, dec_by = decidedBy, dec_authority = ''integration.approve'',
                    dec_rationale = rationale, dec_at = pg_now pg\<rparr>]\<rparr>))"

definition decideIntegration ::
  "Postgres \<Rightarrow> Link \<Rightarrow> string \<Rightarrow> string \<Rightarrow> string \<Rightarrow> string \<Rightarrow> string \<Rightarrow> DbState \<Rightarrow> string option \<times> DbState" where
  "decideIntegration pg l integrationId version decision decidedBy rationale s =
     (if decision \<noteq> ''approved'' \<and> decision \<noteq> ''rejected''
      then (None, (snd (ensureConnected l (fst s)), snd s))
      else one_row l (decide_stmt pg (c_str integrationId) (c_str version) (c_str decision)
             (c_str decidedBy) (c_str rationale)) s)"

text \<open>\<open>contract_digest ~ '^sha256:[a-f0-9]{64}$'\<close>\<close>

definition digest_ok :: "string \<Rightarrow> bool" where
  "digest_ok d \<longleftrightarrow> take 7 d = ''sha256:'' \<and> length d = 71 \<and>
     list_all (\<lambda>c. isdigit c \<or> (97 \<le> byte c \<and> byte c \<le> 102)) (drop 7 d)"

definition new_execution ::
  "Postgres \<Rightarrow> string \<Rightarrow> string \<Rightarrow> string \<Rightarrow> string \<Rightarrow> string \<Rightarrow> string \<Rightarrow> Execution" where
  "new_execution pg i v executionId status digest json =
     \<lparr>exe_id = executionId, exe_integration = i, exe_version = v, exe_status = status,
      exe_digest = digest, exe_json = json, exe_started = pg_now pg,
      exe_finished = (if status \<in> {''completed'', ''failed'', ''cancelled''} then Some (pg_now pg) else None)\<rparr>"

definition new_assessment ::
  "Postgres \<Rightarrow> string \<Rightarrow> string \<Rightarrow> string \<Rightarrow> string \<Rightarrow> string \<Rightarrow> string \<Rightarrow> bool \<Rightarrow> string \<Rightarrow> Assessment" where
  "new_assessment pg i v executionId assessmentId res action human json =
     \<lparr>ass_id = assessmentId, ass_integration = i, ass_version = v, ass_execution = executionId,
      ass_result = res, ass_action = action, ass_human = human, ass_json = json, ass_at = pg_now pg\<rparr>"

definition record_stmt ::
  "Postgres \<Rightarrow> string \<Rightarrow> string \<Rightarrow> string \<Rightarrow> string \<Rightarrow> string \<Rightarrow> json_text \<Rightarrow> string \<Rightarrow> string \<Rightarrow> string \<Rightarrow> bool \<Rightarrow> string \<Rightarrow>
     statement" where
  "record_stmt pg i v executionId status digest executionJson assessmentId res action human assessmentJson db =
     (if \<not> jsonb_ok pg executionJson \<or> \<not> jsonb_ok pg assessmentJson then None
      else case approved_join i v db of
          [] \<Rightarrow> Some ([], db)
        | [d] \<Rightarrow>
            if list_ex (\<lambda>e. exe_id e = executionId) (executions db) \<or>
               status \<notin> {''running'', ''completed'', ''failed'', ''cancelled''} \<or> \<not> digest_ok digest \<or>
               list_ex (\<lambda>a. ass_id a = assessmentId) (assessments db) \<or>
               res \<notin> {''confirmed'', ''divergent'', ''inconclusive''}
            then None
            else Some
              ([jsonb_text pg [(''execution_id'', executionId), (''integration_id'', i), (''version'', v),
                  (''status'', status), (''assessment_id'', assessmentId), (''assessment_result'', res),
                  (''recommendation_action'', action)]],
               db\<lparr>executions := executions db @ [new_execution pg i v executionId status digest executionJson],
                  assessments := assessments db @
                    [new_assessment pg i v executionId assessmentId res action human assessmentJson]\<rparr>)
        | _ \<Rightarrow> None)"

definition recordIntegrationExecution ::
  "Postgres \<Rightarrow> Link \<Rightarrow> string \<Rightarrow> string \<Rightarrow> string \<Rightarrow> string \<Rightarrow> string \<Rightarrow> json_text \<Rightarrow> string \<Rightarrow> string \<Rightarrow> string \<Rightarrow> bool \<Rightarrow>
     json_text \<Rightarrow> DbState \<Rightarrow> string option \<times> DbState" where
  "recordIntegrationExecution pg l i v executionId status digest executionJson assessmentId res action human assessmentJson s =
     one_row l (record_stmt pg (c_str i) (c_str v) (c_str executionId) (c_str status) (c_str digest)
       (c_str executionJson) (c_str assessmentId) (c_str res) (c_str action) human (c_str assessmentJson)) s"

section \<open>Participations\<close>

record ParticipationProposal =
  pp_participation_id :: string
  pp_participant_system_id :: string
  pp_contract_version :: string
  pp_contract_digest :: string
  pp_contract_json :: string
  pp_proposed_by :: string
  pp_authentication_source :: string
  pp_source_commit :: string

definition participation_row :: "Postgres \<Rightarrow> ParticipationProposal \<Rightarrow> ParticipationRow" where
  "participation_row pg p =
     \<lparr>prt_id = c_str (pp_participation_id p), prt_system = c_str (pp_participant_system_id p),
      prt_version = c_str (pp_contract_version p), prt_digest = c_str (pp_contract_digest p),
      prt_state = ''proposed'', prt_contract = c_str (pp_contract_json p),
      prt_by = c_str (pp_proposed_by p), prt_source = c_str (pp_authentication_source p),
      prt_commit = (if pp_source_commit p = [] then None else Some (c_str (pp_source_commit p))),
      prt_created = pg_now pg\<rparr>"

definition register_stmt :: "Postgres \<Rightarrow> ParticipationProposal \<Rightarrow> statement" where
  "register_stmt pg p db =
     (if \<not> jsonb_ok pg (c_str (pp_contract_json p)) \<or>
         list_ex (\<lambda>r. prt_id r = c_str (pp_participation_id p)) (participations db) \<or>
         c_str (pp_participant_system_id p) \<notin> set (systems db)
      then None
      else Some ([participation_text pg (participation_row pg p)],
                 db\<lparr>participations := participations db @ [participation_row pg p]\<rparr>))"

definition registerParticipationProposal ::
  "Postgres \<Rightarrow> Link \<Rightarrow> ParticipationProposal \<Rightarrow> DbState \<Rightarrow> string option \<times> DbState" where
  "registerParticipationProposal pg l p s = one_row l (register_stmt pg p) s"

definition queryParticipation :: "Postgres \<Rightarrow> Link \<Rightarrow> string \<Rightarrow> DbState \<Rightarrow> string option \<times> DbState" where
  "queryParticipation pg l participationId s =
     (case ensureConnected l (fst s) of
        (False, c) \<Rightarrow> (None, (c, snd s))
      | (True, c) \<Rightarrow>
          (case PQexecParams l (\<lambda>db. Some (map (participation_text pg)
               (filter (\<lambda>r. prt_id r = c_str participationId) (participations db)), db)) (snd s) of
             (None, db) \<Rightarrow> (None, (c, db))
           | (Some [], db) \<Rightarrow> (Some [], (c, db))
           | (Some (r # _), db) \<Rightarrow> (Some r, (c, db))))"

definition assessment_row ::
  "Postgres \<Rightarrow> string \<Rightarrow> string \<Rightarrow> string \<Rightarrow> string \<Rightarrow> string \<Rightarrow> ParticipationAssessment" where
  "assessment_row pg assessmentId participationId digest commit json =
     \<lparr>pas_id = assessmentId, pas_participation = participationId, pas_digest = digest,
      pas_commit = commit, pas_result = ''PASS'', pas_gate = ''none'', pas_json = json,
      pas_created = pg_now pg\<rparr>"

definition assess_stmt :: "Postgres \<Rightarrow> string \<Rightarrow> string \<Rightarrow> string \<Rightarrow> string \<Rightarrow> string \<Rightarrow> statement" where
  "assess_stmt pg assessmentId participationId digest commit json db =
     (if \<not> jsonb_ok pg json \<or> list_ex (\<lambda>a. pas_id a = assessmentId) (participation_assessments db) \<or>
         \<not> list_ex (\<lambda>r. prt_id r = participationId) (participations db)
      then None
      else Some ([assessment_text pg (assessment_row pg assessmentId participationId digest commit json)],
                 db\<lparr>participation_assessments := participation_assessments db @
                      [assessment_row pg assessmentId participationId digest commit json]\<rparr>))"

definition registerParticipationAssessment ::
  "Postgres \<Rightarrow> Link \<Rightarrow> string \<Rightarrow> string \<Rightarrow> string \<Rightarrow> string \<Rightarrow> string \<Rightarrow> DbState \<Rightarrow> string option \<times> DbState" where
  "registerParticipationAssessment pg l assessmentId participationId digest commit json s =
     one_row l (assess_stmt pg (c_str assessmentId) (c_str participationId) (c_str digest) (c_str commit)
       (c_str json)) s"

definition queryParticipationAssessments :: "Postgres \<Rightarrow> Link \<Rightarrow> string \<Rightarrow> DbState \<Rightarrow> string option \<times> DbState" where
  "queryParticipationAssessments pg l participationId s =
     one_row l (\<lambda>db. Some ([assessments_text pg (filter (\<lambda>a. pas_participation a = c_str participationId)
       (participation_assessments db))], db)) s"

end
