(* ===== verification/Database_Properties.thy ===== *)
theory Database_Properties
  imports Database
begin

text \<open>
  What the statements of \<open>apps/sisterd/db.cpp\<close> guarantee about the operational base: the
  decisions are an audit trail, the status of every integration is that of its latest decision,
  and an execution is recorded only while that decision is an approval.
\<close>

section \<open>Steps\<close>

inductive db_step :: "DbState \<Rightarrow> DbState \<Rightarrow> bool" where
  decides: "decideIntegration pg l i v d b r s = (res, t) \<Longrightarrow> db_step s t"
| records: "recordIntegrationExecution pg l i v e st dg ej a rs ac h aj s = (res, t) \<Longrightarrow> db_step s t"
| registers: "registerParticipationProposal pg l p s = (res, t) \<Longrightarrow> db_step s t"
| assesses: "registerParticipationAssessment pg l a p dg c j s = (res, t) \<Longrightarrow> db_step s t"
| asks: "integrationApproved l i v s = (ok, t) \<Longrightarrow> db_step s t"
| looks_up: "queryParticipation pg l p s = (res, t) \<Longrightarrow> db_step s t"
| lists: "execJsonArray l rows s = (res, t) \<Longrightarrow> db_step s t"
| reports: "queryOperationalBase pg l s = (res, t) \<Longrightarrow> db_step s t"
| reviews: "queryParticipationAssessments pg l p s = (res, t) \<Longrightarrow> db_step s t"

lemma one_row_cases:
  assumes "one_row l stmt s = (res, t)"
  obtains "snd t = snd s" "res = None"
  | rows where "stmt (snd s) = Some (rows, snd t)" "res = (if length rows \<noteq> 1 then None else Some (hd rows))"
  using assms
  by (auto simp: one_row_def PQexecParams_def split: prod.split_asm bool.split_asm option.split_asm if_split_asm)

lemma integrationApproved_cases:
  assumes "integrationApproved l i v s = (ok, t)"
  shows "snd t = snd s" and "ok \<Longrightarrow> approved_join (c_str i) (c_str v) (snd s) \<noteq> []"
  using assms
  by (auto simp: integrationApproved_def PQexecParams_def split: prod.split_asm bool.split_asm option.split_asm if_split_asm)

lemma queryParticipation_frame: "queryParticipation pg l p s = (res, t) \<Longrightarrow> snd t = snd s"
  by (auto simp: queryParticipation_def PQexecParams_def
      split: prod.split_asm bool.split_asm option.split_asm if_split_asm list.split_asm)

lemma listing_frame:
  "execJsonArray l rows s = (res, t) \<Longrightarrow> snd t = snd s"
  "queryOperationalBase pg l s = (res, t) \<Longrightarrow> snd t = snd s"
  "queryParticipationAssessments pg l p s = (res, t) \<Longrightarrow> snd t = snd s"
  by (auto simp: execJsonArray_def queryOperationalBase_def queryParticipationAssessments_def
      split: prod.split_asm bool.split_asm elim!: one_row_cases)

lemmas reading_frame = integrationApproved_cases(1) queryParticipation_frame listing_frame

section \<open>The audit trail\<close>

text \<open>The decisions about an integration, oldest first, and whether the latest is an approval.\<close>

definition decisions_of :: "string \<Rightarrow> string \<Rightarrow> Database \<Rightarrow> DecisionRow list" where
  "decisions_of i v db = filter (\<lambda>d. dec_integration d = i \<and> dec_version d = v) (decisions db)"

definition in_force :: "string \<Rightarrow> string \<Rightarrow> Database \<Rightarrow> bool" where
  "in_force i v db \<longleftrightarrow>
     decisions_of i v db \<noteq> [] \<and> dec_decision (last (decisions_of i v db)) = ''approved''"

definition definition_ok :: "Database \<Rightarrow> Definition \<Rightarrow> bool" where
  "definition_ok db d \<longleftrightarrow>
     (approval_status d = ''approved'' \<longleftrightarrow> in_force (def_id d) (def_version d) db) \<and>
     (approval_status d = ''approved'' \<longrightarrow> def_verified d \<and>
        (\<forall>o' \<in> set (offers db). offer_id o' = def_offer d \<longrightarrow> off_verified o') \<and>
        (\<forall>r \<in> set (requirements db). requirement_id r = def_requirement d \<longrightarrow> req_verified r)) \<and>
     def_offer d \<in> offer_id ` set (offers db) \<and> def_requirement d \<in> requirement_id ` set (requirements db)"

definition audit :: "Database \<Rightarrow> bool" where
  "audit db \<longleftrightarrow>
     (\<forall>d \<in> set (definitions db). definition_ok db d) \<and>
     distinct (map (\<lambda>d. (def_id d, def_version d)) (definitions db)) \<and>
     distinct (map offer_id (offers db)) \<and> distinct (map requirement_id (requirements db)) \<and>
     distinct (map dec_id (decisions db)) \<and> distinct (map exe_id (executions db)) \<and>
     (\<forall>e \<in> set (executions db). \<exists>d \<in> set (decisions db). dec_integration d = exe_integration e \<and>
        dec_version d = exe_version e \<and> dec_decision d = ''approved'') \<and>
     (\<forall>a \<in> set (assessments db). ass_execution a \<in> exe_id ` set (executions db))"

text \<open>A database after the migrations: drafts only, nothing decided, nothing executed.\<close>

definition fresh_base :: "Database \<Rightarrow> bool" where
  "fresh_base db \<longleftrightarrow>
     list_all (\<lambda>d. approval_status d \<noteq> ''approved'' \<and> def_offer d \<in> offer_id ` set (offers db) \<and>
       def_requirement d \<in> requirement_id ` set (requirements db)) (definitions db) \<and>
     distinct (map (\<lambda>d. (def_id d, def_version d)) (definitions db)) \<and>
     distinct (map offer_id (offers db)) \<and> distinct (map requirement_id (requirements db)) \<and>
     decisions db = [] \<and> executions db = [] \<and> assessments db = []"

lemma fresh_base_audit: "fresh_base db \<Longrightarrow> audit db"
  by (auto simp: fresh_base_def audit_def definition_ok_def in_force_def decisions_of_def list_all_iff)

lemma approved_join_in_force:
  assumes "audit db" and "approved_join i v db \<noteq> []"
  shows "in_force i v db"
  using assms unfolding approved_join_def audit_def definition_ok_def by (fastforce split: if_split_asm)

lemma last_decision_mem: "in_force i v db \<Longrightarrow> \<exists>d \<in> set (decisions db). dec_integration d = i \<and> dec_version d = v \<and> dec_decision d = ''approved''"
  using last_in_set [of "decisions_of i v db"] by (auto simp: in_force_def decisions_of_def)

section \<open>Preservation\<close>

lemma record_stmt_cases:
  assumes "record_stmt pg i v e st dg ej a rs ac h aj db = Some (rows, db')"
  obtains "rows = []" "db' = db"
  | "approved_join i v db \<noteq> []" "e \<notin> exe_id ` set (executions db)" "length rows = 1"
    "db' = db\<lparr>executions := executions db @ [new_execution pg i v e st dg ej],
       assessments := assessments db @ [new_assessment pg i v e a rs ac h aj]\<rparr>"
proof (cases "approved_join i v db")
  case Nil
  with assms that(1) show thesis by (simp add: record_stmt_def split: if_split_asm)
next
  case (Cons d ds)
  then have "e \<notin> exe_id ` set (executions db) \<and> length rows = 1 \<and>
      db' = db\<lparr>executions := executions db @ [new_execution pg i v e st dg ej],
        assessments := assessments db @ [new_assessment pg i v e a rs ac h aj]\<rparr>"
    using assms by (cases ds) (auto simp: record_stmt_def list_ex_iff split: if_split_asm)
  with Cons that(2) show thesis by simp
qed

lemma decide_keys [simp]:
  "def_id (decide_definition pg i v d b r x) = def_id x"
  "def_version (decide_definition pg i v d b r x) = def_version x"
  "def_offer (decide_definition pg i v d b r x) = def_offer x"
  "def_requirement (decide_definition pg i v d b r x) = def_requirement x"
  "offer_id (decide_offer d t y) = offer_id y"
  "requirement_id (decide_requirement d t z) = requirement_id z"
  by (simp_all add: decide_definition_def decide_offer_def decide_requirement_def)

lemma decide_verified [simp]:
  "off_verified (decide_offer d t y) \<longleftrightarrow> off_verified y \<or> offer_id y = def_offer t \<and> d = ''approved''"
  "req_verified (decide_requirement d t z) \<longleftrightarrow>
     req_verified z \<or> requirement_id z = def_requirement t \<and> d = ''approved''"
  by (auto simp: decide_offer_def decide_requirement_def)

lemma map_keys [simp]:
  "map ((\<lambda>x. (def_id x, def_version x)) \<circ> decide_definition pg i v d b r) = map (\<lambda>x. (def_id x, def_version x))"
  "map (offer_id \<circ> decide_offer d t) = map offer_id"
  "map (requirement_id \<circ> decide_requirement d t) = map requirement_id"
  by (simp_all add: fun_eq_iff)

lemma decide_stmt_cases:
  assumes "decide_stmt pg i v d b r db = Some (rows, db')"
  obtains "rows = []" "db' = db"
  | t where "t \<in> set (definitions db)" "def_id t = i" "def_version t = v" "length rows = 1"
    "decision_key pg i v \<notin> dec_id ` set (decisions db)"
    "offers db' = map (decide_offer d t) (offers db)"
    "requirements db' = map (decide_requirement d t) (requirements db)"
    "definitions db' = map (decide_definition pg i v d b r) (definitions db)"
    "executions db' = executions db" "assessments db' = assessments db" "participations db' = participations db"
    "decisions db' = decisions db @ [\<lparr>dec_id = decision_key pg i v, dec_integration = i, dec_version = v,
       dec_decision = d, dec_by = b, dec_authority = ''integration.approve'', dec_rationale = r, dec_at = pg_now pg\<rparr>]"
proof (cases "find (\<lambda>d. def_id d = i \<and> def_version d = v) (definitions db)")
  case None
  with assms that(1) show thesis by (simp add: decide_stmt_def)
next
  case (Some t)
  then have t: "t \<in> set (definitions db)" "def_id t = i" "def_version t = v"
    by (auto simp: find_Some_iff)
  show thesis by (rule that(2) [OF t]) (use assms Some in \<open>auto simp: decide_stmt_def list_ex_iff split: if_split_asm\<close>)
qed

lemma definition_ok_decided:
  assumes ok: "definition_ok db x" and x: "x \<in> set (definitions db)"
    and t: "t \<in> set (definitions db)" "def_id t = i" "def_version t = v"
    and dist: "distinct (map (\<lambda>d. (def_id d, def_version d)) (definitions db))"
    and db': "offers db' = map (decide_offer d t) (offers db)"
      "requirements db' = map (decide_requirement d t) (requirements db)"
      "decisions db' = decisions db @ [k]" "dec_integration k = i" "dec_version k = v" "dec_decision k = d"
  shows "definition_ok db' (decide_definition pg i v d b r x)"
proof (cases "def_id x = i \<and> def_version x = v")
  case True
  then have "x = t" using x t dist by (auto simp: distinct_map inj_on_def)
  then show ?thesis using ok True
    by (auto simp: definition_ok_def in_force_def decisions_of_def db' image_image)
       (auto simp: decide_definition_def)
next
  case False
  then have "decide_definition pg i v d b r x = x" unfolding decide_definition_def by (rule if_not_P)
  moreover have "in_force (def_id x) (def_version x) db' = in_force (def_id x) (def_version x) db"
    using False by (auto simp: in_force_def decisions_of_def db')
  ultimately show ?thesis using ok
    by (auto simp: definition_ok_def db' image_image)
qed

lemma decide_audit:
  assumes "audit db" and "decide_stmt pg i v d b r db = Some (rows, db')"
  shows "audit db'"
  using assms(2)
proof (cases rule: decide_stmt_cases)
  case 1
  with assms(1) show ?thesis by simp
next
  case (2 t)
  have "definition_ok db' (decide_definition pg i v d b r x)" if "x \<in> set (definitions db)" for x
    using definition_ok_decided [OF _ that 2(1-3) _ 2(6,7,12)] assms(1) that by (simp add: audit_def)
  then show ?thesis using assms(1) 2 by (auto simp: audit_def)
qed

lemma record_audit:
  assumes "audit db" and "record_stmt pg i v e st dg ej a rs ac h aj db = Some (rows, db')"
  shows "audit db'"
  using assms(2)
proof (cases rule: record_stmt_cases)
  case 1
  with assms(1) show ?thesis by simp
next
  case 2
  have "\<exists>d \<in> set (decisions db). dec_integration d = i \<and> dec_version d = v \<and> dec_decision d = ''approved''"
    using approved_join_in_force [OF assms(1) 2(1)] by (rule last_decision_mem)
  with assms(1) 2 show ?thesis
    by (simp add: audit_def definition_ok_def in_force_def decisions_of_def new_execution_def new_assessment_def)
qed

lemma audit_frame:
  "audit (db\<lparr>participations := ps\<rparr>) = audit db" "audit (db\<lparr>participation_assessments := as\<rparr>) = audit db"
  by (simp_all add: audit_def definition_ok_def in_force_def decisions_of_def)

lemma register_stmt_cases:
  assumes "register_stmt pg p db = Some (rows, db')"
  obtains "rows = [participation_text pg (participation_row pg p)]"
    "db' = db\<lparr>participations := participations db @ [participation_row pg p]\<rparr>"
    "c_str (pp_participation_id p) \<notin> prt_id ` set (participations db)"
  using assms by (fastforce simp: register_stmt_def list_ex_iff split: if_split_asm)

lemma assess_stmt_cases:
  assumes "assess_stmt pg a p d c j db = Some (rows, db')"
  obtains "rows = [assessment_text pg (assessment_row pg a p d c j)]"
    "db' = db\<lparr>participation_assessments := participation_assessments db @ [assessment_row pg a p d c j]\<rparr>"
  using assms by (auto simp: assess_stmt_def split: if_split_asm)

lemma db_step_audit: "audit (snd s) \<Longrightarrow> db_step s t \<Longrightarrow> audit (snd t)"
proof (erule db_step.cases)
  fix pg l i v d b r s' res t'
  assume "audit (snd s)" "s = s'" "t = t'" "decideIntegration pg l i v d b r s' = (res, t')"
  then show "audit (snd t)"
    by (auto simp: decideIntegration_def split: if_split_asm elim!: one_row_cases dest: decide_audit)
next
  fix pg l i v e st dg ej a rs ac h aj s' res t'
  assume "audit (snd s)" "s = s'" "t = t'" "recordIntegrationExecution pg l i v e st dg ej a rs ac h aj s' = (res, t')"
  then show "audit (snd t)"
    by (auto simp: recordIntegrationExecution_def elim!: one_row_cases dest: record_audit)
next
  fix pg l p s' res t'
  assume "audit (snd s)" "s = s'" "t = t'" "registerParticipationProposal pg l p s' = (res, t')"
  then show "audit (snd t)"
    by (auto simp: registerParticipationProposal_def audit_frame elim!: one_row_cases register_stmt_cases)
next
  fix pg l a p dg c j s' res t'
  assume "audit (snd s)" "s = s'" "t = t'" "registerParticipationAssessment pg l a p dg c j s' = (res, t')"
  then show "audit (snd t)"
    by (auto simp: registerParticipationAssessment_def audit_frame elim!: one_row_cases assess_stmt_cases)
qed (auto dest: reading_frame)

interpretation base: invariant_system "\<lambda>s. fresh_base (snd s)" db_step "\<lambda>s. audit (snd s)"
  by unfold_locales (auto intro: fresh_base_audit db_step_audit)

section \<open>Exactness of the gate\<close>

lemma in_force_join:
  assumes "audit db" and "d \<in> set (definitions db)" and "in_force (def_id d) (def_version d) db"
  shows "approved_join (def_id d) (def_version d) db \<noteq> []"
proof -
  have ok: "definition_ok db d" using assms(1,2) by (simp add: audit_def)
  then obtain o' r where o: "o' \<in> set (offers db)" "offer_id o' = def_offer d"
    and r: "r \<in> set (requirements db)" "requirement_id r = def_requirement d"
    by (auto simp: definition_ok_def image_iff)
  then have "d \<in> set (approved_join (def_id d) (def_version d) db)"
    using ok assms(2,3) by (fastforce simp: approved_join_def definition_ok_def)
  then show ?thesis by auto
qed

lemma approved_joinD:
  "x \<in> set (approved_join i v db) \<Longrightarrow> x \<in> set (definitions db) \<and> def_id x = i \<and> def_version x = v"
  by (auto simp: approved_join_def split: if_split_asm)

lemma approved_join_iff:
  assumes "audit db"
  shows "approved_join i v db \<noteq> [] \<longleftrightarrow> in_force i v db \<and> (\<exists>d \<in> set (definitions db). def_id d = i \<and> def_version d = v)"
proof
  assume j: "approved_join i v db \<noteq> []"
  then obtain x where "x \<in> set (approved_join i v db)" by (cases "approved_join i v db") auto
  with approved_joinD approved_join_in_force [OF assms j]
  show "in_force i v db \<and> (\<exists>d \<in> set (definitions db). def_id d = i \<and> def_version d = v)" by blast
qed (use in_force_join [OF assms] in blast)

lemma history_grows:
  assumes "db_step s t"
  shows "prefix (decisions (snd s)) (decisions (snd t)) \<and> prefix (executions (snd s)) (executions (snd t))"
  using assms
proof (cases rule: db_step.cases)
  case (decides pg l i v d b r res)
  then show ?thesis
    by (auto simp: decideIntegration_def split: if_split_asm elim!: one_row_cases decide_stmt_cases)
next
  case (records pg l i v e st dg ej a rs ac h aj res)
  then show ?thesis by (auto simp: recordIntegrationExecution_def elim!: one_row_cases record_stmt_cases)
next
  case (registers pg l p res)
  then show ?thesis
    by (auto simp: registerParticipationProposal_def elim!: one_row_cases register_stmt_cases)
next
  case (assesses pg l a p dg c j res)
  then show ?thesis
    by (auto simp: registerParticipationAssessment_def elim!: one_row_cases assess_stmt_cases)
qed (auto dest: reading_frame)

section \<open>Properties\<close>

definition sample_base :: Database where
  "sample_base = \<lparr>offers = [\<lparr>offer_id = ''o1'', off_verified = False, off_status = ''proposed''\<rparr>],
     requirements = [\<lparr>requirement_id = ''r1'', req_verified = False, req_status = ''proposed''\<rparr>],
     definitions = [\<lparr>def_id = ''echo'', def_version = ''1'', def_offer = ''o1'', def_requirement = ''r1'',
       def_verified = False, approval_status = ''draft'', approved_by = None, approved_at = None,
       def_approval = None\<rparr>],
     executions = [], assessments = [], decisions = [], systems = [''sister_reference''],
     participations = [], participation_assessments = []\<rparr>"

definition sample_pg :: Postgres where
  "sample_pg = \<lparr>pg_now = ''t'', pg_epoch = ''17'', jsonb_ok = (\<lambda>s. s \<noteq> []), jsonb_text = (\<lambda>fs. concat (map snd fs)),
     participation_text = prt_contract, assessment_text = pas_json,
     assessments_text = (\<lambda>rs. concat (map pas_json rs)), operational_base = (\<lambda>_. [])\<rparr>"

definition sample_link :: Link where
  "sample_link = \<lparr>link_now = True, link_reset = True, link_fresh = True, server_ok = True\<rparr>"

definition sample_db :: DbState where
  "sample_db = (\<lparr>db_url = [], conn = True\<rparr>, sample_base)"

definition approved_db :: DbState where
  "approved_db = snd (decideIntegration sample_pg sample_link ''echo'' ''1'' ''approved'' ''ana'' ''ok'' sample_db)"

definition executed_db :: DbState where
  "executed_db = snd (recordIntegrationExecution sample_pg sample_link ''echo'' ''1'' ''e1'' ''completed''
     (''sha256:'' @ replicate 64 (CHR ''a'')) ''x'' ''a1'' ''confirmed'' ''none'' False ''x'' approved_db)"

lemma sample_reachable:
  "reach (\<lambda>s. fresh_base (snd s)) db_step sample_db"
  "reach (\<lambda>s. fresh_base (snd s)) db_step approved_db"
  "reach (\<lambda>s. fresh_base (snd s)) db_step executed_db"
proof -
  show s: "reach (\<lambda>s. fresh_base (snd s)) db_step sample_db"
    by (rule reach_init) (simp add: sample_db_def sample_base_def fresh_base_def)
  have "db_step sample_db approved_db"
    unfolding approved_db_def by (rule decides) (rule prod.collapse [symmetric])
  with s show a: "reach (\<lambda>s. fresh_base (snd s)) db_step approved_db" by (rule reach_step)
  have "db_step approved_db executed_db"
    unfolding executed_db_def by (rule records) (rule prod.collapse [symmetric])
  with a show "reach (\<lambda>s. fresh_base (snd s)) db_step executed_db" by (rule reach_step)
qed

text \<open>C12: The operational base keeps an audit trail.  After any sequence of calls, in whatever way
  the connection and the server behave: every recorded execution belongs to an integration for
  which an approval is on record; an integration has the status approved exactly when its latest
  decision is an approval; decisions and executions have unique keys and are never changed or
  removed.\<close>

theorem integration_audit_trail:
  assumes "reach (\<lambda>s. fresh_base (snd s)) db_step s"
  shows "(\<forall>e \<in> set (executions (snd s)). \<exists>d \<in> set (decisions (snd s)).
      dec_integration d = exe_integration e \<and> dec_version d = exe_version e \<and> dec_decision d = ''approved'') \<and>
    (\<forall>d \<in> set (definitions (snd s)).
      approval_status d = ''approved'' \<longleftrightarrow> in_force (def_id d) (def_version d) (snd s)) \<and>
    distinct (map dec_id (decisions (snd s))) \<and> distinct (map exe_id (executions (snd s))) \<and>
    (\<forall>t. db_step s t \<longrightarrow>
      prefix (decisions (snd s)) (decisions (snd t)) \<and> prefix (executions (snd s)) (executions (snd t)))"
  using base.reach_inv [OF assms] history_grows unfolding audit_def definition_ok_def by blast

theorem integration_audit_trail_witness:
  "executions (snd executed_db) \<noteq> [] \<and>
   (\<exists>d \<in> set (decisions (snd executed_db)).
      dec_integration d = exe_integration (hd (executions (snd executed_db))) \<and>
      dec_version d = exe_version (hd (executions (snd executed_db))) \<and> dec_decision d = ''approved'')"
proof
  show some: "executions (snd executed_db) \<noteq> []"
    by code_simp
  show "\<exists>d \<in> set (decisions (snd executed_db)).
      dec_integration d = exe_integration (hd (executions (snd executed_db))) \<and>
      dec_version d = exe_version (hd (executions (snd executed_db))) \<and> dec_decision d = ''approved''"
    using integration_audit_trail [OF sample_reachable(3)] hd_in_set [OF some] by blast
qed

definition standing :: "string \<Rightarrow> string \<Rightarrow> Database \<Rightarrow> bool" where
  "standing i v db \<longleftrightarrow> in_force i v db \<and> (\<exists>d \<in> set (definitions db). def_id d = i \<and> def_version d = v)"

text \<open>The approval gate is exact.  In every reachable state the question whether an integration is
  approved is answered yes, when the database can be asked, exactly if its definition exists and
  its latest decision is an approval, and never when it cannot be asked; and recording an
  execution is refused and changes nothing unless that is so at the moment of the recording.\<close>

theorem integration_gate_exact:
  assumes "reach (\<lambda>s. fresh_base (snd s)) db_step s"
  shows "(fst (integrationApproved l i v s) \<longleftrightarrow>
      fst (ensureConnected l (fst s)) \<and> server_ok l \<and> standing (c_str i) (c_str v) (snd s)) \<and>
    (\<not> standing (c_str i) (c_str v) (snd s) \<longrightarrow>
      fst (recordIntegrationExecution pg l i v e st dg ej a rs ac h aj s) = None \<and>
      snd (snd (recordIntegrationExecution pg l i v e st dg ej a rs ac h aj s)) = snd s)"
proof -
  have join: "approved_join (c_str i) (c_str v) (snd s) \<noteq> [] \<longleftrightarrow> standing (c_str i) (c_str v) (snd s)"
    unfolding approved_join_iff [OF base.reach_inv [OF assms]] standing_def ..
  have "fst (integrationApproved l i v s) \<longleftrightarrow>
      fst (ensureConnected l (fst s)) \<and> server_ok l \<and> standing (c_str i) (c_str v) (snd s)"
    unfolding join [symmetric]
    by (auto simp: integrationApproved_def PQexecParams_def split: prod.split bool.split)
  moreover have "res = None \<and> snd t = snd s"
    if "\<not> standing (c_str i) (c_str v) (snd s)"
      "recordIntegrationExecution pg l i v e st dg ej a rs ac h aj s = (res, t)" for res t
    using that join by (auto simp: recordIntegrationExecution_def elim!: one_row_cases record_stmt_cases)
  ultimately show ?thesis by (metis prod.collapse)
qed

theorem integration_gate_exact_witness:
  "fst (integrationApproved sample_link ''echo'' ''1'' approved_db) \<and>
   fst (recordIntegrationExecution sample_pg sample_link ''echo'' ''1'' ''e1'' ''completed'' [] ''x'' ''a1'' ''confirmed''
     ''none'' False ''x'' sample_db) = None"
proof
  have "standing (c_str ''echo'') (c_str ''1'') (snd approved_db)" by code_simp
  moreover have "fst (ensureConnected sample_link (fst approved_db))" by code_simp
  moreover have "server_ok sample_link" by code_simp
  ultimately show "fst (integrationApproved sample_link ''echo'' ''1'' approved_db)"
    using integration_gate_exact [OF sample_reachable(2)] by blast
  have "\<not> standing (c_str ''echo'') (c_str ''1'') (snd sample_db)" by code_simp
  then show "fst (recordIntegrationExecution sample_pg sample_link ''echo'' ''1'' ''e1'' ''completed'' [] ''x'' ''a1''
      ''confirmed'' ''none'' False ''x'' sample_db) = None"
    using integration_gate_exact [OF sample_reachable(1)] by blast
qed

text \<open>A decision takes effect at once and on nothing else: when the call returns a receipt, the
  integration is approved afterwards exactly if the decision was an approval, one decision with the
  given responsible and rationale has been added, and no other integration changes its standing;
  when it returns none, nothing has changed.\<close>

theorem decision_takes_effect:
  assumes "decideIntegration pg l i v d b r s = (res, t)"
  shows "(res = None \<longrightarrow> snd t = snd s) \<and>
    (res \<noteq> None \<longrightarrow>
      (in_force (c_str i) (c_str v) (snd t) \<longleftrightarrow> d = ''approved'') \<and>
      (\<exists>k. decisions (snd t) = decisions (snd s) @ [k] \<and> dec_by k = c_str b \<and> dec_rationale k = c_str r \<and>
        dec_integration k = c_str i \<and> dec_version k = c_str v) \<and>
      (\<forall>i' v'. (i', v') \<noteq> (c_str i, c_str v) \<longrightarrow> in_force i' v' (snd t) = in_force i' v' (snd s)))"
proof (cases res)
  case None
  with assms show ?thesis
    by (auto simp: decideIntegration_def split: if_split_asm elim!: one_row_cases decide_stmt_cases)
next
  case (Some x)
  have "c_str d = d" if "d = ''approved'' \<or> d = ''rejected''" using that by (auto simp: c_str_def)
  with assms Some have row: "one_row l (decide_stmt pg (c_str i) (c_str v) d (c_str b) (c_str r)) s = (Some x, t)"
    by (auto simp: decideIntegration_def split: if_split_asm)
  then obtain rows where
    "decide_stmt pg (c_str i) (c_str v) d (c_str b) (c_str r) (snd s) = Some (rows, snd t)" "length rows = 1"
    by (auto elim!: one_row_cases split: if_split_asm)
  then obtain k where k: "decisions (snd t) = decisions (snd s) @ [k]" "dec_integration k = c_str i"
    "dec_version k = c_str v" "dec_decision k = d" "dec_by k = c_str b" "dec_rationale k = c_str r"
    by (auto elim!: decide_stmt_cases)
  have "in_force (c_str i) (c_str v) (snd t) \<longleftrightarrow> d = ''approved''"
    by (simp add: in_force_def decisions_of_def k)
  moreover have "in_force i' v' (snd t) = in_force i' v' (snd s)" if "(i', v') \<noteq> (c_str i, c_str v)" for i' v'
    using that k(2,3) unfolding in_force_def decisions_of_def k(1) by auto
  ultimately show ?thesis using k Some by auto
qed

theorem decision_takes_effect_witness:
  "fst (decideIntegration sample_pg sample_link ''echo'' ''1'' ''approved'' ''ana'' ''ok'' sample_db) \<noteq> None \<and>
   in_force (c_str ''echo'') (c_str ''1'') (snd approved_db)"
proof -
  have "fst (decideIntegration sample_pg sample_link ''echo'' ''1'' ''approved'' ''ana'' ''ok'' sample_db) \<noteq> None"
    by code_simp
  then show ?thesis
    using decision_takes_effect [OF prod.collapse [symmetric], of sample_pg sample_link "''echo''" "''1''" "''approved''"
        "''ana''" "''ok''" sample_db] by (simp add: approved_db_def)
qed

end
