(* ===== verification/Participation_Service.thy ===== *)
theory Participation_Service
  imports Database_Properties
begin

text \<open>
  The participation service (\<open>apps/sisterd/participation_service.cpp\<close>): proposals of
  authenticated principals are checked and stored, and shown again.
\<close>

section \<open>Data\<close>

record AuthenticatedPrincipal =
  prin_subject :: string
  prin_source :: string

record ParticipationServiceError =
  pse_status :: nat
  pse_code :: string
  pse_detail :: string

type_synonym service_result = "(ParticipationServiceError, string) result"

section \<open>Operations\<close>

definition proposal_error ::
  "AuthenticatedPrincipal option \<Rightarrow> string \<Rightarrow> string \<Rightarrow> string \<Rightarrow> string \<Rightarrow> string \<Rightarrow>
     ParticipationServiceError option" where
  "proposal_error caller contractJson participationId participantSystemId contractVersion contractDigest =
     (if caller = None then
        Some \<lparr>pse_status = 401, pse_code = ''authentication_required'',
              pse_detail = (''Identidade autenticada necess'' @ [CHR 0xC3, CHR 0xA1] @ ''ria.'') \<rparr>
      else if participationId = [] \<or> participantSystemId = [] \<or> contractVersion = [] \<or>
              contractDigest = [] \<or> contractJson = [] then
        Some \<lparr>pse_status = 400, pse_code = ''invalid_proposal'', pse_detail = (''A proposta est'' @ [CHR 0xC3, CHR 0xA1] @ '' incompleta.'') \<rparr>
      else if participantSystemId \<noteq> ''sister_reference'' \<or> contractVersion \<noteq> ''1.0.0'' then
        Some \<lparr>pse_status = 400, pse_code = ''unsupported_contract'',
              pse_detail = (''Contrato de participa'' @ [CHR 0xC3, CHR 0xA7, CHR 0xC3, CHR 0xA3] @ ''o n'' @ [CHR 0xC3, CHR 0xA3] @ ''o suportado.'') \<rparr>
      else if \<not> contains_sub ([QUOTE] @ ''state'' @ [QUOTE] @ '':'' @ [QUOTE] @ ''proposed'' @ [QUOTE]) contractJson \<and>
              \<not> contains_sub ([QUOTE] @ ''state'' @ [QUOTE] @ '': '' @ [QUOTE] @ ''proposed'' @ [QUOTE]) contractJson then
        Some \<lparr>pse_status = 400, pse_code = ''invalid_state'',
              pse_detail = ''A proposta deve iniciar em proposed.'' \<rparr>
      else None)"

definition unavailable :: "string \<Rightarrow> ParticipationServiceError" where
  "unavailable detail = \<lparr>pse_status = 503, pse_code = ''persistence_unavailable'', pse_detail = detail\<rparr>"

definition not_found :: ParticipationServiceError where
  "not_found = \<lparr>pse_status = 404, pse_code = ''not_found'', pse_detail = (''Participa'' @ [CHR 0xC3, CHR 0xA7, CHR 0xC3, CHR 0xA3] @ ''o n'' @ [CHR 0xC3, CHR 0xA3] @ ''o encontrada.'') \<rparr>"

definition propose ::
  "Postgres \<Rightarrow> Link \<Rightarrow> AuthenticatedPrincipal option \<Rightarrow> string \<Rightarrow> string \<Rightarrow> string \<Rightarrow> string \<Rightarrow> string \<Rightarrow> string \<Rightarrow>
     DbState \<Rightarrow> service_result \<times> DbState" where
  "propose pg l caller contractJson participationId participantSystemId contractVersion contractDigest sourceCommit s =
     (case proposal_error caller contractJson participationId participantSystemId contractVersion contractDigest of
        Some e \<Rightarrow> (Error e, s)
      | None \<Rightarrow>
          (case registerParticipationProposal pg l
             \<lparr>pp_participation_id = participationId, pp_participant_system_id = participantSystemId,
              pp_contract_version = contractVersion, pp_contract_digest = contractDigest,
              pp_contract_json = contractJson, pp_proposed_by = prin_subject (the caller),
              pp_authentication_source = prin_source (the caller), pp_source_commit = sourceCommit\<rparr> s of
             (None, t) \<Rightarrow> (Error (unavailable (''Persist'' @ [CHR 0xC3, CHR 0xAA] @ ''ncia de participa'' @ [CHR 0xC3, CHR 0xA7, CHR 0xC3, CHR 0xA3] @ ''o indispon'' @ [CHR 0xC3, CHR 0xAD] @ ''vel.'') ), t)
           | (Some receipt, t) \<Rightarrow> (Okay receipt, t)))"

definition show_participation :: "Postgres \<Rightarrow> Link \<Rightarrow> string \<Rightarrow> DbState \<Rightarrow> service_result \<times> DbState" where
  "show_participation pg l participationId s =
     (if participationId = [] then (Error not_found, s)
      else case queryParticipation pg l participationId s of
          (None, t) \<Rightarrow> (Error (unavailable (''Persist'' @ [CHR 0xC3, CHR 0xAA] @ ''ncia de participa'' @ [CHR 0xC3, CHR 0xA7, CHR 0xC3, CHR 0xA3] @ ''o indispon'' @ [CHR 0xC3, CHR 0xAD] @ ''vel.'') ), t)
        | (Some record, t) \<Rightarrow> if record = [] then (Error not_found, t) else (Okay record, t))"

definition recordTechnicalAssessment ::
  "Postgres \<Rightarrow> Link \<Rightarrow> string \<Rightarrow> string \<Rightarrow> string \<Rightarrow> string \<Rightarrow> string \<Rightarrow> DbState \<Rightarrow> service_result \<times> DbState" where
  "recordTechnicalAssessment pg l assessmentId participationId contractDigest evaluatedCommit assessmentJson s =
     (if assessmentId = [] \<or> participationId = [] \<or> contractDigest = [] \<or> evaluatedCommit = [] \<or> assessmentJson = [] then
        (Error \<lparr>pse_status = 400, pse_code = ''invalid_assessment'', pse_detail = (''Assessment t'' @ [CHR 0xC3, CHR 0xA9] @ ''cnico incompleto.'') \<rparr>, s)
      else case registerParticipationAssessment pg l assessmentId participationId contractDigest evaluatedCommit
                  assessmentJson s of
          (None, t) \<Rightarrow> (Error (unavailable (''Persist'' @ [CHR 0xC3, CHR 0xAA] @ ''ncia de assessment indispon'' @ [CHR 0xC3, CHR 0xAD] @ ''vel.'') ), t)
        | (Some record, t) \<Rightarrow> (Okay record, t))"

section \<open>Stored proposals stay\<close>

lemma participations_grow:
  assumes "db_step s t"
  shows "prefix (participations (snd s)) (participations (snd t))"
  using assms
proof (cases rule: db_step.cases)
  case (decides pg l i v d b r res)
  then show ?thesis
    by (auto simp: decideIntegration_def split: if_split_asm elim!: one_row_cases decide_stmt_cases)
next
  case (records pg l i v e st dg ej a rs ac h aj res)
  then show ?thesis by (auto simp: recordIntegrationExecution_def elim!: one_row_cases record_stmt_cases)
next
  case (registers pg l p res)
  then show ?thesis by (auto simp: registerParticipationProposal_def elim!: one_row_cases register_stmt_cases)
next
  case (assesses pg l a p dg c j res)
  then show ?thesis by (auto simp: registerParticipationAssessment_def elim!: one_row_cases assess_stmt_cases)
qed (auto dest: reading_frame)

lemma participations_steps: "db_step\<^sup>*\<^sup>* s t \<Longrightarrow> prefix (participations (snd s)) (participations (snd t))"
  by (induction rule: rtranclp_induct) (auto dest: participations_grow intro: prefix_order.trans)

text \<open>The first row with a key, which is the one a query returns.\<close>

definition row_of :: "string \<Rightarrow> DbState \<Rightarrow> ParticipationRow option" where
  "row_of i s = find (\<lambda>r. prt_id r = i) (participations (snd s))"

lemma find_prefix: "prefix xs ys \<Longrightarrow> find P xs = Some x \<Longrightarrow> find P ys = Some x"
  by (induction xs arbitrary: ys) (auto elim!: prefixE split: if_split_asm)

lemma query_row:
  assumes "fst (ensureConnected l (fst s))" and "server_ok l" and "row_of (c_str i) s = Some r"
  shows "fst (queryParticipation pg l i s) = Some (participation_text pg r)"
proof -
  obtain rs where "filter (\<lambda>r. prt_id r = c_str i) (participations (snd s)) = r # rs"
    using assms(3) by (auto simp: row_of_def find_Some_iff filter_eq_Cons_iff) (metis id_take_nth_drop in_set_conv_nth length_take min.absorb4 nth_take)
  then show ?thesis
    using assms(1,2) by (auto simp: queryParticipation_def PQexecParams_def split: prod.split bool.split)
qed

lemma propose_okay:
  assumes "propose pg l caller cj pid sys cv cd sc s = (Okay x, t)"
  obtains p where "caller = Some p" "sys = ''sister_reference''" "cv = ''1.0.0''" "pid \<noteq> []" "cd \<noteq> []"
    "contains_sub ([QUOTE] @ ''state'' @ [QUOTE] @ '':'' @ [QUOTE] @ ''proposed'' @ [QUOTE]) cj \<or> contains_sub ([QUOTE] @ ''state'' @ [QUOTE] @ '': '' @ [QUOTE] @ ''proposed'' @ [QUOTE]) cj"
    "registerParticipationProposal pg l \<lparr>pp_participation_id = pid, pp_participant_system_id = sys,
       pp_contract_version = cv, pp_contract_digest = cd, pp_contract_json = cj, pp_proposed_by = prin_subject p,
       pp_authentication_source = prin_source p, pp_source_commit = sc\<rparr> s = (Some x, t)"
  using assms by (auto simp: propose_def proposal_error_def split: if_split_asm option.split_asm prod.split_asm)

lemma find_append_new: "\<forall>x \<in> set xs. \<not> P x \<Longrightarrow> P y \<Longrightarrow> find P (xs @ [y]) = Some y"
  by (induction xs) auto

lemma participation_row_id [simp]: "prt_id (participation_row pg p) = c_str (pp_participation_id p)"
  by (simp add: participation_row_def)

lemma register_row:
  assumes "registerParticipationProposal pg l p s = (Some x, t)"
  shows "x = participation_text pg (participation_row pg p)"
    and "row_of (c_str (pp_participation_id p)) t = Some (participation_row pg p)"
  using assms
  by (auto simp: registerParticipationProposal_def row_of_def image_iff elim!: one_row_cases register_stmt_cases
      intro!: find_append_new split: if_split_asm) metis

section \<open>Properties\<close>

text \<open>C34: A proposal that was acknowledged is kept: after any further calls, whatever they are, showing
  the participation returns exactly the text of the receipt whenever the database answers.  The
  stored row is a proposal for the reference system in version 1.0.0, its proposer is the
  authenticated principal, and only an authenticated principal can have made it.\<close>

theorem proposal_durable:
  assumes "propose pg l caller cj pid sys cv cd sc s = (Okay receipt, t)"
    and "db_step\<^sup>*\<^sup>* t u" and "fst (ensureConnected l' (fst u))" and "server_ok l'"
    and "participation_text pg' = participation_text pg" and "receipt \<noteq> []"
  shows "fst (show_participation pg' l' pid u) = Okay receipt \<and>
    (\<exists>p r. caller = Some p \<and> row_of (c_str pid) u = Some r \<and> prt_by r = c_str (prin_subject p) \<and>
       prt_system r = ''sister_reference'' \<and> prt_version r = ''1.0.0'' \<and> prt_state r = ''proposed'' \<and>
       prt_contract r = c_str cj)"
  using assms(1)
proof (rule propose_okay)
  fix p :: AuthenticatedPrincipal
  let ?pp = "\<lparr>pp_participation_id = pid, pp_participant_system_id = sys,
       pp_contract_version = cv, pp_contract_digest = cd, pp_contract_json = cj, pp_proposed_by = prin_subject p,
       pp_authentication_source = prin_source p, pp_source_commit = sc\<rparr>"
  assume p: "caller = Some p" "sys = ''sister_reference''" "cv = ''1.0.0''" "pid \<noteq> []"
    and reg: "registerParticipationProposal pg l ?pp s = (Some receipt, t)"
  have row: "row_of (c_str pid) u = Some (participation_row pg ?pp)"
    using register_row(2) [OF reg] find_prefix [OF participations_steps [OF assms(2)]] by (simp add: row_of_def)
  have "fst (queryParticipation pg' l' pid u) = Some receipt"
    using query_row [OF assms(3,4) row] register_row(1) [OF reg] assms(5) by simp
  then have "fst (show_participation pg' l' pid u) = Okay receipt"
    using p(4) assms(6) by (auto simp: show_participation_def split: prod.split option.split)
  with p row show ?thesis by (auto simp: participation_row_def c_str_def)
qed

definition sample_body :: string where
  "sample_body = (''{'' @ [QUOTE] @ ''state'' @ [QUOTE] @ '':'' @ [QUOTE] @ ''proposed'' @ [QUOTE] @ ''}'')"

definition proposed_db :: "service_result \<times> DbState" where
  "proposed_db = propose sample_pg sample_link (Some \<lparr>prin_subject = ''u1'', prin_source = ''file''\<rparr>) sample_body
     ''p1'' ''sister_reference'' ''1.0.0'' ''sha256:x'' [] sample_db"

theorem proposal_durable_witness:
  "fst (show_participation sample_pg sample_link ''p1'' (snd proposed_db)) = Okay sample_body"
proof -
  have "fst proposed_db = Okay sample_body" by code_simp
  then have "proposed_db = (Okay sample_body, snd proposed_db)" by (metis prod.collapse)
  moreover have "fst (ensureConnected sample_link (fst (snd proposed_db)))" by code_simp
  moreover have "server_ok sample_link" "sample_body \<noteq> []" by (simp_all add: sample_link_def sample_body_def)
  ultimately show ?thesis
    using proposal_durable [of sample_pg sample_link _ sample_body "''p1''" _ _ _ _ _ sample_body "snd proposed_db"
      "snd proposed_db" sample_link sample_pg] by (simp add: proposed_db_def)
qed

end
