(* ===== verification/Upstream.thy ===== *)
theory Upstream
  imports Http_Response Assertion_Contract Auth_Data
begin

text \<open>
  Requests of the daemon to subsystems on the loopback interface (\<open>apps/sisterd/main.cpp\<close>):
  the reverse proxy, which forwards a request together with the identity of its actor, and the
  signed read, which carries an internal assertion.  \<open>Net\<close> holds the results of the socket
  calls of one exchange, in the order of the code; a list of results that ends stands for
  an error of \<open>poll\<close> or \<open>send\<close> and for a closed connection in \<open>recv\<close>.
\<close>

section \<open>Connecting\<close>

datatype connect_result = Connected | InProgress | ConnectFailed

datatype poll_result = Ready | TimedOut | PollInterrupted | PollFailed

record Net =
  net_socket :: bool
  net_getfl :: bool
  net_setfl :: bool
  net_connect :: connect_result
  net_poll :: "poll_result list"
  net_sockerr :: bool
  net_restore :: bool
  net_timeouts :: bool
  net_send :: "send_result list"
  net_recv :: "recv_result list"

definition kMaxProxyResponseBytes :: nat where
  "kMaxProxyResponseBytes = 8 * 1024 * 1024"

fun poll_loop :: "poll_result list \<Rightarrow> poll_result" where
  "poll_loop [] = PollFailed"
| "poll_loop (PollInterrupted # rs) = poll_loop rs"
| "poll_loop (r # rs) = r"

definition setSocketTimeouts :: "bool \<Rightarrow> (string, unit) result" where
  "setSocketTimeouts ok = (if ok then Okay () else Error ''cannot configure socket timeouts'')"

text \<open>The result is the address and the port the socket is connected to.\<close>

definition connectLoopback :: "Net \<Rightarrow> int \<Rightarrow> (string, 32 word \<times> int) result" where
  "connectLoopback net port =
     (if \<not> net_socket net then Error ''cannot create subsystem proxy socket''
      else if \<not> net_getfl net \<or> \<not> net_setfl net then Error ''cannot configure nonblocking upstream socket''
      else case inet_pton4 ''127.0.0.1'' of
          None \<Rightarrow> Error ''cannot configure loopback address''
        | Some address \<Rightarrow>
            if net_connect net = ConnectFailed then Error ''subsystem is unavailable''
            else if net_connect net = InProgress \<and> poll_loop (net_poll net) \<noteq> Ready
            then Error ''subsystem connection timeout''
            else if net_connect net = InProgress \<and> net_sockerr net then Error ''subsystem connection failed''
            else if \<not> net_restore net then Error ''cannot restore upstream socket mode''
            else and_then (setSocketTimeouts (net_timeouts net)) (\<lambda>_. Okay (address, port)))"

fun read_upstream :: "string \<Rightarrow> string \<Rightarrow> string \<Rightarrow> recv_result list \<Rightarrow> string \<Rightarrow> (string, string) result" where
  "read_upstream late broken large [] response = Okay response"
| "read_upstream late broken large (Interrupted # rs) response = read_upstream late broken large rs response"
| "read_upstream late broken large (WouldBlock # rs) response = Error late"
| "read_upstream late broken large (RecvFailed # rs) response = Error broken"
| "read_upstream late broken large (Received buffer # rs) response =
     (if buffer = [] then Okay response
      else if length response + length buffer > kMaxProxyResponseBytes then Error large
      else read_upstream late broken large rs (response @ buffer))"

section \<open>The reverse proxy\<close>

text \<open>Header lines with the check of their values.\<close>

fun checked_lines :: "(string \<times> string \<times> nat) list \<Rightarrow> (string, string list) result" where
  "checked_lines [] = Okay []"
| "checked_lines ((name, val, maximum) # hs) =
     and_then (safeProxyHeaderValue val maximum) (\<lambda>v.
     and_then (checked_lines hs) (\<lambda>ls. Okay ((name @ '': '' @ v) # ls)))"

definition identity_headers :: "AuthUser \<Rightarrow> string \<Rightarrow> ServerConfig \<Rightarrow> (string \<times> string \<times> nat) list" where
  "identity_headers actor rid config =
     [(''X-Sister-Subject'', au_id actor, 1024), (''X-Sister-Name'', au_name actor, 1024),
      (''X-Sister-Email'', au_email actor, 1024), (''X-Sister-Role'', au_role actor, 1024),
      (''X-Request-ID'', rid, 128)] @
     (if internalProxyToken config \<noteq> [] then [(''X-Sister-Proxy-Token'', internalProxyToken config, 4096)] else [])"

definition passed_headers :: "HttpRequest \<Rightarrow> (string \<times> string \<times> nat) list" where
  "passed_headers request =
     (case map_of (req_headers request) ''content-type'' of
        None \<Rightarrow> [] | Some type \<Rightarrow> [(''Content-Type'', type, 1024)]) @
     (case map_of (req_headers request) ''accept'' of
        None \<Rightarrow> [] | Some accept \<Rightarrow> [(''Accept'', accept, 1024)])"

definition message :: "string list \<Rightarrow> string \<Rightarrow> string" where
  "message lines body = concat (map (\<lambda>l. l @ CRLF) lines) @ CRLF @ body"

definition upstream_path :: "HttpRequest \<Rightarrow> string \<Rightarrow> string" where
  "upstream_path request pre =
     (let p = drop (length pre) (req_path request) in (if p = [] then ''/'' else p) @ req_query request)"

definition forwarded_lines ::
  "HttpRequest \<Rightarrow> AuthUser \<Rightarrow> string \<Rightarrow> int \<Rightarrow> string \<Rightarrow> ServerConfig \<Rightarrow> (string, string list) result" where
  "forwarded_lines request actor path port rid config =
     and_then (checked_lines (identity_headers actor rid config @ passed_headers request)) (\<lambda>hs.
       Okay ([req_method request @ '' '' @ path @ '' HTTP/1.1'', ''Host: 127.0.0.1:'' @ show_int port] @ hs @
         (if req_body request \<noteq> [] then [''Content-Length: '' @ show_nat (length (req_body request))] else []) @
         [''Connection: close'']))"

text \<open>The result and the bytes that were sent to the address.\<close>

definition proxyToSubsystem ::
  "Net \<Rightarrow> HttpRequest \<Rightarrow> AuthUser \<Rightarrow> string \<Rightarrow> int \<Rightarrow> string \<Rightarrow> string \<Rightarrow> ServerConfig \<Rightarrow>
     (string, string) result \<times> string" where
  "proxyToSubsystem net request actor pre port serviceName rid config =
     (if \<not> prefix pre (req_path request) then (Error ''invalid proxy prefix'', [])
      else let path = upstream_path request pre in
        if CR \<in> set path \<or> LF \<in> set path then (Error ''invalid upstream path'', [])
        else case connectLoopback net port of
            Error e \<Rightarrow> (Error e, [])
          | Okay _ \<Rightarrow>
              (case forwarded_lines request actor path port rid config of
                 Error e \<Rightarrow> (Error e, [])
               | Okay lines \<Rightarrow>
                   (case sendAll (net_send net) (message lines (req_body request)) of
                      (False, sent) \<Rightarrow> (Error (''cannot send request to '' @ serviceName), sent)
                    | (True, sent) \<Rightarrow>
                        (case read_upstream (serviceName @ '' response timeout'')
                            (''cannot read response from '' @ serviceName)
                            (serviceName @ '' response exceeds limit'') (net_recv net) [] of
                           Error e \<Rightarrow> (Error e, sent)
                         | Okay response \<Rightarrow>
                             if response = [] \<or> \<not> prefix ''HTTP/1.'' response
                             then (Error (''invalid response from '' @ serviceName), sent)
                             else if find_sub (CRLF @ CRLF) response = None
                             then (Error (''incomplete response from '' @ serviceName), sent)
                             else (Okay response, sent)))))"

section \<open>The signed read\<close>

text \<open>The key files, the entropy of the assertion id and the clock (seconds) of one read.\<close>

record SignEnv =
  key_files :: "string \<Rightarrow> KeyFile"
  jti_entropy :: "string option"
  sign_now :: int

definition signed_claims ::
  "SignEnv \<Rightarrow> string \<Rightarrow> string \<Rightarrow> string \<Rightarrow> string \<Rightarrow> string \<Rightarrow> ServerConfig \<Rightarrow> (string, InternalAssertionClaims) result" where
  "signed_claims se sub aud capability purpose rid config =
     and_then (randomAssertionId 16 (jti_entropy se)) (\<lambda>j.
       Okay \<lparr>issuer = ''sisterd'', subject = sub, audience = aud, cl_capabilities = [capability],
             cl_purpose = purpose, issuedAt = sign_now se,
             expiresAt = sign_now se + internalIdentityTtlSeconds config, jti = j, requestId = rid\<rparr>)"

definition signed_assertion ::
  "AssertionCrypto \<Rightarrow> SignEnv \<Rightarrow> string \<Rightarrow> string \<Rightarrow> string \<Rightarrow> string \<Rightarrow> string \<Rightarrow> ServerConfig \<Rightarrow> (string, string) result" where
  "signed_assertion ac se sub aud capability purpose rid config =
     and_then (FileKeyProvider_new (internalIdentityPrivateKeyFile config) (internalIdentityKeyId config)) (\<lambda>provider.
     and_then (signed_claims se sub aud capability purpose rid config) (\<lambda>claims.
     and_then (currentSigningKey ac (key_files se) provider) (\<lambda>key. sign ac key claims)))"

definition signed_lines :: "string \<Rightarrow> int \<Rightarrow> string \<Rightarrow> string \<Rightarrow> (string, string list) result" where
  "signed_lines path port assertion rid =
     and_then (safeProxyHeaderValue assertion (16 * 1024)) (\<lambda>a.
     and_then (safeProxyHeaderValue rid 128) (\<lambda>r.
       Okay [''GET '' @ path @ '' HTTP/1.1'', ''Host: 127.0.0.1:'' @ show_int port,
             ''Authorization: Sister-Assertion '' @ a, ''X-Request-ID: '' @ r,
             ''Accept: application/json'', ''Connection: close'']))"

definition signedReadFromLoopbackSubsystem ::
  "AssertionCrypto \<Rightarrow> SignEnv \<Rightarrow> Net \<Rightarrow> int \<Rightarrow> string \<Rightarrow> string \<Rightarrow> string \<Rightarrow> string \<Rightarrow> string \<Rightarrow> string \<Rightarrow> ServerConfig \<Rightarrow>
     (string, string) result \<times> string" where
  "signedReadFromLoopbackSubsystem ac se net port path sub aud capability purpose rid config =
     (if path = [] \<or> hd path \<noteq> CHR ''/'' \<or> CR \<in> set path \<or> LF \<in> set path
      then (Error ''invalid signed subsystem path'', [])
      else if internalIdentityPrivateKeyFile config = [] \<or> internalIdentityKeyId config = []
      then (Error ''signed subsystem identity is not configured'', [])
      else case signed_assertion ac se sub aud capability purpose rid config of
          Error e \<Rightarrow> (Error e, [])
        | Okay assertion \<Rightarrow>
            (case connectLoopback net port of
               Error e \<Rightarrow> (Error e, [])
             | Okay _ \<Rightarrow>
                 (case signed_lines path port assertion rid of
                    Error e \<Rightarrow> (Error e, [])
                  | Okay lines \<Rightarrow>
                      (case sendAll (net_send net) (message lines []) of
                         (False, sent) \<Rightarrow> (Error ''cannot send signed subsystem request'', sent)
                       | (True, sent) \<Rightarrow>
                           (read_upstream ''signed subsystem response timeout''
                              ''cannot read signed subsystem response''
                              ''signed subsystem response exceeds limit'' (net_recv net) [], sent)))))"

section \<open>What goes over the wire\<close>

lemma connectLoopback_okay:
  assumes "connectLoopback net port = Okay (a, p)"
  shows "p = port \<and> inet_pton4 ''127.0.0.1'' = Some a"
  using assms by (auto simp: connectLoopback_def result_simps split: option.split_asm if_split_asm)

lemma checked_lines_okay:
  "checked_lines hs = Okay ls \<Longrightarrow>
     ls = map (\<lambda>(n, v, m). n @ '': '' @ v) hs \<and> list_all (\<lambda>(n, v, m). CR \<notin> set v \<and> LF \<notin> set v) hs"
  by (induction hs arbitrary: ls rule: checked_lines.induct)
    (auto simp: result_simps safeProxyHeaderValue_def)

lemma message_lines:
  assumes "list_all line_ok lines" and "lines \<noteq> []"
  shows "find_sub (CRLF @ CRLF) (message lines body) = Some (length (message lines body) - length body - 4)"
proof -
  obtain l ls where ls: "lines = l # ls" using assms(2) by (cases lines) auto
  have m: "message (l # ls) body = crlf_lines l ls @ CRLF @ CRLF @ body"
    unfolding message_def by (rule concat_crlf)
  show ?thesis using blank_line_found [of l ls body] assms(1) unfolding ls m by (simp add: CRLF_def)
qed

lemma message_body:
  assumes "list_all line_ok lines" and "lines \<noteq> []"
  shows "rawHttpBody (message lines body) = body"
proof -
  have "length (message lines body) \<ge> length body + 4"
    using assms(2) by (cases lines) (simp_all add: message_def CRLF_def)
  moreover have "drop (length (message lines body) - length body) (message lines body) = body"
    by (simp add: message_def)
  ultimately show ?thesis using message_lines [OF assms, of body] by (simp add: rawHttpBody_def)
qed

lemma show_int_clean: "CR \<notin> set (show_int n)" "LF \<notin> set (show_int n)"
  by (auto simp: show_int_def show_nat_clean)

lemma header_lines_ok:
  assumes "list_all (\<lambda>(n, v, m). CR \<notin> set v \<and> LF \<notin> set v) hs" and "list_all (\<lambda>(n, v, m). CR \<notin> set n \<and> LF \<notin> set n) hs"
  shows "list_all line_ok (map (\<lambda>(n, v, m). n @ '': '' @ v) hs)"
  using assms by (induction hs) (auto simp: line_ok_def)

lemma forwarded_names:
  "list_all (\<lambda>(n, v, m). CR \<notin> set n \<and> LF \<notin> set n) (identity_headers actor rid config @ passed_headers request)"
  by (auto simp: identity_headers_def passed_headers_def split: option.split)

text \<open>The lines that state the identity.\<close>

definition sister_lines :: "string list \<Rightarrow> string list" where
  "sister_lines ls = filter (prefix ''X-Sister-'') ls"

definition identity_lines :: "AuthUser \<Rightarrow> ServerConfig \<Rightarrow> string list" where
  "identity_lines actor config =
     [''X-Sister-Subject: '' @ au_id actor, ''X-Sister-Name: '' @ au_name actor,
      ''X-Sister-Email: '' @ au_email actor, ''X-Sister-Role: '' @ au_role actor] @
     (if internalProxyToken config = [] then [] else [''X-Sister-Proxy-Token: '' @ internalProxyToken config])"

lemma forwarded_lines_okay:
  assumes "forwarded_lines request actor path port rid config = Okay lines"
    and "clean (req_method request)" and "clean path"
  shows "list_all line_ok lines" and "hd lines = req_method request @ '' '' @ path @ '' HTTP/1.1''"
    and "sister_lines (tl lines) = identity_lines actor config" and "lines \<noteq> []"
proof -
  let ?hs = "identity_headers actor rid config @ passed_headers request"
  let ?len = "if req_body request \<noteq> [] then [''Content-Length: '' @ show_nat (length (req_body request))] else []"
  obtain ls where ls: "checked_lines ?hs = Okay ls"
    and lines: "lines = [req_method request @ '' '' @ path @ '' HTTP/1.1'', ''Host: 127.0.0.1:'' @ show_int port] @ ls @
      ?len @ [''Connection: close'']"
    using assms(1) by (auto simp: forwarded_lines_def result_simps)
  note hs = checked_lines_okay [OF ls]
  have "list_all line_ok ls" using header_lines_ok [of ?hs] hs forwarded_names by simp
  then show "list_all line_ok lines"
    unfolding lines using assms(2,3) show_int_clean [of port] show_nat_clean
    by (auto simp: line_ok_def clean_def)
  show "hd lines = req_method request @ '' '' @ path @ '' HTTP/1.1''" "lines \<noteq> []" by (simp_all add: lines)
  have "sister_lines ls = identity_lines actor config"
    unfolding hs [THEN conjunct1] sister_lines_def identity_lines_def identity_headers_def passed_headers_def
    by (simp split: option.split)
  then show "sister_lines (tl lines) = identity_lines actor config"
    unfolding lines sister_lines_def by simp
qed

lemma proxy_sent:
  assumes "proxyToSubsystem net request actor pre port name rid config = (r, sent)" and "sent \<noteq> []"
  obtains lines rest where "forwarded_lines request actor (upstream_path request pre) port rid config = Okay lines"
    "clean (upstream_path request pre)" "sent @ rest = message lines (req_body request)" "is_okay r \<Longrightarrow> rest = []"
proof -
  obtain lines ok out where l: "forwarded_lines request actor (upstream_path request pre) port rid config = Okay lines"
    and c: "clean (upstream_path request pre)"
    and s: "sendAll (net_send net) (message lines (req_body request)) = (ok, out)" "out = sent" "is_okay r \<Longrightarrow> ok"
    using assms
    by (auto simp: proxyToSubsystem_def Let_def clean_def
        split: if_split_asm sum.split_asm prod.split_asm bool.split_asm)
  obtain rest where "message lines (req_body request) = out @ rest" "ok \<longrightarrow> rest = []"
    using sendAll_prefix [OF s(1)] by blast
  then show thesis using that [OF l c, of rest] s(2,3) by simp
qed

section \<open>Properties\<close>

text \<open>C35: The identity a subsystem sees is the identity of the actor and cannot be forged.  Whatever
  the client sent (the method without line breaks, which the reader ensures), the bytes that reach
  the subsystem belong to one message whose head ends at its first blank line and whose body is the
  body of the request; and in this head the lines that state an identity are exactly the subject,
  name, e-mail and role of the authenticated actor and the configured proxy token.\<close>

theorem proxy_identity_sound:
  assumes "proxyToSubsystem net request actor pre port name rid config = (r, sent)" and "sent \<noteq> []"
    and "clean (req_method request)"
  shows "\<exists>lines rest. sent @ rest = message lines (req_body request) \<and> (is_okay r \<longrightarrow> rest = []) \<and>
    list_all line_ok lines \<and> rawHttpBody (message lines (req_body request)) = req_body request \<and>
    hd lines = req_method request @ '' '' @ upstream_path request pre @ '' HTTP/1.1'' \<and>
    sister_lines (tl lines) = identity_lines actor config"
  using assms(1,2)
proof (rule proxy_sent)
  fix lines rest
  assume l: "forwarded_lines request actor (upstream_path request pre) port rid config = Okay lines"
    and c: "clean (upstream_path request pre)"
    and s: "sent @ rest = message lines (req_body request)" "is_okay r \<Longrightarrow> rest = []"
  note ok = forwarded_lines_okay [OF l assms(3) c]
  show ?thesis
    using s ok message_body [OF ok(1,4), of "req_body request"] by (intro exI [of _ lines] exI [of _ rest]) simp
qed

definition sample_net :: Net where
  "sample_net = \<lparr>net_socket = True, net_getfl = True, net_setfl = True, net_connect = InProgress,
     net_poll = [PollInterrupted, Ready], net_sockerr = False, net_restore = True, net_timeouts = True,
     net_send = [Sent 100000], net_recv = [Received ''HTTP/1.1 200 OK'', Received (CRLF @ CRLF)]\<rparr>"

definition sample_actor :: AuthUser where
  "sample_actor = \<lparr>au_id = ''u1'', au_name = ''Ana'', au_email = ''ana@x'', au_role = ''researcher''\<rparr>"

definition sample_echo :: HttpRequest where
  "sample_echo = \<lparr>req_method = ''POST'', req_target = ''/integrations/reference/echo'',
     req_path = ''/integrations/reference/echo'', req_query = [], req_version = ''HTTP/1.1'',
     req_headers = [(''accept'', ''*/*'')], req_body = ''{}''\<rparr>"

theorem proxy_identity_sound_witness:
  "\<exists>lines. snd (proxyToSubsystem sample_net sample_echo sample_actor ''/integrations/reference'' 19001 ''ref'' ''ab12''
     default_config) = message lines ''{}'' \<and> sister_lines (tl lines) = identity_lines sample_actor default_config"
proof -
  let ?p = "proxyToSubsystem sample_net sample_echo sample_actor ''/integrations/reference'' 19001 ''ref'' ''ab12'' default_config"
  have ok: "is_okay (fst ?p)" "snd ?p \<noteq> []" by code_simp+
  have "clean (req_method sample_echo)" by (simp add: sample_echo_def clean_def)
  from proxy_identity_sound [OF prod.collapse [symmetric] ok(2) this] ok(1)
  obtain lines where "snd ?p = message lines (req_body sample_echo)"
    "sister_lines (tl lines) = identity_lines sample_actor default_config" by auto
  then show ?thesis by (auto simp: sample_echo_def)
qed


definition sample_identity_config :: ServerConfig where
  "sample_identity_config = default_config\<lparr>internalIdentityPrivateKeyFile := ''/k'', internalIdentityKeyId := ''k1''\<rparr>"

definition sample_sign_env :: SignEnv where
  "sample_sign_env = \<lparr>key_files = (\<lambda>_. \<lparr>kf_regular = True, kf_permissions = 384, kf_content = Some ''private''\<rparr>),
     jti_entropy = Some ''0123456789abcdef'', sign_now = 1000\<rparr>"

definition sample_nexo_claims :: InternalAssertionClaims where
  "sample_nexo_claims = \<lparr>issuer = ''sisterd'', subject = ''u1'', audience = ''sister_nexo'',
     cl_capabilities = [''nexo.context.read''], cl_purpose = ''research_operations'', issuedAt = 1000,
     expiresAt = 1060, jti = hex_string ''0123456789abcdef'', requestId = ''fedcba9876543210''\<rparr>"

definition sample_nexo_requirements :: VerificationRequirements where
  "sample_nexo_requirements = \<lparr>rq_audience = ''sister_nexo'', rq_capability = ''nexo.context.read'',
     rq_purpose = ''research_operations'', clockSkew = 5, maximumLifetime = 120\<rparr>"

abbreviation sample_read :: "(string, string) result \<times> string" where
  "sample_read \<equiv> signedReadFromLoopbackSubsystem sample_ac sample_sign_env sample_net 19002 ''/api/v1/context-projection''
     ''u1'' ''sister_nexo'' ''nexo.context.read'' ''research_operations'' ''fedcba9876543210'' sample_identity_config"

lemma sample_nexo_payload: "case serializeClaims sample_nexo_claims of Okay p \<Rightarrow> length p \<le> 1000 | Error _ \<Rightarrow> False"
  by code_simp

lemma sample_read_sent: "snd sample_read \<noteq> []"
proof -
  obtain payload where "serializeClaims sample_nexo_claims = Okay payload" "length payload \<le> 1000"
    using sample_nexo_payload by (auto split: sum.split_asm)
  from sample_sign_any [OF this] obtain a where a: "sign sample_ac sample_key sample_nexo_claims = Okay a"
    "length a \<le> 2000" "list_all graphic a" by blast
  have c: "signed_claims sample_sign_env ''u1'' ''sister_nexo'' ''nexo.context.read'' ''research_operations''
      ''fedcba9876543210'' sample_identity_config = Okay sample_nexo_claims"
    by (simp add: signed_claims_def sample_sign_env_def sample_identity_config_def default_config_def
        sample_nexo_claims_def randomAssertionId_def)
  have k: "FileKeyProvider_new ''/k'' ''k1'' = Okay \<lparr>privateKeyPath = ''/k'', fk_kid = ''k1''\<rparr>"
    "currentSigningKey sample_ac (key_files sample_sign_env) \<lparr>privateKeyPath = ''/k'', fk_kid = ''k1''\<rparr> = Okay sample_key"
    by code_simp+
  have asrt: "signed_assertion sample_ac sample_sign_env ''u1'' ''sister_nexo'' ''nexo.context.read'' ''research_operations''
      ''fedcba9876543210'' sample_identity_config = Okay a"
    unfolding signed_assertion_def c by (simp add: sample_identity_config_def k a(1))
  have "\<not> containsInvalidHeaderValueCharacter a" "CR \<notin> set a" "LF \<notin> set a"
    using a(3) by (auto simp: containsInvalidHeaderValueCharacter_def list_ex_iff list_all_iff graphic_def)
  then have "safeProxyHeaderValue a 16384 = Okay a" using a(2) by (simp add: safeProxyHeaderValue_def)
  moreover have "safeProxyHeaderValue ''fedcba9876543210'' 128 = Okay ''fedcba9876543210''" by code_simp
  ultimately obtain lines where l: "signed_lines ''/api/v1/context-projection'' 19002 a ''fedcba9876543210'' = Okay lines"
    "lines \<noteq> []"
    by (simp add: signed_lines_def)
  have conn: "\<exists>x. connectLoopback sample_net 19002 = Okay x"
    unfolding is_okay_iff [symmetric] by code_simp
  have ne: "message lines [] \<noteq> []" by (simp add: message_def CRLF_def)
  then have "snd (sendAll (net_send sample_net) (message lines [])) \<noteq> []"
    by (auto simp: sample_net_def sendAll.simps [of "[Sent 100000]"] split: prod.split)
  then obtain ok out where send: "sendAll (net_send sample_net) (message lines []) = (ok, out)" "out \<noteq> []"
    by (metis prod.collapse)
  show ?thesis
    unfolding signedReadFromLoopbackSubsystem_def asrt using conn l(1) send
    by (cases ok) (auto simp: sample_identity_config_def)
qed


section \<open>Decoded paths\<close>

text \<open>The proxy forwards the decoded path.  A target with an encoded space passes the reader of the
  daemon, but the line that is forwarded for it is not a request line any more: the reader itself
  would refuse it.  An encoded question mark turns a part of the path into a query.\<close>

definition spaced_request :: HttpRequest where
  "spaced_request = sample_echo\<lparr>req_method := ''GET'',
     req_target := ''/integrations/reference/_sister/a%20b'', req_path := ''/integrations/reference/_sister/a b''\<rparr>"

theorem forwarded_path_not_encoded:
  "percentDecodePath (req_target spaced_request) = Some (req_path spaced_request) \<and>
   is_okay (parse_start_line (''GET '' @ req_target spaced_request @ '' HTTP/1.1'')) \<and>
   \<not> is_okay (parse_start_line (''GET '' @ upstream_path spaced_request ''/integrations/reference'' @ '' HTTP/1.1'')) \<and>
   percentDecodePath ''/a%3Fb'' = Some ''/a?b'' \<and> split_target ''/a?b'' = (''/a'', ''?b'')"
  by code_simp

end
