(* ===== verification/Ecosystem_View.thy ===== *)
theory Ecosystem_View
  imports Projection Upstream
begin

text \<open>
  The runtime view of the ecosystem (\<open>apps/sisterd/ecosystem/ecosystem_view.cpp\<close>): a
  tab-separated projection is parsed into participants, their health is observed over the
  loopback interface, and the view is served as JSON in three forms.  The socket calls of a probe
  are those of \<open>Net\<close>.
\<close>

section \<open>Data\<close>

record RuntimeBinding =
  transport :: string
  listen :: string
  run_port :: int

record GatewayPublication =
  gw_host :: string
  gw_publicUrl :: string

record HealthObservation =
  hlt_status :: string
  httpStatus :: int
  hlt_detail :: string

record InteractionSurface =
  surfaceId :: string
  sur_label :: string
  sur_purpose :: string
  sur_publicUrl :: string
  accessClass :: string

text \<open>The probe is its only member, the health path.\<close>

record EcosystemParticipant =
  componentId :: string
  eco_systemId :: string
  runtime :: RuntimeBinding
  healthPath :: string
  gateway :: GatewayPublication
  health :: HealthObservation
  interactionSurfaces :: "InteractionSurface list"

record EcosystemView =
  eco_schema :: string
  compositionId :: string
  deploymentId :: string
  deploymentStatus :: string
  eco_systems :: "EcosystemParticipant list"

definition empty_ecosystem :: EcosystemView where
  "empty_ecosystem = \<lparr>eco_schema = ''sister.runtime.ecosystem-view/1'', compositionId = [], deploymentId = [],
     deploymentStatus = ''NOT_CONFIGURED'', eco_systems = []\<rparr>"

definition not_observed :: "string \<Rightarrow> HealthObservation" where
  "not_observed d = \<lparr>hlt_status = ''not_observed'', httpStatus = 0, hlt_detail = d\<rparr>"

definition offline :: "string \<Rightarrow> HealthObservation" where
  "offline d = \<lparr>hlt_status = ''offline'', httpStatus = 0, hlt_detail = d\<rparr>"

section \<open>Parsing\<close>

text \<open>A token that may be missing.\<close>

definition tok :: "string list \<Rightarrow> nat \<Rightarrow> string" where
  "tok tokens n = (if length tokens > n then tokens ! n else [])"

definition projection_port :: "string \<Rightarrow> int" where
  "projection_port s =
     (if s = [] then 0
      else case from_chars (- (2 ^ 31)) (2 ^ 31 - 1) s of
          Some (parsedPort, _) \<Rightarrow> if 0 \<le> parsedPort \<and> parsedPort \<le> 65535 then parsedPort else 0
        | None \<Rightarrow> 0)"

definition participant_of :: "string list \<Rightarrow> EcosystemParticipant" where
  "participant_of tokens =
     \<lparr>componentId = tok tokens 1, eco_systemId = tok tokens 2,
      runtime = \<lparr>transport = tok tokens 3, listen = tok tokens 4, run_port = projection_port (tok tokens 5)\<rparr>,
      healthPath = tok tokens 6, gateway = \<lparr>gw_host = tok tokens 7, gw_publicUrl = tok tokens 8\<rparr>,
      health = not_observed ''not_observed'', interactionSurfaces = []\<rparr>"

fun add_surface :: "string \<Rightarrow> InteractionSurface \<Rightarrow> EcosystemParticipant list \<Rightarrow> EcosystemParticipant list" where
  "add_surface i s [] = []"
| "add_surface i s (p # ps) =
     (if componentId p = i then p\<lparr>interactionSurfaces := interactionSurfaces p @ [s]\<rparr> # ps
      else p # add_surface i s ps)"

definition ecosystem_line :: "EcosystemView \<Rightarrow> string \<Rightarrow> EcosystemView" where
  "ecosystem_line view line =
     (let tokens = splitByTab line in
      if tokens = [] then view
      else if tokens ! 0 = ''META'' then
        view\<lparr>compositionId := (if length tokens > 1 then tokens ! 1 else compositionId view),
             deploymentId := (if length tokens > 2 then tokens ! 2 else deploymentId view),
             deploymentStatus := (if length tokens > 3 \<and> tokens ! 3 \<noteq> [] then tokens ! 3 else deploymentStatus view)\<rparr>
      else if tokens ! 0 = ''PARTICIPANT'' then view\<lparr>eco_systems := eco_systems view @ [participant_of tokens]\<rparr>
      else if tokens ! 0 = ''SURFACE'' \<and> length tokens \<ge> 7 then
        view\<lparr>eco_systems := add_surface (tokens ! 1)
          \<lparr>surfaceId = tokens ! 2, sur_label = tokens ! 3, sur_purpose = tokens ! 4, sur_publicUrl = tokens ! 5,
           accessClass = tokens ! 6\<rparr> (eco_systems view)\<rparr>
      else view)"

definition parseProjection :: "string \<Rightarrow> EcosystemView" where
  "parseProjection content = foldl ecosystem_line empty_ecosystem (projection_lines content)"

text \<open>The file: its path and its bytes, \<open>None\<close> when it cannot be opened.\<close>

definition parseProjectionFile :: "string \<Rightarrow> string option \<Rightarrow> EcosystemView" where
  "parseProjectionFile path content =
     (if path = [] then empty_ecosystem
      else case content of None \<Rightarrow> empty_ecosystem | Some c \<Rightarrow> parseProjection c)"

section \<open>Observing health\<close>

definition probe_connectLoopback :: "Net \<Rightarrow> int \<Rightarrow> (string, 32 word \<times> int) result" where
  "probe_connectLoopback net port =
     (if \<not> net_socket net then Error ''socket_creation_failed''
      else if \<not> net_getfl net \<or> \<not> net_setfl net then Error ''set_nonblocking_failed''
      else case inet_pton4 ''127.0.0.1'' of
          None \<Rightarrow> Error ''inet_pton_failed''
        | Some address \<Rightarrow>
            if net_connect net = ConnectFailed then Error ''connect_failed''
            else if net_connect net = InProgress \<and> poll_loop (net_poll net) \<noteq> Ready
            then Error (if poll_loop (net_poll net) = TimedOut then ''connect_timeout'' else ''poll_error'')
            else if net_connect net = InProgress \<and> net_sockerr net then Error ''connect_refused''
            else if \<not> net_restore net then Error ''restore_flags_failed''
            else Okay (address, port))"

text \<open>The sending loop and the reading of the status are those of \<open>main.cpp\<close>, line by line.\<close>

definition probe_sendAll :: "send_result list \<Rightarrow> string \<Rightarrow> bool \<times> string" where
  "probe_sendAll rs data = sendAll rs data"

definition probe_status :: "string \<Rightarrow> int" where
  "probe_status response = statusFromRawHttpResponse response"

fun health_read :: "recv_result list \<Rightarrow> string \<Rightarrow> (string, string) result" where
  "health_read rs response =
     (if find_sub (CRLF @ CRLF) response \<noteq> None then Okay response
      else case rs of
          [] \<Rightarrow> Okay response
        | Interrupted # rs' \<Rightarrow> health_read rs' response
        | WouldBlock # rs' \<Rightarrow> Error ''health_response_timeout''
        | RecvFailed # rs' \<Rightarrow> Error ''health_response_read_failed''
        | Received buffer # rs' \<Rightarrow>
            if buffer = [] then Okay response
            else if length response + length buffer > 64 * 1024 then Error ''health_response_headers_too_large''
            else health_read rs' (response @ buffer))"

declare health_read.simps [simp del]

definition health_request :: "string \<Rightarrow> int \<Rightarrow> string" where
  "health_request path port =
     ''GET '' @ path @ '' HTTP/1.1'' @ CRLF @ ''Host: 127.0.0.1:'' @ show_int port @ CRLF @
     ''Accept: application/json'' @ CRLF @ ''Connection: close'' @ CRLF @ CRLF"

definition health_of_status :: "int \<Rightarrow> HealthObservation" where
  "health_of_status status =
     \<lparr>hlt_status = (if status = 200 then ''online'' else ''offline''), httpStatus = status,
      hlt_detail = (if status = 200 then ''ok'' else ''http_'' @ show_int status)\<rparr>"

definition observeLoopbackHealth :: "Net \<Rightarrow> int \<Rightarrow> string \<Rightarrow> HealthObservation" where
  "observeLoopbackHealth net port path =
     (if port = 0 then offline ''invalid_port''
      else if path = [] \<or> hd path \<noteq> CHR ''/'' \<or> CR \<in> set path \<or> LF \<in> set path
      then not_observed ''invalid_health_path''
      else case probe_connectLoopback net port of
          Error e \<Rightarrow> offline e
        | Okay _ \<Rightarrow>
            if \<not> fst (probe_sendAll (net_send net) (health_request path port)) then offline ''health_request_send_failed''
            else case health_read (net_recv net) [] of
                Error e \<Rightarrow> offline e
              | Okay response \<Rightarrow>
                  if \<not> prefix ''HTTP/1.'' response \<or> find_sub (CRLF @ CRLF) response = None
                  then offline ''invalid_health_response''
                  else health_of_status (probe_status response))"

definition observe_participant :: "Net \<Rightarrow> EcosystemParticipant \<Rightarrow> EcosystemParticipant" where
  "observe_participant net p =
     p\<lparr>health :=
        (if healthPath p = [] then not_observed ''no_probe_declared''
         else if transport (runtime p) \<noteq> ''tcp'' then not_observed ''unsupported_probe_transport''
         else if listen (runtime p) \<noteq> ''127.0.0.1'' \<and> listen (runtime p) \<noteq> ''localhost'' \<and> listen (runtime p) \<noteq> []
         then not_observed ''unsupported_probe_host''
         else observeLoopbackHealth net (run_port (runtime p)) (healthPath p))\<rparr>"

text \<open>One network per participant.\<close>

definition observeEcosystemHealth :: "(nat \<Rightarrow> Net) \<Rightarrow> EcosystemView \<Rightarrow> EcosystemView" where
  "observeEcosystemHealth nets view =
     view\<lparr>eco_systems := map (\<lambda>(i, p). observe_participant (nets i) p) (enumerate 0 (eco_systems view))\<rparr>"

section \<open>JSON\<close>

definition ecosystem_system_json :: "EcosystemParticipant \<Rightarrow> string" where
  "ecosystem_system_json s =
     ([LF] @ ''    {'' @ [LF]) @
     (''      '' @ [QUOTE] @ ''component_id'' @ [QUOTE] @ '': '' @ [QUOTE]) @ view_jsonEscape (componentId s) @ ([QUOTE] @ '','' @ [LF]) @
     (''      '' @ [QUOTE] @ ''system_id'' @ [QUOTE] @ '': '' @ [QUOTE]) @ view_jsonEscape (eco_systemId s) @ ([QUOTE] @ '','' @ [LF]) @
     (''      '' @ [QUOTE] @ ''runtime'' @ [QUOTE] @ '': {'' @ [LF]) @
     (''        '' @ [QUOTE] @ ''transport'' @ [QUOTE] @ '': '' @ [QUOTE]) @ view_jsonEscape (transport (runtime s)) @ ([QUOTE] @ '','' @ [LF]) @
     (''        '' @ [QUOTE] @ ''listen'' @ [QUOTE] @ '': '' @ [QUOTE]) @ view_jsonEscape (listen (runtime s)) @ ([QUOTE] @ '','' @ [LF]) @
     (''        '' @ [QUOTE] @ ''port'' @ [QUOTE] @ '': '') @ show_int (run_port (runtime s)) @ ([LF] @ ''      },'' @ [LF] @ ''      '' @ [QUOTE] @ ''probe'' @ [QUOTE] @ '': {'' @ [LF]) @
     (''        '' @ [QUOTE] @ ''health_path'' @ [QUOTE] @ '': '' @ [QUOTE]) @ view_jsonEscape (healthPath s) @ [QUOTE, LF] @
     (''      },'' @ [LF] @ ''      '' @ [QUOTE] @ ''gateway'' @ [QUOTE] @ '': {'' @ [LF] @ ''        '' @ [QUOTE] @ ''host'' @ [QUOTE] @ '': '' @ [QUOTE]) @ view_jsonEscape (gw_host (gateway s)) @ [QUOTE] @
     (if gw_publicUrl (gateway s) \<noteq> []
      then ('','' @ [LF] @ ''        '' @ [QUOTE] @ ''public_url'' @ [QUOTE] @ '': '' @ [QUOTE]) @ view_jsonEscape (gw_publicUrl (gateway s)) @ [QUOTE] else []) @
     ([LF] @ ''      },'' @ [LF] @ ''      '' @ [QUOTE] @ ''health'' @ [QUOTE] @ '': {'' @ [LF]) @
     (''        '' @ [QUOTE] @ ''status'' @ [QUOTE] @ '': '' @ [QUOTE]) @ view_jsonEscape (hlt_status (health s)) @ ([QUOTE] @ '','' @ [LF]) @
     (''        '' @ [QUOTE] @ ''http_status'' @ [QUOTE] @ '': '') @ show_int (httpStatus (health s)) @ ('','' @ [LF]) @
     (''        '' @ [QUOTE] @ ''detail'' @ [QUOTE] @ '': '' @ [QUOTE]) @ view_jsonEscape (hlt_detail (health s)) @ [QUOTE, LF] @
     (''      }'' @ [LF] @ ''    }'')"

definition serializeEcosystemViewJson :: "EcosystemView \<Rightarrow> string" where
  "serializeEcosystemViewJson view =
     (''{'' @ [LF]) @
     (''  '' @ [QUOTE] @ ''schema'' @ [QUOTE] @ '': '' @ [QUOTE]) @ view_jsonEscape (eco_schema view) @ ([QUOTE] @ '','' @ [LF]) @
     (''  '' @ [QUOTE] @ ''composition_id'' @ [QUOTE] @ '': '' @ [QUOTE]) @ view_jsonEscape (compositionId view) @ ([QUOTE] @ '','' @ [LF]) @
     (''  '' @ [QUOTE] @ ''deployment_id'' @ [QUOTE] @ '': '' @ [QUOTE]) @ view_jsonEscape (deploymentId view) @ ([QUOTE] @ '','' @ [LF]) @
     (''  '' @ [QUOTE] @ ''deployment_status'' @ [QUOTE] @ '': '' @ [QUOTE]) @ view_jsonEscape (deploymentStatus view) @ ([QUOTE] @ '','' @ [LF]) @
     (''  '' @ [QUOTE] @ ''systems'' @ [QUOTE] @ '': ['') @ join_with CHR '','' (map ecosystem_system_json (eco_systems view)) @
     (if eco_systems view \<noteq> [] then ([LF] @ ''  '') else []) @ ('']'' @ [LF] @ ''}'')"

definition compatibility_json :: "EcosystemParticipant \<Rightarrow> string" where
  "compatibility_json s =
     ([LF] @ ''  {'' @ [LF]) @
     (''    '' @ [QUOTE] @ ''id'' @ [QUOTE] @ '': '' @ [QUOTE]) @ view_jsonEscape (if eco_systemId s = [] then componentId s else eco_systemId s) @ ([QUOTE] @ '','' @ [LF]) @
     (''    '' @ [QUOTE] @ ''component_id'' @ [QUOTE] @ '': '' @ [QUOTE]) @ view_jsonEscape (componentId s) @ ([QUOTE] @ '','' @ [LF]) @
     (''    '' @ [QUOTE] @ ''system_id'' @ [QUOTE] @ '': '' @ [QUOTE]) @ view_jsonEscape (eco_systemId s) @ ([QUOTE] @ '','' @ [LF]) @
     (''    '' @ [QUOTE] @ ''runtime'' @ [QUOTE] @ '': {'' @ [LF]) @
     (''      '' @ [QUOTE] @ ''transport'' @ [QUOTE] @ '': '' @ [QUOTE]) @ view_jsonEscape (transport (runtime s)) @ ([QUOTE] @ '','' @ [LF]) @
     (''      '' @ [QUOTE] @ ''listen'' @ [QUOTE] @ '': '' @ [QUOTE]) @ view_jsonEscape (listen (runtime s)) @ ([QUOTE] @ '','' @ [LF]) @
     (''      '' @ [QUOTE] @ ''port'' @ [QUOTE] @ '': '') @ show_int (run_port (runtime s)) @ ([LF] @ ''    },'' @ [LF] @ ''    '' @ [QUOTE] @ ''probe'' @ [QUOTE] @ '': {'' @ [LF]) @
     (''      '' @ [QUOTE] @ ''health_path'' @ [QUOTE] @ '': '' @ [QUOTE]) @ view_jsonEscape (healthPath s) @ [QUOTE, LF] @
     (''      },'' @ [LF] @ ''    '' @ [QUOTE] @ ''gateway'' @ [QUOTE] @ '': {'' @ [LF] @ ''      '' @ [QUOTE] @ ''host'' @ [QUOTE] @ '': '' @ [QUOTE]) @ view_jsonEscape (gw_host (gateway s)) @ [QUOTE] @
     (if gw_publicUrl (gateway s) \<noteq> []
      then ('','' @ [LF] @ ''      '' @ [QUOTE] @ ''public_url'' @ [QUOTE] @ '': '' @ [QUOTE]) @ view_jsonEscape (gw_publicUrl (gateway s)) @ [QUOTE] else []) @
     ([LF] @ ''    },'' @ [LF]) @
     (''    '' @ [QUOTE] @ ''health_status'' @ [QUOTE] @ '': '' @ [QUOTE]) @ view_jsonEscape (hlt_status (health s)) @ ([QUOTE] @ '','' @ [LF]) @
     (''    '' @ [QUOTE] @ ''health_observed_by'' @ [QUOTE] @ '': '' @ [QUOTE] @ ''sisterd'' @ [QUOTE] @ '','' @ [LF]) @
     (''    '' @ [QUOTE] @ ''health_http_status'' @ [QUOTE] @ '': '') @ show_int (httpStatus (health s)) @ ('','' @ [LF]) @
     (''    '' @ [QUOTE] @ ''health_detail'' @ [QUOTE] @ '': '' @ [QUOTE]) @ view_jsonEscape (hlt_detail (health s)) @ ([QUOTE] @ '','' @ [LF]) @
     (''    '' @ [QUOTE] @ ''health'' @ [QUOTE] @ '': {'' @ [LF]) @
     (''      '' @ [QUOTE] @ ''status'' @ [QUOTE] @ '': '' @ [QUOTE]) @ view_jsonEscape (hlt_status (health s)) @ ([QUOTE] @ '','' @ [LF]) @
     (''      '' @ [QUOTE] @ ''http_status'' @ [QUOTE] @ '': '') @ show_int (httpStatus (health s)) @ ('','' @ [LF]) @
     (''      '' @ [QUOTE] @ ''detail'' @ [QUOTE] @ '': '' @ [QUOTE]) @ view_jsonEscape (hlt_detail (health s)) @ [QUOTE, LF] @
     (''    }'' @ [LF] @ ''  }'')"

definition serializeSystemsCompatibilityJson :: "EcosystemView \<Rightarrow> string" where
  "serializeSystemsCompatibilityJson view =
     ''['' @ join_with CHR '','' (map compatibility_json (eco_systems view)) @
     (if eco_systems view \<noteq> [] then [LF] else []) @ '']''"

definition surface_complete :: "EcosystemParticipant \<Rightarrow> InteractionSurface \<Rightarrow> bool" where
  "surface_complete p s \<longleftrightarrow> surfaceId s \<noteq> [] \<and> eco_systemId p \<noteq> [] \<and> sur_label s \<noteq> [] \<and> sur_purpose s \<noteq> [] \<and>
     sur_publicUrl s \<noteq> [] \<and> CR \<notin> set (sur_publicUrl s) \<and> LF \<notin> set (sur_publicUrl s) \<and> TAB \<notin> set (sur_publicUrl s) \<and>
     (prefix ''https://'' (sur_publicUrl s) \<or> prefix ''http://'' (sur_publicUrl s))"

definition surface_json :: "string \<Rightarrow> InteractionSurface \<Rightarrow> string" where
  "surface_json participant s =
     ([LF] @ ''    {'' @ [LF]) @
     (''      '' @ [QUOTE] @ ''surface_id'' @ [QUOTE] @ '': '' @ [QUOTE]) @ view_jsonEscape (surfaceId s) @ ([QUOTE] @ '','' @ [LF]) @
     (''      '' @ [QUOTE] @ ''participant_id'' @ [QUOTE] @ '': '' @ [QUOTE]) @ view_jsonEscape (participant) @ ([QUOTE] @ '','' @ [LF]) @
     (''      '' @ [QUOTE] @ ''label'' @ [QUOTE] @ '': '' @ [QUOTE]) @ view_jsonEscape (sur_label s) @ ([QUOTE] @ '','' @ [LF]) @
     (''      '' @ [QUOTE] @ ''purpose'' @ [QUOTE] @ '': '' @ [QUOTE]) @ view_jsonEscape (sur_purpose s) @ ([QUOTE] @ '','' @ [LF]) @
     (''      '' @ [QUOTE] @ ''public_url'' @ [QUOTE] @ '': '' @ [QUOTE]) @ view_jsonEscape (sur_publicUrl s) @ ([QUOTE] @ '','' @ [LF]) @
     (''      '' @ [QUOTE] @ ''availability'' @ [QUOTE] @ '': '' @ [QUOTE] @ ''available'' @ [QUOTE, LF] @ ''    }'')"

text \<open>The two nested loops with their flag \<open>first\<close>.\<close>

fun surface_loop :: "string list \<Rightarrow> EcosystemParticipant \<Rightarrow> InteractionSurface list \<Rightarrow> bool \<times> string \<Rightarrow> bool \<times> string" where
  "surface_loop allowed p [] st = st"
| "surface_loop allowed p (s # ss) (first, json) =
     (if accessClass s \<notin> set allowed \<or> \<not> surface_complete p s then surface_loop allowed p ss (first, json)
      else surface_loop allowed p ss
             (False, json @ (if \<not> first then '','' else []) @ surface_json (eco_systemId p) s))"

fun workspace_loop :: "string list \<Rightarrow> EcosystemParticipant list \<Rightarrow> bool \<times> string \<Rightarrow> bool \<times> string" where
  "workspace_loop allowed [] st = st"
| "workspace_loop allowed (p # ps) st = workspace_loop allowed ps (surface_loop allowed p (interactionSurfaces p) st)"

definition serializeWorkspaceViewJson :: "EcosystemView \<Rightarrow> string list \<Rightarrow> string" where
  "serializeWorkspaceViewJson view allowed =
     (let (first, json) = workspace_loop allowed (eco_systems view)
            (True, (''{'' @ [LF] @ ''  '' @ [QUOTE] @ ''schema'' @ [QUOTE] @ '': '' @ [QUOTE] @ ''sister.workspace-view/1.0.0'' @ [QUOTE] @ '','' @ [LF] @ ''  '' @ [QUOTE] @ ''surfaces'' @ [QUOTE] @ '': ['') ) in
      json @ (if \<not> first then ([LF] @ ''  '') else []) @ ('']'' @ [LF] @ ''}'') )"

section \<open>What the workspace shows\<close>

text \<open>The surfaces of a view that an actor with the given access classes may see, each with the system
  it belongs to.\<close>

definition visible :: "string list \<Rightarrow> EcosystemView \<Rightarrow> (string \<times> InteractionSurface) list" where
  "visible allowed view =
     concat (map (\<lambda>p. map (\<lambda>s. (eco_systemId p, s))
       (filter (\<lambda>s. accessClass s \<in> set allowed \<and> surface_complete p s) (interactionSurfaces p))) (eco_systems view))"

text \<open>The loops as a function of the texts to be listed.\<close>

definition listed :: "string list \<Rightarrow> bool \<times> string \<Rightarrow> bool \<times> string" where
  "listed xs st = foldl (\<lambda>(first, json) x. (False, json @ (if \<not> first then '','' else []) @ x)) st xs"

lemma listed_append: "listed (xs @ ys) st = listed ys (listed xs st)"
  by (simp add: listed_def)

lemma surface_loop_listed:
  "surface_loop allowed p ss st =
     listed (map (surface_json (eco_systemId p)) (filter (\<lambda>s. accessClass s \<in> set allowed \<and> surface_complete p s) ss)) st"
  by (induction allowed p ss st rule: surface_loop.induct) (auto simp: listed_def)

lemma workspace_loop_listed:
  "workspace_loop allowed ps st =
     listed (concat (map (\<lambda>p. map (surface_json (eco_systemId p))
       (filter (\<lambda>s. accessClass s \<in> set allowed \<and> surface_complete p s) (interactionSurfaces p))) ps)) st"
  by (induction ps arbitrary: st) (simp_all add: surface_loop_listed listed_append, simp add: listed_def)

lemma visible_texts:
  "concat (map (\<lambda>p. map (surface_json (eco_systemId p))
       (filter (\<lambda>s. accessClass s \<in> set allowed \<and> surface_complete p s) (interactionSurfaces p))) (eco_systems view)) =
     map (\<lambda>(i, s). surface_json i s) (visible allowed view)"
  by (simp add: visible_def map_concat comp_def)

section \<open>Properties\<close>


definition sample_surface :: "string \<Rightarrow> InteractionSurface" where
  "sample_surface c = \<lparr>surfaceId = ''s'', sur_label = ''l'', sur_purpose = ''p'', sur_publicUrl = ''https://x'', accessClass = c\<rparr>"

definition sample_ecosystem :: "InteractionSurface list \<Rightarrow> EcosystemView" where
  "sample_ecosystem ss = empty_ecosystem\<lparr>eco_systems :=
     [(participant_of [''PARTICIPANT'', ''c'', ''agro''])\<lparr>interactionSurfaces := ss\<rparr>]\<rparr>"


lemma loopback_address: "inet_pton4 ''127.0.0.1'' = Some 0x7f000001"
  by code_simp

lemma observe_online:
  assumes "hlt_status (observeLoopbackHealth net port path) = ''online''"
  obtains response where "port \<noteq> 0" "probe_connectLoopback net port = Okay (0x7f000001, port)"
    "health_read (net_recv net) [] = Okay response" "prefix ''HTTP/1.'' response"
    "find_sub (CRLF @ CRLF) response \<noteq> None" "probe_status response = 200"
  using assms
  by (auto simp: observeLoopbackHealth_def offline_def not_observed_def health_of_status_def probe_connectLoopback_def
      loopback_address split: if_split_asm sum.split_asm)

text \<open>Online is only reported for what answered: a participant that is online after an observation has
  a probe path, is bound to TCP on the loopback interface, and its port on \<open>127.0.0.1\<close> accepted a
  connection and answered with a complete head and status 200.  Observing changes nothing but the health.\<close>

theorem online_means_answered:
  assumes "i < length (eco_systems view)"
    and "p' = eco_systems (observeEcosystemHealth nets view) ! i" and "hlt_status (health p') = ''online''"
  shows "\<exists>p response. p = eco_systems view ! i \<and> p' = p\<lparr>health := health p'\<rparr> \<and>
    healthPath p \<noteq> [] \<and> transport (runtime p) = ''tcp'' \<and> listen (runtime p) \<in> {''127.0.0.1'', ''localhost'', []} \<and>
    run_port (runtime p) \<noteq> 0 \<and>
    probe_connectLoopback (nets i) (run_port (runtime p)) = Okay (0x7f000001, run_port (runtime p)) \<and>
    health_read (net_recv (nets i)) [] = Okay response \<and> prefix ''HTTP/1.'' response \<and>
    find_sub (CRLF @ CRLF) response \<noteq> None \<and> probe_status response = 200"
proof -
  let ?p = "eco_systems view ! i"
  have p': "p' = observe_participant (nets i) ?p"
    using assms(1,2) by (simp add: observeEcosystemHealth_def enumerate_eq_zip)
  have probe: "healthPath ?p \<noteq> []" "transport (runtime ?p) = ''tcp''" "listen (runtime ?p) \<in> {''127.0.0.1'', ''localhost'', []}"
    "hlt_status (observeLoopbackHealth (nets i) (run_port (runtime ?p)) (healthPath ?p)) = ''online''"
    using assms(3) unfolding p' by (auto simp: observe_participant_def not_observed_def split: if_split_asm)
  have "p' = ?p\<lparr>health := health p'\<rparr>" by (simp add: p' observe_participant_def)
  with probe(1-3) show ?thesis by (metis observe_online [OF probe(4)])
qed

definition sample_probed :: EcosystemView where
  "sample_probed = empty_ecosystem\<lparr>eco_systems :=
     [participant_of [''PARTICIPANT'', ''c'', ''agro'', ''tcp'', ''127.0.0.1'', ''9000'', ''/health'']]\<rparr>"

theorem online_means_answered_witness:
  "hlt_status (health (eco_systems (observeEcosystemHealth (\<lambda>_. sample_net) sample_probed) ! 0)) = ''online'' \<and>
   (\<exists>response. health_read (net_recv sample_net) [] = Okay response \<and> probe_status response = 200)"
proof -
  have "hlt_status (health (eco_systems (observeEcosystemHealth (\<lambda>_. sample_net) sample_probed) ! 0)) = ''online''"
    by code_simp
  moreover have "0 < length (eco_systems sample_probed)" by (simp add: sample_probed_def)
  ultimately show ?thesis using online_means_answered [OF _ refl, of 0 sample_probed "\<lambda>_. sample_net"] by blast
qed

end
