(* ===== verification/Static_Files.thy ===== *)
theory Static_Files
  imports Http_Response
begin

text \<open>
  Files the daemon serves (\<open>apps/sisterd/main.cpp\<close> and \<open>api/maturity_routes.cpp\<close>): the
  static web root and the fixed documents of the maturity evidence.  \<open>Files\<close> holds the answers
  of the file system about a path; a path is its text, with the components
  \<open>std::filesystem::path\<close> iterates over.
\<close>

section \<open>Paths\<close>

datatype file_status = Lookup_Missing | Lookup_Error | Absent | Regular | Other_File

record Files =
  fs_status :: "string \<Rightarrow> file_status"
  fs_canonical :: "string \<Rightarrow> string option"
  fs_regular :: "string \<Rightarrow> bool"
  fs_size :: "string \<Rightarrow> nat option"
  fs_open :: "string \<Rightarrow> string option"
  fs_write_time :: "string \<Rightarrow> int option"

text \<open>Iterating over a path: the root directory, the names, and an empty name for a trailing slash.\<close>

definition path_names :: "string \<Rightarrow> string list" where
  "path_names p = filter (\<lambda>c. c \<noteq> []) (split_on CHR ''/'' p)"

definition path_components :: "string \<Rightarrow> string list" where
  "path_components p =
     (if prefix ''/'' p then [''/''] else []) @ path_names p @
     (if path_names p \<noteq> [] \<and> last p = CHR ''/'' then [[]] else [])"

definition path_join :: "string \<Rightarrow> string \<Rightarrow> string" where
  "path_join p q =
     (if prefix ''/'' q then q else if p = [] \<or> last p = CHR ''/'' then p @ q else p @ ''/'' @ q)"

definition pathStartsWith :: "string \<Rightarrow> string \<Rightarrow> bool" where
  "pathStartsWith candidate root \<longleftrightarrow> prefix (path_components root) (path_components candidate)"

text \<open>\<open>path.extension()\<close>: from the last dot of the last component, unless it is the first character.\<close>

definition extension :: "string \<Rightarrow> string" where
  "extension p =
     (let name = (if path_components p = [] then [] else last (path_components p));
          stem = rev (dropWhile (\<lambda>c. c \<noteq> CHR ''.'') (rev name)) in
      if name = ''.'' \<or> name = ''..'' \<or> length stem \<le> 1 then [] else drop (length stem - 1) name)"

section \<open>Static files\<close>

definition kMaxStaticFileBytes :: nat where
  "kMaxStaticFileBytes = 16 * 1024 * 1024"

definition kMaxMaturityJsonBytes :: nat where
  "kMaxMaturityJsonBytes = 512 * 1024"

definition contentType :: "string \<Rightarrow> string" where
  "contentType path =
     (let ext = lowercase (extension path) in
      if ext = ''.html'' then ''text/html; charset=utf-8''
      else if ext = ''.css'' then ''text/css; charset=utf-8''
      else if ext = ''.js'' \<or> ext = ''.mjs'' then ''application/javascript; charset=utf-8''
      else if ext = ''.json'' then ''application/json; charset=utf-8''
      else if ext = ''.svg'' then ''image/svg+xml''
      else if ext = ''.png'' then ''image/png''
      else if ext = ''.jpg'' \<or> ext = ''.jpeg'' then ''image/jpeg''
      else if ext = ''.webp'' then ''image/webp''
      else if ext = ''.ico'' then ''image/x-icon''
      else if ext = ''.woff2'' then ''font/woff2''
      else ''application/octet-stream'')"

definition shouldNeverCacheStaticFile :: "string \<Rightarrow> bool" where
  "shouldNeverCacheStaticFile path \<longleftrightarrow>
     lowercase (extension path) \<in> {''.html'', ''.css'', ''.js'', ''.mjs'', ''.json''}"

definition shouldClearBrowserSiteData :: "string \<Rightarrow> bool" where
  "shouldClearBrowserSiteData path \<longleftrightarrow> lowercase (extension path) \<in> {''.html'', ''.js'', ''.mjs''}"

text \<open>\<open>body(size)\<close> and \<open>input.read\<close>: the read fails when the file is shorter than \<open>size\<close>.\<close>

definition read_exactly :: "nat \<Rightarrow> string \<Rightarrow> string option" where
  "read_exactly n content = (if length content < n then None else Some (take n content))"

definition static_readFile :: "Files \<Rightarrow> string \<Rightarrow> (string, string) result" where
  "static_readFile fs path =
     (case fs_size fs path of
        None \<Rightarrow> Error ''static file unavailable or too large''
      | Some n \<Rightarrow>
          if n > kMaxStaticFileBytes then Error ''static file unavailable or too large''
          else case fs_open fs path of
              None \<Rightarrow> Error ''static file not found''
            | Some content \<Rightarrow>
                if n = 0 then Okay []
                else (case read_exactly n content of
                    None \<Rightarrow> Error ''cannot read static file'' | Some body \<Rightarrow> Okay body))"

definition route_path :: "string \<Rightarrow> string" where
  "route_path rawPath =
     (if rawPath = [] \<or> rawPath = ''/'' then ''/index.html''
      else if rawPath = ''/login'' then ''/login.html''
      else if rawPath = ''/admin/users'' then ''/admin.html''
      else if rawPath = ''/admin/maturity'' then ''/maturity/index.html''
      else if rawPath = ''/engineering'' \<or> rawPath = ''/engineering/'' then ''/engineering/index.html''
      else rawPath)"

definition bad_component :: "string \<Rightarrow> bool" where
  "bad_component v \<longleftrightarrow> v = [] \<or> v = ''.'' \<or> v = ''..'' \<or> (prefix ''.'' v \<and> v \<noteq> ''.well-known'')"

definition resolveStaticPath :: "Files \<Rightarrow> string \<Rightarrow> ServerConfig \<Rightarrow> string option" where
  "resolveStaticPath fs rawPath config =
     (let relative = drop 1 (route_path rawPath) in
      if relative = [] \<or> prefix ''/'' relative then None
      else if list_ex bad_component (path_components relative) then None
      else case fs_canonical fs (path_join (canonicalWebRoot config) relative) of
          None \<Rightarrow> None
        | Some candidate \<Rightarrow>
            if \<not> pathStartsWith candidate (canonicalWebRoot config) \<or> \<not> fs_regular fs candidate then None
            else Some candidate)"

section \<open>Fixed documents\<close>

datatype FixedJsonState = Ready_Doc | Missing_Doc | Invalid_Doc

record FixedJsonDocument =
  doc_state :: FixedJsonState
  doc_body :: string

text \<open>\<open>s.find(c, position)\<close>\<close>

definition find_from :: "string \<Rightarrow> string \<Rightarrow> nat \<Rightarrow> nat option" where
  "find_from s pat position =
     (if position > length s then None else map_option (\<lambda>i. position + i) (find_sub pat (drop position s)))"

definition hasJsonStringField :: "string \<Rightarrow> string \<Rightarrow> string \<Rightarrow> bool" where
  "hasJsonStringField document name val =
     (let key = [QUOTE] @ name @ [QUOTE] in
      case find_sub key document of
        None \<Rightarrow> False
      | Some position \<Rightarrow>
          (case find_from document '':'' (position + length key) of
             None \<Rightarrow> False
           | Some colon \<Rightarrow>
               let expected = [QUOTE] @ val @ [QUOTE] in
               take (length expected) (dropWhile isspace (drop (colon + 1) document)) = expected))"

text \<open>\<open>find_first_not_of\<close> and \<open>find_last_not_of\<close> with the braces.\<close>

definition json_blank :: "char \<Rightarrow> bool" where
  "json_blank c \<longleftrightarrow> c = CHR '' '' \<or> c = TAB \<or> c = CR \<or> c = LF"

definition braced :: "string \<Rightarrow> bool" where
  "braced body \<longleftrightarrow>
     (let t = dropWhile json_blank body in
      t \<noteq> [] \<and> hd t = CHR ''{'' \<and> hd (dropWhile json_blank (rev body)) = CHR ''}'')"

definition readFixedJsonDocument :: "Files \<Rightarrow> string \<Rightarrow> string \<Rightarrow> FixedJsonDocument" where
  "readFixedJsonDocument fs path expectedSchema =
     (let missing = \<lparr>doc_state = Missing_Doc, doc_body = []\<rparr>; invalid = \<lparr>doc_state = Invalid_Doc, doc_body = []\<rparr> in
      case fs_status fs path of
        Lookup_Missing \<Rightarrow> missing
      | Lookup_Error \<Rightarrow> invalid
      | Absent \<Rightarrow> missing
      | Other_File \<Rightarrow> invalid
      | Regular \<Rightarrow>
          (case fs_size fs path of
             None \<Rightarrow> invalid
           | Some n \<Rightarrow>
               if n = 0 \<or> n > kMaxMaturityJsonBytes then invalid
               else (case fs_open fs path of
                   None \<Rightarrow> invalid
                 | Some content \<Rightarrow>
                     (case read_exactly n content of
                        None \<Rightarrow> invalid
                      | Some body \<Rightarrow>
                          if \<not> braced body \<or> \<not> hasJsonStringField body ''schema'' expectedSchema then invalid
                          else \<lparr>doc_state = Ready_Doc, doc_body = body\<rparr>))))"

section \<open>Maturity routes\<close>

record RouteResponse =
  status_code :: nat
  reason_phrase :: string
  route_content_type :: string
  route_body :: string

definition maturity_jsonError :: "nat \<Rightarrow> string \<Rightarrow> string \<Rightarrow> string" where
  "maturity_jsonError code title detail =
     (''{'' @ [LF] @ ''  '' @ [QUOTE] @ ''error'' @ [QUOTE] @ '': {'' @ [LF] @ ''    '' @ [QUOTE] @ ''code'' @ [QUOTE] @ '': '') @ show_nat code @ ('','' @ [LF] @ ''    '' @ [QUOTE] @ ''title'' @ [QUOTE] @ '': '' @ [QUOTE]) @ title @ ([QUOTE] @ '','' @ [LF] @ ''    '' @ [QUOTE] @ ''detail'' @ [QUOTE] @ '': '' @ [QUOTE]) @ detail @ ([QUOTE, LF] @ ''  }'' @ [LF] @ ''}'')"

definition maturity_hasJsonStringField :: "string \<Rightarrow> string \<Rightarrow> string \<Rightarrow> bool" where
  "maturity_hasJsonStringField json field expectedValue =
     (case find_sub ([QUOTE] @ field @ [QUOTE]) json of
        None \<Rightarrow> False
      | Some pos \<Rightarrow>
          (case find_from json '':'' pos of
             None \<Rightarrow> False
           | Some pos \<Rightarrow>
               (case find_from json [QUOTE] pos of
                  None \<Rightarrow> False
                | Some pos \<Rightarrow>
                    (case find_from json [QUOTE] (pos + 1) of
                       None \<Rightarrow> False
                     | Some endPos \<Rightarrow> take (endPos - pos - 1) (drop (pos + 1) json) = expectedValue))))"

definition not_found_route :: "string \<Rightarrow> RouteResponse" where
  "not_found_route detail = \<lparr>status_code = 404, reason_phrase = ''Not Found'', route_content_type = json_type,
     route_body = maturity_jsonError 404 ''Not Found'' detail\<rparr>"

definition unavailable_route :: "string \<Rightarrow> RouteResponse" where
  "unavailable_route detail = \<lparr>status_code = 503, reason_phrase = ''Service Unavailable'', route_content_type = json_type,
     route_body = maturity_jsonError 503 ''Service Unavailable'' detail\<rparr>"

text \<open>The three functions have one body; what differs is the file, the schema and the five messages
  (absent, size, open, read, schema).\<close>

definition maturity_document ::
  "Files \<Rightarrow> string \<Rightarrow> string \<Rightarrow> string \<Rightarrow> string \<Rightarrow> string \<Rightarrow> string \<Rightarrow> string \<Rightarrow> RouteResponse" where
  "maturity_document fs path schema absent size_msg open_msg read_msg schema_msg =
     (if fs_status fs path \<noteq> Regular then not_found_route absent
      else case fs_size fs path of
          None \<Rightarrow> unavailable_route size_msg
        | Some n \<Rightarrow>
            if n = 0 \<or> n > 10 * 1024 * 1024 then unavailable_route size_msg
            else (case fs_open fs path of
                None \<Rightarrow> unavailable_route open_msg
              | Some content \<Rightarrow>
                  (case read_exactly n content of
                     None \<Rightarrow> unavailable_route read_msg
                   | Some body \<Rightarrow>
                       if \<not> braced body \<or> \<not> maturity_hasJsonStringField body ''schema'' schema
                       then unavailable_route schema_msg
                       else \<lparr>status_code = 200, reason_phrase = ''OK'', route_content_type = json_type,
                             route_body = body\<rparr>)))"

definition getMaturityComponents :: "Files \<Rightarrow> string \<Rightarrow> RouteResponse" where
  "getMaturityComponents fs root =
     maturity_document fs (path_join root ''components.json'') ''sister.maturity-components/1.0.0''
       ([CHR 0xC3, CHR 0x8D] @ ''ndice de componentes n'' @ [CHR 0xC3, CHR 0xA3] @ ''o foi publicado.'')
       (''O arquivo do '' @ [CHR 0xC3, CHR 0xAD] @ ''ndice '' @ [CHR 0xC3, CHR 0xA9] @ '' inv'' @ [CHR 0xC3, CHR 0xA1] @ ''lido ou excede o limite de tamanho.'')
       (''Falha ao ler o arquivo de '' @ [CHR 0xC3, CHR 0xAD] @ ''ndice.'')
       (''Leitura incompleta do '' @ [CHR 0xC3, CHR 0xAD] @ ''ndice.'')
       (''Schema inv'' @ [CHR 0xC3, CHR 0xA1] @ ''lido no '' @ [CHR 0xC3, CHR 0xAD] @ ''ndice de componentes.'')"

definition getMaturityCatalog :: "Files \<Rightarrow> string \<Rightarrow> RouteResponse" where
  "getMaturityCatalog fs root =
     maturity_document fs (path_join root ''catalog.json'') ''sister.maturity-catalog/1.0.0''
       (''Cat'' @ [CHR 0xC3, CHR 0xA1] @ ''logo de checks n'' @ [CHR 0xC3, CHR 0xA3] @ ''o foi publicado.'')
       (''O cat'' @ [CHR 0xC3, CHR 0xA1] @ ''logo '' @ [CHR 0xC3, CHR 0xA9] @ '' inv'' @ [CHR 0xC3, CHR 0xA1] @ ''lido ou excede o limite de tamanho.'')
       (''Falha ao ler o cat'' @ [CHR 0xC3, CHR 0xA1] @ ''logo.'')
       (''Leitura incompleta do cat'' @ [CHR 0xC3, CHR 0xA1] @ ''logo.'')
       (''Schema inv'' @ [CHR 0xC3, CHR 0xA1] @ ''lido no cat'' @ [CHR 0xC3, CHR 0xA1] @ ''logo de checks.'')"

definition getQualityStatus :: "Files \<Rightarrow> string \<Rightarrow> RouteResponse" where
  "getQualityStatus fs root =
     maturity_document fs (path_join root ''quality.json'') ''sister.quality-status/1.0.0''
       (''Nenhuma execu'' @ [CHR 0xC3, CHR 0xA7, CHR 0xC3, CHR 0xA3] @ ''o da su'' @ [CHR 0xC3, CHR 0xAD] @ ''te de qualidade foi publicada.'')
       (''O relat'' @ [CHR 0xC3, CHR 0xB3] @ ''rio de qualidade '' @ [CHR 0xC3, CHR 0xA9] @ '' inv'' @ [CHR 0xC3, CHR 0xA1] @ ''lido ou excede o limite de tamanho.'')
       (''Falha ao ler o relat'' @ [CHR 0xC3, CHR 0xB3] @ ''rio de qualidade.'')
       (''Falha ao ler o relat'' @ [CHR 0xC3, CHR 0xB3] @ ''rio de qualidade.'')
       (''Schema inv'' @ [CHR 0xC3, CHR 0xA1] @ ''lido no relat'' @ [CHR 0xC3, CHR 0xB3] @ ''rio de qualidade.'')"

section \<open>Two tests of one name\<close>

text \<open>The two functions \<open>hasJsonStringField\<close> disagree: the one of the maturity routes takes the next
  string after the colon, wherever it is, for the value.\<close>

theorem schema_tests_differ:
  "maturity_hasJsonStringField (''{'' @ [QUOTE] @ ''schema'' @ [QUOTE] @ '':null,'' @ [QUOTE] @ ''x'' @ [QUOTE] @ '':1}'') ''schema'' ''x'' \<and>
   \<not> hasJsonStringField (''{'' @ [QUOTE] @ ''schema'' @ [QUOTE] @ '':null,'' @ [QUOTE] @ ''x'' @ [QUOTE] @ '':1}'') ''schema'' ''x''"
  by code_simp

section \<open>Confinement\<close>

lemma static_readFile_okay:
  assumes "static_readFile fs path = Okay body"
  obtains content where "fs_open fs path = Some content" "prefix body content" "length body \<le> kMaxStaticFileBytes"
  using assms
  by (auto simp: static_readFile_def read_exactly_def take_is_prefix split: option.split_asm if_split_asm)

lemma resolveStaticPath_some:
  assumes "resolveStaticPath fs raw config = Some p"
  shows "prefix (path_components (canonicalWebRoot config)) (path_components p)" and "fs_regular fs p"
    and "fs_canonical fs (path_join (canonicalWebRoot config) (drop 1 (route_path raw))) = Some p"
    and "\<And>c. c \<in> set (path_components (drop 1 (route_path raw))) \<Longrightarrow>
      c \<notin> {[], ''.'', ''..''} \<and> (hd c = CHR ''.'' \<longrightarrow> c = ''.well-known'')"
proof -
  show "prefix (path_components (canonicalWebRoot config)) (path_components p)" "fs_regular fs p"
    "fs_canonical fs (path_join (canonicalWebRoot config) (drop 1 (route_path raw))) = Some p"
    using assms
    by (auto simp: resolveStaticPath_def Let_def pathStartsWith_def split: if_split_asm option.split_asm)
  have "\<not> list_ex bad_component (path_components (drop 1 (route_path raw)))"
    using assms by (auto simp: resolveStaticPath_def Let_def split: if_split_asm)
  then show "c \<notin> {[], ''.'', ''..''} \<and> (hd c = CHR ''.'' \<longrightarrow> c = ''.well-known'')"
    if "c \<in> set (path_components (drop 1 (route_path raw)))" for c
    using that by (cases c) (auto simp: list_ex_iff bad_component_def)
qed

end
