(* ===== verification/Authorization.thy ===== *)
theory Authorization
  imports Http_Response Auth_Data
begin

text \<open>
  Roles, capabilities and the decision that guards every protected route
  (\<open>apps/sisterd/main.cpp\<close>), with the two JSON documents about a user.  What is written to the
  log is a list of entries.
\<close>

section \<open>Users as JSON\<close>

definition jsonUser :: "AuthUser \<Rightarrow> string" where
  "jsonUser user =
     (''{'' @ [QUOTE] @ ''id'' @ [QUOTE] @ '':'' @ [QUOTE]) @ jsonEscape (au_id user) @ ([QUOTE] @ '','' @ [QUOTE] @ ''name'' @ [QUOTE] @ '':'' @ [QUOTE]) @ jsonEscape (au_name user) @
     ([QUOTE] @ '','' @ [QUOTE] @ ''email'' @ [QUOTE] @ '':'' @ [QUOTE]) @ jsonEscape (au_email user) @ ([QUOTE] @ '','' @ [QUOTE] @ ''role'' @ [QUOTE] @ '':'' @ [QUOTE]) @ jsonEscape (au_role user) @ ([QUOTE] @ ''}'')"

section \<open>Capabilities\<close>

definition capabilitiesForRole :: "string \<Rightarrow> string list" where
  "capabilitiesForRole role =
     (if role = ''admin'' then
        [''session.self.read'', ''workspace.resources.read'', ''workspace.context.read'', ''ecosystem.semantic.read'',
         ''engineering.ecosystem.read'', ''engineering.plan.read'', ''engineering.operational-base.read'',
         ''engineering.integration.decide'', ''engineering.integration.execute'', ''participation.propose'',
         ''participation.read'', ''identity.users.manage'', ''maturity.evidence.read'', ''subsystem.manifest.read'',
         ''sister.governance.read'', ''sister.evidence.read'', ''sister.diagnostics.read'',
         ''reference.identity.read'', ''reference.echo.execute'']
      else if role = ''researcher'' \<or> role = ''project_lead'' then
        [''session.self.read'', ''workspace.resources.read'', ''workspace.context.read'', ''ecosystem.semantic.read'',
         ''reference.identity.read'', ''reference.echo.execute'']
      else if role = ''user'' \<or> role = ''registered_user'' \<or> role = ''guest'' then
        [''session.self.read'', ''workspace.resources.read'', ''workspace.context.read'', ''ecosystem.semantic.read'']
      else [])"

definition hasCapability :: "AuthUser \<Rightarrow> string \<Rightarrow> bool" where
  "hasCapability actor capability \<longleftrightarrow> capability \<in> set (capabilitiesForRole (au_role actor))"

definition jsonCapabilities :: "AuthUser \<Rightarrow> string" where
  "jsonCapabilities user =
     (''{'' @ [QUOTE] @ ''user_id'' @ [QUOTE] @ '':'' @ [QUOTE]) @ jsonEscape (au_id user) @ ([QUOTE] @ '','' @ [QUOTE] @ ''role'' @ [QUOTE] @ '':'' @ [QUOTE]) @ jsonEscape (au_role user) @ ([QUOTE] @ '','' @ [QUOTE] @ ''capabilities'' @ [QUOTE] @ '':['') @
     join_with CHR '','' (map (\<lambda>c. [QUOTE] @ jsonEscape c @ [QUOTE]) (capabilitiesForRole (au_role user))) @ '']}''"

section \<open>The decision\<close>

datatype log_entry =
    Event (ev_level: string) (ev_status: int) (ev_detail: string)
  | Authorization (az_actor: "AuthUser option") (az_capability: string) (az_resource: string)
      (az_purpose: string) (az_allowed: bool) (az_reason: string)

text \<open>The line of an authorization entry, after the time stamp.\<close>

definition authorization_line :: "string \<Rightarrow> string \<Rightarrow> log_entry \<Rightarrow> string" where
  "authorization_line timestamp rid e =
     ''level=info event=authorization timestamp_ms='' @ timestamp @ '' request_id='' @ logSafe rid @
     '' actor='' @ logSafe (case az_actor e of None \<Rightarrow> ''anonymous'' | Some a \<Rightarrow> au_id a) @
     '' role='' @ logSafe (case az_actor e of None \<Rightarrow> ''none'' | Some a \<Rightarrow> au_role a) @
     '' capability='' @ logSafe (az_capability e) @ '' resource='' @ logSafe (az_resource e) @
     '' purpose='' @ logSafe (az_purpose e) @ '' result='' @ logSafe (if az_allowed e then ''allow'' else ''deny'') @
     '' reason='' @ logSafe (az_reason e) @ [LF]"

definition authorization :: "AuthUser option \<Rightarrow> string \<Rightarrow> nat \<times> string" where
  "authorization actor capability =
     (case actor of
        None \<Rightarrow> (401, ''authentication_required'')
      | Some a \<Rightarrow>
          if capability = [] then (403, ''capability_not_declared'')
          else if \<not> hasCapability a capability then (403, ''capability_missing'')
          else (200, ''capability_granted''))"

definition unauthorized :: HttpResponse where
  "unauthorized = jsonError 401 ''Unauthorized'' (''Autentica'' @ [CHR 0xC3, CHR 0xA7, CHR 0xC3, CHR 0xA3] @ ''o necess'' @ [CHR 0xC3, CHR 0xA1] @ ''ria.'')"

definition forbidden :: HttpResponse where
  "forbidden = jsonError 403 ''Forbidden'' (''Capacidade necess'' @ [CHR 0xC3, CHR 0xA1] @ ''ria n'' @ [CHR 0xC3, CHR 0xA3] @ ''o concedida.'')"

text \<open>The rejection with its log, or \<open>None\<close> and the log of the grant.\<close>

definition authorizeOrReject ::
  "AuthUser option \<Rightarrow> string \<Rightarrow> string \<Rightarrow> string \<Rightarrow> HttpResponse option \<times> log_entry list" where
  "authorizeOrReject actor capability resource purpose =
     (let (status, reason) = authorization actor capability;
          decision = Authorization actor capability resource purpose (status = 200) reason in
      if status = 200 then (None, [decision])
      else (Some (if status = 401 then unauthorized else forbidden), [decision, Event ''info'' (int status) reason]))"

lemma authorizeOrReject_granted:
  "fst (authorizeOrReject actor c r p) = None \<longleftrightarrow> (\<exists>a. actor = Some a \<and> c \<noteq> [] \<and> hasCapability a c)"
  by (auto simp: authorizeOrReject_def authorization_def split: option.split)

lemma authorizeOrReject_status:
  "fst (authorizeOrReject actor c r p) = Some rsp \<Longrightarrow> rsp_status rsp = (if actor = None then 401 else 403)"
  by (auto simp: authorizeOrReject_def authorization_def unauthorized_def forbidden_def jsonError_def split: option.split_asm if_split_asm)

lemma capability_names: "c \<in> set (capabilitiesForRole role) \<Longrightarrow> c \<noteq> []"
  by (auto simp: capabilitiesForRole_def split: if_split_asm)

text \<open>Roles are ordered: what a user may do a researcher may, and an administrator may do everything
  anyone may.\<close>

lemma capabilities_monotone:
  "set (capabilitiesForRole role) \<subseteq> set (capabilitiesForRole ''admin'')"
  "set (capabilitiesForRole ''user'') \<subseteq> set (capabilitiesForRole ''researcher'')"
  by (auto simp: capabilitiesForRole_def split: if_split_asm)

section \<open>Properties\<close>

text \<open>The document about a user says exactly what is stored: read with the parser of the daemon, it is
  the object with the four members id, name, e-mail and role of the user, whatever characters they
  contain.\<close>

theorem jsonUser_roundtrip:
  "parse_object (jsonUser u) = Some [(''id'', Some (au_id u)), (''name'', Some (au_name u)),
     (''email'', Some (au_email u)), (''role'', Some (au_role u))]"
proof -
  have keys: "jsonEscape ''id'' = ''id''" "jsonEscape ''name'' = ''name''" "jsonEscape ''email'' = ''email''"
    "jsonEscape ''role'' = ''role''"
    by code_simp+
  have "jsonUser u = object_text [(''id'', Some (au_id u)), (''name'', Some (au_name u)),
      (''email'', Some (au_email u)), (''role'', Some (au_role u))]"
    by (simp add: jsonUser_def object_text_def member_text_def value_text_def keys)
  then show ?thesis by (simp add: parse_object_text)
qed

end
