(* ===== verification/App_State.thy ===== *)
theory App_State
  imports Authorization Ecosystem_View Semantic_View Static_Files Participation_Service Auth_Properties Rate_Limiter
begin

text \<open>
  The shared state of the daemon (\<open>AppState\<close> of \<open>apps/sisterd/main.cpp\<close>, together with the login
  rate limiter), the cached views of the ecosystem, and the read-only API.  The
  authentication store has the file backend.  \<open>World\<close> holds everything a request meets outside
  the program: sockets, files, clocks, entropy, the database server.  A shared pointer to a
  snapshot is an optional value; a missing write time stands for the flag that there is none.
\<close>

section \<open>State\<close>

record World =
  w_version :: string
  w_timeouts :: bool
  w_recv :: "recv_result list"
  w_request_id :: string
  w_peer_address :: string
  w_crypto :: Crypto
  w_session_env :: AuthEnv
  w_auth_env :: AuthEnv
  w_clock :: int
  w_pg :: Postgres
  w_link :: Link
  w_link2 :: Link
  w_evidence :: "string list"
  w_diagnostics :: "string list"
  w_files :: Files
  w_net :: Net
  w_probes :: "nat \<Rightarrow> Net"
  w_assertion :: AssertionCrypto
  w_sign :: SignEnv
  w_execution_hex :: string

record AppState =
  app_auth :: AuthStore
  app_db :: DbState
  app_limiter :: LoginRateLimiter
  eco_declarative :: "EcosystemView option"
  eco_operational :: "EcosystemView option"
  eco_source :: string
  eco_write_time :: "int option"
  eco_observed_at :: int
  sem_snapshot :: "SemanticView option"
  sem_source :: string
  sem_write_time :: "int option"

section \<open>Snapshots\<close>

definition refreshDeclarativeEcosystemLocked :: "World \<Rightarrow> ServerConfig \<Rightarrow> AppState \<Rightarrow> bool \<times> AppState" where
  "refreshDeclarativeEcosystemLocked w config st =
     (let path = ecosystemProjectionFile config; writeTime = fs_write_time (w_files w) path;
          sourceChanged = (eco_declarative st = None \<or> eco_source st \<noteq> path \<or> eco_write_time st \<noteq> writeTime) in
      if \<not> sourceChanged then (False, st)
      else (True, st\<lparr>eco_declarative := Some (parseProjectionFile path (fs_open (w_files w) path)),
                     eco_operational := None, eco_source := path, eco_write_time := writeTime\<rparr>))"

definition declarativeEcosystem :: "World \<Rightarrow> ServerConfig \<Rightarrow> AppState \<Rightarrow> EcosystemView \<times> AppState" where
  "declarativeEcosystem w config st =
     (let st = snd (refreshDeclarativeEcosystemLocked w config st) in (the (eco_declarative st), st))"

text \<open>500 milliseconds.\<close>

definition healthFreshness :: int where
  "healthFreshness = 500 * 1000000"

definition observedEcosystem :: "World \<Rightarrow> ServerConfig \<Rightarrow> AppState \<Rightarrow> EcosystemView \<times> AppState" where
  "observedEcosystem w config st =
     (let (sourceChanged, st) = refreshDeclarativeEcosystemLocked w config st;
          healthExpired = (eco_operational st = None \<or> w_clock w - eco_observed_at st \<ge> healthFreshness);
          st = (if sourceChanged \<or> healthExpired
                then st\<lparr>eco_operational := Some (observeEcosystemHealth (w_probes w) (the (eco_declarative st))),
                        eco_observed_at := w_clock w\<rparr>
                else st) in
      (the (eco_operational st), st))"

definition semanticEcosystem :: "World \<Rightarrow> ServerConfig \<Rightarrow> AppState \<Rightarrow> SemanticView \<times> AppState" where
  "semanticEcosystem w config st =
     (let path = semanticEcosystemProjectionFile config; writeTime = fs_write_time (w_files w) path;
          sourceChanged = (sem_snapshot st = None \<or> sem_source st \<noteq> path \<or> sem_write_time st \<noteq> writeTime);
          st = (if sourceChanged
                then st\<lparr>sem_snapshot := Some (parseSemanticProjectionFile path (fs_size (w_files w) path)
                          (fs_open (w_files w) path)),
                        sem_source := path, sem_write_time := writeTime\<rparr>
                else st) in
      (the (sem_snapshot st), st))"

section \<open>The read-only API\<close>

record ApiPayload =
  pay_found :: bool
  pay_fallback :: bool
  pay_body :: string

definition found :: "string \<Rightarrow> ApiPayload" where
  "found body = \<lparr>pay_found = True, pay_fallback = False, pay_body = body\<rparr>"

definition fallback :: "string \<Rightarrow> ApiPayload" where
  "fallback body = \<lparr>pay_found = True, pay_fallback = True, pay_body = body\<rparr>"

definition missing :: "bool \<Rightarrow> ApiPayload" where
  "missing fb = \<lparr>pay_found = False, pay_fallback = fb, pay_body = ''{}''\<rparr>"

definition kFallbackContracts :: string where
  "kFallbackContracts = (''['' @ [LF] @ ''  {'' @ [QUOTE] @ ''name'' @ [QUOTE] @ '':'' @ [QUOTE] @ ''Subsystem Manifest'' @ [QUOTE] @ '','' @ [QUOTE] @ ''version'' @ [QUOTE] @ '':'' @ [QUOTE] @ ''1.0.0'' @ [QUOTE] @ '','' @ [QUOTE] @ ''required'' @ [QUOTE] @ '':'' @ [QUOTE] @ ''Sim'' @ [QUOTE] @ ''},'' @ [LF] @ ''  {'' @ [QUOTE] @ ''name'' @ [QUOTE] @ '':'' @ [QUOTE] @ ''Reference Subsystem'' @ [QUOTE] @ '','' @ [QUOTE] @ ''version'' @ [QUOTE] @ '':'' @ [QUOTE] @ ''0.1.0'' @ [QUOTE] @ '','' @ [QUOTE] @ ''required'' @ [QUOTE] @ '':'' @ [QUOTE] @ ''Para validacao funcional, operacional e de seguranca'' @ [QUOTE] @ ''},'' @ [LF] @ ''  {'' @ [QUOTE] @ ''name'' @ [QUOTE] @ '':'' @ [QUOTE] @ ''Evidence'' @ [QUOTE] @ '','' @ [QUOTE] @ ''version'' @ [QUOTE] @ '':'' @ [QUOTE] @ ''0.1.0'' @ [QUOTE] @ '','' @ [QUOTE] @ ''required'' @ [QUOTE] @ '':'' @ [QUOTE] @ ''Para resultado promovido'' @ [QUOTE] @ ''}'' @ [LF] @ '']'')"

definition kFallbackDiagnostics :: string where
  "kFallbackDiagnostics = (''['' @ [LF] @ ''  {'' @ [QUOTE] @ ''service'' @ [QUOTE] @ '':'' @ [QUOTE] @ ''Contract Registry'' @ [QUOTE] @ '','' @ [QUOTE] @ ''status'' @ [QUOTE] @ '':'' @ [QUOTE] @ ''operacional'' @ [QUOTE] @ '','' @ [QUOTE] @ ''score'' @ [QUOTE] @ '':100},'' @ [LF] @ ''  {'' @ [QUOTE] @ ''service'' @ [QUOTE] @ '':'' @ [QUOTE] @ ''Package Ingest'' @ [QUOTE] @ '','' @ [QUOTE] @ ''status'' @ [QUOTE] @ '':'' @ [QUOTE] @ ''em validacao'' @ [QUOTE] @ '','' @ [QUOTE] @ ''score'' @ [QUOTE] @ '':78},'' @ [LF] @ ''  {'' @ [QUOTE] @ ''service'' @ [QUOTE] @ '':'' @ [QUOTE] @ ''Evidence Store'' @ [QUOTE] @ '','' @ [QUOTE] @ ''status'' @ [QUOTE] @ '':'' @ [QUOTE] @ ''operacional'' @ [QUOTE] @ '','' @ [QUOTE] @ ''score'' @ [QUOTE] @ '':92},'' @ [LF] @ ''  {'' @ [QUOTE] @ ''service'' @ [QUOTE] @ '':'' @ [QUOTE] @ ''Territorial Catalog'' @ [QUOTE] @ '','' @ [QUOTE] @ ''status'' @ [QUOTE] @ '':'' @ [QUOTE] @ ''planejado'' @ [QUOTE] @ '','' @ [QUOTE] @ ''score'' @ [QUOTE] @ '':45},'' @ [LF] @ ''  {'' @ [QUOTE] @ ''service'' @ [QUOTE] @ '':'' @ [QUOTE] @ ''API Server'' @ [QUOTE] @ '','' @ [QUOTE] @ ''status'' @ [QUOTE] @ '':'' @ [QUOTE] @ ''inicial'' @ [QUOTE] @ '','' @ [QUOTE] @ ''score'' @ [QUOTE] @ '':40},'' @ [LF] @ ''  {'' @ [QUOTE] @ ''service'' @ [QUOTE] @ '':'' @ [QUOTE] @ ''PostgreSQL/pgvector'' @ [QUOTE] @ '','' @ [QUOTE] @ ''status'' @ [QUOTE] @ '':'' @ [QUOTE] @ ''planejado'' @ [QUOTE] @ '','' @ [QUOTE] @ ''score'' @ [QUOTE] @ '':20}'' @ [LF] @ '']'')"

definition artifactPrefix :: string where
  "artifactPrefix = ''/api/v1/engineering/artifacts/''"

definition artifact :: "World \<Rightarrow> string \<Rightarrow> ApiPayload" where
  "artifact w relative =
     (if \<not> list_ex (\<lambda>p. prefix p relative)
           [''docs/'', ''contracts/'', ''engineering/'', ''apps/'', ''scripts/'', ''tests/'', ''storage/''] \<or>
         contains_sub ''..'' relative then missing False
      else case fs_canonical (w_files w) relative of
          None \<Rightarrow> missing False
        | Some file \<Rightarrow>
            if \<not> fs_regular (w_files w) file then missing False
            else case fs_size (w_files w) file of
                None \<Rightarrow> missing False
              | Some n \<Rightarrow>
                  if n > 1024 * 1024 then missing False
                  else let content = (case fs_open (w_files w) file of None \<Rightarrow> [] | Some c \<Rightarrow> c) in
                    found ((''{'' @ [QUOTE] @ ''path'' @ [QUOTE] @ '':'' @ [QUOTE]) @ jsonEscape relative @ ([QUOTE] @ '','' @ [QUOTE] @ ''content'' @ [QUOTE] @ '':'' @ [QUOTE]) @ jsonEscape content @ ([QUOTE] @ ''}'')))"

definition accessClasses :: "AuthUser \<Rightarrow> string list" where
  "accessClasses actor =
     [''authenticated''] @
     (if au_role actor = ''researcher'' \<or> au_role actor = ''project_lead'' \<or> au_role actor = ''admin''
      then [''research''] else []) @
     (if au_role actor = ''admin'' then [''engineering'', ''admin''] else [])"

definition backendName :: string where
  "backendName = ''file''"

definition health_body :: "World \<Rightarrow> AppState \<Rightarrow> string" where
  "health_body w st =
     (''{'' @ [QUOTE] @ ''status'' @ [QUOTE] @ '':'' @ [QUOTE] @ ''ok'' @ [QUOTE] @ '','' @ [QUOTE] @ ''service'' @ [QUOTE] @ '':'' @ [QUOTE] @ ''sisterd'' @ [QUOTE] @ '','' @ [QUOTE] @ ''version'' @ [QUOTE] @ '':'' @ [QUOTE]) @ w_version w @ ([QUOTE] @ '','' @ [QUOTE] @ ''database'' @ [QUOTE] @ '':'' @ [QUOTE]) @
     (if connected (w_link w) (fst (app_db st)) then ''connected'' else ''not_connected'') @
     ([QUOTE] @ '','' @ [QUOTE] @ ''auth_backend'' @ [QUOTE] @ '':'' @ [QUOTE]) @ backendName @ ([QUOTE] @ ''}'')"

definition database_payload :: "string option \<times> DbState \<Rightarrow> string \<Rightarrow> AppState \<Rightarrow> ApiPayload \<times> AppState" where
  "database_payload r other st =
     (case r of (None, db) \<Rightarrow> (fallback other, st\<lparr>app_db := db\<rparr>) | (Some body, db) \<Rightarrow> (found body, st\<lparr>app_db := db\<rparr>))"

definition routeApi :: "World \<Rightarrow> ServerConfig \<Rightarrow> string \<Rightarrow> AuthUser option \<Rightarrow> AppState \<Rightarrow> ApiPayload \<times> AppState" where
  "routeApi w config path actor st =
     (if prefix artifactPrefix path then (artifact w (drop (length artifactPrefix) path), st)
      else if path = ''/api/v1/engineering/plan'' then
        (case fs_open (w_files w) ''engineering/planning/plan.json'' of
           None \<Rightarrow> (missing True, st) | Some body \<Rightarrow> (found body, st))
      else if path = ''/api/v1/engineering/operational-base/current'' then
        database_payload (queryOperationalBase (w_pg w) (w_link w) (app_db st))
          (''{'' @ [QUOTE] @ ''schema'' @ [QUOTE] @ '':'' @ [QUOTE] @ ''sister.operational-base/0.1.0'' @ [QUOTE] @ '','' @ [QUOTE] @ ''unavailable'' @ [QUOTE] @ '':true,'' @ [QUOTE] @ ''capability_source'' @ [QUOTE] @ '':{'' @ [QUOTE] @ ''source'' @ [QUOTE] @ '':'' @ [QUOTE] @ ''postgresql'' @ [QUOTE] @ '','' @ [QUOTE] @ ''signed_contracts_verified'' @ [QUOTE] @ '':false,'' @ [QUOTE] @ ''verification_status'' @ [QUOTE] @ '':'' @ [QUOTE] @ ''database_unavailable'' @ [QUOTE] @ ''},'' @ [QUOTE] @ ''capabilities'' @ [QUOTE] @ '':[],'' @ [QUOTE] @ ''candidates'' @ [QUOTE] @ '':[],'' @ [QUOTE] @ ''assessment'' @ [QUOTE] @ '':{'' @ [QUOTE] @ ''status'' @ [QUOTE] @ '':'' @ [QUOTE] @ ''NOT_AVAILABLE'' @ [QUOTE] @ '','' @ [QUOTE] @ ''recommendation'' @ [QUOTE] @ '':'' @ [QUOTE] @ ''Conectar PostgreSQL e registrar contratos assinados de integra'' @ [CHR 0xC3, CHR 0xA7, CHR 0xC3, CHR 0xA3] @ ''o.'' @ [QUOTE] @ ''}}'') st
      else if path = ''/api/health'' then (found (health_body w st), st)
      else if path = ''/api/ecosystem'' then
        (let (view, st) = observedEcosystem w config st in (found (serializeEcosystemViewJson view), st))
      else if path = ''/api/systems'' then
        (let (view, st) = observedEcosystem w config st in (found (serializeSystemsCompatibilityJson view), st))
      else if path = ''/api/v1/ecosystem/semantic'' then
        (let (view, st) = semanticEcosystem w config st in (found (serializeSemanticViewJson view), st))
      else if path = ''/api/v1/workspace'' then
        (case actor of
           None \<Rightarrow> (missing False, st)
         | Some a \<Rightarrow>
             (let (view, st) = declarativeEcosystem w config st in
              (found (serializeWorkspaceViewJson view (accessClasses a)), st)))
      else if path = ''/api/contracts'' then (found kFallbackContracts, st)
      else if path = ''/api/evidence'' then
        database_payload (execJsonArray (w_link w) (w_evidence w) (app_db st)) ''[]'' st
      else if path = ''/api/diagnostics'' then
        database_payload (execJsonArray (w_link w) (w_diagnostics w) (app_db st)) kFallbackDiagnostics st
      else if path = ''/api/integrations/sister-reference'' then
        (found (''{'' @ [QUOTE] @ ''contract_version'' @ [QUOTE] @ '':'' @ [QUOTE] @ ''1.0.0'' @ [QUOTE] @ '','' @ [QUOTE] @ ''system_id'' @ [QUOTE] @ '':'' @ [QUOTE] @ ''sister_reference'' @ [QUOTE] @ '','' @ [QUOTE] @ ''integration_state'' @ [QUOTE] @ '':'' @ [QUOTE] @ ''reference'' @ [QUOTE] @ '','' @ [QUOTE] @ ''operational_access'' @ [QUOTE] @ '':true,'' @ [QUOTE] @ ''access_url'' @ [QUOTE] @ '':'' @ [QUOTE] @ ''/integrations/reference/'' @ [QUOTE] @ '','' @ [QUOTE] @ ''access_mode'' @ [QUOTE] @ '':'' @ [QUOTE] @ ''authenticated_reverse_proxy'' @ [QUOTE] @ '','' @ [QUOTE] @ ''capabilities'' @ [QUOTE] @ '':['' @ [QUOTE] @ ''reference.identity.read'' @ [QUOTE] @ '','' @ [QUOTE] @ ''reference.echo.execute'' @ [QUOTE] @ '']}'') , st)
      else (\<lparr>pay_found = False, pay_fallback = False, pay_body = []\<rparr>, st))"

end
