(* ===== verification/Handler.thy ===== *)
theory Handler
  imports App_State Auth_Store
begin

text \<open>
  \<open>handleClient\<close> of \<open>apps/sisterd/main.cpp\<close>: one connection from the request to the response, route by
  route in the order of the code.  A handler yields what goes to the client, the new state and
  the log.  \<open>Unanswered\<close> is an exception that leaves \<open>handleClient\<close>: the worker logs it and closes the
  connection.
\<close>

section \<open>Outcomes\<close>

datatype answer = Answer HttpResponse bool | Relay string | Unanswered string

record Served =
  srv_answer :: answer
  srv_state :: AppState
  srv_log :: "log_entry list"

definition reply :: "HttpRequest \<Rightarrow> HttpResponse \<Rightarrow> log_entry list \<Rightarrow> AppState \<Rightarrow> Served" where
  "reply request rsp log st =
     \<lparr>srv_answer = Answer rsp (req_method request = ''HEAD''), srv_state = st, srv_log = log\<rparr>"

definition throws :: "string \<Rightarrow> AppState \<Rightarrow> Served" where
  "throws e st = \<lparr>srv_answer = Unanswered e, srv_state = st, srv_log = []\<rparr>"

text \<open>\<open>if (!authorizeOrReject(...)) return;\<close> followed by the rest of a route.\<close>

definition guarded ::
  "HttpRequest \<Rightarrow> AuthUser option \<Rightarrow> string \<Rightarrow> string \<Rightarrow> string \<Rightarrow> AppState \<Rightarrow> (AuthUser \<Rightarrow> Served) \<Rightarrow> Served" where
  "guarded request actor capability resource purpose st rest =
     (case authorizeOrReject actor capability resource purpose of
        (Some rsp, log) \<Rightarrow> reply request rsp log st
      | (None, log) \<Rightarrow> (let s = rest (the actor) in s\<lparr>srv_log := log @ srv_log s\<rparr>))"

definition method_not_allowed :: HttpResponse where
  "method_not_allowed = jsonError 405 ''Method Not Allowed'' (''M'' @ [CHR 0xC3, CHR 0xA9] @ ''todo n'' @ [CHR 0xC3, CHR 0xA3] @ ''o permitido.'')"

definition resource_not_found :: HttpResponse where
  "resource_not_found = jsonError 404 ''Not Found'' (''Recurso n'' @ [CHR 0xC3, CHR 0xA3] @ ''o encontrado.'')"

definition body_field :: "HttpRequest \<Rightarrow> string \<Rightarrow> string option" where
  "body_field request name =
     (case parseFlatJsonObject (req_body request) of None \<Rightarrow> None | Some object \<Rightarrow> jsonStringField object name)"

section \<open>Authentication\<close>

definition authenticated_body :: string where
  "authenticated_body = (''{'' @ [QUOTE] @ ''status'' @ [QUOTE] @ '':'' @ [QUOTE] @ ''authenticated'' @ [QUOTE] @ ''}'')"

definition session_response :: "nat \<Rightarrow> string \<Rightarrow> string \<Rightarrow> ServerConfig \<Rightarrow> HttpResponse" where
  "session_response status reason token config =
     \<lparr>rsp_status = status, rsp_reason = reason, rsp_body = authenticated_body, rsp_contentType = json_type,
      rsp_headers = sessionHeaders token config\<rparr>"

definition route_bootstrap :: "ServerConfig \<Rightarrow> HttpRequest \<Rightarrow> AppState \<Rightarrow> Served" where
  "route_bootstrap config request st =
     (if \<not> httpBootstrapEnabled config then
        reply request (json_response 200 ''OK'' (''{'' @ [QUOTE] @ ''open'' @ [QUOTE] @ '':false,'' @ [QUOTE] @ ''http_enabled'' @ [QUOTE] @ '':false}'') )
          [Event ''info'' 200 ''HTTP bootstrap disabled''] st
      else
        reply request (json_response 200 ''OK''
            (if bootstrapOpen (app_auth st) then (''{'' @ [QUOTE] @ ''open'' @ [QUOTE] @ '':true}'') else (''{'' @ [QUOTE] @ ''open'' @ [QUOTE] @ '':false}'')))
          [Event ''info'' 200 []] st)"

definition route_register :: "World \<Rightarrow> ServerConfig \<Rightarrow> HttpRequest \<Rightarrow> AppState \<Rightarrow> Served" where
  "route_register w config request st =
     (if \<not> httpBootstrapEnabled config then
        reply request (jsonError 403 ''Forbidden'' ''Bootstrap administrativo HTTP desativado.'')
          [Event ''warn'' 403 ''HTTP bootstrap disabled''] st
      else case (body_field request ''name'', body_field request ''email'', body_field request ''password'') of
          (Some name, Some email, Some password) \<Rightarrow>
            (case registerAdmin (w_crypto w) (w_auth_env w) name email password (app_auth st) of
               (Refused _, auth) \<Rightarrow>
                 reply request (jsonError 409 ''Conflict''
                     (''O cadastro inicial j'' @ [CHR 0xC3, CHR 0xA1] @ '' foi conclu'' @ [CHR 0xC3, CHR 0xAD] @ ''do ou os dados s'' @ [CHR 0xC3, CHR 0xA3] @ ''o inv'' @ [CHR 0xC3, CHR 0xA1] @ ''lidos.''))
                   [Event ''warn'' 409 []] (st\<lparr>app_auth := auth\<rparr>)
             | (Done registered, auth) \<Rightarrow>
                 reply request (session_response 201 ''Created'' (ar_token registered) config)
                   [Event ''info'' 201 []] (st\<lparr>app_auth := auth\<rparr>)
             | (Throws _, auth) \<Rightarrow>
                 reply request (jsonError 500 ''Internal Server Error'' (''N'' @ [CHR 0xC3, CHR 0xA3] @ ''o foi poss'' @ [CHR 0xC3, CHR 0xAD] @ ''vel criar a conta.''))
                   [Event ''info'' 201 []] (st\<lparr>app_auth := auth\<rparr>))
        | _ \<Rightarrow>
            reply request (jsonError 400 ''Bad Request'' ''Preencha nome, e-mail e senha.'')
              [Event ''warn'' 400 []] st)"

definition normalizeIdentity :: "string \<Rightarrow> string" where
  "normalizeIdentity identity = normalizeEmail identity"

definition rate_limited :: "Decision \<Rightarrow> HttpResponse" where
  "rate_limited d =
     (let r = jsonError 429 ''Too Many Requests'' ''Muitas tentativas de login. Aguarde alguns minutos.'' in
      r\<lparr>rsp_headers := rsp_headers r @ [(''Retry-After'', show_int (retryAfter d))]\<rparr>)"

definition rate_limited_detail :: "Decision \<Rightarrow> string" where
  "rate_limited_detail d =
     ''rate_limited scope='' @ scope d @ '' buckets='' @ show_nat (dec_buckets d) @
     '' rejections='' @ show_nat (unat (dec_rejections d)) @ '' evictions='' @ show_nat (unat (dec_evictions d))"

definition route_login :: "World \<Rightarrow> ServerConfig \<Rightarrow> HttpRequest \<Rightarrow> AppState \<Rightarrow> Served" where
  "route_login w config request st =
     (case (body_field request ''email'', body_field request ''password'') of
        (Some email, Some password) \<Rightarrow>
          (case checkAndRecord (w_peer_address w) (normalizeIdentity email) (w_clock w) (app_limiter st) of
             Error (invalid_argument e) \<Rightarrow> throws e st
           | Error (runtime_error e) \<Rightarrow> throws e st
           | Okay (d, limiter) \<Rightarrow>
               let st = st\<lparr>app_limiter := limiter\<rparr> in
               if \<not> allowed d then
                 reply request (rate_limited d) [Event ''warn'' 429 (rate_limited_detail d)] st
               else case login (w_crypto w) (w_auth_env w) email password (app_auth st) of
                   (Refused _, auth) \<Rightarrow>
                     reply request (jsonError 401 ''Unauthorized'' (''Credenciais inv'' @ [CHR 0xC3, CHR 0xA1] @ ''lidas.''))
                       [Event ''warn'' 401 ''invalid credentials''] (st\<lparr>app_auth := auth\<rparr>)
                 | (Done logged, auth) \<Rightarrow>
                     reply request (session_response 200 ''OK'' (ar_token logged) config)
                       [Event ''info'' 200 []] (st\<lparr>app_auth := auth\<rparr>)
                 | (Throws _, auth) \<Rightarrow>
                     reply request (jsonError 500 ''Internal Server Error'' (''N'' @ [CHR 0xC3, CHR 0xA3] @ ''o foi poss'' @ [CHR 0xC3, CHR 0xAD] @ ''vel entrar.''))
                       [Event ''info'' 200 []] (st\<lparr>app_auth := auth\<rparr>))
      | _ \<Rightarrow>
          reply request (jsonError 400 ''Bad Request'' ''Preencha e-mail e senha.'') [Event ''warn'' 400 []] st)"

definition route_logout :: "World \<Rightarrow> ServerConfig \<Rightarrow> HttpRequest \<Rightarrow> string \<Rightarrow> AppState \<Rightarrow> Served" where
  "route_logout w config request token st =
     (case logout (w_crypto w) (w_auth_env w) token (app_auth st) of
        (Throws e, auth) \<Rightarrow> throws e (st\<lparr>app_auth := auth\<rparr>)
      | (_, auth) \<Rightarrow>
          reply request \<lparr>rsp_status = 204, rsp_reason = ''No Content'', rsp_body = [], rsp_contentType = json_type,
              rsp_headers = clearSessionHeaders config\<rparr>
            [Event ''info'' 204 []] (st\<lparr>app_auth := auth\<rparr>))"

section \<open>Participations\<close>

definition plain_json :: "nat \<Rightarrow> string \<Rightarrow> string \<Rightarrow> HttpResponse" where
  "plain_json status reason body =
     \<lparr>rsp_status = status, rsp_reason = reason, rsp_body = body, rsp_contentType = json_type, rsp_headers = []\<rparr>"

definition proposal_field :: "string \<Rightarrow> string \<Rightarrow> string" where
  "proposal_field body name =
     (let marker = [QUOTE] @ name @ [QUOTE] in
      case find_sub marker body of
        None \<Rightarrow> []
      | Some at \<Rightarrow>
          (case find_from body '':'' (at + length marker) of
             None \<Rightarrow> []
           | Some colon \<Rightarrow>
               (case find_from body [QUOTE] (colon + 1) of
                  None \<Rightarrow> []
                | Some first \<Rightarrow>
                    (case find_from body [QUOTE] (first + 1) of
                       None \<Rightarrow> [] | Some close \<Rightarrow> take (close - first - 1) (drop (first + 1) body)))))"

definition participations_path :: string where
  "participations_path = ''/api/v1/participations''"

definition is_participation :: "HttpRequest \<Rightarrow> bool" where
  "is_participation request \<longleftrightarrow> req_path request = participations_path \<or>
     (prefix (participations_path @ ''/'') (req_path request) \<and> req_method request = ''GET'')"

definition service_error :: "string \<Rightarrow> ParticipationServiceError \<Rightarrow> HttpResponse" where
  "service_error other e =
     jsonError (pse_status e) (if pse_status e = 503 then ''Service Unavailable'' else other) (pse_detail e)"

definition route_participation :: "World \<Rightarrow> HttpRequest \<Rightarrow> AuthUser option \<Rightarrow> AppState \<Rightarrow> Served" where
  "route_participation w request actor st =
     (let proposing = (req_method request = ''POST'' \<and> req_path request = participations_path) in
      guarded request actor (if proposing then ''participation.propose'' else ''participation.read'')
        ''participation'' ''governed_participation'' st (\<lambda>a.
        if proposing then
          (let body = req_body request in
           case propose (w_pg w) (w_link w) (Some \<lparr>prin_subject = au_id a, prin_source = backendName\<rparr>) body
               (proposal_field body ''participation_id'') (proposal_field body ''participant_system_id'')
               (proposal_field body ''contract_version'') (proposal_field body ''contract_digest'')
               (proposal_field body ''origin_commit'') (app_db st) of
             (Error e, db) \<Rightarrow> reply request (service_error ''Bad Request'' e) [] (st\<lparr>app_db := db\<rparr>)
           | (Okay receipt, db) \<Rightarrow> reply request (plain_json 201 ''Created'' receipt) [] (st\<lparr>app_db := db\<rparr>))
        else if length (req_path request) < length participations_path + 1 then throws ''basic_string::substr'' st
        else
          let i = drop (length participations_path + 1) (req_path request) in
          if i = [] \<or> CHR ''/'' \<in> set i then
            reply request (jsonError 404 ''Not Found'' (''Participa'' @ [CHR 0xC3, CHR 0xA7, CHR 0xC3, CHR 0xA3] @ ''o n'' @ [CHR 0xC3, CHR 0xA3] @ ''o encontrada.'')) [] st
          else case show_participation (w_pg w) (w_link w) i (app_db st) of
              (Error e, db) \<Rightarrow> reply request (service_error ''Not Found'' e) [] (st\<lparr>app_db := db\<rparr>)
            | (Okay record, db) \<Rightarrow> reply request (plain_json 200 ''OK'' record) [] (st\<lparr>app_db := db\<rparr>)))"

section \<open>Integrations\<close>

definition integrationPrefix :: string where
  "integrationPrefix = ''/api/v1/engineering/integrations/''"

text \<open>The part between prefix and suffix, cut at its last slash.  Where the two overlap, the length
  wraps around and \<open>substr\<close> takes the rest of the path.\<close>

definition integration_target :: "string \<Rightarrow> string \<Rightarrow> (string \<times> string) option" where
  "integration_target ending path =
     (let rest = drop (length integrationPrefix) path;
          encoded = (if length path < length integrationPrefix + length ending then rest
                     else take (length path - length integrationPrefix - length ending) rest);
          version = rev (takeWhile (\<lambda>c. c \<noteq> CHR ''/'') (rev encoded));
          ident = take (length encoded - length version - 1) encoded in
      if CHR ''/'' \<notin> set encoded \<or> ident = [] \<or> version = [] then None else Some (ident, version))"

definition integration_not_found :: HttpResponse where
  "integration_not_found = jsonError 404 ''Not Found'' (''Integra'' @ [CHR 0xC3, CHR 0xA7, CHR 0xC3, CHR 0xA3] @ ''o n'' @ [CHR 0xC3, CHR 0xA3] @ ''o encontrada.'')"

definition route_decision :: "World \<Rightarrow> HttpRequest \<Rightarrow> AuthUser option \<Rightarrow> AppState \<Rightarrow> Served" where
  "route_decision w request actor st =
     (if req_method request \<noteq> ''POST'' then reply request method_not_allowed [] st
      else guarded request actor ''engineering.integration.decide'' ''sister-operational-base'' ''integration_decision'' st (\<lambda>a.
        case integration_target ''/decision'' (req_path request) of
          None \<Rightarrow> reply request integration_not_found [] st
        | Some (integrationId, version) \<Rightarrow>
            (case (body_field request ''decision'', body_field request ''rationale'') of
               (Some decision, Some rationale) \<Rightarrow>
                 if (decision \<noteq> ''approved'' \<and> decision \<noteq> ''rejected'') \<or> trim rationale = [] then
                   reply request (jsonError 400 ''Bad Request'' ''Informe decision e rationale.'') [] st
                 else (case decideIntegration (w_pg w) (w_link w) integrationId version decision (au_id a) (trim rationale)
                         (app_db st) of
                     (None, db) \<Rightarrow>
                       reply request (jsonError 409 ''Conflict'' (''Decis'' @ [CHR 0xC3, CHR 0xA3] @ ''o de integra'' @ [CHR 0xC3, CHR 0xA7, CHR 0xC3, CHR 0xA3] @ ''o n'' @ [CHR 0xC3, CHR 0xA3] @ ''o aplicada.'')) []
                         (st\<lparr>app_db := db\<rparr>)
                   | (Some result, db) \<Rightarrow> reply request (json_response 200 ''OK'' result) [] (st\<lparr>app_db := db\<rparr>))
             | _ \<Rightarrow> reply request (jsonError 400 ''Bad Request'' ''Informe decision e rationale.'') [] st)))"

text \<open>What is recorded of an execution.\<close>

record Observation =
  obs_status :: int
  obs_value :: string
  obs_executor :: string
  obs_raw :: string

definition observe :: "(string, string) result \<Rightarrow> Observation" where
  "observe r =
     (case r of
        Error e \<Rightarrow> \<lparr>obs_status = 502, obs_value = [], obs_executor = [],
          obs_raw = (''{'' @ [QUOTE] @ ''error'' @ [QUOTE] @ '':'' @ [QUOTE]) @ jsonEscape e @ ([QUOTE] @ ''}'') \<rparr>
      | Okay raw \<Rightarrow>
          (let body = rawHttpBody raw;
               field = (\<lambda>n. case parseFlatJsonObject body of None \<Rightarrow> []
                  | Some fs \<Rightarrow> (case jsonStringField fs n of None \<Rightarrow> [] | Some v \<Rightarrow> v)) in
           \<lparr>obs_status = statusFromRawHttpResponse raw, obs_value = field ''value'',
            obs_executor = field ''processed_by'', obs_raw = body\<rparr>))"

definition confirmed :: "string \<Rightarrow> Observation \<Rightarrow> bool" where
  "confirmed val o' \<longleftrightarrow> obs_status o' = 200 \<and> obs_value o' = val \<and> obs_executor o' = ''sister_reference''"

definition sha256Hex :: "Crypto \<Rightarrow> string \<Rightarrow> string" where
  "sha256Hex cr v = hex_string (SHA256 cr v)"

definition execution_json :: "Crypto \<Rightarrow> string \<Rightarrow> string \<Rightarrow> string \<Rightarrow> string \<Rightarrow> Observation \<Rightarrow> string" where
  "execution_json cr executionId integrationId version val o' =
     (''{'' @ [QUOTE] @ ''execution_id'' @ [QUOTE] @ '':'' @ [QUOTE]) @ jsonEscape executionId @ ([QUOTE] @ '','' @ [QUOTE] @ ''integration_id'' @ [QUOTE] @ '':'' @ [QUOTE]) @ jsonEscape integrationId @
     ([QUOTE] @ '','' @ [QUOTE] @ ''integration_version'' @ [QUOTE] @ '':'' @ [QUOTE]) @ jsonEscape version @ ([QUOTE] @ '','' @ [QUOTE] @ ''status'' @ [QUOTE] @ '':'' @ [QUOTE]) @
     (if confirmed val o' then ''completed'' else ''failed'') @
     ([QUOTE] @ '','' @ [QUOTE] @ ''inputs'' @ [QUOTE] @ '':[{'' @ [QUOTE] @ ''reference_id'' @ [QUOTE] @ '':'' @ [QUOTE] @ ''request.value'' @ [QUOTE] @ '','' @ [QUOTE] @ ''schema_id'' @ [QUOTE] @ '':'' @ [QUOTE] @ ''sister.echo.request/1.0.0'' @ [QUOTE] @ '','' @ [QUOTE] @ ''digest'' @ [QUOTE] @ '':'' @ [QUOTE] @ ''sha256:'') @
     sha256Hex cr val @
     ([QUOTE] @ '','' @ [QUOTE] @ ''subsystem_id'' @ [QUOTE] @ '':'' @ [QUOTE] @ ''sister'' @ [QUOTE] @ ''}],'' @ [QUOTE] @ ''transformations_applied'' @ [QUOTE] @ '':['' @ [QUOTE] @ ''enviar payload echo pelo SisTer'' @ [QUOTE] @ '','' @ [QUOTE] @ ''registrar resposta observada'' @ [QUOTE] @ ''],'') @
     (if confirmed val o' then
        ([QUOTE] @ ''outputs'' @ [QUOTE] @ '':[{'' @ [QUOTE] @ ''reference_id'' @ [QUOTE] @ '':'' @ [QUOTE] @ ''response.echo'' @ [QUOTE] @ '','' @ [QUOTE] @ ''schema_id'' @ [QUOTE] @ '':'' @ [QUOTE] @ ''sister.subsystem.echo/1.0.0'' @ [QUOTE] @ '','' @ [QUOTE] @ ''digest'' @ [QUOTE] @ '':'' @ [QUOTE] @ ''sha256:'') @
        sha256Hex cr (obs_raw o') @
        ([QUOTE] @ '','' @ [QUOTE] @ ''subsystem_id'' @ [QUOTE] @ '':'' @ [QUOTE] @ ''sister_reference'' @ [QUOTE] @ ''}],'' @ [QUOTE] @ ''observations'' @ [QUOTE] @ '':['' @ [QUOTE] @ ''observed_value igual a expected_value'' @ [QUOTE] @ '','' @ [QUOTE] @ ''executor observado igual a sister_reference'' @ [QUOTE] @ '']'')
      else
        ([QUOTE] @ ''errors'' @ [QUOTE] @ '':[{'' @ [QUOTE] @ ''code'' @ [QUOTE] @ '':'' @ [QUOTE] @ ''OBSERVED_DIVERGENCE'' @ [QUOTE] @ '','' @ [QUOTE] @ ''message'' @ [QUOTE] @ '':'' @ [QUOTE] @ ''Resposta observada diverge do esperado ou execu'' @ [CHR 0xC3, CHR 0xA7, CHR 0xC3, CHR 0xA3] @ ''o falhou'' @ [QUOTE] @ ''}],'' @ [QUOTE] @ ''observations'' @ [QUOTE] @ '':['' @ [QUOTE] @ ''execu'' @ [CHR 0xC3, CHR 0xA7, CHR 0xC3, CHR 0xA3] @ ''o n'' @ [CHR 0xC3, CHR 0xA3] @ ''o confirmou os crit'' @ [CHR 0xC3, CHR 0xA9] @ ''rios aprovados'' @ [QUOTE] @ '']'')) @
     ''}''"

definition assessment_json :: "string \<Rightarrow> string \<Rightarrow> string \<Rightarrow> string \<Rightarrow> Observation \<Rightarrow> string" where
  "assessment_json assessmentId integrationId executionId val o' =
     (''{'' @ [QUOTE] @ ''assessment_id'' @ [QUOTE] @ '':'' @ [QUOTE]) @ jsonEscape assessmentId @ ([QUOTE] @ '','' @ [QUOTE] @ ''integration_id'' @ [QUOTE] @ '':'' @ [QUOTE]) @ jsonEscape integrationId @
     ([QUOTE] @ '','' @ [QUOTE] @ ''execution_id'' @ [QUOTE] @ '':'' @ [QUOTE]) @ jsonEscape executionId @
     ([QUOTE] @ '','' @ [QUOTE] @ ''expected'' @ [QUOTE] @ '':['' @ [QUOTE] @ ''requisi'' @ [CHR 0xC3, CHR 0xA7, CHR 0xC3, CHR 0xA3] @ ''o mediada pelo SisTer'' @ [QUOTE] @ '','' @ [QUOTE] @ ''resposta segue sister.subsystem.echo/1.0.0'' @ [QUOTE] @ '','' @ [QUOTE] @ ''observed_value igual a expected_value'' @ [QUOTE] @ '','' @ [QUOTE] @ ''executor observado igual a sister_reference'' @ [QUOTE] @ ''],'' @ [QUOTE] @ ''observed'' @ [QUOTE] @ '':['' @ [QUOTE] @ ''status HTTP '') @
     show_int (obs_status o') @ ([QUOTE] @ '','' @ [QUOTE] @ ''observed_value='') @ jsonEscape (obs_value o') @ ([QUOTE] @ '','' @ [QUOTE] @ ''executor='') @
     jsonEscape (obs_executor o') @ ([QUOTE] @ ''],'' @ [QUOTE] @ ''result'' @ [QUOTE] @ '':'' @ [QUOTE]) @
     (if confirmed val o' then ''confirmed'' else ''divergent'') @ ([QUOTE] @ '','' @ [QUOTE] @ ''severity'' @ [QUOTE] @ '':'' @ [QUOTE]) @
     (if confirmed val o' then ''informational'' else ''medium'') @ ([QUOTE] @ '','' @ [QUOTE] @ ''recommendation'' @ [QUOTE] @ '':{'' @ [QUOTE] @ ''action'' @ [QUOTE] @ '':'' @ [QUOTE]) @
     (if confirmed val o' then ''none'' else ''request_human_decision'') @ ([QUOTE] @ '','' @ [QUOTE] @ ''summary'' @ [QUOTE] @ '':'' @ [QUOTE]) @
     (if confirmed val o' then (''Execu'' @ [CHR 0xC3, CHR 0xA7, CHR 0xC3, CHR 0xA3] @ ''o compat'' @ [CHR 0xC3, CHR 0xAD] @ ''vel com os crit'' @ [CHR 0xC3, CHR 0xA9] @ ''rios aprovados.'')
      else (''Engenharia deve revisar contrato, disponibilidade ou mapeamento antes de nova execu'' @ [CHR 0xC3, CHR 0xA7, CHR 0xC3, CHR 0xA3] @ ''o.'')) @
     ([QUOTE] @ ''},'' @ [QUOTE] @ ''human_decision_required'' @ [QUOTE] @ '':'') @ (if confirmed val o' then ''false'' else ''true'') @ ''}''"

definition upstream_echo :: "HttpRequest \<Rightarrow> string \<Rightarrow> HttpRequest" where
  "upstream_echo request val =
     request\<lparr>req_method := ''POST'', req_path := ''/integrations/reference/echo'', req_query := [],
       req_body := (''{'' @ [QUOTE] @ ''value'' @ [QUOTE] @ '':'' @ [QUOTE]) @ jsonEscape val @ ([QUOTE] @ ''}'') ,
       req_headers := AList.update ''content-type'' ''application/json'' (req_headers request)\<rparr>"

definition serviceName :: string where
  "serviceName = ''SisTer Reference Subsystem''"

definition route_execute :: "World \<Rightarrow> ServerConfig \<Rightarrow> HttpRequest \<Rightarrow> AuthUser option \<Rightarrow> AppState \<Rightarrow> Served" where
  "route_execute w config request actor st =
     (if req_method request \<noteq> ''POST'' then reply request method_not_allowed [] st
      else guarded request actor ''engineering.integration.execute'' ''sister-operational-base''
             ''approved_integration_execution'' st (\<lambda>a.
        if \<not> referenceSubsystemEnabled config then
          reply request (jsonError 503 ''Service Unavailable'' (''Subsistema de refer'' @ [CHR 0xC3, CHR 0xAA] @ ''ncia indispon'' @ [CHR 0xC3, CHR 0xAD] @ ''vel.'')) [] st
        else case integration_target ''/execute'' (req_path request) of
          None \<Rightarrow> reply request integration_not_found [] st
        | Some (integrationId, version) \<Rightarrow>
            (case body_field request ''value'' of
               None \<Rightarrow> reply request (jsonError 400 ''Bad Request'' (''Informe value para executar a integra'' @ [CHR 0xC3, CHR 0xA7, CHR 0xC3, CHR 0xA3] @ ''o.'')) [] st
             | Some val \<Rightarrow>
                 if val = [] then
                   reply request (jsonError 400 ''Bad Request'' (''Informe value para executar a integra'' @ [CHR 0xC3, CHR 0xA7, CHR 0xC3, CHR 0xA3] @ ''o.'')) [] st
                 else (case integrationApproved (w_link w) integrationId version (app_db st) of
                     (False, db) \<Rightarrow>
                       reply request (jsonError 409 ''Conflict'' (''Integra'' @ [CHR 0xC3, CHR 0xA7, CHR 0xC3, CHR 0xA3] @ ''o n'' @ [CHR 0xC3, CHR 0xA3] @ ''o aprovada na Base Operacional.'')) []
                         (st\<lparr>app_db := db\<rparr>)
                   | (True, db) \<Rightarrow>
                       let o' = observe (fst (proxyToSubsystem (w_net w) (upstream_echo request val) a
                             ''/integrations/reference'' (referencePort config) serviceName (w_request_id w) config));
                           executionId = ''exec-'' @ integrationId @ ''-'' @ w_execution_hex w;
                           assessmentId = ''oa-'' @ executionId;
                           json = execution_json (w_crypto w) executionId integrationId version val o' in
                       (case recordIntegrationExecution (w_pg w) (w_link2 w) integrationId version executionId
                           (if confirmed val o' then ''completed'' else ''failed'')
                           (''sha256:'' @ sha256Hex (w_crypto w) json) json assessmentId
                           (if confirmed val o' then ''confirmed'' else ''divergent'')
                           (if confirmed val o' then ''none'' else ''request_human_decision'')
                           (\<not> confirmed val o')
                           (assessment_json assessmentId integrationId executionId val o') db of
                          (None, db) \<Rightarrow>
                            reply request (jsonError 409 ''Conflict'' (''Execu'' @ [CHR 0xC3, CHR 0xA7, CHR 0xC3, CHR 0xA3] @ ''o n'' @ [CHR 0xC3, CHR 0xA3] @ ''o registrada na Base Operacional.'')) []
                              (st\<lparr>app_db := db\<rparr>)
                        | (Some recorded, db) \<Rightarrow>
                            reply request (json_response 200 ''OK'' recorded) [] (st\<lparr>app_db := db\<rparr>))))))"

section \<open>The reference subsystem\<close>

definition reference_capability :: "HttpRequest \<Rightarrow> string option" where
  "reference_capability request =
     (let p = req_path request;
          canonicalRead = (req_method request = ''GET'' \<and> p \<in> {''/integrations/reference/manifest'',
            ''/integrations/reference/health'', ''/integrations/reference/ready'',
            ''/integrations/reference/capabilities'', ''/integrations/reference/identity''});
          compatibilityRead = (req_method request = ''GET'' \<and>
            (p \<in> {''/integrations/reference/api/identity'', ''/integrations/reference/api/whoami''} \<or>
             prefix ''/integrations/reference/_sister/'' p));
          echoExecute = (req_method request = ''POST'' \<and>
            p \<in> {''/integrations/reference/echo'', ''/integrations/reference/api/echo''}) in
      if \<not> canonicalRead \<and> \<not> compatibilityRead \<and> \<not> echoExecute then None
      else if canonicalRead \<or> compatibilityRead then Some ''reference.identity.read''
      else Some ''reference.echo.execute'')"

definition route_reference :: "World \<Rightarrow> ServerConfig \<Rightarrow> HttpRequest \<Rightarrow> AuthUser option \<Rightarrow> AppState \<Rightarrow> Served" where
  "route_reference w config request actor st =
     (if \<not> referenceSubsystemEnabled config then
        reply request resource_not_found [Event ''warn'' 404 ''reference subsystem disabled by execution profile''] st
      else if req_path request = ''/integrations/reference'' then
        guarded request actor ''reference.identity.read'' ''sister-reference'' ''platform_validation'' st (\<lambda>a.
          reply request (redirectResponse 308 ''Permanent Redirect'' ''/integrations/reference/identity'') [] st)
      else case reference_capability request of
          None \<Rightarrow> reply request resource_not_found [] st
        | Some capability \<Rightarrow>
            guarded request actor capability ''sister-reference'' ''platform_validation'' st (\<lambda>a.
              case fst (proxyToSubsystem (w_net w) request a ''/integrations/reference'' (referencePort config)
                  serviceName (w_request_id w) config) of
                Okay raw \<Rightarrow>
                  \<lparr>srv_answer = Relay raw, srv_state = st,
                   srv_log = [Event ''info'' (statusFromRawHttpResponse raw) []]\<rparr>
              | Error e \<Rightarrow>
                  reply request (jsonError 502 ''Bad Gateway'' (''Subsistema de refer'' @ [CHR 0xC3, CHR 0xAA] @ ''ncia indispon'' @ [CHR 0xC3, CHR 0xAD] @ ''vel.''))
                    [Event ''warn'' 502 e] st))"

section \<open>The session, maturity evidence\<close>

definition route_me :: "HttpRequest \<Rightarrow> AuthUser option \<Rightarrow> (AuthUser \<Rightarrow> string) \<Rightarrow> AppState \<Rightarrow> Served" where
  "route_me request actor document st =
     guarded request actor ''session.self.read'' ''current-session'' ''self_service'' st (\<lambda>a.
       reply request (json_response 200 ''OK'' (document a)) [Event ''info'' 200 []] st)"

definition maturity_paths :: "string set" where
  "maturity_paths = {''/api/admin/maturity/latest'', ''/api/admin/maturity/history'',
     ''/api/admin/maturity/components'', ''/api/admin/maturity/catalog'', ''/api/admin/maturity/quality''}"

definition maturity_route_reply :: "HttpRequest \<Rightarrow> RouteResponse \<Rightarrow> AppState \<Rightarrow> Served" where
  "maturity_route_reply request r st =
     reply request \<lparr>rsp_status = status_code r, rsp_reason = reason_phrase r, rsp_body = route_body r,
         rsp_contentType = route_content_type r, rsp_headers = no_store\<rparr>
       [Event (if status_code r \<ge> 400 then ''warn'' else ''info'') (int (status_code r)) []] st"

definition maturity_document_reply :: "World \<Rightarrow> ServerConfig \<Rightarrow> HttpRequest \<Rightarrow> AppState \<Rightarrow> Served" where
  "maturity_document_reply w config request st =
     (let latest = suffix ''/latest'' (req_path request);
          document = readFixedJsonDocument (w_files w)
            (if latest then path_join (maturityRoot config) ''latest.json''
             else path_join (path_join (maturityRoot config) ''history'') ''index.json'')
            (if latest then ''sister.maturity-status/1.0.0'' else ''sister.maturity-history/1.0.0'') in
      case doc_state document of
        Missing_Doc \<Rightarrow>
          reply request (jsonError 404 ''Not Found'' (''Nenhuma evid'' @ [CHR 0xC3, CHR 0xAA] @ ''ncia de maturidade foi publicada.''))
            [Event ''info'' 404 []] st
      | Invalid_Doc \<Rightarrow>
          reply request (jsonError 503 ''Service Unavailable'' (''A evid'' @ [CHR 0xC3, CHR 0xAA] @ ''ncia de maturidade publicada '' @ [CHR 0xC3, CHR 0xA9] @ '' inv'' @ [CHR 0xC3, CHR 0xA1] @ ''lida.''))
            [Event ''warn'' 503 ''invalid maturity document''] st
      | Ready_Doc \<Rightarrow>
          reply request (json_response 200 ''OK'' (doc_body document)) [Event ''info'' 200 []] st)"

definition route_maturity :: "World \<Rightarrow> ServerConfig \<Rightarrow> HttpRequest \<Rightarrow> AuthUser option \<Rightarrow> AppState \<Rightarrow> Served" where
  "route_maturity w config request actor st =
     (if req_method request \<noteq> ''GET'' \<and> req_method request \<noteq> ''HEAD'' then
        reply request method_not_allowed [Event ''warn'' 405 []] st
      else guarded request actor ''maturity.evidence.read'' ''sister-maturity'' ''engineering_governance'' st (\<lambda>a.
        if req_path request = ''/api/admin/maturity/components'' then
          maturity_route_reply request (getMaturityComponents (w_files w) (maturityRoot config)) st
        else if req_path request = ''/api/admin/maturity/catalog'' then
          maturity_route_reply request (getMaturityCatalog (w_files w) (maturityRoot config)) st
        else if req_path request = ''/api/admin/maturity/quality'' then
          maturity_route_reply request (getQualityStatus (w_files w) (maturityRoot config)) st
        else maturity_document_reply w config request st))"

section \<open>Administration of users\<close>

text \<open>The texts that \<open>auth.cpp\<close> writes to \<open>errorOut\<close>; \<open>Rejected\<close> is used where there is none.\<close>

definition error_text :: "auth_error \<Rightarrow> string" where
  "error_text e =
     (case e of
        EmailTaken \<Rightarrow> (''E-mail j'' @ [CHR 0xC3, CHR 0xA1] @ '' cadastrado.'')
      | InvalidName \<Rightarrow> (''O nome deve ter no m'' @ [CHR 0xC3, CHR 0xAD] @ ''nimo 2 caracteres v'' @ [CHR 0xC3, CHR 0xA1] @ ''lidos.'')
      | InvalidEmail \<Rightarrow> (''Formato de e-mail inv'' @ [CHR 0xC3, CHR 0xA1] @ ''lido.'')
      | ShortPassword \<Rightarrow> (''A senha tempor'' @ [CHR 0xC3, CHR 0xA1] @ ''ria deve ter no m'' @ [CHR 0xC3, CHR 0xAD] @ ''nimo 12 caracteres.'')
      | InvalidRole \<Rightarrow> (''Papel de usu'' @ [CHR 0xC3, CHR 0xA1] @ ''rio inv'' @ [CHR 0xC3, CHR 0xA1] @ ''lido.'')
      | UserNotFound \<Rightarrow> (''Usu'' @ [CHR 0xC3, CHR 0xA1] @ ''rio n'' @ [CHR 0xC3, CHR 0xA3] @ ''o encontrado.'')
      | EmailTakenByOther \<Rightarrow> (''E-mail j'' @ [CHR 0xC3, CHR 0xA1] @ '' cadastrado para outra pessoa.'')
      | SoleAdminRole \<Rightarrow> (''N'' @ [CHR 0xC3, CHR 0xA3] @ ''o '' @ [CHR 0xC3, CHR 0xA9] @ '' poss'' @ [CHR 0xC3, CHR 0xAD] @ ''vel alterar o papel do '' @ [CHR 0xC3, CHR 0xBA] @ ''nico administrador do sistema.'')
      | ShortNewPassword \<Rightarrow> (''A nova senha tempor'' @ [CHR 0xC3, CHR 0xA1] @ ''ria deve ter no m'' @ [CHR 0xC3, CHR 0xAD] @ ''nimo 12 caracteres.'')
      | OwnAccount \<Rightarrow> (''Voc'' @ [CHR 0xC3, CHR 0xAA] @ '' n'' @ [CHR 0xC3, CHR 0xA3] @ ''o pode excluir a sua pr'' @ [CHR 0xC3, CHR 0xB3] @ ''pria conta logada.'')
      | SoleAdminDelete \<Rightarrow> (''N'' @ [CHR 0xC3, CHR 0xA3] @ ''o '' @ [CHR 0xC3, CHR 0xA9] @ '' poss'' @ [CHR 0xC3, CHR 0xAD] @ ''vel excluir o '' @ [CHR 0xC3, CHR 0xBA] @ ''nico administrador do sistema.'')
      | Unavailable \<Rightarrow> (''Banco de identidades indispon'' @ [CHR 0xC3, CHR 0xAD] @ ''vel.'')
      | NotPersisted \<Rightarrow> (''N'' @ [CHR 0xC3, CHR 0xA3] @ ''o foi poss'' @ [CHR 0xC3, CHR 0xAD] @ ''vel persistir o usu'' @ [CHR 0xC3, CHR 0xA1] @ ''rio.'')
      | UpdateNotPersisted \<Rightarrow> (''N'' @ [CHR 0xC3, CHR 0xA3] @ ''o foi poss'' @ [CHR 0xC3, CHR 0xAD] @ ''vel persistir a atualiza'' @ [CHR 0xC3, CHR 0xA7, CHR 0xC3, CHR 0xA3] @ ''o.'')
      | DeleteFailed \<Rightarrow> (''N'' @ [CHR 0xC3, CHR 0xA3] @ ''o foi poss'' @ [CHR 0xC3, CHR 0xAD] @ ''vel excluir o usu'' @ [CHR 0xC3, CHR 0xA1] @ ''rio.'')
      | Rejected \<Rightarrow> [])"

definition users_prefix :: string where
  "users_prefix = ''/api/admin/users''"

definition reason_of :: "nat \<Rightarrow> string" where
  "reason_of status = (if status = 404 then ''Not Found'' else if status = 409 then ''Conflict'' else ''Bad Request'')"

definition refused_reply :: "HttpRequest \<Rightarrow> nat \<Rightarrow> string \<Rightarrow> string \<Rightarrow> AppState \<Rightarrow> Served" where
  "refused_reply request status detail other st =
     reply request (jsonError status (reason_of status) (if detail = [] then other else detail))
       [Event ''warn'' (int status) detail] st"

definition failed_reply :: "HttpRequest \<Rightarrow> string \<Rightarrow> int \<Rightarrow> AppState \<Rightarrow> Served" where
  "failed_reply request detail logged st =
     reply request (jsonError 500 ''Internal Server Error'' detail) [Event ''info'' logged []] st"

definition users_create :: "World \<Rightarrow> HttpRequest \<Rightarrow> AppState \<Rightarrow> Served" where
  "users_create w request st =
     (case (body_field request ''name'', body_field request ''email'', body_field request ''password'', body_field request ''role'') of
        (Some name, Some email, Some password, Some role) \<Rightarrow>
          (case createUser (w_crypto w) (w_auth_env w) name email password role (app_auth st) of
             (Refused e, auth) \<Rightarrow>
               refused_reply request (if error_text e = (''E-mail j'' @ [CHR 0xC3, CHR 0xA1] @ '' cadastrado.'') then 409 else 400) (error_text e)
                 (''Dados inv'' @ [CHR 0xC3, CHR 0xA1] @ ''lidos para cadastro.'') (st\<lparr>app_auth := auth\<rparr>)
           | (Done created, auth) \<Rightarrow>
               reply request (json_response 201 ''Created'' (jsonUser created)) [Event ''info'' 201 []]
                 (st\<lparr>app_auth := auth\<rparr>)
           | (Throws _, auth) \<Rightarrow>
               failed_reply request (''N'' @ [CHR 0xC3, CHR 0xA3] @ ''o foi poss'' @ [CHR 0xC3, CHR 0xAD] @ ''vel criar a conta.'') 201 (st\<lparr>app_auth := auth\<rparr>))
      | _ \<Rightarrow>
          reply request (jsonError 400 ''Bad Request'' ''Preencha todos os campos.'') [Event ''warn'' 400 []] st)"

definition users_update :: "World \<Rightarrow> HttpRequest \<Rightarrow> string \<Rightarrow> AppState \<Rightarrow> Served" where
  "users_update w request targetId st =
     (case (body_field request ''name'', body_field request ''email'', body_field request ''role'') of
        (Some name, Some email, Some role) \<Rightarrow>
          (case updateUser (w_crypto w) (w_auth_env w) targetId name email role
              (case body_field request ''password'' of None \<Rightarrow> [] | Some p \<Rightarrow> p) (app_auth st) of
             (Refused e, auth) \<Rightarrow>
               refused_reply request
                 (if error_text e = (''Usu'' @ [CHR 0xC3, CHR 0xA1] @ ''rio n'' @ [CHR 0xC3, CHR 0xA3] @ ''o encontrado.'') then 404
                  else if contains_sub (''j'' @ [CHR 0xC3, CHR 0xA1] @ '' cadastrado'') (error_text e) then 409 else 400) (error_text e)
                 (''Dados inv'' @ [CHR 0xC3, CHR 0xA1] @ ''lidos para atualiza'' @ [CHR 0xC3, CHR 0xA7, CHR 0xC3, CHR 0xA3] @ ''o.'') (st\<lparr>app_auth := auth\<rparr>)
           | (Done updated, auth) \<Rightarrow>
               reply request (json_response 200 ''OK'' (jsonUser updated)) [Event ''info'' 200 []]
                 (st\<lparr>app_auth := auth\<rparr>)
           | (Throws _, auth) \<Rightarrow>
               failed_reply request (''N'' @ [CHR 0xC3, CHR 0xA3] @ ''o foi poss'' @ [CHR 0xC3, CHR 0xAD] @ ''vel atualizar a conta.'') 200 (st\<lparr>app_auth := auth\<rparr>))
      | _ \<Rightarrow>
          reply request (jsonError 400 ''Bad Request'' (''Preencha todos os campos obrigat'' @ [CHR 0xC3, CHR 0xB3] @ ''rios.''))
            [Event ''warn'' 400 []] st)"

definition users_delete :: "World \<Rightarrow> HttpRequest \<Rightarrow> string \<Rightarrow> AuthUser \<Rightarrow> AppState \<Rightarrow> Served" where
  "users_delete w request targetId actor st =
     (case deleteUser (w_auth_env w) targetId (au_id actor) (app_auth st) of
        (Refused e, auth) \<Rightarrow>
          refused_reply request (if error_text e = (''Usu'' @ [CHR 0xC3, CHR 0xA1] @ ''rio n'' @ [CHR 0xC3, CHR 0xA3] @ ''o encontrado.'') then 404 else 400) (error_text e)
            (''N'' @ [CHR 0xC3, CHR 0xA3] @ ''o foi poss'' @ [CHR 0xC3, CHR 0xAD] @ ''vel excluir o usu'' @ [CHR 0xC3, CHR 0xA1] @ ''rio.'') (st\<lparr>app_auth := auth\<rparr>)
      | (Done _, auth) \<Rightarrow>
          reply request (json_response 200 ''OK'' (''{'' @ [QUOTE] @ ''status'' @ [QUOTE] @ '':'' @ [QUOTE] @ ''deleted'' @ [QUOTE] @ ''}'')) [Event ''info'' 200 []]
            (st\<lparr>app_auth := auth\<rparr>)
      | (Throws _, auth) \<Rightarrow>
          failed_reply request (''N'' @ [CHR 0xC3, CHR 0xA3] @ ''o foi poss'' @ [CHR 0xC3, CHR 0xAD] @ ''vel excluir a conta.'') 200 (st\<lparr>app_auth := auth\<rparr>))"

definition route_users :: "World \<Rightarrow> HttpRequest \<Rightarrow> AuthUser option \<Rightarrow> AppState \<Rightarrow> Served" where
  "route_users w request actor st =
     guarded request actor ''identity.users.manage'' ''sister-identities'' ''identity_administration'' st (\<lambda>a.
       let isBase = (req_path request = users_prefix);
           targetId = (if isBase then [] else drop (length users_prefix + 1) (req_path request)) in
       if isBase \<and> req_method request = ''GET'' then
         reply request (json_response 200 ''OK''
             (''['' @ join_with CHR '','' (map jsonUser (users_list (app_auth st))) @ '']''))
           [Event ''info'' 200 []] st
       else if isBase \<and> req_method request = ''POST'' then users_create w request st
       else if \<not> isBase \<and> targetId \<noteq> [] \<and> (req_method request = ''PUT'' \<or> req_method request = ''PATCH'') then
         users_update w request targetId st
       else if \<not> isBase \<and> targetId \<noteq> [] \<and> req_method request = ''DELETE'' then
         users_delete w request targetId a st
       else reply request method_not_allowed [Event ''warn'' 405 []] st)"

section \<open>The general API\<close>

text \<open>Capability, resource and purpose of a path.\<close>

definition api_requirement :: "string \<Rightarrow> string \<times> string \<times> string" where
  "api_requirement path =
     (let plane = (\<lambda>c. (c, ''sister-control-plane'', ''governed_api_access'')) in
      if path = ''/api/v1/context-projection'' then (''workspace.context.read'', ''sister_nexo'', ''research_operations'')
      else if path = ''/api/v1/workspace'' then plane ''workspace.resources.read''
      else if path = ''/api/v1/ecosystem/semantic'' then plane ''ecosystem.semantic.read''
      else if path = ''/api/systems'' \<or> path = ''/api/ecosystem'' then plane ''engineering.ecosystem.read''
      else if path = ''/api/v1/engineering/operational-base/current'' then plane ''engineering.operational-base.read''
      else if path = ''/api/v1/engineering/plan'' \<or> prefix artifactPrefix path then plane ''engineering.plan.read''
      else if path = ''/api/contracts'' then plane ''sister.governance.read''
      else if path = ''/api/evidence'' then plane ''sister.evidence.read''
      else if path = ''/api/diagnostics'' then plane ''sister.diagnostics.read''
      else if path = ''/api/integrations/sister-reference'' then
        (''reference.identity.read'', ''sister-reference'', ''platform_validation'')
      else plane [])"

definition context_projection :: "World \<Rightarrow> ServerConfig \<Rightarrow> HttpRequest \<Rightarrow> AuthUser \<Rightarrow> AppState \<Rightarrow> Served" where
  "context_projection w config request a st =
     (if req_query request \<noteq> [] then
        reply request (jsonError 400 ''Bad Request'' (''Query n'' @ [CHR 0xC3, CHR 0xA3] @ ''o permitida nesta proje'' @ [CHR 0xC3, CHR 0xA7, CHR 0xC3, CHR 0xA3] @ ''o.''))
          [Event ''warn'' 400 ''context_projection_query_rejected''] st
      else case fst (signedReadFromLoopbackSubsystem (w_assertion w) (w_sign w) (w_net w) (nexoPort config)
          ''/api/v1/context-projection'' (au_id a) ''sister_nexo'' ''nexo.context.read'' ''research_operations''
          (w_request_id w) config) of
        Error _ \<Rightarrow>
          reply request (jsonError 502 ''Bad Gateway'' (''Proje'' @ [CHR 0xC3, CHR 0xA7, CHR 0xC3, CHR 0xA3] @ ''o contextual do Nexo indispon'' @ [CHR 0xC3, CHR 0xAD] @ ''vel.''))
            [Event ''warn'' 502 ''context_projection_transport_failure''] st
      | Okay raw \<Rightarrow>
          if statusFromRawHttpResponse raw \<noteq> 200 then
            reply request (jsonError 502 ''Bad Gateway'' (''Nexo recusou ou n'' @ [CHR 0xC3, CHR 0xA3] @ ''o produziu a proje'' @ [CHR 0xC3, CHR 0xA7, CHR 0xC3, CHR 0xA3] @ ''o contextual.''))
              [Event ''warn'' 502 ''context_projection_upstream_rejected''] st
          else reply request (json_response 200 ''OK'' (rawHttpBody raw)) [Event ''info'' 200 []] st)"

definition api_reply :: "World \<Rightarrow> ServerConfig \<Rightarrow> HttpRequest \<Rightarrow> AuthUser option \<Rightarrow> bool \<Rightarrow> AppState \<Rightarrow> Served" where
  "api_reply w config request actor publicApi st =
     (let (payload, st) = routeApi w config (req_path request) actor st in
      if \<not> pay_found payload then reply request resource_not_found [Event ''warn'' 404 []] st
      else reply request
        \<lparr>rsp_status = 200, rsp_reason = ''OK'', rsp_body = pay_body payload, rsp_contentType = json_type,
         rsp_headers = [(''Cache-Control'', if publicApi then ''no-cache'' else ''no-store'')]\<rparr>
        [Event ''info'' 200 (if pay_fallback payload then ''fallback'' else [])] st)"

definition route_api :: "World \<Rightarrow> ServerConfig \<Rightarrow> HttpRequest \<Rightarrow> AuthUser option \<Rightarrow> AppState \<Rightarrow> Served" where
  "route_api w config request actor st =
     (if req_method request \<noteq> ''GET'' \<and> req_method request \<noteq> ''HEAD'' then
        reply request method_not_allowed [Event ''warn'' 405 []] st
      else if req_path request = ''/api/health'' then api_reply w config request actor True st
      else
        let (capability, resource, purpose) = api_requirement (req_path request) in
        guarded request actor capability resource purpose st (\<lambda>a.
          if req_path request = ''/api/v1/context-projection'' then context_projection w config request a st
          else api_reply w config request actor False st))"

section \<open>Static pages\<close>

definition static_headers :: "string \<Rightarrow> (string \<times> string) list" where
  "static_headers path =
     (if shouldNeverCacheStaticFile path then
        [(''Cache-Control'', ''no-store, no-cache, must-revalidate, max-age=0''), (''Pragma'', ''no-cache''),
         (''Expires'', ''0'')] @
        (if shouldClearBrowserSiteData path then [(''Clear-Site-Data'', ([QUOTE] @ ''cache'' @ [QUOTE] @ '', '' @ [QUOTE] @ ''storage'' @ [QUOTE]))] else [])
      else [(''Cache-Control'', ''public, max-age=3600'')])"

definition page_not_found :: HttpResponse where
  "page_not_found = jsonError 404 ''Not Found'' (''P'' @ [CHR 0xC3, CHR 0xA1] @ ''gina n'' @ [CHR 0xC3, CHR 0xA3] @ ''o encontrada.'')"

definition serve_file :: "World \<Rightarrow> ServerConfig \<Rightarrow> HttpRequest \<Rightarrow> AppState \<Rightarrow> Served" where
  "serve_file w config request st =
     (case resolveStaticPath (w_files w) (req_path request) config of
        None \<Rightarrow> reply request page_not_found [Event ''info'' 404 []] st
      | Some path \<Rightarrow>
          (case static_readFile (w_files w) path of
             Error e \<Rightarrow> reply request page_not_found [Event ''warn'' 404 e] st
           | Okay body \<Rightarrow>
               reply request \<lparr>rsp_status = 200, rsp_reason = ''OK'', rsp_body = body,
                   rsp_contentType = contentType path, rsp_headers = static_headers path\<rparr>
                 [Event ''info'' 200 []] st))"

definition engineeringRoute :: "string \<Rightarrow> bool" where
  "engineeringRoute path \<longleftrightarrow> path = ''/engineering'' \<or> prefix ''/engineering/'' path"

text \<open>Capability and resource of a guarded page.\<close>

definition page_requirement :: "string \<Rightarrow> (string \<times> string) option" where
  "page_requirement path =
     (if engineeringRoute path then Some (''engineering.ecosystem.read'', ''sister-engineering'')
      else if path = ''/admin/users'' then Some (''identity.users.manage'', ''sister-identities'')
      else if path = ''/admin/maturity'' then Some (''maturity.evidence.read'', ''sister-maturity'')
      else None)"

definition page_or_login :: "World \<Rightarrow> ServerConfig \<Rightarrow> HttpRequest \<Rightarrow> AuthUser option \<Rightarrow> AppState \<Rightarrow> Served" where
  "page_or_login w config request actor st =
     (if suffix ''/app.js'' (req_path request) \<and> actor = None then
        reply request unauthorized [Event ''info'' 401 []] st
      else serve_file w config request st)"

definition route_static :: "World \<Rightarrow> ServerConfig \<Rightarrow> HttpRequest \<Rightarrow> AuthUser option \<Rightarrow> AppState \<Rightarrow> Served" where
  "route_static w config request actor st =
     (if req_method request \<noteq> ''GET'' \<and> req_method request \<noteq> ''HEAD'' then
        reply request method_not_allowed [Event ''warn'' 405 []] st
      else if req_path request = ''/login'' \<and> actor \<noteq> None then
        reply request (redirectResponse 303 ''See Other'' ''/'') [Event ''info'' 303 []] st
      else case page_requirement (req_path request) of
          Some (capability, resource) \<Rightarrow>
            guarded request actor capability resource ''administrative_interface'' st
              (\<lambda>a. page_or_login w config request actor st)
        | None \<Rightarrow> page_or_login w config request actor st)"

section \<open>One connection\<close>

text \<open>The routes after the session has been resolved.\<close>

definition route_session :: "World \<Rightarrow> ServerConfig \<Rightarrow> HttpRequest \<Rightarrow> AuthUser option \<Rightarrow> AppState \<Rightarrow> Served" where
  "route_session w config request actor st =
     (let path = req_path request in
      if is_participation request then route_participation w request actor st
      else if prefix integrationPrefix path \<and> suffix ''/decision'' path then route_decision w request actor st
      else if prefix integrationPrefix path \<and> suffix ''/execute'' path then route_execute w config request actor st
      else if path = ''/integrations/reference'' \<or> prefix ''/integrations/reference/'' path then
        route_reference w config request actor st
      else if path = ''/api/me/capabilities'' then route_me request actor jsonCapabilities st
      else if path = ''/api/me'' then route_me request actor jsonUser st
      else if path \<in> maturity_paths then route_maturity w config request actor st
      else if path = users_prefix \<or> prefix (users_prefix @ ''/'') path then route_users w request actor st
      else if path = ''/api/v1/context-projection'' \<and> \<not> nexoContextProjectionEnabled config then
        reply request resource_not_found [Event ''warn'' 404 ''nexo context projection disabled by execution profile''] st
      else if prefix ''/api/'' path then route_api w config request actor st
      else route_static w config request actor st)"

definition route_request :: "World \<Rightarrow> ServerConfig \<Rightarrow> HttpRequest \<Rightarrow> AppState \<Rightarrow> Served" where
  "route_request w config request st =
     (let path = req_path request; method = req_method request; token = cookieValue request kSessionCookie in
      if path = ''/api/auth/bootstrap'' \<and> method = ''GET'' then route_bootstrap config request st
      else if path = ''/api/auth/register'' \<and> method = ''POST'' then route_register w config request st
      else if path = ''/api/auth/login'' \<and> method = ''POST'' then route_login w config request st
      else if path = ''/api/auth/logout'' \<and> method = ''POST'' then route_logout w config request token st
      else case userForToken (w_crypto w) (w_session_env w) token (app_auth st) of
          (Throws e, auth) \<Rightarrow> throws e (st\<lparr>app_auth := auth\<rparr>)
        | (Refused _, auth) \<Rightarrow> route_session w config request None (st\<lparr>app_auth := auth\<rparr>)
        | (Done u, auth) \<Rightarrow> route_session w config request (Some u) (st\<lparr>app_auth := auth\<rparr>))"

definition cross_origin :: HttpResponse where
  "cross_origin = jsonError 403 ''Forbidden'' (''Requisi'' @ [CHR 0xC3, CHR 0xA7, CHR 0xC3, CHR 0xA3] @ ''o de origem cruzada n'' @ [CHR 0xC3, CHR 0xA3] @ ''o permitida.'')"

definition handleClient :: "World \<Rightarrow> ServerConfig \<Rightarrow> AppState \<Rightarrow> Served" where
  "handleClient w config st =
     (case setSocketTimeouts (w_timeouts w) of
        Error e \<Rightarrow> throws e st
      | Okay _ \<Rightarrow>
          (case readRequest (w_recv w) of
             Error f \<Rightarrow>
               \<lparr>srv_answer = Answer (jsonError (rf_status f) (rf_reason f) (rf_detail f)) False, srv_state = st,
                srv_log = [Event ''warn'' (int (rf_status f)) (rf_detail f)]\<rparr>
           | Okay request \<Rightarrow>
               if requireSameOrigin config \<and> \<not> sameOriginRequest request (requireSameOrigin config) then
                 \<lparr>srv_answer = Answer cross_origin False, srv_state = st,
                  srv_log = [Event ''warn'' 403 ''cross-origin request rejected'']\<rparr>
               else route_request w config request st))"

text \<open>The bytes that go to the client.\<close>

definition answer_bytes :: "World \<Rightarrow> ServerConfig \<Rightarrow> send_result list \<Rightarrow> answer \<Rightarrow> string" where
  "answer_bytes w config rs a =
     (case a of
        Answer rsp headOnly \<Rightarrow> sendResponse rs rsp config (w_request_id w) headOnly
      | Relay raw \<Rightarrow> snd (sendAll rs raw)
      | Unanswered _ \<Rightarrow> [])"

end
