(* ===== verification/Handler_Effects.thy ===== *)
theory Handler_Effects
  imports Handler
begin

text \<open>
  What a connection may do.  The lemmas say for every route what becomes of the store of users, the
  operational base and the rate limiter, who may change them, and when a route answers.
\<close>

section \<open>Guards\<close>

definition granted :: "AuthUser option \<Rightarrow> string \<Rightarrow> bool" where
  "granted actor c \<longleftrightarrow> (\<exists>a. actor = Some a \<and> hasCapability a c)"

definition denial :: "AuthUser option \<Rightarrow> HttpResponse" where
  "denial actor = (if actor = None then unauthorized else forbidden)"

lemma granted_None [simp]: "\<not> granted None c"
  by (simp add: granted_def)

lemma granted_undeclared [simp]: "\<not> granted actor []"
  using capability_names by (auto simp: granted_def hasCapability_def)

lemma granted_the: "granted actor c \<Longrightarrow> actor = Some (the actor) \<and> hasCapability (the actor) c"
  by (auto simp: granted_def)

lemma reply_sel [simp]:
  "srv_state (reply request rsp log st) = st"
  "srv_answer (reply request rsp log st) = Answer rsp (req_method request = ''HEAD'')"
  "srv_log (reply request rsp log st) = log"
  by (simp_all add: reply_def)

lemma throws_sel [simp]: "srv_state (throws e st) = st" "srv_answer (throws e st) = Unanswered e"
  by (simp_all add: throws_def)

lemma authorizeOrReject_eq:
  "authorizeOrReject actor c r p =
     (if granted actor c then (None, [Authorization actor c r p True ''capability_granted''])
      else (Some (denial actor), snd (authorizeOrReject actor c r p)))"
  using capability_names
  by (auto simp: authorizeOrReject_def authorization_def granted_def denial_def hasCapability_def split: option.split)

lemma guarded_eq:
  "guarded request actor c r p st rest =
     (if granted actor c
      then (rest (the actor))\<lparr>srv_log := Authorization actor c r p True ''capability_granted'' # srv_log (rest (the actor))\<rparr>
      else reply request (denial actor) (snd (authorizeOrReject actor c r p)) st)"
  unfolding guarded_def by (subst authorizeOrReject_eq) (simp add: Let_def)

lemma guarded_sel [simp]:
  "srv_state (guarded request actor c r p st rest) = (if granted actor c then srv_state (rest (the actor)) else st)"
  "srv_answer (guarded request actor c r p st rest) =
     (if granted actor c then srv_answer (rest (the actor)) else Answer (denial actor) (req_method request = ''HEAD''))"
  by (simp_all add: guarded_eq)

lemmas route_splits = if_split_asm option.split_asm prod.split_asm sum.split_asm bool.split_asm outcome.split_asm
  FixedJsonState.split_asm

section \<open>What a route leaves alone\<close>

lemma api_reply_state [simp]:
  "srv_state (api_reply w config request actor publicApi st) = snd (routeApi w config (req_path request) actor st)"
  by (simp add: api_reply_def Let_def split: prod.split)

lemma context_projection_state [simp]: "srv_state (context_projection w config request a st) = st"
  by (simp add: context_projection_def split: sum.split)

lemma route_api_state:
  "srv_state (route_api w config request actor st) \<in> {st, snd (routeApi w config (req_path request) actor st)}"
  by (simp add: route_api_def Let_def split: prod.split)

lemma page_or_login_state [simp]: "srv_state (page_or_login w config request actor st) = st"
  by (simp add: page_or_login_def serve_file_def split: option.split sum.split)

lemma route_static_state [simp]: "srv_state (route_static w config request actor st) = st"
  by (simp add: route_static_def split: option.split prod.split)

lemma maturity_route_reply_state [simp]: "srv_state (maturity_route_reply request r st) = st"
  by (simp add: maturity_route_reply_def)

lemma maturity_document_reply_state [simp]: "srv_state (maturity_document_reply w config request st) = st"
  by (simp add: maturity_document_reply_def Let_def split: FixedJsonState.split)

lemma route_maturity_state [simp]: "srv_state (route_maturity w config request actor st) = st"
  by (simp add: route_maturity_def)

lemma route_me_state [simp]: "srv_state (route_me request actor document st) = st"
  by (simp add: route_me_def)

lemma route_reference_state [simp]: "srv_state (route_reference w config request actor st) = st"
  by (simp add: route_reference_def split: option.split sum.split)

lemma database_payload_frame [simp]:
  "app_auth (snd (database_payload r b st)) = app_auth st"
  "app_limiter (snd (database_payload r b st)) = app_limiter st"
  "app_db (snd (database_payload r b st)) = snd r"
  by (simp_all add: database_payload_def split: prod.split option.split)

lemma refresh_frame [simp]:
  "app_auth (snd (refreshDeclarativeEcosystemLocked w config st)) = app_auth st"
  "app_limiter (snd (refreshDeclarativeEcosystemLocked w config st)) = app_limiter st"
  "app_db (snd (refreshDeclarativeEcosystemLocked w config st)) = app_db st"
  by (simp_all add: refreshDeclarativeEcosystemLocked_def Let_def)

lemma snapshot_frame [simp]:
  "app_auth (snd (observedEcosystem w config st)) = app_auth st"
  "app_limiter (snd (observedEcosystem w config st)) = app_limiter st"
  "app_db (snd (observedEcosystem w config st)) = app_db st"
  "app_auth (snd (declarativeEcosystem w config st)) = app_auth st"
  "app_limiter (snd (declarativeEcosystem w config st)) = app_limiter st"
  "app_db (snd (declarativeEcosystem w config st)) = app_db st"
  "app_auth (snd (semanticEcosystem w config st)) = app_auth st"
  "app_limiter (snd (semanticEcosystem w config st)) = app_limiter st"
  "app_db (snd (semanticEcosystem w config st)) = app_db st"
  by (simp_all add: observedEcosystem_def declarativeEcosystem_def semanticEcosystem_def Let_def case_prod_unfold)

text \<open>The states a read of the API may leave behind: snapshots and the connection may be renewed.\<close>

definition read_states :: "World \<Rightarrow> ServerConfig \<Rightarrow> AppState \<Rightarrow> AppState set" where
  "read_states w config st =
     {st, snd (observedEcosystem w config st), snd (declarativeEcosystem w config st), snd (semanticEcosystem w config st),
      st\<lparr>app_db := snd (queryOperationalBase (w_pg w) (w_link w) (app_db st))\<rparr>,
      st\<lparr>app_db := snd (execJsonArray (w_link w) (w_evidence w) (app_db st))\<rparr>,
      st\<lparr>app_db := snd (execJsonArray (w_link w) (w_diagnostics w) (app_db st))\<rparr>}"

lemma if_cases: "P a \<Longrightarrow> P b \<Longrightarrow> P (if c then a else b)"
  by simp

lemma database_payload_state: "snd (database_payload r b st) = st\<lparr>app_db := snd r\<rparr>"
  by (simp add: database_payload_def split: prod.split option.split)

lemma routeApi_state: "snd (routeApi w config path actor st) \<in> read_states w config st"
  unfolding routeApi_def
  by (intro if_cases [where P = "\<lambda>r. snd r \<in> read_states w config st"])
    (simp_all only: read_states_def insert_iff snd_conv database_payload_state Let_def case_prod_unfold simp_thms
      split: option.split)

lemma read_states_frame:
  assumes "t \<in> read_states w config st"
  shows "app_auth t = app_auth st" and "app_limiter t = app_limiter st" and "db_step\<^sup>*\<^sup>* (app_db st) (app_db t)"
    and "snd (app_db t) = snd (app_db st)"
proof -
  have l: "db_step (app_db st) (snd (execJsonArray (w_link w) rows (app_db st)))" for rows
    by (rule db_step.lists, rule prod.collapse [symmetric])
  have r: "db_step (app_db st) (snd (queryOperationalBase (w_pg w) (w_link w) (app_db st)))"
    by (rule db_step.reports, rule prod.collapse [symmetric])
  show "app_auth t = app_auth st" "app_limiter t = app_limiter st"
    using assms by (auto simp: read_states_def)
  show "db_step\<^sup>*\<^sup>* (app_db st) (app_db t)"
    using assms by (auto simp: read_states_def l r r_into_rtranclp)
  show "snd (app_db t) = snd (app_db st)"
    using assms listing_frame [OF prod.collapse [symmetric]] by (cases "app_db st") (auto simp: read_states_def)
qed

lemma route_participation_frame [simp]:
  "app_auth (srv_state (route_participation w request actor st)) = app_auth st"
  "app_limiter (srv_state (route_participation w request actor st)) = app_limiter st"
  by (simp_all add: route_participation_def Let_def split: prod.split sum.split)

lemma route_decision_frame [simp]:
  "app_auth (srv_state (route_decision w request actor st)) = app_auth st"
  "app_limiter (srv_state (route_decision w request actor st)) = app_limiter st"
  by (simp_all add: route_decision_def Let_def split: prod.split option.split)

lemma route_execute_frame [simp]:
  "app_auth (srv_state (route_execute w config request actor st)) = app_auth st"
  "app_limiter (srv_state (route_execute w config request actor st)) = app_limiter st"
  by (simp_all add: route_execute_def Let_def split: prod.split option.split bool.split)

lemma users_frame [simp]:
  "app_db (srv_state (users_create w request st)) = app_db st"
  "app_limiter (srv_state (users_create w request st)) = app_limiter st"
  "app_db (srv_state (users_update w request t st)) = app_db st"
  "app_limiter (srv_state (users_update w request t st)) = app_limiter st"
  "app_db (srv_state (users_delete w request t a st)) = app_db st"
  "app_limiter (srv_state (users_delete w request t a st)) = app_limiter st"
  by (simp_all add: users_create_def users_update_def users_delete_def refused_reply_def failed_reply_def
      split: option.split prod.split outcome.split)

lemma route_users_frame [simp]:
  "app_db (srv_state (route_users w request actor st)) = app_db st"
  "app_limiter (srv_state (route_users w request actor st)) = app_limiter st"
  by (simp_all add: route_users_def Let_def)

lemma route_register_frame [simp]:
  "app_db (srv_state (route_register w config request st)) = app_db st"
  "app_limiter (srv_state (route_register w config request st)) = app_limiter st"
  by (simp_all add: route_register_def split: option.split prod.split outcome.split)

lemma route_login_frame [simp]: "app_db (srv_state (route_login w config request st)) = app_db st"
  by (simp add: route_login_def Let_def split: option.split prod.split outcome.split sum.split exception.split)

lemma route_logout_frame [simp]:
  "app_db (srv_state (route_logout w config request token st)) = app_db st"
  "app_limiter (srv_state (route_logout w config request token st)) = app_limiter st"
  by (simp_all add: route_logout_def split: prod.split outcome.split)

lemma route_bootstrap_state [simp]: "srv_state (route_bootstrap config request st) = st"
  by (simp add: route_bootstrap_def)

section \<open>What a route changes\<close>

lemma propose_step: "propose pg l caller cj pid sys cv cd sc s = (r, t) \<Longrightarrow> db_step\<^sup>*\<^sup>* s t"
  by (auto simp: propose_def split: option.split_asm prod.split_asm intro: db_step.registers)

lemma show_step: "show_participation pg l i s = (r, t) \<Longrightarrow> db_step\<^sup>*\<^sup>* s t"
  by (auto simp: show_participation_def split: option.split_asm prod.split_asm if_split_asm intro: db_step.looks_up)

lemma route_participation_db:
  "db_step\<^sup>*\<^sup>* (app_db st) (app_db (srv_state (route_participation w request actor st)))"
  by (auto simp: route_participation_def Let_def split: prod.split sum.split intro: propose_step show_step)

lemma route_decision_db:
  "db_step\<^sup>*\<^sup>* (app_db st) (app_db (srv_state (route_decision w request actor st)))"
  by (auto simp: route_decision_def Let_def split: prod.split option.split intro: db_step.decides)

lemma execute_steps:
  assumes "integrationApproved l i v s = (ok, t)"
    and "recordIntegrationExecution pg l' i v e st dg ej a rs ac h aj t = (res, u)"
  shows "db_step\<^sup>*\<^sup>* s u"
  using db_step.asks [OF assms(1)] db_step.records [OF assms(2)] by (meson r_into_rtranclp rtranclp.rtrancl_into_rtrancl)

lemma route_execute_db:
  "db_step\<^sup>*\<^sup>* (app_db st) (app_db (srv_state (route_execute w config request actor st)))"
  by (auto simp: route_execute_def Let_def split: prod.split option.split bool.split
      intro: db_step.asks execute_steps)

lemma users_call:
  assumes "fresh_uuid (w_auth_env w) (app_auth st)"
  shows "(auth_call (w_crypto w))\<^sup>*\<^sup>* (app_auth st) (app_auth (srv_state (route_users w request actor st)))"
proof -
  let ?calls = "\<lambda>s. (auth_call (w_crypto w))\<^sup>*\<^sup>* (app_auth st) (app_auth (srv_state s))"
  have "?calls (users_create w request st)"
    using assms
    by (auto simp: users_create_def refused_reply_def failed_reply_def split: option.split prod.split outcome.split
        intro!: r_into_rtranclp) (metis auth_call.call_create snd_conv)+
  moreover have "?calls (users_update w request t st)" for t
    by (auto simp: users_update_def refused_reply_def failed_reply_def split: option.split prod.split outcome.split
        intro!: r_into_rtranclp) (metis auth_call.call_update snd_conv)+
  moreover have "?calls (users_delete w request t a st)" for t a
    by (auto simp: users_delete_def refused_reply_def failed_reply_def split: prod.split outcome.split
        intro!: r_into_rtranclp) (metis auth_call.call_delete snd_conv)+
  ultimately show ?thesis by (simp add: route_users_def Let_def)
qed

lemma route_register_call:
  "(auth_call (w_crypto w))\<^sup>*\<^sup>* (app_auth st) (app_auth (srv_state (route_register w config request st)))"
  by (auto simp: route_register_def split: option.split prod.split outcome.split intro!: r_into_rtranclp)
    (metis auth_call.call_register snd_conv)+

lemma route_login_call:
  "(auth_call (w_crypto w))\<^sup>*\<^sup>* (app_auth st) (app_auth (srv_state (route_login w config request st)))"
  by (auto simp: route_login_def Let_def split: option.split prod.split outcome.split sum.split exception.split
      intro!: r_into_rtranclp)
    (metis auth_call.call_login snd_conv)+

lemma route_logout_call:
  "(auth_call (w_crypto w))\<^sup>*\<^sup>* (app_auth st) (app_auth (srv_state (route_logout w config request token st)))"
  by (auto simp: route_logout_def split: prod.split outcome.split intro!: r_into_rtranclp)
    (metis auth_call.call_logout snd_conv)+

section \<open>One connection\<close>

text \<open>What a connection does to the three parts of the state: calls of the store, statements of the
  operational base, and at most one check of the limiter, at the time and for the address of the
  connection.\<close>

definition limiter_moves :: "World \<Rightarrow> LoginRateLimiter \<Rightarrow> LoginRateLimiter \<Rightarrow> bool" where
  "limiter_moves w s t \<longleftrightarrow>
     t = s \<or> (\<exists>i d. checkAndRecord (w_peer_address w) i (w_clock w) s = Okay (d, t))"

definition evolves :: "World \<Rightarrow> AppState \<Rightarrow> AppState \<Rightarrow> bool" where
  "evolves w st t \<longleftrightarrow> (auth_call (w_crypto w))\<^sup>*\<^sup>* (app_auth st) (app_auth t) \<and>
     db_step\<^sup>*\<^sup>* (app_db st) (app_db t) \<and> limiter_moves w (app_limiter st) (app_limiter t)"

lemma evolves_refl [simp]: "evolves w st st"
  by (simp add: evolves_def limiter_moves_def)

lemma route_login_limiter: "limiter_moves w (app_limiter st) (app_limiter (srv_state (route_login w config request st)))"
  by (auto simp: route_login_def limiter_moves_def Let_def
      split: option.split prod.split outcome.split sum.split exception.split)

lemma limiter_stays [simp]: "limiter_moves w s s"
  by (simp add: limiter_moves_def)

lemma read_evolves: "t \<in> read_states w config st \<Longrightarrow> evolves w st t"
  using read_states_frame by (simp add: evolves_def)

lemma api_evolves: "evolves w st (srv_state (route_api w config request actor st))"
  using route_api_state [of w config request actor st] routeApi_state [of w config "req_path request" actor st] read_evolves
  by auto

lemma route_session_evolves:
  assumes "fresh_uuid (w_auth_env w) (app_auth st)"
  shows "evolves w st (srv_state (route_session w config request actor st))"
proof -
  let ?P = "\<lambda>s. evolves w st (srv_state s)"
  have "?P (route_participation w request actor st)" "?P (route_decision w request actor st)"
    "?P (route_execute w config request actor st)"
    by (simp_all add: evolves_def route_participation_db route_decision_db route_execute_db)
  moreover have "?P (route_users w request actor st)"
    using users_call [OF assms] by (simp add: evolves_def)
  ultimately show ?thesis
    unfolding route_session_def Let_def
    by (intro if_cases [where P = ?P]) (simp_all add: api_evolves)
qed

lemma userForToken_users: "userForToken cr env token st = (r, st') \<Longrightarrow> st_users st' = st_users st"
  by (auto simp: userForToken_def Let_def saveSessions_def split: if_split_asm option.split_asm sum.split_asm prod.split_asm)

lemma session_evolves:
  assumes tok: "userForToken (w_crypto w) env token (app_auth st) = (r, auth)"
    and fresh: "fresh_uuid (w_auth_env w) (app_auth st)"
  shows "evolves w st (srv_state (route_session w config request actor (st\<lparr>app_auth := auth\<rparr>)))"
    and "evolves w st (st\<lparr>app_auth := auth\<rparr>)"
proof -
  have "auth_call (w_crypto w) (app_auth st) auth" using auth_call.call_token by (metis tok snd_conv)
  then have c: "(auth_call (w_crypto w))\<^sup>*\<^sup>* (app_auth st) auth" by (rule r_into_rtranclp)
  then show "evolves w st (st\<lparr>app_auth := auth\<rparr>)" by (simp add: evolves_def)
  have "fresh_uuid (w_auth_env w) auth" using fresh userForToken_users [OF tok] by (simp add: fresh_uuid_def)
  with route_session_evolves [of w "st\<lparr>app_auth := auth\<rparr>"] c
  show "evolves w st (srv_state (route_session w config request actor (st\<lparr>app_auth := auth\<rparr>)))"
    by (auto simp: evolves_def intro: rtranclp_trans)
qed

lemma route_request_evolves:
  assumes "fresh_uuid (w_auth_env w) (app_auth st)"
  shows "evolves w st (srv_state (route_request w config request st))"
proof -
  let ?P = "\<lambda>s. evolves w st (srv_state s)"
  have "?P (route_register w config request st)" "?P (route_login w config request st)"
    "?P (route_logout w config request token st)" for token
    by (simp_all add: evolves_def route_register_call route_login_call route_logout_call route_login_limiter)
  with session_evolves [OF _ assms] show ?thesis
    unfolding route_request_def Let_def
    by (intro if_cases [where P = ?P]) (auto split: prod.split outcome.split)
qed

lemma handleClient_evolves:
  assumes "fresh_uuid (w_auth_env w) (app_auth st)"
  shows "evolves w st (srv_state (handleClient w config st))"
  using route_request_evolves [OF assms] by (auto simp: handleClient_def split: sum.split)

section \<open>Who may change something\<close>

definition is_admin :: "AuthUser option \<Rightarrow> bool" where
  "is_admin actor \<longleftrightarrow> (\<exists>a. actor = Some a \<and> au_role a = ''admin'')"

definition admin_capabilities :: "string set" where
  "admin_capabilities = {''identity.users.manage'', ''participation.propose'', ''participation.read'',
     ''engineering.integration.decide'', ''engineering.integration.execute''}"

lemma granted_admin: "c \<in> admin_capabilities \<Longrightarrow> granted actor c \<Longrightarrow> is_admin actor"
  by (auto simp: granted_def hasCapability_def capabilitiesForRole_def admin_capabilities_def is_admin_def split: if_split_asm)

lemma not_granted:
  assumes "\<not> is_admin actor"
  shows "\<not> granted actor ''identity.users.manage''" "\<not> granted actor ''participation.propose''"
    "\<not> granted actor ''participation.read''" "\<not> granted actor ''engineering.integration.decide''"
    "\<not> granted actor ''engineering.integration.execute''"
  using assms granted_admin by (auto simp: admin_capabilities_def)

lemma route_session_user:
  assumes "\<not> is_admin actor"
  shows "srv_state (route_session w config request actor st) \<in> read_states w config st"
proof -
  let ?P = "\<lambda>s. srv_state s \<in> read_states w config st"
  have st: "st \<in> read_states w config st" by (simp add: read_states_def)
  have "?P (route_participation w request actor st)" "?P (route_decision w request actor st)"
    "?P (route_execute w config request actor st)" "?P (route_users w request actor st)"
    using not_granted [OF assms] st
    by (simp_all add: route_participation_def route_decision_def route_execute_def route_users_def Let_def)
  moreover have "?P (route_api w config request actor st)"
    using route_api_state [of w config request actor st] routeApi_state [of w config "req_path request" actor st] st by auto
  ultimately show ?thesis
    unfolding route_session_def Let_def by (intro if_cases [where P = ?P]) (simp_all add: st)
qed

lemma saveSessions_users: "st_users (snd (saveSessions env st)) = st_users st"
  by (simp add: saveSessions_def)

lemma createSession_users: "createSession cr env u st = (r, st') \<Longrightarrow> st_users st' = st_users st"
  by (auto simp: createSession_def Let_def saveSessions_def split: sum.split_asm prod.split_asm if_split_asm)

lemma login_users: "login cr env e p st = (r, st') \<Longrightarrow> st_users st' = st_users st"
  by (auto simp: login_def Let_def dest: createSession_users split: sum.split_asm option.split_asm if_split_asm)

lemma logout_users: "logout cr env token st = (r, st') \<Longrightarrow> st_users st' = st_users st"
  by (auto simp: logout_def saveSessions_def split: if_split_asm)

lemma registerAdmin_closed: "registerAdmin cr env n e p st = (r, st') \<Longrightarrow> st_users st \<noteq> [] \<Longrightarrow> st' = st"
  by (auto simp: registerAdmin_def bootstrapAdminUnlocked_def Let_def)

lemma route_login_users: "st_users (app_auth (srv_state (route_login w config request st))) = st_users (app_auth st)"
  by (auto simp: route_login_def Let_def dest!: login_users
      split: option.split prod.split outcome.split sum.split exception.split)

lemma route_logout_users:
  "st_users (app_auth (srv_state (route_logout w config request token st))) = st_users (app_auth st)"
  by (auto simp: route_logout_def dest!: logout_users split: prod.split outcome.split)

lemma route_register_users:
  assumes "app_auth (srv_state (route_register w config request st)) \<noteq> app_auth st"
  shows "httpBootstrapEnabled config \<and> st_users (app_auth st) = []"
  using assms
  by (auto simp: route_register_def dest: registerAdmin_closed split: if_split_asm option.split_asm prod.split_asm outcome.split_asm)

section \<open>When there is no answer\<close>

definition unanswered :: "Served \<Rightarrow> bool" where
  "unanswered s \<longleftrightarrow> (\<exists>e. srv_answer s = Unanswered e)"

lemma unanswered_simps [simp]:
  "\<not> unanswered (reply request rsp log st)" "unanswered (throws e st)"
  "unanswered (guarded request actor c r p st rest) \<longleftrightarrow> granted actor c \<and> unanswered (rest (the actor))"
  by (simp_all add: unanswered_def)

lemma users_answered [simp]:
  "\<not> unanswered (users_create w request st)" "\<not> unanswered (users_update w request t st)"
  "\<not> unanswered (users_delete w request t a st)"
  by (simp_all add: users_create_def users_update_def users_delete_def refused_reply_def failed_reply_def
      split: option.split prod.split outcome.split)

lemma route_answered [simp]:
  "\<not> unanswered (route_users w request actor st)" "\<not> unanswered (route_me request actor document st)"
  "\<not> unanswered (route_bootstrap config request st)"
  "\<not> unanswered (api_reply w config request actor publicApi st)"
  "\<not> unanswered (context_projection w config request a st)"
  by (simp_all add: route_users_def route_me_def route_bootstrap_def api_reply_def context_projection_def Let_def
      split: prod.split sum.split)

lemma route_maturity_answered [simp]: "\<not> unanswered (route_maturity w config request actor st)"
  by (simp add: route_maturity_def maturity_route_reply_def maturity_document_reply_def Let_def split: FixedJsonState.split)

lemma route_reference_answered [simp]: "\<not> unanswered (route_reference w config request actor st)"
  by (auto simp: route_reference_def unanswered_def split: option.split sum.split)

lemma route_decision_answered [simp]: "\<not> unanswered (route_decision w request actor st)"
  by (simp add: route_decision_def split: option.split prod.split)

lemma route_execute_answered [simp]: "\<not> unanswered (route_execute w config request actor st)"
  by (simp add: route_execute_def Let_def split: option.split prod.split bool.split)

lemma route_api_answered [simp]: "\<not> unanswered (route_api w config request actor st)"
  by (simp add: route_api_def Let_def split: prod.split)

lemma route_static_answered [simp]: "\<not> unanswered (route_static w config request actor st)"
  by (simp add: route_static_def page_or_login_def serve_file_def split: option.split prod.split sum.split)

lemma route_register_answered [simp]: "\<not> unanswered (route_register w config request st)"
  by (simp add: route_register_def split: option.split prod.split outcome.split)

lemma route_participation_answered:
  "unanswered (route_participation w request actor st) \<longleftrightarrow>
     length (req_path request) \<le> length participations_path \<and>
     \<not> (req_method request = ''POST'' \<and> req_path request = participations_path) \<and> granted actor ''participation.read''"
  by (auto simp: route_participation_def Let_def split: prod.split sum.split)

end
