(* ===== verification/Handler_Access.thy ===== *)
theory Handler_Access
  imports Handler_Effects Http_Properties
begin

text \<open>
  How a request finds its route: the session behind it, who changes protected data, who is turned
  away, which requests stay without an answer, which logins reach the password check, and what an
  execution of an integration records.
\<close>

section \<open>Sessions\<close>

text \<open>The request carries the token of a session of this user that has not expired.\<close>

definition session_user :: "World \<Rightarrow> HttpRequest \<Rightarrow> AppState \<Rightarrow> AuthUser \<Rightarrow> bool" where
  "session_user w request st v \<longleftrightarrow>
     cookieValue request kSessionCookie \<noteq> [] \<and>
     (\<exists>u s. u \<in> set (st_users (app_auth st)) \<and> v = publicUser u \<and>
        map_of (st_sessions (app_auth st)) (sha256 (w_crypto w) (cookieValue request kSessionCookie)) = Some s \<and>
        ses_userId s = au_id v \<and> env_now (w_session_env w) < ses_expiresAt s)"

lemma userForToken_session:
  assumes "userForToken (w_crypto w) (w_session_env w) (cookieValue request kSessionCookie) (app_auth st) = (Done v, auth)"
  shows "session_user w request st v" and "auth = app_auth st"
proof -
  have "cookieValue request kSessionCookie \<noteq> []" using assms by (auto simp: userForToken_def)
  then show "session_user w request st v"
    using assms userForToken_done unfolding session_user_def by (metis fst_conv)
  show "auth = app_auth st"
    using assms by (auto simp: userForToken_def Let_def split: if_split_asm option.split_asm sum.split_asm prod.split_asm)
qed

lemma session_user_iff:
  assumes "auth_wf (app_auth st)"
  shows "session_user w request st v \<longleftrightarrow>
    userForToken (w_crypto w) (w_session_env w) (cookieValue request kSessionCookie) (app_auth st) = (Done v, app_auth st)"
proof
  assume "session_user w request st v"
  moreover have "distinct (ids (st_users (app_auth st)))" using assms by (simp add: auth_wf_def users_wf_def)
  ultimately show "userForToken (w_crypto w) (w_session_env w) (cookieValue request kSessionCookie) (app_auth st) = (Done v, app_auth st)"
    using userForToken_live unfolding session_user_def by blast
qed (rule userForToken_session(1))

text \<open>The four requests that need no session, and the ways a request is routed.\<close>

definition auth_route :: "HttpRequest \<Rightarrow> bool" where
  "auth_route request \<longleftrightarrow> (req_method request, req_path request) \<in> {(''GET'', ''/api/auth/bootstrap''),
     (''POST'', ''/api/auth/register''), (''POST'', ''/api/auth/login''), (''POST'', ''/api/auth/logout'')}"

lemma route_request_session:
  assumes "\<not> auth_route request"
  shows "route_request w config request st =
    (case userForToken (w_crypto w) (w_session_env w) (cookieValue request kSessionCookie) (app_auth st) of
       (Throws e, auth) \<Rightarrow> throws e (st\<lparr>app_auth := auth\<rparr>)
     | (Refused _, auth) \<Rightarrow> route_session w config request None (st\<lparr>app_auth := auth\<rparr>)
     | (Done u, auth) \<Rightarrow> route_session w config request (Some u) (st\<lparr>app_auth := auth\<rparr>))"
proof -
  have "\<not> (req_path request = ''/api/auth/bootstrap'' \<and> req_method request = ''GET'')"
    "\<not> (req_path request = ''/api/auth/register'' \<and> req_method request = ''POST'')"
    "\<not> (req_path request = ''/api/auth/login'' \<and> req_method request = ''POST'')"
    "\<not> (req_path request = ''/api/auth/logout'' \<and> req_method request = ''POST'')"
    using assms by (auto simp: auth_route_def)
  then show ?thesis by (simp only: route_request_def Let_def if_False)
qed

lemma route_request_cases:
  obtains
    (boot) "auth_route request" "req_method request = ''GET''" "req_path request = ''/api/auth/bootstrap''"
      "route_request w config request st = route_bootstrap config request st"
  | (register) "auth_route request" "req_method request = ''POST''" "req_path request = ''/api/auth/register''"
      "route_request w config request st = route_register w config request st"
  | (login) "auth_route request" "req_method request = ''POST''" "req_path request = ''/api/auth/login''"
      "route_request w config request st = route_login w config request st"
  | (logout) "auth_route request" "req_method request = ''POST''" "req_path request = ''/api/auth/logout''"
      "route_request w config request st = route_logout w config request (cookieValue request kSessionCookie) st"
  | (broken) e auth where "\<not> auth_route request"
      "userForToken (w_crypto w) (w_session_env w) (cookieValue request kSessionCookie) (app_auth st) = (Throws e, auth)"
      "route_request w config request st = throws e (st\<lparr>app_auth := auth\<rparr>)"
  | (guest) e auth where "\<not> auth_route request"
      "userForToken (w_crypto w) (w_session_env w) (cookieValue request kSessionCookie) (app_auth st) = (Refused e, auth)"
      "route_request w config request st = route_session w config request None (st\<lparr>app_auth := auth\<rparr>)"
  | (member) v where "\<not> auth_route request" "session_user w request st v"
      "userForToken (w_crypto w) (w_session_env w) (cookieValue request kSessionCookie) (app_auth st) = (Done v, app_auth st)"
      "route_request w config request st = route_session w config request (Some v) st"
proof (cases "auth_route request")
  case True
  then consider "req_method request = ''GET'' \<and> req_path request = ''/api/auth/bootstrap''"
    | "req_method request = ''POST'' \<and> req_path request = ''/api/auth/register''"
    | "req_method request = ''POST'' \<and> req_path request = ''/api/auth/login''"
    | "req_method request = ''POST'' \<and> req_path request = ''/api/auth/logout''"
    by (auto simp: auth_route_def)
  then show ?thesis
  proof cases
    case 1
    show ?thesis by (rule boot [OF True]) (simp_all add: route_request_def 1)
  next
    case 2
    show ?thesis by (rule register [OF True]) (simp_all add: route_request_def 2)
  next
    case 3
    show ?thesis by (rule login [OF True]) (simp_all add: route_request_def 3)
  next
    case 4
    show ?thesis by (rule logout [OF True]) (simp_all add: route_request_def 4)
  qed
next
  case False
  obtain r auth where u: "userForToken (w_crypto w) (w_session_env w) (cookieValue request kSessionCookie) (app_auth st) = (r, auth)"
    by fastforce
  note routed = route_request_session [OF False, of w config st, unfolded u]
  show ?thesis
  proof (cases r)
    case (Throws e)
    with broken [OF False] u routed show ?thesis by simp
  next
    case (Refused e)
    with guest [OF False] u routed show ?thesis by simp
  next
    case (Done v)
    with member [OF False] u routed userForToken_session [of w request st v auth] show ?thesis by simp
  qed
qed

section \<open>Changes\<close>

definition protected_data :: "AppState \<Rightarrow> StoredUser list \<times> Database" where
  "protected_data st = (st_users (app_auth st), snd (app_db st))"

lemma read_protected: "t \<in> read_states w config st \<Longrightarrow> protected_data t = protected_data st"
  using read_states_frame by (simp add: protected_data_def)

definition bootstrap_request :: "ServerConfig \<Rightarrow> HttpRequest \<Rightarrow> AppState \<Rightarrow> bool" where
  "bootstrap_request config request st \<longleftrightarrow> httpBootstrapEnabled config \<and> st_users (app_auth st) = [] \<and>
     req_method request = ''POST'' \<and> req_path request = ''/api/auth/register''"

lemma session_changes:
  assumes "protected_data (srv_state (route_session w config request actor st)) \<noteq> protected_data st"
  shows "is_admin actor"
  using assms read_protected route_session_user by blast

lemma route_request_changes:
  assumes "protected_data (srv_state (route_request w config request st)) \<noteq> protected_data st"
  shows "bootstrap_request config request st \<or> (\<exists>v. session_user w request st v \<and> au_role v = ''admin'')"
proof (cases rule: route_request_cases [of request w config st])
  case register
  with assms have "app_auth (srv_state (route_register w config request st)) \<noteq> app_auth st"
    by (auto simp: protected_data_def)
  from route_register_users [OF this] register show ?thesis by (simp add: bootstrap_request_def)
next
  case (guest e auth)
  have "protected_data (st\<lparr>app_auth := auth\<rparr>) = protected_data st"
    using userForToken_users [OF guest(2)] by (simp add: protected_data_def)
  with assms guest(3) session_changes [of w config request None "st\<lparr>app_auth := auth\<rparr>"]
  show ?thesis by (auto simp: is_admin_def)
next
  case (member v)
  with assms session_changes [of w config request "Some v" st] show ?thesis by (auto simp: is_admin_def)
qed (use assms in \<open>auto simp: protected_data_def route_login_users route_logout_users dest: userForToken_users\<close>)

lemma handleClient_routed:
  assumes "readRequest (w_recv w) = Okay request" and "w_timeouts w"
    and "requireSameOrigin config \<Longrightarrow> sameOriginRequest request True"
  shows "handleClient w config st = route_request w config request st"
  using assms by (cases "requireSameOrigin config") (simp_all add: handleClient_def setSocketTimeouts_def)

lemma handleClient_cases:
  obtains (kept) "srv_state (handleClient w config st) = st"
      "(\<exists>e. srv_answer (handleClient w config st) = Unanswered e) \<longleftrightarrow> \<not> w_timeouts w"
      "\<And>rsp h. srv_answer (handleClient w config st) = Answer rsp h \<Longrightarrow>
         rsp = cross_origin \<or> (\<exists>f. readRequest (w_recv w) = Error f \<and> rsp = jsonError (rf_status f) (rf_reason f) (rf_detail f))"
      "\<And>request. w_timeouts w \<Longrightarrow> readRequest (w_recv w) = Okay request \<Longrightarrow>
         \<not> (requireSameOrigin config \<longrightarrow> sameOriginRequest request True)"
  | (routed) request where "readRequest (w_recv w) = Okay request" "w_timeouts w"
      "requireSameOrigin config \<Longrightarrow> sameOriginRequest request True"
      "handleClient w config st = route_request w config request st"
proof (cases "w_timeouts w")
  case False
  then show ?thesis by (intro kept) (simp_all add: handleClient_def setSocketTimeouts_def)
next
  case True
  show ?thesis
  proof (cases "readRequest (w_recv w)")
    case (Inl f)
    with True show ?thesis by (intro kept) (simp_all add: handleClient_def setSocketTimeouts_def)
  next
    case (Inr request)
    show ?thesis
    proof (cases "requireSameOrigin config \<and> \<not> sameOriginRequest request True")
      case False
      then show ?thesis by (intro routed [OF Inr True]) (auto simp: Inr True handleClient_def setSocketTimeouts_def)
    next
      case cross: True
      with True Inr show ?thesis by (intro kept) (simp_all add: handleClient_def setSocketTimeouts_def)
    qed
  qed
qed

section \<open>Refusals\<close>

text \<open>Everything below \<open>/api/\<close> but the health report, the reference subsystem, and the administrative pages.\<close>

definition protected_path :: "string \<Rightarrow> bool" where
  "protected_path path \<longleftrightarrow> (prefix ''/api/'' path \<and> path \<noteq> ''/api/health'') \<or> path = ''/integrations/reference'' \<or>
     prefix ''/integrations/reference/'' path \<or> page_requirement path \<noteq> None"

text \<open>A fixed answer that says nothing about the state, which stays.\<close>

definition turned_away :: "HttpRequest \<Rightarrow> AppState \<Rightarrow> Served \<Rightarrow> bool" where
  "turned_away request st s \<longleftrightarrow> srv_state s = st \<and>
     srv_answer s \<in> (\<lambda>rsp. Answer rsp (req_method request = ''HEAD'')) ` {unauthorized, method_not_allowed, resource_not_found}"

lemma turned_away_reply:
  "rsp \<in> {unauthorized, method_not_allowed, resource_not_found} \<Longrightarrow> turned_away request st (reply request rsp log st)"
  by (auto simp: turned_away_def)

lemma turned_away_guarded [simp]: "turned_away request st (guarded request None c r p st rest)"
  by (simp add: turned_away_def denial_def)

lemmas turned_away_intros = turned_away_reply [of unauthorized, simplified] turned_away_reply [of method_not_allowed, simplified]
  turned_away_reply [of resource_not_found, simplified]

lemma anonymous_routes:
  "turned_away request st (route_participation w request None st)"
  "turned_away request st (route_decision w request None st)"
  "turned_away request st (route_execute w config request None st)"
  "turned_away request st (route_reference w config request None st)"
  "turned_away request st (route_me request None document st)"
  "turned_away request st (route_maturity w config request None st)"
  "turned_away request st (route_users w request None st)"
  "req_path request \<noteq> ''/api/health'' \<Longrightarrow> turned_away request st (route_api w config request None st)"
  "page_requirement (req_path request) \<noteq> None \<Longrightarrow> turned_away request st (route_static w config request None st)"
  by (auto simp: route_participation_def route_decision_def route_execute_def route_reference_def route_me_def
      route_maturity_def route_users_def route_api_def route_static_def Let_def turned_away_intros
      split: option.split prod.split)

lemma anonymous_session:
  assumes "protected_path (req_path request)"
  shows "turned_away request st (route_session w config request None st)"
proof (cases "prefix ''/api/'' (req_path request)")
  case True
  have h: "req_path request \<noteq> ''/api/health''"
    using assms by (auto simp: protected_path_def page_requirement_def engineeringRoute_def split: if_split_asm)
  show ?thesis
    unfolding route_session_def Let_def if_P [OF True] using anonymous_routes(8) [OF h]
    by (intro if_cases [where P = "turned_away request st"]) (simp_all add: anonymous_routes turned_away_intros)
next
  case False
  show ?thesis
  proof (cases "req_path request = ''/integrations/reference'' \<or> prefix ''/integrations/reference/'' (req_path request)")
    case True
    then show ?thesis
      unfolding route_session_def Let_def if_P [OF True]
      by (intro if_cases [where P = "turned_away request st"]) (simp_all add: anonymous_routes)
  next
    case other: False
    with assms False have "page_requirement (req_path request) \<noteq> None" by (auto simp: protected_path_def)
    with False anonymous_routes(9) show ?thesis
      unfolding route_session_def Let_def if_not_P [OF other] if_not_P [OF False]
      by (intro if_cases [where P = "turned_away request st"]) (simp_all add: anonymous_routes turned_away_intros)
  qed
qed

lemma userForToken_throws:
  "(\<exists>e auth. userForToken cr env token st = (Throws e, auth)) \<longleftrightarrow>
     token \<noteq> [] \<and> \<not> sessions_writable env \<and>
     (\<exists>s. map_of (st_sessions st) (sha256 cr token) = Some s \<and> ses_expiresAt s \<le> env_now env)"
  by (auto simp: userForToken_def Let_def saveSessions_def split: option.split)

section \<open>Answers\<close>

lemma checkAndRecord_total:
  assumes "rl_wf s"
  shows "(\<exists>e. checkAndRecord a i now s = Error e) \<longleftrightarrow> a = [] \<or> i = []"
proof (cases "a = [] \<or> i = []")
  case False
  then have ne: "a \<noteq> []" "i \<noteq> []" by simp_all
  with assms have "\<exists>x. checkAndRecord a i now s = Okay x" by (cases rule: checkAndRecord_cases [where now = now]) auto
  with False show ?thesis by auto
qed (auto simp: checkAndRecord_def)

lemma route_login_answered:
  assumes "rl_wf (app_limiter st)"
  shows "unanswered (route_login w config request st) \<longleftrightarrow>
    (\<exists>email password. body_field request ''email'' = Some email \<and> body_field request ''password'' = Some password \<and>
       (w_peer_address w = [] \<or> normalizeIdentity email = []))"
proof (cases "\<exists>email password. body_field request ''email'' = Some email \<and> body_field request ''password'' = Some password")
  case False
  then show ?thesis by (auto simp: route_login_def split: option.split)
next
  case True
  then obtain email password where f: "body_field request ''email'' = Some email" "body_field request ''password'' = Some password"
    by blast
  let ?c = "checkAndRecord (w_peer_address w) (normalizeIdentity email) (w_clock w) (app_limiter st)"
  have "unanswered (route_login w config request st) \<longleftrightarrow> (\<exists>e. ?c = Error e)"
    by (cases ?c) (auto simp: route_login_def f Let_def split: exception.split prod.split outcome.split)
  with checkAndRecord_total [OF assms] f show ?thesis by simp
qed

lemma route_logout_answered:
  "unanswered (route_logout w config request token st) \<longleftrightarrow> token \<noteq> [] \<and> \<not> sessions_writable (w_auth_env w)"
  by (auto simp: route_logout_def logout_def saveSessions_def)

lemma route_session_answered:
  "unanswered (route_session w config request actor st) \<longleftrightarrow>
     req_path request = participations_path \<and> req_method request \<noteq> ''POST'' \<and> granted actor ''participation.read''"
proof (cases "is_participation request")
  case True
  then show ?thesis
    by (auto simp: route_session_def route_participation_answered is_participation_def dest: prefix_length_le)
next
  case False
  have "\<not> unanswered (route_session w config request actor st)"
    unfolding route_session_def Let_def if_not_P [OF False]
    by (intro if_cases [where P = "\<lambda>s. \<not> unanswered s"]) simp_all
  with False show ?thesis by (simp add: is_participation_def)
qed

section \<open>Password checks\<close>

text \<open>The client of a login learns whether the password was right, or that the check failed.\<close>

definition verdict :: "answer \<Rightarrow> bool" where
  "verdict a \<longleftrightarrow> (\<exists>rsp h. a = Answer rsp h \<and> rsp_status rsp \<in> {200, 401, 500})"

definition is_login :: "HttpRequest \<Rightarrow> bool" where
  "is_login request \<longleftrightarrow> req_method request = ''POST'' \<and> req_path request = ''/api/auth/login''"

lemma route_login_cases:
  obtains (unasked) "\<not> verdict (srv_answer (route_login w config request st))"
      "app_limiter (srv_state (route_login w config request st)) = app_limiter st"
  | (limited) d l i where "checkAndRecord (w_peer_address w) i (w_clock w) (app_limiter st) = Okay (d, l)" "\<not> allowed d"
      "\<not> verdict (srv_answer (route_login w config request st))"
      "app_limiter (srv_state (route_login w config request st)) = l"
  | (checked) d l email password where
      "body_field request ''email'' = Some email" "body_field request ''password'' = Some password"
      "checkAndRecord (w_peer_address w) (normalizeIdentity email) (w_clock w) (app_limiter st) = Okay (d, l)" "allowed d"
      "verdict (srv_answer (route_login w config request st))"
      "app_limiter (srv_state (route_login w config request st)) = l"
proof (cases "\<exists>email password. body_field request ''email'' = Some email \<and> body_field request ''password'' = Some password")
  case False
  then show ?thesis
    by (intro unasked) (auto simp: route_login_def verdict_def jsonError_def split: option.split)
next
  case True
  then obtain email password where f: "body_field request ''email'' = Some email" "body_field request ''password'' = Some password"
    by blast
  show ?thesis
  proof (cases "checkAndRecord (w_peer_address w) (normalizeIdentity email) (w_clock w) (app_limiter st)")
    case (Inl e)
    then show ?thesis by (intro unasked) (auto simp: route_login_def f verdict_def split: exception.split)
  next
    case (Inr x)
    obtain d l where c: "checkAndRecord (w_peer_address w) (normalizeIdentity email) (w_clock w) (app_limiter st) = Okay (d, l)"
      using Inr by (cases x) simp
    show ?thesis
    proof (cases "allowed d")
      case False
      show ?thesis
        by (rule limited [OF c False]) (simp_all add: route_login_def f c False verdict_def rate_limited_def jsonError_def Let_def)
    next
      case True
      show ?thesis
        by (rule checked [OF f c True])
          (auto simp: route_login_def f c True verdict_def session_response_def jsonError_def Let_def
            split: prod.split outcome.split)
    qed
  qed
qed

lemma route_session_limiter: "app_limiter (srv_state (route_session w config request actor st)) = app_limiter st"
proof -
  let ?P = "\<lambda>s. app_limiter (srv_state s) = app_limiter st"
  have "?P (route_api w config request actor st)"
    using route_api_state [of w config request actor st] routeApi_state [of w config "req_path request" actor st]
      read_states_frame(2) by auto
  then show ?thesis
    unfolding route_session_def Let_def by (intro if_cases [where P = ?P]) simp_all
qed

lemma route_request_limiter:
  "\<not> is_login request \<Longrightarrow> app_limiter (srv_state (route_request w config request st)) = app_limiter st"
  by (cases rule: route_request_cases [of request w config st])
    (auto simp: is_login_def route_session_limiter)

section \<open>Executions of integrations\<close>

text \<open>The reference subsystem answered with success, the value it was given and its own name.\<close>

definition echoed :: "string \<Rightarrow> string \<Rightarrow> bool" where
  "echoed val raw \<longleftrightarrow> statusFromRawHttpResponse raw = 200 \<and>
     (\<exists>fs. parseFlatJsonObject (rawHttpBody raw) = Some fs \<and> jsonStringField fs ''value'' = Some val \<and>
        jsonStringField fs ''processed_by'' = Some ''sister_reference'')"

lemma confirmed_observe:
  "val \<noteq> [] \<Longrightarrow> confirmed val (observe r) \<longleftrightarrow> (\<exists>raw. r = Okay raw \<and> echoed val raw)"
  by (cases r) (auto simp: confirmed_def observe_def echoed_def Let_def split: option.split)

lemma decide_executions:
  "decideIntegration pg l i v d b r s = (res, t) \<Longrightarrow> executions (snd t) = executions (snd s)"
  by (auto simp: decideIntegration_def split: if_split_asm elim!: one_row_cases decide_stmt_cases)

lemma propose_executions:
  "propose pg l caller cj pid sys cv cd sc s = (res, t) \<Longrightarrow> executions (snd t) = executions (snd s)"
  by (auto simp: propose_def registerParticipationProposal_def split: option.split_asm prod.split_asm
      elim!: one_row_cases register_stmt_cases)

lemma show_executions:
  "show_participation pg l i s = (res, t) \<Longrightarrow> executions (snd t) = executions (snd s)"
  by (auto simp: show_participation_def dest: queryParticipation_frame split: option.split_asm prod.split_asm if_split_asm)

lemma route_executions:
  "executions (snd (app_db (srv_state (route_participation w request actor st)))) = executions (snd (app_db st))"
  "executions (snd (app_db (srv_state (route_decision w request actor st)))) = executions (snd (app_db st))"
  "executions (snd (app_db (srv_state (route_api w config request actor st)))) = executions (snd (app_db st))"
proof -
  show "executions (snd (app_db (srv_state (route_participation w request actor st)))) = executions (snd (app_db st))"
    by (auto simp: route_participation_def Let_def dest!: propose_executions show_executions split: prod.split sum.split)
  show "executions (snd (app_db (srv_state (route_decision w request actor st)))) = executions (snd (app_db st))"
    by (auto simp: route_decision_def dest!: decide_executions split: prod.split option.split)
  show "executions (snd (app_db (srv_state (route_api w config request actor st)))) = executions (snd (app_db st))"
    using route_api_state [of w config request actor st] routeApi_state [of w config "req_path request" actor st]
      read_states_frame(4) by force
qed

lemma route_session_executions:
  assumes "executions (snd (app_db (srv_state (route_session w config request actor st)))) \<noteq> executions (snd (app_db st))"
  shows "route_session w config request actor st = route_execute w config request actor st"
proof (rule ccontr)
  assume no: "route_session w config request actor st \<noteq> route_execute w config request actor st"
  let ?P = "\<lambda>s. s = route_execute w config request actor st \<or>
    executions (snd (app_db (srv_state s))) = executions (snd (app_db st))"
  have "?P (route_session w config request actor st)"
    unfolding route_session_def Let_def by (intro if_cases [where P = ?P]) (simp_all add: route_executions)
  with no assms show False by simp
qed

lemma record_execution_cases:
  assumes "recordIntegrationExecution pg l i v e status dg ej a rs ac h aj s = (res, t)"
  obtains "executions (snd t) = executions (snd s)"
  | x where "executions (snd t) = executions (snd s) @ [x]" "exe_integration x = c_str i" "exe_version x = c_str v"
      "exe_status x = c_str status" "approved_join (c_str i) (c_str v) (snd s) \<noteq> []"
  using assms
  by (auto simp: recordIntegrationExecution_def new_execution_def elim!: one_row_cases record_stmt_cases)

definition upstream_result :: "World \<Rightarrow> ServerConfig \<Rightarrow> HttpRequest \<Rightarrow> AuthUser \<Rightarrow> string \<Rightarrow> (string, string) result" where
  "upstream_result w config request a val =
     fst (proxyToSubsystem (w_net w) (upstream_echo request val) a ''/integrations/reference'' (referencePort config)
       serviceName (w_request_id w) config)"

lemma route_execute_new:
  assumes "x \<in> set (executions (snd (app_db (srv_state (route_execute w config request actor st)))))"
    and "x \<notin> set (executions (snd (app_db st)))"
  obtains i v val where "granted actor ''engineering.integration.execute''"
    "integration_target ''/execute'' (req_path request) = Some (i, v)" "body_field request ''value'' = Some val"
    "approved_join (c_str i) (c_str v) (snd (app_db st)) \<noteq> []"
    "exe_integration x = c_str i" "exe_version x = c_str v"
    "exe_status x = (if \<exists>raw. upstream_result w config request (the actor) val = Okay raw \<and> echoed val raw
       then ''completed'' else ''failed'')"
proof -
  have g: "granted actor ''engineering.integration.execute''"
    using assms by (auto simp: route_execute_def split: if_split_asm)
  obtain i v where t: "integration_target ''/execute'' (req_path request) = Some (i, v)"
    using assms g by (cases "integration_target ''/execute'' (req_path request)") (auto simp: route_execute_def split: if_split_asm)
  obtain val where b: "body_field request ''value'' = Some val" and ne: "val \<noteq> []"
    using assms g t by (cases "body_field request ''value''") (auto simp: route_execute_def split: if_split_asm)
  obtain ok db where app: "integrationApproved (w_link w) i v (app_db st) = (ok, db)" by (rule prod.exhaust)
  have ok: "ok" using assms g t b ne app integrationApproved_cases(1) [OF app]
    by (cases ok) (auto simp: route_execute_def split: if_split_asm)
  let ?c = "confirmed val (observe (upstream_result w config request (the actor) val))"
  obtain e dg ej a rs ac h aj where
    "app_db (srv_state (route_execute w config request actor st)) =
       snd (recordIntegrationExecution (w_pg w) (w_link2 w) i v e (if ?c then ''completed'' else ''failed'') dg ej a rs ac h aj db)"
    using assms g t b ne app ok
    by (simp add: route_execute_def Let_def upstream_result_def split: if_split_asm prod.split_asm option.split_asm) (metis snd_conv)+
  then have rec: "recordIntegrationExecution (w_pg w) (w_link2 w) i v e (if ?c then ''completed'' else ''failed'') dg ej a rs ac h aj db =
      (fst (recordIntegrationExecution (w_pg w) (w_link2 w) i v e (if ?c then ''completed'' else ''failed'') dg ej a rs ac h aj db),
       app_db (srv_state (route_execute w config request actor st)))" by simp
  show thesis
    by (rule record_execution_cases [OF rec])
      (use assms g t b that integrationApproved_cases(1) [OF app] confirmed_observe [OF ne] in \<open>auto simp: c_str_def\<close>)
qed

end
