(* ===== verification/Handler_Properties.thy ===== *)
theory Handler_Properties
  imports Handler_Access
begin

text \<open>
  What the daemon promises, from the bytes of a request to the response and the new state, and over
  every sequence of connections.
\<close>

section \<open>Runs of the daemon\<close>

text \<open>A connection is admissible when the cryptographic library has its documented sizes and a generated
  user id is new.  A restart opens the files again, loses the connection to the database and starts a new
  limiter.  Connections are served in parallel and each part of the state has its own lock, so that the
  operations of several connections interleave; the second rule allows any of them at any time.\<close>

definition admissible :: "World \<Rightarrow> AppState \<Rightarrow> bool" where
  "admissible w st \<longleftrightarrow> crypto_sizes (w_crypto w) \<and> fresh_uuid (w_auth_env w) (app_auth st)"

inductive serves :: "AppState \<Rightarrow> AppState \<Rightarrow> bool" where
  connection: "admissible w st \<Longrightarrow> serves st (srv_state (handleClient w config st))"
| operations: "crypto_sizes (w_crypto w) \<Longrightarrow> evolves w st t \<Longrightarrow> serves st t"
| restart: "LoginRateLimiter_new lim = Okay l \<Longrightarrow>
    serves st \<lparr>app_auth = AuthStore_open env (users_file (app_auth st)) (sessions_file (app_auth st)),
      app_db = (c, snd (app_db st)), app_limiter = l, eco_declarative = None, eco_operational = None,
      eco_source = [], eco_write_time = None, eco_observed_at = 0, sem_snapshot = None, sem_source = [],
      sem_write_time = None\<rparr>"

definition daemon_start :: "AppState \<Rightarrow> bool" where
  "daemon_start st \<longleftrightarrow> auth_start (app_auth st) \<and> fresh_base (snd (app_db st)) \<and>
     (\<exists>lim. LoginRateLimiter_new lim = Okay (app_limiter st))"

definition daemon_wf :: "AppState \<Rightarrow> bool" where
  "daemon_wf st \<longleftrightarrow> auth_wf (app_auth st) \<and> audit (snd (app_db st)) \<and> rl_wf (app_limiter st)"

lemma auth_calls_effects:
  assumes "(auth_call cr)\<^sup>*\<^sup>* s t" and "crypto_sizes cr" and "auth_wf s"
  shows "effects s t"
  using assms(1)
proof (induction rule: rtranclp_induct)
  case (step t u)
  then have "auth_wf t" using effects_wf assms(3) by blast
  from auth_call_effects [OF assms(2) this step(2)] step(3) show ?case by (meson rtranclp_trans)
qed simp

lemma evolves_wf:
  assumes "evolves w st t" and "crypto_sizes (w_crypto w)" and "daemon_wf st"
  shows "daemon_wf t"
proof -
  have "auth_wf (app_auth t)"
    using assms auth_calls_effects effects_wf unfolding evolves_def daemon_wf_def by blast
  moreover have "audit (snd (app_db t))"
    using assms base.steps_inv unfolding evolves_def daemon_wf_def by blast
  moreover have "rl_wf (app_limiter t)"
    using assms checkAndRecord_wf unfolding evolves_def daemon_wf_def limiter_moves_def by metis
  ultimately show ?thesis by (simp add: daemon_wf_def)
qed

lemma connection_wf: "admissible w st \<Longrightarrow> daemon_wf st \<Longrightarrow> daemon_wf (srv_state (handleClient w config st))"
  unfolding admissible_def by (meson evolves_wf handleClient_evolves)

interpretation daemon: invariant_system daemon_start serves daemon_wf
proof
  show "daemon_start st \<Longrightarrow> daemon_wf st" for st
    by (auto simp: daemon_start_def daemon_wf_def intro: auth_start_wf fresh_base_audit LoginRateLimiter_new_wf)
  show "daemon_wf st \<Longrightarrow> serves st t \<Longrightarrow> daemon_wf t" for st t
    by (erule serves.cases) (auto intro: connection_wf evolves_wf, auto simp: daemon_wf_def intro: restart_wf LoginRateLimiter_new_wf)
qed

text \<open>A run that serves one connection after the other by a clock that does not go back, with the times
  of the logins whose client learned about a password.\<close>

definition login_verdict :: "World \<Rightarrow> ServerConfig \<Rightarrow> AppState \<Rightarrow> bool" where
  "login_verdict w config st \<longleftrightarrow>
     (\<exists>request. readRequest (w_recv w) = Okay request \<and> is_login request) \<and>
     verdict (srv_answer (handleClient w config st))"

inductive daemon_run :: "Limits \<Rightarrow> AppState \<Rightarrow> int list \<Rightarrow> int \<Rightarrow> bool" for lim :: Limits where
  run_start: "LoginRateLimiter_new lim = Okay (app_limiter st) \<Longrightarrow> daemon_run lim st [] t"
| run_serve: "daemon_run lim st log t \<Longrightarrow> t \<le> w_clock w \<Longrightarrow>
    daemon_run lim (srv_state (handleClient w config st))
      (if login_verdict w config st then log @ [w_clock w] else log) (w_clock w)"

lemma connection_limiter:
  obtains (same) "\<not> login_verdict w config st" "app_limiter (srv_state (handleClient w config st)) = app_limiter st"
  | (check) d i where
      "checkAndRecord (w_peer_address w) i (w_clock w) (app_limiter st) = Okay (d, app_limiter (srv_state (handleClient w config st)))"
      "login_verdict w config st \<longleftrightarrow> allowed d"
proof (cases rule: handleClient_cases [of w config st])
  case kept
  have "\<not> login_verdict w config st"
  proof
    assume "login_verdict w config st"
    then obtain request rsp h where "readRequest (w_recv w) = Okay request"
      "srv_answer (handleClient w config st) = Answer rsp h" "rsp_status rsp \<in> {200, 401, 500}"
      by (auto simp: login_verdict_def verdict_def)
    with kept(3) show False by (auto simp: cross_origin_def jsonError_def)
  qed
  with kept(1) show ?thesis by (intro same) simp_all
next
  case (routed request)
  show ?thesis
  proof (cases "is_login request")
    case False
    with routed route_request_limiter show ?thesis by (intro same) (auto simp: login_verdict_def)
  next
    case True
    then have "handleClient w config st = route_login w config request st"
      unfolding routed(4) by (simp add: route_request_def is_login_def)
    moreover have "login_verdict w config st \<longleftrightarrow> verdict (srv_answer (handleClient w config st))"
      using routed(1) True by (auto simp: login_verdict_def)
    ultimately show ?thesis
      by (cases rule: route_login_cases [of w config request st]) (metis same check)+
  qed
qed

lemma daemon_run_limiter:
  assumes "daemon_run lim st log t"
  shows "\<exists>calls t'. t' \<le> t \<and> rl_run lim (app_limiter st) calls t' \<and> log = map fst calls"
  using assms
proof (induction rule: daemon_run.induct)
  case (run_start st t)
  then have "rl_run lim (app_limiter st) [] t" by (rule run_new)
  then show ?case by auto
next
  case (run_serve st log t w config)
  then obtain calls t' where "t' \<le> t" and run: "rl_run lim (app_limiter st) calls t'"
    and log: "log = map fst calls" by blast
  with run_serve have t': "t' \<le> w_clock w" by simp
  show ?case
  proof (cases rule: connection_limiter [of w config st])
    case same
    with t' run log show ?thesis by auto
  next
    case (check d i)
    from run_check [OF run t' check(1)] show ?thesis
      by (intro exI [of _ "if allowed d then calls @ [(w_clock w, w_peer_address w, i)] else calls"] exI [of _ "w_clock w"])
        (simp add: log check(2))
  qed
qed

section \<open>Sample connections\<close>

text \<open>A daemon with one administrator, whose session is open, a proposed integration, a limiter that
  admits one attempt a second, and a web root with one page.\<close>

definition sample_files :: Files where
  "sample_files = \<lparr>fs_status = (\<lambda>_. Absent), fs_canonical = (\<lambda>p. Some p),
     fs_regular = (\<lambda>p. p = ''/srv/web/a.html''), fs_size = (\<lambda>_. Some 2),
     fs_open = (\<lambda>p. if p = ''/srv/web/a.html'' then Some ''ok'' else None), fs_write_time = (\<lambda>_. None)\<rparr>"

definition sample_world :: "string \<Rightarrow> World" where
  "sample_world bytes = \<lparr>w_version = ''1'', w_timeouts = True, w_recv = [Received bytes], w_request_id = ''r1'',
     w_peer_address = ''127.0.0.1'', w_crypto = sample_crypto, w_session_env = sample_env 5, w_auth_env = sample_env 5,
     w_clock = 5, w_pg = sample_pg, w_link = sample_link, w_link2 = sample_link, w_evidence = [], w_diagnostics = [],
     w_files = sample_files, w_net = sample_net, w_probes = (\<lambda>_. sample_net), w_assertion = sample_ac,
     w_sign = sample_sign_env, w_execution_hex = ''00''\<rparr>"

definition sample_auth :: AuthStore where
  "sample_auth = \<lparr>st_users = [\<lparr>publicUser = \<lparr>au_id = ''u1'', au_name = ''Ana'', au_email = ''ana@x'', au_role = ''admin''\<rparr>,
       salt = replicate 32 (CHR ''0''), su_hash = []\<rparr>],
     st_sessions = [(sha256 sample_crypto ''tok'', \<lparr>ses_userId = ''u1'', ses_expiresAt = 9\<rparr>)], users_file = [], sessions_file = []\<rparr>"

definition sample_state :: AppState where
  "sample_state = \<lparr>app_auth = sample_auth, app_db = sample_db, app_limiter = sample_limiter [] 0,
     eco_declarative = None, eco_operational = None, eco_source = [], eco_write_time = None, eco_observed_at = 0,
     sem_snapshot = None, sem_source = [], sem_write_time = None\<rparr>"

definition sample_config :: ServerConfig where
  "sample_config = default_config\<lparr>canonicalWebRoot := ''/srv/web''\<rparr>"

definition request_bytes :: "string \<Rightarrow> string \<Rightarrow> string \<Rightarrow> string \<Rightarrow> string" where
  "request_bytes method path cookie body =
     method @ '' '' @ path @ '' HTTP/1.1'' @ CRLF @ ''Host: s'' @ CRLF @ ''Origin: https://s'' @ CRLF @
     ''Cookie: sister_session='' @ cookie @ CRLF @ ''Content-Length: '' @ show_nat (length body) @ CRLF @ CRLF @ body"

definition decision_bytes :: string where
  "decision_bytes = request_bytes ''POST'' ''/api/v1/engineering/integrations/echo/1/decision'' ''tok''
     (''{'' @ [QUOTE] @ ''decision'' @ [QUOTE, CHR '':'', QUOTE] @ ''approved'' @ [QUOTE, CHR '','', QUOTE] @ ''rationale'' @
      [QUOTE, CHR '':'', QUOTE] @ ''ok'' @ [QUOTE] @ ''}'')"

section \<open>Properties\<close>

text \<open>C1: Only administrators change anything that matters.  If a connection changes the users or the
  content of the operational base, it carried a complete request that passed the same-origin test
  where that is required, and either the request carried the token of a live session of a user whose
  role is admin, or it was the first registration on a daemon without users whose configuration
  enables it.\<close>

theorem only_admins_change:
  assumes "protected_data (srv_state (handleClient w config st)) \<noteq> protected_data st"
  shows "\<exists>request. readRequest (w_recv w) = Okay request \<and>
    (requireSameOrigin config \<longrightarrow> sameOriginRequest request True) \<and>
    (bootstrap_request config request st \<or> (\<exists>v. session_user w request st v \<and> au_role v = ''admin''))"
proof (cases rule: handleClient_cases [of w config st])
  case (routed request)
  with route_request_changes assms show ?thesis by metis
qed (use assms in simp)

theorem only_admins_change_witness:
  "\<exists>request. readRequest (w_recv (sample_world decision_bytes)) = Okay request \<and>
    (bootstrap_request sample_config request sample_state \<or>
     (\<exists>v. session_user (sample_world decision_bytes) request sample_state v \<and> au_role v = ''admin''))"
proof -
  have "decisions (snd (app_db (srv_state (handleClient (sample_world decision_bytes) sample_config sample_state)))) \<noteq> []"
    "decisions (snd (app_db sample_state)) = []"
    by code_simp+
  then have "protected_data (srv_state (handleClient (sample_world decision_bytes) sample_config sample_state)) \<noteq>
      protected_data sample_state" by (auto simp: protected_data_def)
  from only_admins_change [OF this] show ?thesis by blast
qed


definition guest_bytes :: string where
  "guest_bytes = request_bytes ''GET'' ''/api/v1/workspace'' ''none'' []"

definition guest_request :: HttpRequest where
  "guest_request = \<lparr>req_method = ''GET'', req_target = ''/api/v1/workspace'', req_path = ''/api/v1/workspace'',
     req_query = [], req_version = ''HTTP/1.1'', req_headers = [(''host'', ''s''), (''origin'', ''https://s''),
       (''cookie'', ''sister_session=none''), (''content-length'', ''0'')], req_body = []\<rparr>"

lemma guest_read: "readRequest (w_recv (sample_world guest_bytes)) = Okay guest_request"
  by code_simp


text \<open>C2: The daemon stays consistent.  In every state reached from an empty store, a freshly migrated
  operational base and a new limiter, by connections, by interleaved operations of parallel
  connections and by restarts: user ids and e-mails are unique and every session belongs to a
  user; every recorded execution rests on an approval and an integration is approved exactly when its
  latest decision approves it; the limiter keeps its bounds.  A connection never removes the last
  administrator.\<close>

theorem daemon_consistent:
  assumes "reach daemon_start serves st" and "admissible w st"
  shows "daemon_wf (srv_state (handleClient w config st)) \<and>
    (0 < admin_count (st_users (app_auth st)) \<longrightarrow>
     0 < admin_count (st_users (app_auth (srv_state (handleClient w config st)))))"
proof -
  have wf: "daemon_wf st" using assms(1) by (rule daemon.reach_inv)
  have "(auth_call (w_crypto w))\<^sup>*\<^sup>* (app_auth st) (app_auth (srv_state (handleClient w config st)))"
    using handleClient_evolves assms(2) by (simp add: admissible_def evolves_def)
  with auth_calls_effects wf assms(2) have "effects (app_auth st) (app_auth (srv_state (handleClient w config st)))"
    by (simp add: admissible_def daemon_wf_def)
  with effects_admin connection_wf [OF assms(2) wf] show ?thesis by blast
qed

definition new_state :: AppState where
  "new_state = sample_state\<lparr>app_auth := empty_store\<rparr>"

definition register_bytes :: string where
  "register_bytes = request_bytes ''POST'' ''/api/auth/register'' ''none''
     (''{'' @ [QUOTE] @ ''name'' @ [QUOTE, CHR '':'', QUOTE] @ ''Ana'' @ [QUOTE, CHR '','', QUOTE] @ ''email'' @
      [QUOTE, CHR '':'', QUOTE] @ ''ana@x'' @ [QUOTE, CHR '','', QUOTE] @ ''password'' @ [QUOTE, CHR '':'', QUOTE] @
      ''correct horse'' @ [QUOTE] @ ''}'')"

lemma new_state_start: "daemon_start new_state"
proof -
  have "LoginRateLimiter_new sample_limits = Okay (app_limiter new_state)" by code_simp
  then show ?thesis
    by (auto simp: daemon_start_def new_state_def sample_state_def empty_store_def auth_start_def sample_db_def
        sample_base_def fresh_base_def)
qed

theorem daemon_consistent_witness:
  "daemon_wf (srv_state (handleClient (sample_world register_bytes)
     (sample_config\<lparr>httpBootstrapEnabled := True\<rparr>) new_state))"
proof -
  have "admissible (sample_world register_bytes) new_state"
    using sample_crypto_sizes
    by (simp add: admissible_def sample_world_def fresh_uuid_def new_state_def empty_store_def)
  moreover have "reach daemon_start serves new_state" using new_state_start by (rule reach_init)
  ultimately show ?thesis using daemon_consistent by blast
qed

text \<open>C6: Passwords cannot be tried faster than the limit.  Over all connections of a run, from whatever
  addresses and for whatever accounts, the number of logins in any window of the configured length
  whose client learned about a password (that it was right, that it was wrong or that the check failed)
  is at most the global limit.\<close>

theorem login_verdicts_bounded:
  assumes "daemon_run lim st log t"
  shows "length (filter (\<lambda>x. u - window lim < x \<and> x \<le> u) log) \<le> global_limit lim"
proof -
  from daemon_run_limiter [OF assms] obtain calls t' where "rl_run lim (app_limiter st) calls t'" "log = map fst calls"
    by blast
  with rl_run_log show ?thesis by (auto simp: log_inv_def in_window_def)
qed

definition login_bytes :: string where
  "login_bytes = request_bytes ''POST'' ''/api/auth/login'' ''none''
     (''{'' @ [QUOTE] @ ''email'' @ [QUOTE, CHR '':'', QUOTE] @ ''ana@x'' @ [QUOTE, CHR '','', QUOTE] @ ''password'' @
      [QUOTE, CHR '':'', QUOTE] @ ''guess'' @ [QUOTE] @ ''}'')"

lemma sample_login_verdict: "login_verdict (sample_world login_bytes) sample_config sample_state"
proof -
  have "case readRequest (w_recv (sample_world login_bytes)) of Okay r \<Rightarrow> is_login r | Error _ \<Rightarrow> False"
    "case srv_answer (handleClient (sample_world login_bytes) sample_config sample_state) of
       Answer rsp _ \<Rightarrow> rsp_status rsp = 401 | _ \<Rightarrow> False"
    by code_simp+
  then show ?thesis by (auto simp: login_verdict_def verdict_def split: sum.split_asm answer.split_asm)
qed

theorem login_verdicts_bounded_witness:
  "\<exists>st. daemon_run sample_limits st [5] 5 \<and>
     length (filter (\<lambda>x. 5 - window sample_limits < x \<and> x \<le> 5) [5]) \<le> global_limit sample_limits"
proof -
  let ?w = "sample_world login_bytes"
  have "LoginRateLimiter_new sample_limits = Okay (app_limiter sample_state)" by code_simp
  then have "daemon_run sample_limits sample_state [] 0" by (rule run_start)
  from run_serve [OF this, of ?w sample_config] sample_login_verdict
  have "daemon_run sample_limits (srv_state (handleClient ?w sample_config sample_state)) [5] 5"
    by (simp add: sample_world_def)
  with login_verdicts_bounded [OF this, of 5] show ?thesis by blast
qed

text \<open>An expired session has to be removed, and the file of sessions cannot be written.\<close>

definition purge_fails :: "World \<Rightarrow> HttpRequest \<Rightarrow> AppState \<Rightarrow> bool" where
  "purge_fails w request st \<longleftrightarrow> cookieValue request kSessionCookie \<noteq> [] \<and> \<not> sessions_writable (w_session_env w) \<and>
     (\<exists>s. map_of (st_sessions (app_auth st)) (sha256 (w_crypto w) (cookieValue request kSessionCookie)) = Some s \<and>
        ses_expiresAt s \<le> env_now (w_session_env w))"

definition is_logout :: "HttpRequest \<Rightarrow> bool" where
  "is_logout request \<longleftrightarrow> req_method request = ''POST'' \<and> req_path request = ''/api/auth/logout''"

definition blank_login :: "World \<Rightarrow> HttpRequest \<Rightarrow> bool" where
  "blank_login w request \<longleftrightarrow>
     (\<exists>email password. body_field request ''email'' = Some email \<and> body_field request ''password'' = Some password \<and>
        (w_peer_address w = [] \<or> normalizeIdentity email = []))"

definition listing_of_admin :: "World \<Rightarrow> HttpRequest \<Rightarrow> AppState \<Rightarrow> bool" where
  "listing_of_admin w request st \<longleftrightarrow> (\<exists>v. session_user w request st v \<and> au_role v = ''admin'') \<and>
     req_path request = participations_path \<and> req_method request \<noteq> ''POST''"

definition dropped :: "World \<Rightarrow> HttpRequest \<Rightarrow> AppState \<Rightarrow> bool" where
  "dropped w request st \<longleftrightarrow>
     (if is_login request then blank_login w request
      else if is_logout request then cookieValue request kSessionCookie \<noteq> [] \<and> \<not> sessions_writable (w_auth_env w)
      else \<not> auth_route request \<and> (purge_fails w request st \<or> listing_of_admin w request st))"

lemma not_auth_route: "\<not> auth_route request \<Longrightarrow> \<not> is_login request \<and> \<not> is_logout request"
  by (auto simp: auth_route_def is_login_def is_logout_def)

lemma purge_fails_iff: "purge_fails w request st \<longleftrightarrow>
  (\<exists>e auth. userForToken (w_crypto w) (w_session_env w) (cookieValue request kSessionCookie) (app_auth st) = (Throws e, auth))"
  by (simp only: purge_fails_def userForToken_throws)

lemma route_request_unanswered:
  assumes "daemon_wf st"
  shows "unanswered (route_request w config request st) \<longleftrightarrow> dropped w request st"
proof (cases rule: route_request_cases [of request w config st])
  case boot
  then show ?thesis by (simp add: dropped_def is_login_def is_logout_def)
next
  case register
  then show ?thesis by (simp add: dropped_def is_login_def is_logout_def)
next
  case login
  then show ?thesis using route_login_answered assms
    by (simp add: dropped_def is_login_def daemon_wf_def blank_login_def)
next
  case logout
  then show ?thesis by (simp add: dropped_def is_login_def is_logout_def route_logout_answered)
next
  case (broken e auth)
  then have "purge_fails w request st" by (auto simp: purge_fails_iff)
  with broken not_auth_route show ?thesis by (simp add: dropped_def)
next
  case (guest e auth)
  then have "\<not> purge_fails w request st" by (simp add: purge_fails_iff)
  moreover have "\<nexists>v. session_user w request st v"
    using guest(2) assms session_user_iff by (auto simp: daemon_wf_def)
  ultimately show ?thesis
    using not_auth_route [OF guest(1)] by (simp add: guest(3) route_session_answered dropped_def listing_of_admin_def)
next
  case (member v)
  then have "\<not> purge_fails w request st" by (simp add: purge_fails_iff)
  moreover have "session_user w request st u \<longleftrightarrow> u = v" for u
    using member(3) assms session_user_iff by (auto simp: daemon_wf_def)
  moreover have "granted (Some v) ''participation.read'' \<longleftrightarrow> au_role v = ''admin''"
    by (auto simp: granted_def hasCapability_def capabilitiesForRole_def)
  ultimately show ?thesis
    using member(1) not_auth_route [OF member(1)]
    by (auto simp: member(4) route_session_answered dropped_def listing_of_admin_def)
qed



text \<open>The administrator who asks for the list of participations gets no answer: \<open>substr\<close> is called behind
  the end of the path.\<close>

definition listing_bytes :: string where
  "listing_bytes = request_bytes ''GET'' ''/api/v1/participations'' ''tok'' []"

theorem participation_list_unanswered:
  "srv_answer (handleClient (sample_world listing_bytes) sample_config sample_state) = Unanswered ''basic_string::substr''"
  by code_simp

text \<open>A login with a blank e-mail gets no answer: the limiter throws outside of the handler of exceptions.\<close>

definition blank_bytes :: string where
  "blank_bytes = request_bytes ''POST'' ''/api/auth/login'' ''none''
     (''{'' @ [QUOTE] @ ''email'' @ [QUOTE, CHR '':'', QUOTE] @ '' '' @ [QUOTE, CHR '','', QUOTE] @ ''password'' @
      [QUOTE, CHR '':'', QUOTE] @ ''x'' @ [QUOTE] @ ''}'')"

theorem blank_login_unanswered:
  "srv_answer (handleClient (sample_world blank_bytes) sample_config sample_state) =
     Unanswered ''login rate limit keys must not be empty''"
  by code_simp

text \<open>C13: A recorded execution is evidence.  An execution that a connection adds to the operational base
  was asked for by an administrator with a live session, concerns an integration that is approved in
  the base, and has the status completed exactly when the reference subsystem answered with success, the
  requested value and its own name; otherwise its status is failed.\<close>

theorem execution_evidence:
  assumes "x \<in> set (executions (snd (app_db (srv_state (handleClient w config st)))))"
    and "x \<notin> set (executions (snd (app_db st)))"
  shows "\<exists>request v i version val. readRequest (w_recv w) = Okay request \<and>
    session_user w request st v \<and> au_role v = ''admin'' \<and>
    integration_target ''/execute'' (req_path request) = Some (i, version) \<and> body_field request ''value'' = Some val \<and>
    approved_join (c_str i) (c_str version) (snd (app_db st)) \<noteq> [] \<and>
    exe_integration x = c_str i \<and> exe_version x = c_str version \<and>
    exe_status x = (if \<exists>raw. upstream_result w config request v val = Okay raw \<and> echoed val raw
      then ''completed'' else ''failed'')"
proof -
  obtain request where r: "readRequest (w_recv w) = Okay request" "handleClient w config st = route_request w config request st"
    using assms by (cases rule: handleClient_cases [of w config st]) auto
  obtain v where m: "session_user w request st v" "route_request w config request st = route_session w config request (Some v) st"
  proof (cases rule: route_request_cases [of request w config st])
    case (guest e auth)
    have "\<not> is_admin None" by (simp add: is_admin_def)
    from read_states_frame(4) [OF route_session_user [OF this]] assms r(2) guest(3) show thesis by simp
  next
    case (member v)
    with that show thesis by blast
  qed (use assms r(2) in auto)
  then have ex: "route_session w config request (Some v) st = route_execute w config request (Some v) st"
    using route_session_executions assms r(2) by metis
  from assms have new: "x \<in> set (executions (snd (app_db (srv_state (route_execute w config request (Some v) st)))))"
    "x \<notin> set (executions (snd (app_db st)))" by (simp_all add: r(2) m(2) ex)
  from route_execute_new [OF new] obtain i version val where g: "granted (Some v) ''engineering.integration.execute''"
    and x: "integration_target ''/execute'' (req_path request) = Some (i, version)" "body_field request ''value'' = Some val"
      "approved_join (c_str i) (c_str version) (snd (app_db st)) \<noteq> []"
      "exe_integration x = c_str i" "exe_version x = c_str version"
      "exe_status x = (if \<exists>raw. upstream_result w config request (the (Some v)) val = Okay raw \<and> echoed val raw
         then ''completed'' else ''failed'')" .
  have "is_admin (Some v)" by (rule granted_admin [OF _ g]) (simp add: admin_capabilities_def)
  then have "au_role v = ''admin''" by (simp add: is_admin_def)
  with r(1) m(1) x [unfolded option.sel] show ?thesis by blast
qed

definition execute_bytes :: string where
  "execute_bytes = request_bytes ''POST'' ''/api/v1/engineering/integrations/echo/1/execute'' ''tok''
     (''{'' @ [QUOTE] @ ''value'' @ [QUOTE, CHR '':'', QUOTE] @ ''v'' @ [QUOTE] @ ''}'')"

definition execute_world :: World where
  "execute_world = (sample_world execute_bytes)\<lparr>w_net := sample_net\<lparr>net_socket := False\<rparr>\<rparr>"

definition execute_request :: HttpRequest where
  "execute_request = \<lparr>req_method = ''POST'', req_target = ''/api/v1/engineering/integrations/echo/1/execute'',
     req_path = ''/api/v1/engineering/integrations/echo/1/execute'', req_query = [], req_version = ''HTTP/1.1'',
     req_headers = [(''host'', ''s''), (''origin'', ''https://s''), (''cookie'', ''sister_session=tok''),
       (''content-length'', ''13'')],
     req_body = ''{'' @ [QUOTE] @ ''value'' @ [QUOTE, CHR '':'', QUOTE] @ ''v'' @ [QUOTE] @ ''}''\<rparr>"

abbreviation execute_config :: ServerConfig where
  "execute_config \<equiv> sample_config\<lparr>referenceSubsystemEnabled := True\<rparr>"

abbreviation approved_state :: AppState where
  "approved_state \<equiv> sample_state\<lparr>app_db := approved_db\<rparr>"

abbreviation sample_admin :: AuthUser where
  "sample_admin \<equiv> \<lparr>au_id = ''u1'', au_name = ''Ana'', au_email = ''ana@x'', au_role = ''admin''\<rparr>"

lemma execute_routed:
  "handleClient execute_world execute_config approved_state =
     route_execute execute_world execute_config execute_request (Some sample_admin) approved_state"
proof -
  have "readRequest (w_recv execute_world) = Okay execute_request" by code_simp
  moreover have "w_timeouts execute_world" "sameOriginRequest execute_request True" "\<not> auth_route execute_request" by code_simp+
  moreover have "userForToken (w_crypto execute_world) (w_session_env execute_world)
      (cookieValue execute_request kSessionCookie) (app_auth approved_state) = (Done sample_admin, sample_auth)" by code_simp
  ultimately have "handleClient execute_world execute_config approved_state =
      route_session execute_world execute_config execute_request (Some sample_admin) (approved_state\<lparr>app_auth := sample_auth\<rparr>)"
    by (simp add: handleClient_routed route_request_session)
  also have "approved_state\<lparr>app_auth := sample_auth\<rparr> = approved_state" by (simp add: sample_state_def)
  also have "route_session execute_world execute_config execute_request (Some sample_admin) approved_state =
      route_execute execute_world execute_config execute_request (Some sample_admin) approved_state"
    by (simp add: route_session_def is_participation_def execute_request_def participations_path_def integrationPrefix_def
        suffix_def Let_def)
  finally show ?thesis .
qed

theorem execution_evidence_witness:
  "\<exists>x request v val. x \<in> set (executions (snd (app_db (srv_state (handleClient execute_world execute_config approved_state))))) \<and>
     exe_status x = ''failed'' \<and> session_user execute_world request approved_state v \<and>
     \<not> (\<exists>raw. upstream_result execute_world execute_config request v val = Okay raw \<and> echoed val raw)"
proof -
  have one: "map exe_status (executions (snd (app_db (srv_state
      (route_execute execute_world execute_config execute_request (Some sample_admin) approved_state))))) = [''failed'']"
    by code_simp
  have none: "executions (snd (app_db approved_state)) = []"
    by code_simp
  from one obtain x where x: "executions (snd (app_db (srv_state (handleClient execute_world execute_config approved_state)))) = [x]"
    "exe_status x = ''failed''" by (auto simp: map_eq_Cons_conv execute_routed)
  with none have mem: "x \<in> set (executions (snd (app_db (srv_state (handleClient execute_world execute_config approved_state)))))"
    "x \<notin> set (executions (snd (app_db approved_state)))" by simp_all
  have "''failed'' \<noteq> ''completed''" by simp
  with mem(1) x(2) execution_evidence [OF mem] show ?thesis by metis
qed

text \<open>C14: Pages stay inside the web root.  Whatever a successful answer outside of \<open>/api/\<close> and the reference
  subsystem contains is the beginning of a regular file whose canonical path lies below the web root,
  at most the size limit long; no component of the requested path is empty, a dot, two dots, or hidden
  (except \<open>.well-known\<close>).\<close>

theorem static_confined:
  assumes "readRequest (w_recv w) = Okay request" and "\<not> prefix ''/api/'' (req_path request)"
    and "\<not> prefix ''/integrations/reference'' (req_path request)"
    and "srv_answer (handleClient w config st) = Answer rsp h" and "rsp_status rsp = 200"
  shows "\<exists>p content. resolveStaticPath (w_files w) (req_path request) config = Some p \<and>
    prefix (path_components (canonicalWebRoot config)) (path_components p) \<and> fs_regular (w_files w) p \<and>
    fs_open (w_files w) p = Some content \<and> prefix (rsp_body rsp) content \<and> length (rsp_body rsp) \<le> kMaxStaticFileBytes \<and>
    (\<forall>c \<in> set (path_components (drop 1 (route_path (req_path request)))).
       c \<notin> {[], ''.'', ''..''} \<and> (hd c = CHR ''.'' \<longrightarrow> c = ''.well-known''))"
proof -
  have routed: "handleClient w config st = route_request w config request st"
    using assms(1,4,5) by (cases rule: handleClient_cases [of w config st]) (auto simp: cross_origin_def jsonError_def)
  obtain actor st' where s: "srv_answer (route_session w config request actor st') = Answer rsp h"
    using assms(2,4) routed
    by (cases rule: route_request_cases [of request w config st]) (auto simp: auth_route_def)
  have np: "\<not> is_participation request" "\<not> (prefix integrationPrefix (req_path request) \<and> P)"
    "\<not> (req_path request = ''/integrations/reference'' \<or> prefix ''/integrations/reference/'' (req_path request))"
    "req_path request \<noteq> ''/api/me/capabilities''" "req_path request \<noteq> ''/api/me''" "req_path request \<notin> maturity_paths"
    "\<not> (req_path request = users_prefix \<or> prefix (users_prefix @ ''/'') (req_path request))"
    "\<not> (req_path request = ''/api/v1/context-projection'' \<and> Q)" for P Q
    using assms(2,3)
    by (auto simp: is_participation_def participations_path_def integrationPrefix_def maturity_paths_def users_prefix_def
        elim!: prefixE)
  have "route_session w config request actor st' = route_static w config request actor st'"
    by (simp only: route_session_def Let_def np assms(2) if_False)
  with s have "srv_answer (serve_file w config request st') = Answer rsp h"
    using assms(5)
    by (auto simp: route_static_def page_or_login_def method_not_allowed_def redirectResponse_def denial_def unauthorized_def
        forbidden_def jsonError_def split: if_split_asm option.split_asm prod.split_asm)
  then obtain p body where p: "resolveStaticPath (w_files w) (req_path request) config = Some p"
    "static_readFile (w_files w) p = Okay body" "rsp_body rsp = body"
    using assms(5) by (auto simp: serve_file_def page_not_found_def jsonError_def split: option.split_asm sum.split_asm)
  obtain content where "fs_open (w_files w) p = Some content" "prefix body content" "length body \<le> kMaxStaticFileBytes"
    using static_readFile_okay [OF p(2)] .
  with p(1,3) resolveStaticPath_some [OF p(1)] show ?thesis by blast
qed

definition page_bytes :: string where
  "page_bytes = request_bytes ''GET'' ''/a.html'' ''none'' []"

definition page_request :: HttpRequest where
  "page_request = \<lparr>req_method = ''GET'', req_target = ''/a.html'', req_path = ''/a.html'',
     req_query = [], req_version = ''HTTP/1.1'', req_headers = [(''host'', ''s''), (''origin'', ''https://s''),
       (''cookie'', ''sister_session=none''), (''content-length'', ''0'')], req_body = []\<rparr>"

theorem static_confined_witness:
  "\<exists>p content. resolveStaticPath sample_files ''/a.html'' sample_config = Some p \<and> fs_open sample_files p = Some content"
proof -
  have r: "readRequest (w_recv (sample_world page_bytes)) = Okay page_request" by code_simp
  have "case srv_answer (handleClient (sample_world page_bytes) sample_config sample_state) of
      Answer rsp _ \<Rightarrow> rsp_status rsp = 200 | _ \<Rightarrow> False" by code_simp
  then obtain rsp h where a: "srv_answer (handleClient (sample_world page_bytes) sample_config sample_state) = Answer rsp h"
    "rsp_status rsp = 200" by (auto split: answer.split_asm)
  have "\<not> prefix ''/api/'' (req_path page_request)" "\<not> prefix ''/integrations/reference'' (req_path page_request)"
    by code_simp+
  from static_confined [OF r this a] show ?thesis by (auto simp: page_request_def sample_world_def)
qed

section \<open>A login and the session it opens\<close>

lemma route_login_ok:
  assumes "srv_answer (route_login w config request st) = Answer rsp h" and "rsp_status rsp = 200"
  obtains email password res auth where
    "body_field request ''email'' = Some email" "body_field request ''password'' = Some password"
    "login (w_crypto w) (w_auth_env w) email password (app_auth st) = (Done res, auth)"
    "rsp = session_response 200 ''OK'' (ar_token res) config"
    "app_auth (srv_state (route_login w config request st)) = auth"
  using assms
  by (auto simp: route_login_def rate_limited_def jsonError_def Let_def
      split: option.split_asm sum.split_asm exception.split_asm prod.split_asm if_split_asm outcome.split_asm)

lemma valid_role_self: "validRole (au_role v) \<Longrightarrow> granted (Some v) ''session.self.read''"
  by (auto simp: validRole_def granted_def hasCapability_def capabilitiesForRole_def)

lemma session_cookie_token:
  "(''Set-Cookie'', kSessionCookie @ ''='' @ t @ sessionCookieAttributes config) \<in> set (sessionHeaders token config) \<Longrightarrow> t = token"
  by (auto simp: sessionHeaders_def)

lemma me_answer:
  assumes "readRequest (w_recv w) = Okay request" and "w_timeouts w" and "req_path request = ''/api/me''"
    and "req_method request = ''GET''" and "granted (Some v) ''session.self.read''"
    and "userForToken (w_crypto w) (w_session_env w) (cookieValue request kSessionCookie) (app_auth st) = (Done v, auth)"
  shows "srv_answer (handleClient w config st) = Answer (json_response 200 ''OK'' (jsonUser v)) False"
proof -
  have "handleClient w config st = route_request w config request st"
    by (rule handleClient_routed [OF assms(1,2)]) (simp add: sameOriginRequest_def isUnsafeMethod_def assms(4))
  also have "\<dots> = route_session w config request (Some v) (st\<lparr>app_auth := auth\<rparr>)"
    using route_request_session [of request w config st] assms(3,6) by (simp add: auth_route_def)
  also have "\<dots> = route_me request (Some v) jsonUser (st\<lparr>app_auth := auth\<rparr>)"
    unfolding route_session_def Let_def is_participation_def assms(3)
    by (simp add: participations_path_def integrationPrefix_def)
  finally show ?thesis using assms(4,5) by (simp add: route_me_def)
qed

text \<open>C4: A login opens a session for its user and nobody else.  If a login is answered with 200, a user is
  registered under the normalised e-mail of its body and the password of its body is that user's; and
  every request for \<open>/api/me\<close> that carries the cookie of the answer within eight hours is answered with the
  document about that user.\<close>

theorem login_opens_session:
  assumes "daemon_wf st" and "entropy_sizes (w_auth_env w)"
    and "readRequest (w_recv w) = Okay request" and "is_login request"
    and "srv_answer (handleClient w config st) = Answer rsp h" and "rsp_status rsp = 200"
    and "readRequest (w_recv w2) = Okay request2" and "w_timeouts w2" and "w_crypto w2 = w_crypto w"
    and "req_path request2 = ''/api/me''" and "req_method request2 = ''GET''"
    and "(''Set-Cookie'', kSessionCookie @ ''='' @ cookieValue request2 kSessionCookie @ sessionCookieAttributes config) \<in> set (rsp_headers rsp)"
    and "env_now (w_session_env w2) < env_now (w_auth_env w) + sessionLifetime"
  shows "\<exists>u email password. u \<in> set (st_users (app_auth st)) \<and>
    body_field request ''email'' = Some email \<and> body_field request ''password'' = Some password \<and>
    au_email (publicUser u) = normalizeEmail email \<and>
    passwordHash (w_crypto w) password (salt u) passwordIterations = Okay (su_hash u) \<and>
    srv_answer (handleClient w2 config (srv_state (handleClient w config st))) =
      Answer (json_response 200 ''OK'' (jsonUser (publicUser u))) False"
proof -
  have r: "handleClient w config st = route_login w config request st"
    using assms(3-6)
    by (cases rule: handleClient_cases [of w config st])
      (auto simp: cross_origin_def jsonError_def route_request_def is_login_def)
  obtain email password res auth where f: "body_field request ''email'' = Some email" "body_field request ''password'' = Some password"
    and l: "login (w_crypto w) (w_auth_env w) email password (app_auth st) = (Done res, auth)"
    and a: "rsp = session_response 200 ''OK'' (ar_token res) config"
      "app_auth (srv_state (route_login w config request st)) = auth"
    using route_login_ok [OF assms(5) [unfolded r] assms(6)] .
  have wf: "distinct (ids (st_users (app_auth st)))" "list_all user_wf (st_users (app_auth st))"
    using assms(1) by (simp_all add: daemon_wf_def auth_wf_def users_wf_def)
  from login_identifies [OF wf(1) assms(2) l, of "w_session_env w2"] assms(13)
  obtain u where u: "u \<in> set (st_users (app_auth st))" "publicUser u = ar_user res"
    "passwordHash (w_crypto w) password (salt u) passwordIterations = Okay (su_hash u)"
    and e: "au_email (ar_user res) = normalizeEmail email"
    and t: "userForToken (w_crypto w) (w_session_env w2) (ar_token res) auth = (Done (ar_user res), auth)" by auto
  have c: "cookieValue request2 kSessionCookie = ar_token res"
    using assms(12) by (intro session_cookie_token) (simp add: a(1) session_response_def)
  have "granted (Some (ar_user res)) ''session.self.read''"
    using wf(2) u(1,2) by (intro valid_role_self) (metis list_all_iff user_wf_def)
  from me_answer [OF assms(7,8,10,11) this, of "srv_state (handleClient w config st)" auth config]
  have "srv_answer (handleClient w2 config (srv_state (handleClient w config st))) =
      Answer (json_response 200 ''OK'' (jsonUser (ar_user res))) False"
    using t by (simp add: r a(2) c assms(9))
  with u f e show ?thesis by metis
qed

definition member_state :: AppState where
  "member_state = sample_state\<lparr>app_auth := admin_store\<rparr>"

lemma member_state_wf: "daemon_wf member_state"
proof -
  have "auth_wf admin_store" using auth_reach_wf [OF sample_crypto_sizes admin_store_reach] .
  moreover have "daemon_wf new_state" by (rule daemon.init_inv) (rule new_state_start)
  ultimately show ?thesis by (simp add: daemon_wf_def member_state_def new_state_def)
qed

definition entry_bytes :: string where
  "entry_bytes = request_bytes ''POST'' ''/api/auth/login'' ''none''
     (''{'' @ [QUOTE] @ ''email'' @ [QUOTE, CHR '':'', QUOTE] @ ''Ana@sister.org'' @ [QUOTE, CHR '','', QUOTE] @ ''password'' @
      [QUOTE, CHR '':'', QUOTE] @ sample_password @ [QUOTE] @ ''}'')"

definition sample_token :: string where
  "sample_token = hexEncode (replicate 32 (CHR ''t''))"

definition me_request :: HttpRequest where
  "me_request = \<lparr>req_method = ''GET'', req_target = ''/api/me'', req_path = ''/api/me'',
     req_query = [], req_version = ''HTTP/1.1'', req_headers = [(''host'', ''s''), (''origin'', ''https://s''),
       (''cookie'', ''sister_session='' @ sample_token), (''content-length'', ''0'')], req_body = []\<rparr>"

definition me_world :: World where
  "me_world = sample_world (request_bytes ''GET'' ''/api/me'' sample_token [])"

theorem login_opens_session_witness:
  "\<exists>u. u \<in> set (st_users admin_store) \<and>
     srv_answer (handleClient me_world sample_config
       (srv_state (handleClient (sample_world entry_bytes) sample_config member_state))) =
       Answer (json_response 200 ''OK'' (jsonUser (publicUser u))) False"
proof -
  let ?w = "sample_world entry_bytes"
  have "case readRequest (w_recv ?w) of Okay r \<Rightarrow> is_login r | Error _ \<Rightarrow> False" by code_simp
  then obtain request where r: "readRequest (w_recv ?w) = Okay request" "is_login request"
    by (auto split: sum.split_asm)
  have "case srv_answer (handleClient ?w sample_config member_state) of
      Answer rsp _ \<Rightarrow> rsp_status rsp = 200 \<and> rsp_headers rsp = sessionHeaders sample_token sample_config | _ \<Rightarrow> False"
    by code_simp
  then obtain rsp h where a: "srv_answer (handleClient ?w sample_config member_state) = Answer rsp h" "rsp_status rsp = 200"
    "rsp_headers rsp = sessionHeaders sample_token sample_config" by (auto split: answer.split_asm)
  have m: "readRequest (w_recv me_world) = Okay me_request" by code_simp
  have c: "cookieValue me_request kSessionCookie = sample_token" by code_simp
  have e: "entropy_sizes (w_auth_env ?w)" by (simp add: sample_world_def sample_entropy_sizes)
  have "w_timeouts me_world" "w_crypto me_world = w_crypto ?w" "req_path me_request = ''/api/me''"
    "req_method me_request = ''GET''" "env_now (w_session_env me_world) < env_now (w_auth_env ?w) + sessionLifetime"
    by (simp_all add: me_world_def sample_world_def me_request_def sample_env_def sessionLifetime_def)
  moreover have "(''Set-Cookie'', kSessionCookie @ ''='' @ cookieValue me_request kSessionCookie @
      sessionCookieAttributes sample_config) \<in> set (rsp_headers rsp)"
    unfolding c a(3) by (simp add: sessionHeaders_def)
  ultimately have "\<exists>u. u \<in> set (st_users (app_auth member_state)) \<and>
     srv_answer (handleClient me_world sample_config (srv_state (handleClient ?w sample_config member_state))) =
       Answer (json_response 200 ''OK'' (jsonUser (publicUser u))) False"
    using login_opens_session [OF member_state_wf e r a(1,2) m] by blast
  then show ?thesis by (simp add: member_state_def)
qed

text \<open>The pages behind \<open>/admin/users\<close> and \<open>/admin/maturity\<close> are also served under their file names, which no
  capability guards.\<close>

theorem admin_pages_unguarded:
  "page_requirement ''/admin.html'' = None \<and> page_requirement ''/maturity/index.html'' = None \<and>
   page_requirement ''/admin/users'' \<noteq> None \<and> page_requirement ''/admin/maturity'' \<noteq> None \<and>
   resolveStaticPath fs ''/admin.html'' config = resolveStaticPath fs ''/admin/users'' config \<and>
   resolveStaticPath fs ''/maturity/index.html'' config = resolveStaticPath fs ''/admin/maturity'' config"
  by (simp add: page_requirement_def engineeringRoute_def resolveStaticPath_def route_path_def Let_def)

text \<open>A login that fails inside of the daemon is answered with 500 and logged as a success.\<close>

theorem failed_login_logged_ok:
  assumes "login (w_crypto w) (w_auth_env w) email password (app_auth st) = (Throws e, auth)"
    and "body_field request ''email'' = Some email" and "body_field request ''password'' = Some password"
    and "checkAndRecord (w_peer_address w) (normalizeIdentity email) (w_clock w) (app_limiter st) = Okay (d, l)" and "allowed d"
  shows "(\<exists>rsp h. srv_answer (route_login w config request st) = Answer rsp h \<and> rsp_status rsp = 500) \<and>
    srv_log (route_login w config request st) = [Event ''info'' 200 []]"
  using assms by (simp add: route_login_def Let_def jsonError_def)

end
