(* ===== verification/Auth_Database.thy ===== *)
theory Auth_Database
  imports Auth_Store
begin

text \<open>
  The PostgreSQL backend of the authentication store (the \<open>database*\<close> methods of
  \<open>apps/sisterd/auth.cpp\<close>) on the tables \<open>sister_users\<close> and \<open>sister_sessions\<close> of
  \<open>storage/migrations\<close>.  The server keeps the committed base; the connection may have a
  transaction of its own, with the time of its start (which is what \<open>now()\<close> yields inside
  it) and its view of the base, or none when an error has aborted it.  Every statement meets one
  of four fates: it is answered, it fails, the connection is lost before it is executed, or the
  reply is lost after it was.  The daemon is the only writer of the two tables.
\<close>

section \<open>Tables\<close>

record UserRow =
  ur_id :: string
  ur_email :: string
  ur_name :: string
  ur_role :: string
  ur_salt :: "string option"
  ur_hash :: "string option"
  ur_iterations :: int
  ur_active :: bool
  ur_updated :: int

record SessionRow =
  sr_id :: string
  sr_user :: string
  sr_hash :: string
  sr_issued :: int
  sr_expires :: int
  sr_revoked :: "int option"

record IdentityBase =
  user_rows :: "UserRow list"
  session_rows :: "SessionRow list"

section \<open>The connection\<close>

datatype server_answer = Answers | Fails | Lost | LostReply

text \<open>What one operation finds: beside the clock (of the server) and the entropy, whether a new
  connection and a reset succeed, the fate of its statements in order, the row that \<open>LIMIT 1\<close>
  picks among several, and the collation of the database.\<close>

record PgEnv = AuthEnv +
  session_entropy :: "string option"
  fresh_link :: bool
  reset_link :: bool
  answers :: "nat \<Rightarrow> server_answer"
  pick :: nat
  pg_lower :: "string \<Rightarrow> string"
  pg_le :: "string \<Rightarrow> string \<Rightarrow> bool"

record PgAuth =
  pg_base :: IdentityBase
  pg_txn :: "(int \<times> IdentityBase option) option"
  pg_handle :: bool
  pg_alive :: bool

definition connectDatabase :: "PgEnv \<Rightarrow> PgAuth \<Rightarrow> PgAuth" where
  "connectDatabase env s =
     (if pg_handle s then s else s\<lparr>pg_handle := fresh_link env, pg_alive := fresh_link env, pg_txn := None\<rparr>)"

definition disconnectDatabase :: "PgAuth \<Rightarrow> PgAuth" where
  "disconnectDatabase s = (if pg_handle s then s\<lparr>pg_handle := False, pg_alive := False, pg_txn := None\<rparr> else s)"

definition ensureDatabaseConnected :: "PgEnv \<Rightarrow> PgAuth \<Rightarrow> bool \<times> PgAuth" where
  "ensureDatabaseConnected env s =
     (let s = connectDatabase env s in
      if \<not> pg_handle s then (False, s)
      else if pg_alive s then (True, s)
      else (reset_link env, s\<lparr>pg_alive := reset_link env, pg_txn := None\<rparr>))"

text \<open>The constructor with a database URL.\<close>

definition AuthStore_connect :: "PgEnv \<Rightarrow> IdentityBase \<Rightarrow> (string, PgAuth) result" where
  "AuthStore_connect env b =
     (case ensureDatabaseConnected env
         (connectDatabase env \<lparr>pg_base = b, pg_txn = None, pg_handle = False, pg_alive = False\<rparr>) of
        (False, _) \<Rightarrow> Error ''database-backed authentication is unavailable''
      | (True, s) \<Rightarrow> Okay s)"

section \<open>Statements\<close>

text \<open>A statement reads \<open>now()\<close> and a base; it yields a result and the new base, or an
  SQLSTATE.  What the program sees is \<open>Rows\<close>, or an error with or without a state.\<close>

type_synonym 'r query = "int \<Rightarrow> IdentityBase \<Rightarrow> (string, 'r \<times> IdentityBase) result"

datatype 'r reply = Rows 'r | SqlError "string option"

definition run_query :: "int \<Rightarrow> 'r query \<Rightarrow> PgAuth \<Rightarrow> 'r reply \<times> PgAuth" where
  "run_query now q s =
     (case pg_txn s of
        None \<Rightarrow>
          (case q now (pg_base s) of
             Error e \<Rightarrow> (SqlError (Some e), s)
           | Okay (r, b) \<Rightarrow> (Rows r, s\<lparr>pg_base := b\<rparr>))
      | Some (t, None) \<Rightarrow> (SqlError (Some ''25P02''), s)
      | Some (t, Some v) \<Rightarrow>
          (case q t v of
             Error e \<Rightarrow> (SqlError (Some e), s\<lparr>pg_txn := Some (t, None)\<rparr>)
           | Okay (r, v) \<Rightarrow> (Rows r, s\<lparr>pg_txn := Some (t, Some v)\<rparr>)))"

definition BEGIN :: "int \<Rightarrow> PgAuth \<Rightarrow> unit reply \<times> PgAuth" where
  "BEGIN now s =
     (case pg_txn s of
        None \<Rightarrow> (Rows (), s\<lparr>pg_txn := Some (now, Some (pg_base s))\<rparr>)
      | Some (_, Some _) \<Rightarrow> (Rows (), s)
      | Some (_, None) \<Rightarrow> (SqlError (Some ''25P02''), s))"

definition COMMIT :: "PgAuth \<Rightarrow> unit reply \<times> PgAuth" where
  "COMMIT s =
     (case pg_txn s of
        Some (_, Some v) \<Rightarrow> (Rows (), s\<lparr>pg_base := v, pg_txn := None\<rparr>)
      | _ \<Rightarrow> (Rows (), s\<lparr>pg_txn := None\<rparr>))"

definition ROLLBACK :: "PgAuth \<Rightarrow> unit reply \<times> PgAuth" where
  "ROLLBACK s = (Rows (), s\<lparr>pg_txn := None\<rparr>)"

text \<open>\<open>PQexec\<close> and \<open>PQexecParams\<close>: the server executes a command or does not, and the
  connection survives it or does not.\<close>

definition lose :: "PgAuth \<Rightarrow> PgAuth" where
  "lose s = s\<lparr>pg_alive := False, pg_txn := None\<rparr>"

definition PQexec :: "server_answer \<Rightarrow> (PgAuth \<Rightarrow> 'r reply \<times> PgAuth) \<Rightarrow> PgAuth \<Rightarrow> 'r reply \<times> PgAuth" where
  "PQexec a cmd s =
     (if \<not> pg_alive s then (SqlError None, s)
      else case a of
          Answers \<Rightarrow> cmd s
        | Fails \<Rightarrow> (SqlError None, s\<lparr>pg_txn := map_option (\<lambda>(t, _). (t, None)) (pg_txn s)\<rparr>)
        | Lost \<Rightarrow> (SqlError None, lose s)
        | LostReply \<Rightarrow> (SqlError None, lose (snd (cmd s))))"

text \<open>An end of the transaction that fails ends it without effect.\<close>

definition PQend :: "server_answer \<Rightarrow> (PgAuth \<Rightarrow> 'r reply \<times> PgAuth) \<Rightarrow> PgAuth \<Rightarrow> 'r reply \<times> PgAuth" where
  "PQend a cmd s = (if pg_alive s \<and> a = Fails then (SqlError None, s\<lparr>pg_txn := None\<rparr>) else PQexec a cmd s)"

text \<open>The statements of the methods, in the order of the source; the keys, the references and
  the check of the role are those of the migrations.\<close>

definition row_user :: "UserRow \<Rightarrow> AuthUser" where
  "row_user r = \<lparr>au_id = ur_id r, au_name = ur_name r, au_email = ur_email r, au_role = ur_role r\<rparr>"

definition q_no_users :: "bool query" where
  "q_no_users now b = Okay (user_rows b = [], b)"

definition q_insert_user :: "UserRow \<Rightarrow> AuthUser list query" where
  "q_insert_user r now b =
     (if \<not> validRole (ur_role r) then Error ''23514''
      else if list_ex (\<lambda>q. ur_id q = ur_id r \<or> ur_email q = ur_email r) (user_rows b) then Error ''23505''
      else Okay ([row_user r], b\<lparr>user_rows := user_rows b @ [r\<lparr>ur_updated := now\<rparr>]\<rparr>))"

definition q_bootstrap :: "UserRow \<Rightarrow> AuthUser list query" where
  "q_bootstrap r now b = (if user_rows b = [] then q_insert_user r now b else Okay ([], b))"

definition q_insert_session :: "string \<Rightarrow> string \<Rightarrow> string \<Rightarrow> unit query" where
  "q_insert_session sid uid h now b =
     (if list_ex (\<lambda>q. sr_id q = sid \<or> sr_hash q = h) (session_rows b) then Error ''23505''
      else if \<not> list_ex (\<lambda>r. ur_id r = uid) (user_rows b) then Error ''23503''
      else Okay ((), b\<lparr>session_rows := session_rows b @
        [\<lparr>sr_id = sid, sr_user = uid, sr_hash = h, sr_issued = now, sr_expires = now + sessionLifetime,
          sr_revoked = None\<rparr>]\<rparr>))"

definition limit1 :: "nat \<Rightarrow> 'a list \<Rightarrow> 'a list" where
  "limit1 n rows = (if rows = [] then [] else [rows ! (n mod length rows)])"

definition q_credentials :: "PgEnv \<Rightarrow> string \<Rightarrow> UserRow list query" where
  "q_credentials env email now b =
     Okay (limit1 (pick env)
       (filter (\<lambda>r. pg_lower env (ur_email r) = pg_lower env email \<and> ur_active r \<and> ur_hash r \<noteq> None)
         (user_rows b)), b)"

definition q_session_user :: "PgEnv \<Rightarrow> string \<Rightarrow> AuthUser list query" where
  "q_session_user env h now b =
     Okay (limit1 (pick env)
       (concat (map (\<lambda>s. map row_user (filter (\<lambda>u. ur_id u = sr_user s \<and> ur_active u) (user_rows b)))
         (filter (\<lambda>s. sr_hash s = h \<and> sr_revoked s = None \<and> now < sr_expires s) (session_rows b)))), b)"

definition row_le :: "PgEnv \<Rightarrow> UserRow \<Rightarrow> UserRow \<Rightarrow> bool" where
  "row_le env r q =
     (let a = pg_lower env (ur_email r); c = pg_lower env (ur_email q) in
      if a = c then pg_le env (ur_id r) (ur_id q) else pg_le env a c)"

fun insert_row :: "('a \<Rightarrow> 'a \<Rightarrow> bool) \<Rightarrow> 'a \<Rightarrow> 'a list \<Rightarrow> 'a list" where
  "insert_row le x [] = [x]"
| "insert_row le x (y # ys) = (if le x y then x # y # ys else y # insert_row le x ys)"

definition q_users :: "PgEnv \<Rightarrow> AuthUser list query" where
  "q_users env now b =
     Okay (map row_user (foldr (insert_row (row_le env)) (filter ur_active (user_rows b)) []), b)"

definition q_role :: "string \<Rightarrow> string list query" where
  "q_role i now b = Okay (map ur_role (filter (\<lambda>r. ur_id r = i \<and> ur_active r) (user_rows b)), b)"

definition q_email_taken :: "PgEnv \<Rightarrow> string \<Rightarrow> string \<Rightarrow> bool query" where
  "q_email_taken env email i now b =
     Okay (list_ex (\<lambda>r. pg_lower env (ur_email r) = pg_lower env email \<and> ur_id r \<noteq> i) (user_rows b), b)"

definition active_admins :: "IdentityBase \<Rightarrow> nat" where
  "active_admins b = length (filter (\<lambda>r. ur_active r \<and> ur_role r = ''admin'') (user_rows b))"

definition q_count_admins :: "string query" where
  "q_count_admins now b = Okay (show_nat (active_admins b), b)"

definition q_update_user :: "string \<Rightarrow> (UserRow \<Rightarrow> UserRow) \<Rightarrow> AuthUser list query" where
  "q_update_user i f now b =
     (let hit = (\<lambda>r. ur_id r = i \<and> ur_active r);
          rows = map (\<lambda>r. if hit r then (f r)\<lparr>ur_updated := now\<rparr> else r) (user_rows b) in
      if \<not> list_all (\<lambda>r. hit r \<longrightarrow> validRole (ur_role (f r))) (user_rows b) then Error ''23514''
      else if \<not> distinct (map ur_email rows) then Error ''23505''
      else Okay (map (\<lambda>r. row_user (f r)) (filter hit (user_rows b)), b\<lparr>user_rows := rows\<rparr>))"

definition revoke :: "(SessionRow \<Rightarrow> bool) \<Rightarrow> int \<Rightarrow> IdentityBase \<Rightarrow> IdentityBase" where
  "revoke p now b = b\<lparr>session_rows :=
     map (\<lambda>s. if p s \<and> sr_revoked s = None then s\<lparr>sr_revoked := Some now\<rparr> else s) (session_rows b)\<rparr>"

text \<open>The two statements whose second part revokes the sessions of the user.\<close>

definition q_revoking :: "string \<Rightarrow> AuthUser list query \<Rightarrow> AuthUser list query" where
  "q_revoking i q now b =
     (case q now b of
        Error e \<Rightarrow> Error e
      | Okay (rows, b) \<Rightarrow> Okay (rows, revoke (\<lambda>s. sr_user s = i) now b))"

definition q_revoke_token :: "string \<Rightarrow> unit query" where
  "q_revoke_token h now b = Okay ((), revoke (\<lambda>s. sr_hash s = h) now b)"

section \<open>Operations\<close>

definition databaseBootstrapOpen :: "PgEnv \<Rightarrow> PgAuth \<Rightarrow> bool \<times> PgAuth" where
  "databaseBootstrapOpen env s =
     (case ensureDatabaseConnected env s of
        (False, s) \<Rightarrow> (False, s)
      | (True, s) \<Rightarrow>
          (case PQexec (answers env 0) (run_query (env_now env) q_no_users) s of
             (Rows open, s) \<Rightarrow> (open, s)
           | (SqlError _, s) \<Rightarrow> (False, s)))"

text \<open>The row that the three operations which add a user send: salt and hash are derived before
  the statement, whose result has to be one row.\<close>

definition new_row :: "string \<Rightarrow> string \<Rightarrow> string \<Rightarrow> string \<Rightarrow> string \<Rightarrow> string \<Rightarrow> UserRow" where
  "new_row i email name role s h =
     \<lparr>ur_id = c_str i, ur_email = c_str email, ur_name = c_str name, ur_role = c_str role,
      ur_salt = Some (c_str s), ur_hash = Some (c_str h), ur_iterations = int passwordIterations,
      ur_active = True, ur_updated = 0\<rparr>"

definition databaseBootstrapAdmin ::
  "nat \<Rightarrow> Crypto \<Rightarrow> PgEnv \<Rightarrow> string \<Rightarrow> string \<Rightarrow> string \<Rightarrow> PgAuth \<Rightarrow> AuthUser outcome \<times> PgAuth" where
  "databaseBootstrapAdmin k cr env rawName rawEmail password s =
     (let name = trim rawName; email = normalizeEmail rawEmail in
      if length name < 2 \<or> length password < 12 \<or> CHR ''@'' \<notin> set email \<or>
         \<not> validField name \<or> \<not> validField email
      then (Refused Rejected, s)
      else case ensureDatabaseConnected env s of
          (False, s) \<Rightarrow> (Refused Rejected, s)
        | (True, s) \<Rightarrow>
            (case randomUuid (uuid_entropy env) of
               Error e \<Rightarrow> (Throws e, s)
             | Okay i \<Rightarrow>
                 (case randomHex (salt_entropy env) of
                    Error e \<Rightarrow> (Throws e, s)
                  | Okay slt \<Rightarrow>
                      (case passwordHash cr password slt passwordIterations of
                         Error e \<Rightarrow> (Throws e, s)
                       | Okay h \<Rightarrow>
                           (case PQexec (answers env k)
                               (run_query (env_now env) (q_bootstrap (new_row i email name ''admin'' slt h))) s of
                              (Rows [u], s) \<Rightarrow> (Done u, s)
                            | (_, s) \<Rightarrow> (Refused Rejected, s))))))"

definition register_session ::
  "Crypto \<Rightarrow> PgEnv \<Rightarrow> AuthUser \<Rightarrow> PgAuth \<Rightarrow> AuthResult outcome \<times> PgAuth" where
  "register_session cr env created s =
     (case randomHex (token_entropy env) of
        Error e \<Rightarrow> (Throws e, s)
      | Okay token \<Rightarrow>
          (case randomUuid (session_entropy env) of
             Error e \<Rightarrow> (Throws e, s)
           | Okay sid \<Rightarrow>
               (case PQexec (answers env 2) (run_query (env_now env)
                   (q_insert_session sid (c_str (au_id created)) (sha256 cr token))) s of
                  (SqlError _, s) \<Rightarrow> (Refused Rejected, snd (PQend (answers env 3) ROLLBACK s))
                | (Rows _, s) \<Rightarrow>
                    (case PQend (answers env 3) COMMIT s of
                       (SqlError _, s) \<Rightarrow> (Refused Rejected, s)
                     | (Rows _, s) \<Rightarrow> (Done \<lparr>ar_user = created, ar_token = token\<rparr>, s)))))"

definition databaseRegisterAdmin ::
  "Crypto \<Rightarrow> PgEnv \<Rightarrow> string \<Rightarrow> string \<Rightarrow> string \<Rightarrow> PgAuth \<Rightarrow> AuthResult outcome \<times> PgAuth" where
  "databaseRegisterAdmin cr env name email password s =
     (case ensureDatabaseConnected env s of
        (False, s) \<Rightarrow> (Refused Rejected, s)
      | (True, s) \<Rightarrow>
          (case PQexec (answers env 0) (BEGIN (env_now env)) s of
             (SqlError _, s) \<Rightarrow> (Refused Rejected, s)
           | (Rows _, s) \<Rightarrow>
               (case databaseBootstrapAdmin 1 cr env name email password s of
                  (Throws e, s) \<Rightarrow> (Throws e, s)
                | (Refused _, s) \<Rightarrow> (Refused Rejected, snd (PQend (answers env 2) ROLLBACK s))
                | (Done created, s) \<Rightarrow> register_session cr env created s)))"

text \<open>The number of iterations as the text of an \<open>integer\<close> column, read back and bounded.\<close>

definition row_iterations :: "UserRow \<Rightarrow> nat" where
  "row_iterations r =
     (case from_chars (- (2 ^ 31)) (2 ^ 31 - 1) (show_int (ur_iterations r)) of
        Some (n, []) \<Rightarrow> if n < 10000 \<or> n > 2000000 then passwordIterations else nat n
      | _ \<Rightarrow> passwordIterations)"

text \<open>\<open>PQgetvalue\<close> of a NULL is the empty string.\<close>

definition getvalue :: "string option \<Rightarrow> string" where
  "getvalue v = (case v of None \<Rightarrow> [] | Some t \<Rightarrow> t)"

definition databaseLogin ::
  "Crypto \<Rightarrow> PgEnv \<Rightarrow> string \<Rightarrow> string \<Rightarrow> PgAuth \<Rightarrow> AuthResult outcome \<times> PgAuth" where
  "databaseLogin cr env rawEmail password s =
     (case ensureDatabaseConnected env s of
        (False, s) \<Rightarrow> (Refused Rejected, s)
      | (True, s) \<Rightarrow>
          (case PQexec (answers env 0)
              (run_query (env_now env) (q_credentials env (c_str (normalizeEmail rawEmail)))) s of
             (r, s) \<Rightarrow>
               let found = (case r of Rows [row] \<Rightarrow> Some row | _ \<Rightarrow> None) in
               (case passwordHash cr password
                   (case found of None \<Rightarrow> replicate 32 (CHR ''0'') | Some row \<Rightarrow> getvalue (ur_salt row))
                   (case found of None \<Rightarrow> passwordIterations | Some row \<Rightarrow> row_iterations row) of
                  Error e \<Rightarrow> (Throws e, s)
                | Okay candidate \<Rightarrow>
                    (case found of
                       None \<Rightarrow> (Refused Rejected, s)
                     | Some row \<Rightarrow>
                         if candidate \<noteq> getvalue (ur_hash row) then (Refused Rejected, s)
                         else case randomHex (token_entropy env) of
                             Error e \<Rightarrow> (Throws e, s)
                           | Okay token \<Rightarrow>
                               (case randomUuid (session_entropy env) of
                                  Error e \<Rightarrow> (Throws e, s)
                                | Okay sid \<Rightarrow>
                                    (case PQexec (answers env 1) (run_query (env_now env)
                                        (q_insert_session sid (c_str (ur_id row)) (sha256 cr token))) s of
                                       (SqlError _, s) \<Rightarrow> (Refused Rejected, s)
                                     | (Rows _, s) \<Rightarrow>
                                         (Done \<lparr>ar_user = row_user row, ar_token = token\<rparr>, s)))))))"

definition databaseUserForToken ::
  "Crypto \<Rightarrow> PgEnv \<Rightarrow> string \<Rightarrow> PgAuth \<Rightarrow> AuthUser outcome \<times> PgAuth" where
  "databaseUserForToken cr env token s =
     (case ensureDatabaseConnected env s of
        (False, s) \<Rightarrow> (Refused Rejected, s)
      | (True, s) \<Rightarrow>
          (case PQexec (answers env 0) (run_query (env_now env) (q_session_user env (sha256 cr token))) s of
             (Rows [u], s) \<Rightarrow> (Done u, s)
           | (_, s) \<Rightarrow> (Refused Rejected, s)))"

definition databaseUsers :: "PgEnv \<Rightarrow> PgAuth \<Rightarrow> AuthUser list \<times> PgAuth" where
  "databaseUsers env s =
     (case ensureDatabaseConnected env s of
        (False, s) \<Rightarrow> ([], s)
      | (True, s) \<Rightarrow>
          (case PQexec (answers env 0) (run_query (env_now env) (q_users env)) s of
             (Rows us, s) \<Rightarrow> (us, s)
           | (SqlError _, s) \<Rightarrow> ([], s)))"

text \<open>The tail of \<open>databaseCreateUser\<close> and \<open>databaseImportUser\<close>: a duplicate key is told
  from every other failure by its SQLSTATE.\<close>

definition insert_tail ::
  "Crypto \<Rightarrow> PgEnv \<Rightarrow> string \<Rightarrow> string \<Rightarrow> string \<Rightarrow> string \<Rightarrow> string \<Rightarrow> PgAuth \<Rightarrow>
     (string, AuthUser option \<times> string option) result \<times> PgAuth" where
  "insert_tail cr env i email name role password s =
     (case randomHex (salt_entropy env) of
        Error e \<Rightarrow> (Error e, s)
      | Okay slt \<Rightarrow>
          (case passwordHash cr password slt passwordIterations of
             Error e \<Rightarrow> (Error e, s)
           | Okay h \<Rightarrow>
               (case PQexec (answers env 0)
                   (run_query (env_now env) (q_insert_user (new_row i email name role slt h))) s of
                  (Rows [u], s) \<Rightarrow> (Okay (Some u, None), s)
                | (Rows _, s) \<Rightarrow> (Okay (None, None), s)
                | (SqlError e, s) \<Rightarrow> (Okay (None, e), s))))"

definition databaseCreateUser ::
  "Crypto \<Rightarrow> PgEnv \<Rightarrow> string \<Rightarrow> string \<Rightarrow> string \<Rightarrow> string \<Rightarrow> PgAuth \<Rightarrow> AuthUser outcome \<times> PgAuth" where
  "databaseCreateUser cr env rawName rawEmail password role s =
     (let name = trim rawName; email = normalizeEmail rawEmail in
      if length name < 2 \<or> \<not> validField name then (Refused InvalidName, s)
      else if CHR ''@'' \<notin> set email \<or> \<not> validField email then (Refused InvalidEmail, s)
      else if length password < 12 then (Refused ShortPassword, s)
      else if \<not> validRole role then (Refused InvalidRole, s)
      else case ensureDatabaseConnected env s of
          (False, s) \<Rightarrow> (Refused Unavailable, s)
        | (True, s) \<Rightarrow>
            (case randomUuid (uuid_entropy env) of
               Error e \<Rightarrow> (Throws e, s)
             | Okay i \<Rightarrow>
                 (case insert_tail cr env i email name role password s of
                    (Error e, s) \<Rightarrow> (Throws e, s)
                  | (Okay (Some u, _), s) \<Rightarrow> (Done u, s)
                  | (Okay (None, st), s) \<Rightarrow>
                      (Refused (if st = Some ''23505'' then EmailTaken else NotPersisted), s))))"

definition databaseImportUser ::
  "Crypto \<Rightarrow> PgEnv \<Rightarrow> string \<Rightarrow> string \<Rightarrow> string \<Rightarrow> string \<Rightarrow> string \<Rightarrow> PgAuth \<Rightarrow>
     AuthUser outcome \<times> PgAuth" where
  "databaseImportUser cr env i rawName rawEmail password role s =
     (let name = trim rawName; email = normalizeEmail rawEmail in
      if \<not> validUuid i \<or> length name < 2 \<or> length password < 12 \<or> CHR ''@'' \<notin> set email \<or>
         \<not> validRole role \<or> \<not> validField name \<or> \<not> validField email
      then (Refused Rejected, s)
      else case ensureDatabaseConnected env s of
          (False, s) \<Rightarrow> (Refused Rejected, s)
        | (True, s) \<Rightarrow>
            (case insert_tail cr env i email name role password s of
               (Error e, s) \<Rightarrow> (Throws e, s)
             | (Okay (Some u, _), s) \<Rightarrow> (Done u, s)
             | (Okay (None, _), s) \<Rightarrow> (Refused Rejected, s)))"

text \<open>The guard of the last administrator: the role as it is stored, and a count that is taken for
  more than one whenever its statement fails.\<close>

definition sole_admin :: "nat \<Rightarrow> PgEnv \<Rightarrow> PgAuth \<Rightarrow> bool \<times> PgAuth" where
  "sole_admin k env s =
     (case PQexec (answers env k) (run_query (env_now env) q_count_admins) s of
        (Rows n, s) \<Rightarrow> (n = ''1'', s)
      | (SqlError _, s) \<Rightarrow> (False, s))"

definition update_send :: "PgEnv \<Rightarrow> AuthUser list query \<Rightarrow> PgAuth \<Rightarrow> AuthUser outcome \<times> PgAuth" where
  "update_send env q s =
     (case PQexec (answers env 3) (run_query (env_now env) q) s of
        (Rows [u], s) \<Rightarrow> (Done u, s)
      | (Rows _, s) \<Rightarrow> (Refused UpdateNotPersisted, s)
      | (SqlError e, s) \<Rightarrow>
          (Refused (if e = Some ''23505'' then EmailTakenByOther else UpdateNotPersisted), s))"

definition profile_of :: "string \<Rightarrow> string \<Rightarrow> string \<Rightarrow> UserRow \<Rightarrow> UserRow" where
  "profile_of name email role r =
     r\<lparr>ur_name := c_str name, ur_email := c_str email, ur_role := c_str role\<rparr>"

definition password_of :: "string \<Rightarrow> string \<Rightarrow> UserRow \<Rightarrow> UserRow" where
  "password_of slt h r = r\<lparr>ur_salt := Some slt, ur_hash := Some h, ur_iterations := int passwordIterations\<rparr>"

definition update_tail ::
  "Crypto \<Rightarrow> PgEnv \<Rightarrow> string \<Rightarrow> string \<Rightarrow> string \<Rightarrow> string \<Rightarrow> string \<Rightarrow> PgAuth \<Rightarrow>
     AuthUser outcome \<times> PgAuth" where
  "update_tail cr env i name email role optionalPassword s =
     (if optionalPassword = [] then update_send env (q_update_user (c_str i) (profile_of name email role)) s
      else case randomHex (salt_entropy env) of
          Error e \<Rightarrow> (Throws e, s)
        | Okay slt \<Rightarrow>
            (case passwordHash cr optionalPassword slt passwordIterations of
               Error e \<Rightarrow> (Throws e, s)
             | Okay h \<Rightarrow> update_send env (q_revoking (c_str i) (q_update_user (c_str i)
                   (password_of slt h \<circ> profile_of name email role))) s))"

definition databaseUpdateUser ::
  "Crypto \<Rightarrow> PgEnv \<Rightarrow> string \<Rightarrow> string \<Rightarrow> string \<Rightarrow> string \<Rightarrow> string \<Rightarrow> PgAuth \<Rightarrow>
     AuthUser outcome \<times> PgAuth" where
  "databaseUpdateUser cr env i rawName rawEmail role optionalPassword s =
     (let name = trim rawName; email = normalizeEmail rawEmail in
      if length name < 2 \<or> \<not> validField name then (Refused InvalidName, s)
      else if CHR ''@'' \<notin> set email \<or> \<not> validField email then (Refused InvalidEmail, s)
      else if \<not> validRole role then (Refused InvalidRole, s)
      else if optionalPassword \<noteq> [] \<and> length optionalPassword < 12 then (Refused ShortNewPassword, s)
      else case ensureDatabaseConnected env s of
          (False, s) \<Rightarrow> (Refused Unavailable, s)
        | (True, s) \<Rightarrow>
            (case PQexec (answers env 0) (run_query (env_now env) (q_role (c_str i))) s of
               (Rows [currentRole], s) \<Rightarrow>
                 (case PQexec (answers env 1)
                     (run_query (env_now env) (q_email_taken env (c_str email) (c_str i))) s of
                    (duplicate, s) \<Rightarrow>
                      if duplicate = Rows True then (Refused EmailTakenByOther, s)
                      else case (if currentRole = ''admin'' \<and> role \<noteq> ''admin'' then sole_admin 2 env s
                                 else (False, s)) of
                          (True, s) \<Rightarrow> (Refused SoleAdminRole, s)
                        | (False, s) \<Rightarrow> update_tail cr env i name email role optionalPassword s)
             | (_, s) \<Rightarrow> (Refused UserNotFound, s)))"

definition disable_tail :: "PgEnv \<Rightarrow> string \<Rightarrow> PgAuth \<Rightarrow> unit outcome \<times> PgAuth" where
  "disable_tail env i s =
     (case PQexec (answers env 2) (run_query (env_now env) (q_revoking (c_str i)
         (q_update_user (c_str i) (\<lambda>r. r\<lparr>ur_active := False\<rparr>)))) s of
        (Rows [_], s) \<Rightarrow> (Done (), s)
      | (_, s) \<Rightarrow> (Refused DeleteFailed, s))"

definition databaseDeleteUser ::
  "PgEnv \<Rightarrow> string \<Rightarrow> string \<Rightarrow> PgAuth \<Rightarrow> unit outcome \<times> PgAuth" where
  "databaseDeleteUser env i currentActorId s =
     (if i = currentActorId then (Refused OwnAccount, s)
      else case ensureDatabaseConnected env s of
          (False, s) \<Rightarrow> (Refused Unavailable, s)
        | (True, s) \<Rightarrow>
            (case PQexec (answers env 0) (run_query (env_now env) (q_role (c_str i))) s of
               (Rows [role], s) \<Rightarrow>
                 (case (if role = ''admin'' then sole_admin 1 env s else (False, s)) of
                    (True, s) \<Rightarrow> (Refused SoleAdminDelete, s)
                  | (False, s) \<Rightarrow> disable_tail env i s)
             | (_, s) \<Rightarrow> (Refused UserNotFound, s)))"

definition databaseLogout :: "Crypto \<Rightarrow> PgEnv \<Rightarrow> string \<Rightarrow> PgAuth \<Rightarrow> unit outcome \<times> PgAuth" where
  "databaseLogout cr env token s =
     (case ensureDatabaseConnected env s of
        (False, s) \<Rightarrow> (Done (), s)
      | (True, s) \<Rightarrow>
          (Done (), snd (PQexec (answers env 0) (run_query (env_now env) (q_revoke_token (sha256 cr token))) s)))"

end
