(* ===== verification/Auth_Database_Invariants.thy ===== *)
theory Auth_Database_Invariants
  imports Auth_Database Auth_Invariants
begin

text \<open>
  The contract of the PostgreSQL backend.  A property of the base that every statement of the
  source keeps holds of the committed base and of the view of an open transaction after every
  operation, whatever the server and the connection do: the locales \<open>growing_invariant\<close> (the
  operations that only add or revoke) and \<open>statement_invariant\<close> (all of them) prove this
  once per operation, and their interpretations give the consistency of the tables and
  the permanence of a revocation.
\<close>

section \<open>Properties of the committed base and of the open view\<close>

definition keeps :: "(IdentityBase \<Rightarrow> bool) \<Rightarrow> 'r query \<Rightarrow> bool" where
  "keeps P q \<longleftrightarrow> (\<forall>now b r b'. P b \<longrightarrow> q now b = Okay (r, b') \<longrightarrow> P b')"

definition holds :: "(IdentityBase \<Rightarrow> bool) \<Rightarrow> PgAuth \<Rightarrow> bool" where
  "holds P s \<longleftrightarrow> P (pg_base s) \<and> (\<forall>t v. pg_txn s = Some (t, Some v) \<longrightarrow> P v)"

lemma keepsI: "(\<And>now b r b'. P b \<Longrightarrow> q now b = Okay (r, b') \<Longrightarrow> P b') \<Longrightarrow> keeps P q"
  by (auto simp: keeps_def)

lemma keeps_reading [simp]:
  "keeps P q_no_users" "keeps P (q_credentials env e)" "keeps P (q_session_user env h)" "keeps P (q_users env)"
  "keeps P (q_role i)" "keeps P (q_email_taken env e i)" "keeps P q_count_admins"
  by (auto simp: keeps_def q_no_users_def q_credentials_def q_session_user_def q_users_def q_role_def
      q_email_taken_def q_count_admins_def)

lemma keeps_bootstrap: "keeps P (q_insert_user r) \<Longrightarrow> keeps P (q_bootstrap r)"
  by (auto simp: keeps_def q_bootstrap_def split: if_splits)

lemma connect_holds [simp]: "holds P s \<Longrightarrow> holds P (connectDatabase env s)"
  by (auto simp: holds_def connectDatabase_def)

lemma ensure_holds: "ensureDatabaseConnected env s = (c, s') \<Longrightarrow> holds P s \<Longrightarrow> holds P s'"
  using connect_holds [of P s env]
  by (auto simp: ensureDatabaseConnected_def Let_def holds_def split: if_splits)

lemma lose_holds [simp]: "holds P s \<Longrightarrow> holds P (lose s)"
  by (auto simp: holds_def lose_def)

lemma run_query_holds: "keeps P q \<Longrightarrow> holds P s \<Longrightarrow> holds P (snd (run_query now q s))"
  by (auto simp: run_query_def holds_def keeps_def split: option.split sum.split prod.split)

lemma PQexec_holds:
  assumes "PQexec a cmd s = (r, s')" "holds P s" "holds P s \<Longrightarrow> holds P (snd (cmd s))"
  shows "holds P s'"
proof -
  have "holds P (s\<lparr>pg_txn := map_option (\<lambda>(t, _). (t, None)) (pg_txn s)\<rparr>)"
    using assms(2) by (auto simp: holds_def)
  with assms show ?thesis
    by (auto simp: PQexec_def split: if_splits server_answer.splits dest: sym [of "cmd s"])
qed

lemma query_holds:
  "PQexec a (run_query now q) s = (r, s') \<Longrightarrow> holds P s \<Longrightarrow> keeps P q \<Longrightarrow> holds P s'"
  by (erule PQexec_holds) (auto intro: run_query_holds)

lemma begin_holds: "PQexec a (BEGIN now) s = (r, s') \<Longrightarrow> holds P s \<Longrightarrow> holds P s'"
  by (erule PQexec_holds) (auto simp: BEGIN_def holds_def split: option.split prod.split)

lemma PQend_holds:
  assumes "PQend a cmd s = (r, s')" "holds P s" "holds P s \<Longrightarrow> holds P (snd (cmd s))"
  shows "holds P s'"
  using assms PQexec_holds [of a cmd s r s' P] by (auto simp: PQend_def holds_def split: if_splits)

lemma commit_holds: "PQend a COMMIT s = (r, s') \<Longrightarrow> holds P s \<Longrightarrow> holds P s'"
  by (erule PQend_holds) (auto simp: COMMIT_def holds_def split: option.split prod.split)

lemma rollback_holds: "holds P s \<Longrightarrow> holds P (snd (PQend a ROLLBACK s))"
  by (rule PQend_holds [of a ROLLBACK s "fst (PQend a ROLLBACK s)"]) (auto simp: ROLLBACK_def holds_def)

section \<open>Executions\<close>

text \<open>One call of the store, in the environment it finds; a step is a call, or the end of the
  process and the construction of a new store.\<close>

inductive pg_call :: "Crypto \<Rightarrow> PgEnv \<Rightarrow> PgAuth \<Rightarrow> PgAuth \<Rightarrow> bool" for cr env s where
  call_open: "pg_call cr env s (snd (databaseBootstrapOpen env s))"
| call_bootstrap: "pg_call cr env s (snd (databaseBootstrapAdmin 0 cr env name email password s))"
| call_register: "pg_call cr env s (snd (databaseRegisterAdmin cr env name email password s))"
| call_login: "pg_call cr env s (snd (databaseLogin cr env email password s))"
| call_identify: "pg_call cr env s (snd (databaseUserForToken cr env token s))"
| call_users: "pg_call cr env s (snd (databaseUsers env s))"
| call_create: "pg_call cr env s (snd (databaseCreateUser cr env name email password role s))"
| call_update: "pg_call cr env s (snd (databaseUpdateUser cr env i name email role password s))"
| call_delete: "pg_call cr env s (snd (databaseDeleteUser env i actor s))"
| call_import: "pg_call cr env s (snd (databaseImportUser cr env i name email password role s))"
| call_logout: "pg_call cr env s (snd (databaseLogout cr env token s))"

inductive pg_step :: "Crypto \<Rightarrow> PgAuth \<Rightarrow> PgAuth \<Rightarrow> bool" for cr s where
  step_call: "pg_call cr env s t \<Longrightarrow> pg_step cr s t"
| step_restart: "AuthStore_connect env (pg_base (disconnectDatabase s)) = Okay t \<Longrightarrow> pg_step cr s t"

definition pg_start :: "PgAuth \<Rightarrow> bool" where
  "pg_start s \<longleftrightarrow> (\<exists>env. AuthStore_connect env \<lparr>user_rows = [], session_rows = []\<rparr> = Okay s)"

lemma connect_new: "AuthStore_connect env b = Okay s \<Longrightarrow> s = \<lparr>pg_base = b, pg_txn = None, pg_handle = True, pg_alive = True\<rparr>"
  by (auto simp: AuthStore_connect_def ensureDatabaseConnected_def connectDatabase_def Let_def
      split: if_splits)

section \<open>The contract\<close>

locale growing_invariant =
  fixes P :: "IdentityBase \<Rightarrow> bool"
  assumes insert_user: "c_str (ur_id r) = ur_id r \<Longrightarrow> keeps P (q_insert_user r)"
    and insert_session: "keeps P (q_insert_session sid uid h)"
    and revoke: "P b \<Longrightarrow> P (revoke p now b)"
begin

lemma insert_new: "keeps P (q_insert_user (new_row i email name role slt h))"
  by (rule insert_user) (simp add: new_row_def)

lemma revoke_token: "keeps P (q_revoke_token h)"
  using revoke by (auto simp: keeps_def q_revoke_token_def)

lemma bootstrapOpen_holds: "holds P s \<Longrightarrow> holds P (snd (databaseBootstrapOpen env s))"
  by (auto simp: databaseBootstrapOpen_def split: prod.split bool.split reply.split
      dest!: ensure_holds query_holds)

lemma bootstrapAdmin_holds:
  "databaseBootstrapAdmin k cr env name email password s = (r, s') \<Longrightarrow> holds P s \<Longrightarrow> holds P s'"
  using keeps_bootstrap [OF insert_new]
  by (auto simp: databaseBootstrapAdmin_def Let_def dest!: ensure_holds [of _ _ _ _ P] query_holds [of _ _ _ _ _ _ P]
      split: if_splits prod.splits bool.splits sum.splits reply.splits list.splits)

lemma register_session_holds:
  "holds P s \<Longrightarrow> holds P (snd (register_session cr env created s))"
  using insert_session
  by (auto simp: register_session_def intro!: rollback_holds
      dest!: commit_holds [of _ _ _ _ P] query_holds [of _ _ _ _ _ _ P]
      split: prod.split sum.split reply.split)

lemma registerAdmin_holds:
  "holds P s \<Longrightarrow> holds P (snd (databaseRegisterAdmin cr env name email password s))"
  by (auto simp: databaseRegisterAdmin_def intro!: rollback_holds register_session_holds
      dest!: ensure_holds [of _ _ _ _ P] begin_holds [of _ _ _ _ _ P] bootstrapAdmin_holds
      split: prod.split bool.split reply.split outcome.split)

lemma login_holds: "holds P s \<Longrightarrow> holds P (snd (databaseLogin cr env email password s))"
  using insert_session
  by (auto simp: databaseLogin_def Let_def
      dest!: ensure_holds [of _ _ _ _ P] query_holds [of _ _ _ _ _ _ P]
      split: prod.split bool.split sum.split reply.split option.split)

lemma userForToken_holds: "holds P s \<Longrightarrow> holds P (snd (databaseUserForToken cr env token s))"
  by (auto simp: databaseUserForToken_def split: prod.split bool.split reply.split list.split
      dest!: ensure_holds query_holds)

lemma users_holds: "holds P s \<Longrightarrow> holds P (snd (databaseUsers env s))"
  by (auto simp: databaseUsers_def split: prod.split bool.split reply.split
      dest!: ensure_holds query_holds)

lemma insert_tail_holds:
  "insert_tail cr env i email name role password s = (r, s') \<Longrightarrow> holds P s \<Longrightarrow> holds P s'"
  using insert_new
  by (auto simp: insert_tail_def dest!: query_holds [of _ _ _ _ _ _ P]
      split: prod.splits sum.splits reply.splits list.splits)

lemma createUser_holds: "holds P s \<Longrightarrow> holds P (snd (databaseCreateUser cr env name email password role s))"
  by (auto simp: databaseCreateUser_def Let_def dest!: ensure_holds [of _ _ _ _ P] insert_tail_holds
      split: prod.split bool.split sum.split option.split)

lemma importUser_holds: "holds P s \<Longrightarrow> holds P (snd (databaseImportUser cr env i name email password role s))"
  by (auto simp: databaseImportUser_def Let_def dest!: ensure_holds [of _ _ _ _ P] insert_tail_holds
      split: prod.split bool.split sum.split option.split)

lemma sole_admin_holds: "sole_admin k env s = (r, s') \<Longrightarrow> holds P s \<Longrightarrow> holds P s'"
  by (auto simp: sole_admin_def dest!: query_holds split: prod.splits reply.splits)

lemma logout_holds: "holds P s \<Longrightarrow> holds P (snd (databaseLogout cr env token s))"
  using revoke_token
  by (auto simp: databaseLogout_def dest!: ensure_holds [of _ _ _ _ P] split: prod.split bool.split
      intro: query_holds [OF surjective_pairing])

end

locale statement_invariant = growing_invariant +
  assumes update_user: "(\<And>r. ur_id (f r) = ur_id r) \<Longrightarrow> keeps P (q_update_user i f)"
begin

lemma revoking: "(\<And>r. ur_id (f r) = ur_id r) \<Longrightarrow> keeps P (q_revoking i (q_update_user i f))"
  using update_user [of f i] revoke
  by (fastforce simp: keeps_def q_revoking_def split: sum.splits prod.splits)

lemma update_send_holds: "keeps P q \<Longrightarrow> holds P s \<Longrightarrow> holds P (snd (update_send env q s))"
  by (auto simp: update_send_def dest!: query_holds [of _ _ _ _ _ _ P]
      split: prod.split reply.split list.split)

lemma update_tail_holds:
  "holds P s \<Longrightarrow> holds P (snd (update_tail cr env i name email role password s))"
  by (auto simp: update_tail_def profile_of_def password_of_def
      intro!: update_send_holds update_user revoking split: sum.split)

lemma updateUser_holds:
  "holds P s \<Longrightarrow> holds P (snd (databaseUpdateUser cr env i name email role password s))"
  by (auto simp: databaseUpdateUser_def Let_def intro!: update_tail_holds
      dest!: ensure_holds [of _ _ _ _ P] query_holds [of _ _ _ _ _ _ P] sole_admin_holds
      split: prod.split bool.split reply.split list.split)

lemma disable_tail_holds: "holds P s \<Longrightarrow> holds P (snd (disable_tail env i s))"
  by (auto simp: disable_tail_def dest!: query_holds [OF _ _ revoking]
      split: prod.split reply.split list.split)

lemma deleteUser_holds: "holds P s \<Longrightarrow> holds P (snd (databaseDeleteUser env i actor s))"
  by (auto simp: databaseDeleteUser_def intro!: disable_tail_holds
      dest!: ensure_holds [of _ _ _ _ P] query_holds [of _ _ _ _ _ _ P] sole_admin_holds
      split: prod.split bool.split reply.split list.split)

lemma call_holds: "pg_call cr env s t \<Longrightarrow> holds P s \<Longrightarrow> holds P t"
  by (induction rule: pg_call.induct)
     (auto intro: bootstrapOpen_holds bootstrapAdmin_holds [OF surjective_pairing] registerAdmin_holds
        login_holds userForToken_holds users_holds createUser_holds updateUser_holds deleteUser_holds
        importUser_holds logout_holds)

lemma step_holds: "holds P s \<Longrightarrow> pg_step cr s t \<Longrightarrow> holds P t"
  by (erule pg_step.cases)
     (auto dest: call_holds connect_new simp: holds_def disconnectDatabase_def split: if_splits)

end

section \<open>Consistency of the tables\<close>

definition base_wf :: "IdentityBase \<Rightarrow> bool" where
  "base_wf b \<longleftrightarrow> distinct (map ur_id (user_rows b)) \<and> distinct (map ur_email (user_rows b)) \<and>
     list_all (\<lambda>r. validRole (ur_role r) \<and> c_str (ur_id r) = ur_id r) (user_rows b) \<and>
     distinct (map sr_id (session_rows b)) \<and> distinct (map sr_hash (session_rows b)) \<and>
     sr_user ` set (session_rows b) \<subseteq> ur_id ` set (user_rows b)"

lemma insert_user_wf: "c_str (ur_id r) = ur_id r \<Longrightarrow> keeps base_wf (q_insert_user r)"
  by (rule keepsI) (auto simp: q_insert_user_def base_wf_def list_ex_iff split: if_splits)

lemma insert_session_wf: "keeps base_wf (q_insert_session sid uid h)"
  by (rule keepsI)
     (auto simp: q_insert_session_def base_wf_def list_ex_iff image_subset_iff image_iff split: if_splits; blast)

lemma updated_ids:
  "(\<And>r. ur_id (f r) = ur_id r) \<Longrightarrow>
     map ur_id (map (\<lambda>r. if p r then (f r)\<lparr>ur_updated := now\<rparr> else r) rows) = map ur_id rows"
  by simp

lemma update_user_wf:
  assumes f: "\<And>r. ur_id (f r) = ur_id r"
  shows "keeps base_wf (q_update_user i f)"
proof (rule keepsI)
  fix now b x b'
  assume wf: "base_wf b" and q: "q_update_user i f now b = Okay (x, b')"
  have "map ur_id (user_rows b') = map ur_id (user_rows b)" "session_rows b' = session_rows b"
    "distinct (map ur_email (user_rows b'))"
    "list_all (\<lambda>r. validRole (ur_role r) \<and> c_str (ur_id r) = ur_id r) (user_rows b')"
    using q f wf by (auto simp: q_update_user_def Let_def list_all_iff base_wf_def split: if_splits)
  moreover have "ur_id ` set (user_rows b') = ur_id ` set (user_rows b)"
    using calculation(1) by (metis list.set_map)
  ultimately show "base_wf b'" using wf by (simp add: base_wf_def)
qed

lemma revoked_columns:
  "map sr_id (session_rows (revoke p now b)) = map sr_id (session_rows b)"
  "map sr_hash (session_rows (revoke p now b)) = map sr_hash (session_rows b)"
  "map sr_user (session_rows (revoke p now b)) = map sr_user (session_rows b)"
  "user_rows (revoke p now b) = user_rows b"
  by (auto simp: revoke_def)

lemma revoke_wf: "base_wf b \<Longrightarrow> base_wf (revoke p now b)"
  unfolding base_wf_def revoked_columns set_map [symmetric] by simp

interpretation tables: statement_invariant base_wf
  by unfold_locales (use insert_user_wf insert_session_wf update_user_wf revoke_wf in auto)

interpretation identities: invariant_system pg_start "pg_step cr" "holds base_wf" for cr
proof unfold_locales
  show "pg_start s \<Longrightarrow> holds base_wf s" for s
    by (auto simp: pg_start_def holds_def base_wf_def dest: connect_new)
qed (rule tables.step_holds)

section \<open>Permanence of a revocation\<close>

definition revoked_in :: "string \<Rightarrow> IdentityBase \<Rightarrow> bool" where
  "revoked_in h b \<longleftrightarrow> base_wf b \<and> (\<exists>s \<in> set (session_rows b). sr_hash s = h \<and> sr_revoked s \<noteq> None)"

lemma update_sessions: "q_update_user i f now b = Okay (x, b') \<Longrightarrow> session_rows b' = session_rows b"
  by (auto simp: q_update_user_def Let_def split: if_splits)

lemma revoke_revoked: "revoked_in h b \<Longrightarrow> revoked_in h (revoke p now b)"
  unfolding revoked_in_def using revoke_wf by (fastforce simp: revoke_def)

interpretation revoked: statement_invariant "revoked_in h" for h
proof unfold_locales
  show "keeps (revoked_in h) (q_insert_user r)" if "c_str (ur_id r) = ur_id r" for r
    using insert_user_wf [OF that] by (fastforce simp: keeps_def revoked_in_def q_insert_user_def split: if_splits)
  show "keeps (revoked_in h) (q_insert_session sid uid g)" for sid uid g
    using insert_session_wf [of sid uid g]
    by (fastforce simp: keeps_def revoked_in_def q_insert_session_def split: if_splits)
  show "keeps (revoked_in h) (q_update_user i f)" if "\<And>r. ur_id (f r) = ur_id r" for i f
    using update_user_wf [of f i] that update_sessions [of i f]
    unfolding keeps_def revoked_in_def by (metis (no_types, lifting))
qed (rule revoke_revoked)

section \<open>What a statement reads and writes\<close>

text \<open>The base that a statement of this connection works on, and the time it takes for \<open>now()\<close>.\<close>

definition view :: "PgAuth \<Rightarrow> IdentityBase option" where
  "view s = (case pg_txn s of None \<Rightarrow> Some (pg_base s) | Some (_, v) \<Rightarrow> v)"

definition clock :: "int \<Rightarrow> PgAuth \<Rightarrow> int" where
  "clock now s = (case pg_txn s of None \<Rightarrow> now | Some (t, _) \<Rightarrow> t)"

definition put :: "IdentityBase \<Rightarrow> PgAuth \<Rightarrow> PgAuth" where
  "put b s = (case pg_txn s of None \<Rightarrow> s\<lparr>pg_base := b\<rparr> | Some (t, _) \<Rightarrow> s\<lparr>pg_txn := Some (t, Some b)\<rparr>)"

lemma query_rows:
  "PQexec a (run_query now q) s = (Rows r, s') \<longleftrightarrow>
     pg_alive s \<and> a = Answers \<and> (\<exists>v b'. view s = Some v \<and> q (clock now s) v = Okay (r, b') \<and> s' = put b' s)"
  by (cases a) (auto simp: PQexec_def run_query_def view_def clock_def put_def
      split: option.splits sum.splits prod.splits)

lemma put_view [simp]: "view s = Some v \<Longrightarrow> put v s = s"
  by (auto simp: view_def put_def split: option.splits)

lemma view_put [simp]: "view (put b s) = Some b" "clock now (put b s) = clock now s"
  "pg_alive (put b s) = pg_alive s" "pg_handle (put b s) = pg_handle s"
  by (auto simp: view_def put_def clock_def split: option.splits)

lemma holds_view: "holds P s \<Longrightarrow> view s = Some v \<Longrightarrow> P v"
  by (auto simp: holds_def view_def split: option.splits)

lemma ensure_alive: "ensureDatabaseConnected env s = (True, s') \<Longrightarrow> pg_alive s' \<and> pg_handle s' \<and> pg_base s' = pg_base s"
  by (auto simp: ensureDatabaseConnected_def connectDatabase_def Let_def split: if_splits)

lemma ensure_txn: "ensureDatabaseConnected env s = (c, s') \<Longrightarrow> pg_txn s = None \<Longrightarrow> pg_txn s' = None"
  by (auto simp: ensureDatabaseConnected_def connectDatabase_def Let_def split: if_splits)

lemma ensure_ready [simp]: "pg_handle s \<Longrightarrow> pg_alive s \<Longrightarrow> ensureDatabaseConnected env s = (True, s)"
  by (simp add: ensureDatabaseConnected_def connectDatabase_def)

lemma query_fails_frame:
  "PQexec a (run_query now q) s = (SqlError e, s') \<Longrightarrow> pg_txn s = None \<Longrightarrow> pg_alive s' \<Longrightarrow> s' = s"
  by (auto simp: PQexec_def run_query_def lose_def split: if_splits server_answer.splits sum.splits prod.splits)

end
