(* ===== verification/Auth_Database_Properties.thy ===== *)
theory Auth_Database_Properties
  imports Auth_Database_Invariants Auth_Properties
begin

text \<open>
  What the PostgreSQL backend promises: the life of a session from its login, the permanence of
  a revocation, the atomicity of the first registration and the survival of the last
  administrator, with the two situations in which the code gives the last two up.
\<close>

section \<open>Sessions\<close>

lemma filter_unique:
  "distinct (map f xs) \<Longrightarrow> x \<in> set xs \<Longrightarrow> filter (\<lambda>y. f y = f x) xs = [x]"
  by (induction xs) (auto simp: filter_empty_conv image_iff)

lemma filter_unique_conj:
  assumes "distinct (map f xs)" "x \<in> set xs"
  shows "filter (\<lambda>y. f y = f x \<and> p y) xs = (if p x then [x] else [])"
proof -
  have "filter (\<lambda>y. f y = f x \<and> p y) xs = filter p (filter (\<lambda>y. f y = f x) xs)"
    by (simp add: conj_commute)
  also have "\<dots> = filter p [x]" using filter_unique [OF assms] by simp
  finally show ?thesis by simp
qed

definition session_live :: "int \<Rightarrow> SessionRow \<Rightarrow> bool" where
  "session_live now r \<longleftrightarrow> sr_revoked r = None \<and> now < sr_expires r"

lemma session_user_rows:
  assumes "base_wf b" "r \<in> set (session_rows b)" "u \<in> set (user_rows b)" "ur_id u = sr_user r"
  shows "q_session_user env (sr_hash r) now b =
    Okay (if session_live now r \<and> ur_active u then [row_user u] else [], b)"
proof -
  have "filter (\<lambda>s. sr_hash s = sr_hash r \<and> sr_revoked s = None \<and> now < sr_expires s) (session_rows b) =
      (if session_live now r then [r] else [])"
    using filter_unique_conj [of sr_hash "session_rows b" r] assms(1,2)
    by (simp add: base_wf_def session_live_def)
  moreover have "filter (\<lambda>q. ur_id q = sr_user r \<and> ur_active q) (user_rows b) = (if ur_active u then [u] else [])"
    using filter_unique_conj [of ur_id "user_rows b" u ur_active] assms(1,3,4) by (simp add: base_wf_def)
  ultimately show ?thesis by (simp add: q_session_user_def limit1_def)
qed

lemma identify_row:
  assumes "base_wf v" "view s = Some v" "pg_handle s" "pg_alive s" "answers env 0 = Answers"
    "r \<in> set (session_rows v)" "u \<in> set (user_rows v)" "ur_id u = sr_user r" "sr_hash r = sha256 cr token"
  shows "databaseUserForToken cr env token s =
    (if session_live (clock (env_now env) s) r \<and> ur_active u then Done (row_user u) else Refused Rejected, s)"
proof -
  have "PQexec (answers env 0) (run_query (env_now env) (q_session_user env (sha256 cr token))) s =
      (Rows (if session_live (clock (env_now env) s) r \<and> ur_active u then [row_user u] else []), s)"
    unfolding query_rows using assms session_user_rows [OF assms(1,6,7,8), of env "clock (env_now env) s"] by auto
  then show ?thesis using assms(3,4) by (simp add: databaseUserForToken_def)
qed

text \<open>The account that \<open>q_credentials\<close> picks.\<close>

lemma limit1_in: "limit1 n xs = [x] \<Longrightarrow> x \<in> set xs"
  by (auto simp: limit1_def split: if_splits)

lemma credentials_row:
  "q_credentials env e now v = Okay ([row], b) \<Longrightarrow>
     b = v \<and> row \<in> set (user_rows v) \<and> ur_active row \<and> pg_lower env (ur_email row) = pg_lower env e"
  by (auto simp: q_credentials_def dest: limit1_in)

lemma login_done_chain:
  assumes "databaseLogin cr env email password s = (Done r, s')"
  obtains s1 row sid where "ensureDatabaseConnected env s = (True, s1)"
    "PQexec (answers env 0) (run_query (env_now env) (q_credentials env (c_str (normalizeEmail email)))) s1 =
      (Rows [row], s1)"
    "passwordHash cr password (getvalue (ur_salt row)) (row_iterations row) = Okay (getvalue (ur_hash row))"
    "PQexec (answers env 1) (run_query (env_now env)
      (q_insert_session sid (c_str (ur_id row)) (sha256 cr (ar_token r)))) s1 = (Rows (), s')"
    "ar_user r = row_user row" "randomHex (token_entropy env) = Okay (ar_token r)"
proof -
  have same: "s2 = s1" if "PQexec a (run_query now (q_credentials env e)) s1 = (Rows x, s2)" for a now e s1 s2 x
    using that by (auto simp: query_rows q_credentials_def)
  show thesis
    using assms that
    by (auto simp: databaseLogin_def Let_def dest: same
        split: prod.splits bool.splits sum.splits reply.splits option.splits list.splits if_splits)
qed

lemma login_done_rows:
  assumes "databaseLogin cr env email password s = (Done r, s')"
  obtains v row sid t where "pg_alive s'" "pg_handle s'" "t = clock (env_now env) s'"
    "view s' = Some (v\<lparr>session_rows := session_rows v @
      [\<lparr>sr_id = sid, sr_user = c_str (ur_id row), sr_hash = sha256 cr (ar_token r), sr_issued = t,
        sr_expires = t + sessionLifetime, sr_revoked = None\<rparr>]\<rparr>)"
    "row \<in> set (user_rows v)" "ur_active row" "ar_user r = row_user row"
proof -
  from login_done_chain [OF assms] obtain s1 row sid where e: "ensureDatabaseConnected env s = (True, s1)"
    and c: "PQexec (answers env 0) (run_query (env_now env) (q_credentials env (c_str (normalizeEmail email)))) s1 =
      (Rows [row], s1)"
    and i: "PQexec (answers env 1) (run_query (env_now env)
      (q_insert_session sid (c_str (ur_id row)) (sha256 cr (ar_token r)))) s1 = (Rows (), s')"
    and u: "ar_user r = row_user row" .
  from c obtain v where v: "view s1 = Some v" "row \<in> set (user_rows v)" "ur_active row"
    unfolding query_rows by (auto dest: credentials_row)
  from i v show thesis
    unfolding query_rows using that [of "clock (env_now env) s'" v sid row] u ensure_alive [OF e]
    by (auto simp: q_insert_session_def split: if_splits)
qed

section \<open>Endings of a session\<close>

text \<open>The calls that end the sessions of a user, or the session of a token: a logout that the
  server executed, the deletion of the account, a change of its password.\<close>

inductive ends_session :: "Crypto \<Rightarrow> SessionRow \<Rightarrow> PgAuth \<Rightarrow> PgAuth \<Rightarrow> bool" for cr r s where
  by_logout: "pg_handle s \<Longrightarrow> pg_alive s \<Longrightarrow> answers env 0 = Answers \<Longrightarrow> sha256 cr token = sr_hash r \<Longrightarrow>
    ends_session cr r s (snd (databaseLogout cr env token s))"
| by_delete: "databaseDeleteUser env i actor s = (Done (), s') \<Longrightarrow> c_str i = sr_user r \<Longrightarrow> ends_session cr r s s'"
| by_password: "databaseUpdateUser cr env i name email role password s = (Done u, s') \<Longrightarrow> password \<noteq> [] \<Longrightarrow>
    c_str i = sr_user r \<Longrightarrow> ends_session cr r s s'"

lemma revoke_hits:
  "base_wf b \<Longrightarrow> r \<in> set (session_rows b) \<Longrightarrow> p r \<Longrightarrow> revoked_in (sr_hash r) (revoke p now b)"
proof -
  assume b: "base_wf b" "r \<in> set (session_rows b)" "p r"
  let ?r = "if sr_revoked r = None then r\<lparr>sr_revoked := Some now\<rparr> else r"
  have "?r \<in> set (session_rows (revoke p now b))" using b(2,3) by (auto simp: revoke_def image_iff)
  moreover have "sr_hash ?r = sr_hash r" "sr_revoked ?r \<noteq> None" by auto
  ultimately show ?thesis using revoke_wf [OF b(1)] unfolding revoked_in_def by blast
qed

lemma put_holds: "pg_txn s = None \<Longrightarrow> P b \<Longrightarrow> holds P (put b s)"
  by (simp add: holds_def put_def)

lemma revoking_holds:
  assumes "PQexec a (run_query now (q_revoking i (q_update_user i f))) s = (Rows x, s')"
    and f: "\<And>r. ur_id (f r) = ur_id r"
    and s: "pg_txn s = None" "base_wf (pg_base s)" "r \<in> set (session_rows (pg_base s))" "sr_user r = i"
  shows "holds (revoked_in (sr_hash r)) s'"
proof -
  from assms(1) s(1) obtain y b where q: "q_update_user i f now (pg_base s) = Okay (y, b)"
    and s': "s' = put (revoke (\<lambda>s. sr_user s = i) now b) s"
    unfolding query_rows by (auto simp: view_def clock_def q_revoking_def split: sum.splits prod.splits)
  have "base_wf b" using update_user_wf [OF f] s(2) q unfolding keeps_def by blast
  moreover have "r \<in> set (session_rows b)" using update_sessions [OF q] s(3) by simp
  ultimately show ?thesis unfolding s' using s by (intro put_holds revoke_hits) auto
qed

text \<open>The statements that only read; a state that is still connected after one is the state before.\<close>

definition reads :: "'r query \<Rightarrow> bool" where
  "reads q \<longleftrightarrow> (\<forall>t v y b. q t v = Okay (y, b) \<longrightarrow> b = v)"

lemma reads_simps [simp]: "reads (q_role i)" "reads q_count_admins" "reads (q_email_taken env e i)"
  by (auto simp: reads_def q_role_def q_count_admins_def q_email_taken_def)

lemma reads_rows:
  assumes "PQexec a (run_query now q) s = (Rows x, s')" "reads q"
  shows "s' = s"
proof -
  from assms(1) obtain v b where "view s = Some v" "q (clock now s) v = Okay (x, b)" "s' = put b s"
    unfolding query_rows by blast
  moreover have "b = v" using assms(2) calculation(2) unfolding reads_def by blast
  ultimately show ?thesis by simp
qed

lemma reads_alive:
  assumes "PQexec a (run_query now q) s = (x, s')" "reads q" "pg_txn s = None" "pg_alive s'"
  shows "s' = s"
  using assms by (cases x) (auto dest: reads_rows query_fails_frame)

lemma reads_dead:
  "PQexec a (run_query now q) s = (x, s') \<Longrightarrow> \<not> pg_alive s \<Longrightarrow> \<not> pg_alive s'"
  by (auto simp: PQexec_def)

lemma sole_admin_alive:
  "sole_admin k env s = (x, s') \<Longrightarrow> pg_txn s = None \<Longrightarrow> pg_alive s' \<Longrightarrow> s' = s"
  by (auto simp: sole_admin_def dest: reads_alive split: prod.splits reply.splits)

lemma rows_alive: "PQexec a (run_query now q) s = (Rows x, s') \<Longrightarrow> pg_alive s"
  by (simp add: query_rows)

lemma disable_done:
  "disable_tail env i s = (Done (), s') \<Longrightarrow> \<exists>x. PQexec (answers env 2) (run_query (env_now env) (q_revoking (c_str i)
     (q_update_user (c_str i) (\<lambda>r. r\<lparr>ur_active := False\<rparr>)))) s = (Rows [x], s')"
  by (auto simp: disable_tail_def split: prod.splits reply.splits list.splits)

lemma delete_done:
  assumes "databaseDeleteUser env i actor s = (Done (), s')" "pg_txn s = None"
  obtains s1 role where "pg_base s1 = pg_base s" "pg_txn s1 = None" "disable_tail env i s1 = (Done (), s')"
    "PQexec (answers env 0) (run_query (env_now env) (q_role (c_str i))) s1 = (Rows [role], s1)"
    "role = ''admin'' \<longrightarrow> sole_admin 1 env s1 = (False, s1)" "i \<noteq> actor"
proof -
  obtain s1 s2 s3 role where e: "ensureDatabaseConnected env s = (True, s1)" and a: "i \<noteq> actor"
    and r: "PQexec (answers env 0) (run_query (env_now env) (q_role (c_str i))) s1 = (Rows [role], s2)"
    and c: "(if role = ''admin'' then sole_admin 1 env s2 else (False, s2)) = (False, s3)"
    and d: "disable_tail env i s3 = (Done (), s')"
    using assms(1)
    by (auto simp: databaseDeleteUser_def split: if_splits prod.splits bool.splits reply.splits list.splits)
  have 2: "s2 = s1" using reads_rows [OF r] by simp
  have t: "pg_txn s1 = None" by (rule ensure_txn [OF e assms(2)])
  have "pg_alive s3" using disable_done [OF d] by (auto dest: rows_alive)
  then have 3: "s3 = s1" using c t 2 by (auto dest: sole_admin_alive split: if_splits)
  show thesis
    using that [of s1 role] ensure_alive [OF e] t d r c a unfolding 2 3 by (auto split: if_splits)
qed

lemma update_send_done:
  "update_send env q s = (Done u, s') \<Longrightarrow> PQexec (answers env 3) (run_query (env_now env) q) s = (Rows [u], s')"
  by (auto simp: update_send_def split: prod.splits reply.splits list.splits)

lemma update_tail_done:
  assumes "update_tail cr env i name email role password s = (Done u, s')"
  obtains f where "\<And>r. ur_id (f r) = ur_id r" "\<And>r. ur_role (f r) = c_str role" "\<And>r. ur_active (f r) = ur_active r"
    "password = [] \<longrightarrow> PQexec (answers env 3) (run_query (env_now env) (q_update_user (c_str i) f)) s = (Rows [u], s')"
    "password \<noteq> [] \<longrightarrow> PQexec (answers env 3)
      (run_query (env_now env) (q_revoking (c_str i) (q_update_user (c_str i) f))) s = (Rows [u], s')"
proof (cases "password = []")
  case True
  with assms that [of "profile_of name email role"] show thesis
    by (auto simp: update_tail_def profile_of_def dest: update_send_done)
next
  case False
  then obtain slt h where "update_send env (q_revoking (c_str i) (q_update_user (c_str i)
      (password_of slt h \<circ> profile_of name email role))) s = (Done u, s')"
    using assms by (auto simp: update_tail_def split: sum.splits)
  with False that [of "password_of slt h \<circ> profile_of name email role"] show thesis
    by (auto simp: profile_of_def password_of_def dest!: update_send_done)
qed

lemma update_done:
  assumes "databaseUpdateUser cr env i name email role password s = (Done u, s')" "pg_txn s = None"
  obtains s1 current where "pg_base s1 = pg_base s" "pg_txn s1 = None"
    "update_tail cr env i (trim name) (normalizeEmail email) role password s1 = (Done u, s')"
    "PQexec (answers env 0) (run_query (env_now env) (q_role (c_str i))) s1 = (Rows [current], s1)"
    "current = ''admin'' \<and> role \<noteq> ''admin'' \<longrightarrow> sole_admin 2 env s1 = (False, s1)" "validRole role"
proof -
  obtain s1 s2 s3 s4 current d where e: "ensureDatabaseConnected env s = (True, s1)" and v: "validRole role"
    and r: "PQexec (answers env 0) (run_query (env_now env) (q_role (c_str i))) s1 = (Rows [current], s2)"
    and q: "PQexec (answers env 1) (run_query (env_now env)
      (q_email_taken env (c_str (normalizeEmail email)) (c_str i))) s2 = (d, s3)"
    and c: "(if current = ''admin'' \<and> role \<noteq> ''admin'' then sole_admin 2 env s3 else (False, s3)) = (False, s4)"
    and u: "update_tail cr env i (trim name) (normalizeEmail email) role password s4 = (Done u, s')"
    using assms(1)
    by (auto simp: databaseUpdateUser_def Let_def split: if_splits prod.splits bool.splits reply.splits list.splits)
  have 2: "s2 = s1" using reads_rows [OF r] by simp
  have t: "pg_txn s1 = None" by (rule ensure_txn [OF e assms(2)])
  have a4: "pg_alive s4" by (rule update_tail_done [OF u]) (cases "password = []", auto dest: rows_alive)
  have "pg_alive s3"
    using c a4 by (auto simp: sole_admin_def dest: reads_dead split: if_splits prod.splits reply.splits)
  then have 3: "s3 = s1" using reads_alive [OF q] t 2 by simp
  then have 4: "s4 = s1" using c t a4 by (auto dest: sole_admin_alive split: if_splits)
  show thesis
    using that [of s1 current] ensure_alive [OF e] t u r c v unfolding 2 3 4 by (auto split: if_splits)
qed

lemma ends_session_holds:
  assumes "ends_session cr r s s'" "base_wf (pg_base s)" "pg_txn s = None" "r \<in> set (session_rows (pg_base s))"
  shows "holds (revoked_in (sr_hash r)) s'"
  using assms
proof (induction rule: ends_session.induct)
  case (by_logout env token)
  then have "PQexec (answers env 0) (run_query (env_now env) (q_revoke_token (sha256 cr token))) s =
      (Rows (), put (revoke (\<lambda>q. sr_hash q = sr_hash r) (env_now env) (pg_base s)) s)"
    by (auto simp: query_rows view_def clock_def q_revoke_token_def)
  with by_logout show ?case
    by (auto simp: databaseLogout_def intro!: put_holds revoke_hits)
next
  case (by_delete env i actor s')
  from delete_done [OF by_delete(1,4)] obtain s1 where s1: "pg_base s1 = pg_base s" "pg_txn s1 = None"
    and d: "disable_tail env i s1 = (Done (), s')" .
  from disable_done [OF d] show ?case
    using by_delete s1 by (auto elim!: revoking_holds)
next
  case (by_password env i name email role password u s')
  from update_done [OF by_password(1,5)] obtain s1 where s1: "pg_base s1 = pg_base s" "pg_txn s1 = None"
    and d: "update_tail cr env i (trim name) (normalizeEmail email) role password s1 = (Done u, s')" .
  obtain f where "\<And>r. ur_id (f r) = ur_id r"
    "password \<noteq> [] \<longrightarrow> PQexec (answers env 3)
      (run_query (env_now env) (q_revoking (c_str i) (q_update_user (c_str i) f))) s1 = (Rows [u], s')"
    by (rule update_tail_done [OF d]) blast
  with by_password s1 show ?case by (auto elim!: revoking_holds)
qed

lemma revoked_not_identified:
  assumes "holds (revoked_in (sha256 cr token)) s"
  shows "fst (databaseUserForToken cr env token s) \<noteq> Done u"
proof
  assume "fst (databaseUserForToken cr env token s) = Done u"
  then obtain s1 s2 where e: "ensureDatabaseConnected env s = (True, s1)"
    and q: "PQexec (answers env 0) (run_query (env_now env) (q_session_user env (sha256 cr token))) s1 = (Rows [u], s2)"
    by (auto simp: databaseUserForToken_def split: prod.splits bool.splits reply.splits list.splits)
  from q obtain v where v: "view s1 = Some v" "q_session_user env (sha256 cr token) (clock (env_now env) s1) v = Okay ([u], v)"
    unfolding query_rows by (auto simp: q_session_user_def)
  have w: "revoked_in (sha256 cr token) v" using holds_view [OF ensure_holds [OF e assms] v(1)] .
  then obtain r where r: "r \<in> set (session_rows v)" "sr_hash r = sha256 cr token" "sr_revoked r \<noteq> None" "base_wf v"
    by (auto simp: revoked_in_def)
  obtain a where "a \<in> set (user_rows v)" "ur_id a = sr_user r"
    using r by (auto simp: base_wf_def image_subset_iff image_iff)
  from session_user_rows [OF r(4,1) this, of env "clock (env_now env) s1"] v(2) r
  show False by (simp add: session_live_def)
qed

section \<open>A sample installation\<close>

definition pg_env :: "int \<Rightarrow> PgEnv" where
  "pg_env t = \<lparr>env_now = t, uuid_entropy = Some (replicate 16 (CHR ''u'')),
     salt_entropy = Some (replicate 16 (CHR ''s'')), token_entropy = Some (replicate 32 (CHR ''t'')),
     users_writable = True, sessions_writable = True, session_entropy = Some (replicate 16 (CHR ''v'')),
     fresh_link = True, reset_link = True, answers = (\<lambda>_. Answers), pick = 0, pg_lower = lowercase,
     pg_le = (\<lambda>a c. length a \<le> length c)\<rparr>"

definition pg_empty :: PgAuth where
  "pg_empty = \<lparr>pg_base = \<lparr>user_rows = [], session_rows = []\<rparr>, pg_txn = None, pg_handle = True, pg_alive = True\<rparr>"

definition pg_admin :: PgAuth where
  "pg_admin = snd (databaseBootstrapAdmin 0 sample_crypto (pg_env 0) ''Ana'' '' Ana@Sister.org '' sample_password pg_empty)"

definition pg_login :: "AuthResult outcome \<times> PgAuth" where
  "pg_login = databaseLogin sample_crypto (pg_env 5) ''ANA@sister.org'' sample_password pg_admin"

lemma pg_empty_reach: "reach pg_start (pg_step cr) pg_empty"
proof (rule reach_init)
  have "AuthStore_connect (pg_env 0) \<lparr>user_rows = [], session_rows = []\<rparr> = Okay pg_empty"
    by (simp add: AuthStore_connect_def connectDatabase_def ensureDatabaseConnected_def pg_env_def pg_empty_def)
  then show "pg_start pg_empty" unfolding pg_start_def by blast
qed

lemma pg_admin_reach: "reach pg_start (pg_step sample_crypto) pg_admin"
  unfolding pg_admin_def by (rule reach_step [OF pg_empty_reach pg_step.step_call [OF pg_call.call_bootstrap]])

lemma pg_admin_base: "pg_txn pg_admin = None" "active_admins (pg_base pg_admin) = 1"
  by code_simp+

lemma pg_login_done: "(case fst pg_login of Done _ \<Rightarrow> True | _ \<Rightarrow> False)" "pg_txn (snd pg_login) = None"
  "length (session_rows (pg_base (snd pg_login))) = 1" "pg_handle (snd pg_login)" "pg_alive (snd pg_login)"
  by code_simp+

lemma pg_login_cases: obtains res s' where "pg_login = (Done res, s')"
proof -
  obtain res where "fst pg_login = Done res" using pg_login_done(1) by (auto split: outcome.splits)
  then show thesis using that [of res "snd pg_login"] by (metis prod.collapse)
qed

lemma pg_login_reach: "reach pg_start (pg_step sample_crypto) (snd pg_login)"
  unfolding pg_login_def by (rule reach_step [OF pg_admin_reach pg_step.step_call [OF pg_call.call_login]])

section \<open>Properties\<close>






definition pg_token :: string where
  "pg_token = hexEncode (replicate 32 (CHR ''t''))"

lemma pg_token_session: "sr_hash (hd (session_rows (pg_base (snd pg_login)))) = sha256 sample_crypto pg_token"
  by code_simp

lemma pg_token_logout:
  "ends_session sample_crypto (hd (session_rows (pg_base (snd pg_login)))) (snd pg_login)
     (snd (databaseLogout sample_crypto (pg_env 7) pg_token (snd pg_login)))"
  by (rule by_logout) (simp_all add: pg_login_done pg_token_session pg_env_def)


section \<open>The last administrator\<close>

lemma show_nat_one: "show_nat n = ''1'' \<longleftrightarrow> n = 1"
proof -
  have "show_nat 1 = ''1''" by code_simp
  then show ?thesis by (metis decimal_show_nat)
qed

lemma count_map_at:
  assumes "distinct (map g xs)"
  shows "length (filter p xs) \<le>
    length (filter p (map (\<lambda>x. if g x = i \<and> q x then f x else x) xs)) +
      (if \<exists>x \<in> set xs. g x = i \<and> q x \<and> p x \<and> \<not> p (f x) then 1 else 0)"
  using assms
proof (induction xs)
  case (Cons x xs)
  show ?case
  proof (cases "g x = i \<and> q x")
    case True
    then have "map (\<lambda>x. if g x = i \<and> q x then f x else x) xs = xs"
      using Cons.prems by (intro map_idI) (auto simp: image_iff)
    with True show ?thesis by auto
  qed (use Cons in \<open>auto split: if_splits\<close>)
qed simp

lemma update_admins:
  assumes "base_wf b" "q_update_user i f now b = Okay (y, b')"
    and "\<And>r. r \<in> set (user_rows b) \<Longrightarrow> ur_id r = i \<Longrightarrow> ur_active r \<Longrightarrow> ur_role r = ''admin'' \<Longrightarrow>
      ur_active (f r) \<and> ur_role (f r) = ''admin'' \<or> active_admins b \<noteq> 1"
    and "0 < active_admins b"
  shows "0 < active_admins b'"
proof -
  let ?p = "\<lambda>r. ur_active r \<and> ur_role r = ''admin''" and ?f = "\<lambda>r. (f r)\<lparr>ur_updated := now\<rparr>"
  have b': "user_rows b' = map (\<lambda>r. if ur_id r = i \<and> ur_active r then ?f r else r) (user_rows b)"
    using assms(2) by (auto simp: q_update_user_def Let_def split: if_splits)
  have "active_admins b \<le> active_admins b' +
      (if \<exists>r \<in> set (user_rows b). ur_id r = i \<and> ur_active r \<and> ?p r \<and> \<not> ?p (?f r) then 1 else 0)"
    using count_map_at [of ur_id "user_rows b" ?p i ur_active ?f] assms(1)
    unfolding active_admins_def b' by (simp add: base_wf_def)
  moreover have "active_admins b \<noteq> 1"
    if "\<exists>r \<in> set (user_rows b). ur_id r = i \<and> ur_active r \<and> ?p r \<and> \<not> ?p (?f r)"
    using that assms(3) by auto
  ultimately show ?thesis using assms(4) by (auto split: if_splits)
qed

text \<open>A call whose statements do not fail outright (they may be lost, or their replies) keeps an
  administrator.\<close>

lemma count_unlost:
  assumes "sole_admin k env s = (False, s')" "answers env k \<noteq> Fails" "pg_txn s = None"
  shows "\<not> pg_alive s' \<and> pg_base s' = pg_base s \<or> s' = s \<and> active_admins (pg_base s) \<noteq> 1"
  using assms
  by (auto simp: sole_admin_def PQexec_def run_query_def lose_def q_count_admins_def show_nat_one
      split: prod.splits reply.splits if_splits server_answer.splits)

lemma last_statement:
  "pg_txn s = None \<Longrightarrow> 0 < active_admins (pg_base s) \<Longrightarrow>
     (\<And>y b. pg_alive s \<Longrightarrow> q now (pg_base s) = Okay (y, b) \<Longrightarrow> 0 < active_admins b) \<Longrightarrow>
     0 < active_admins (pg_base (snd (PQexec a (run_query now q) s)))"
  by (auto simp: PQexec_def run_query_def lose_def split: server_answer.split sum.split prod.split)

lemma disable_base:
  "snd (disable_tail env i s) = snd (PQexec (answers env 2) (run_query (env_now env) (q_revoking (c_str i)
     (q_update_user (c_str i) (\<lambda>r. r\<lparr>ur_active := False\<rparr>)))) s)"
  by (auto simp: disable_tail_def split: prod.split reply.split list.split)

lemma update_send_base: "snd (update_send env q s) = snd (PQexec (answers env 3) (run_query (env_now env) q) s)"
  by (auto simp: update_send_def split: prod.split reply.split list.split)

lemma active_admins_revoke [simp]: "active_admins (revoke p now b) = active_admins b"
  by (simp add: active_admins_def revoke_def)

lemma revoking_admins:
  assumes "q_revoking i (q_update_user i f) now b = Okay (y, b')"
  obtains b1 where "q_update_user i f now b = Okay (y, b1)" "active_admins b' = active_admins b1"
  using assms by (auto simp: q_revoking_def split: sum.splits prod.splits)

lemma role_rows:
  assumes "PQexec a (run_query now (q_role i)) s = (Rows [role], s')" "pg_txn s = None"
    "r \<in> set (user_rows (pg_base s))" "ur_id r = i" "ur_active r"
  shows "ur_role r = role"
proof -
  have "map ur_role (filter (\<lambda>r. ur_id r = i \<and> ur_active r) (user_rows (pg_base s))) = [role]"
    using assms(1,2) by (auto simp: query_rows view_def q_role_def)
  moreover have "ur_role r \<in> set (map ur_role (filter (\<lambda>r. ur_id r = i \<and> ur_active r) (user_rows (pg_base s))))"
    using assms(3-5) by auto
  ultimately show ?thesis by simp
qed

lemma disable_admins:
  assumes "base_wf (pg_base s)" "pg_txn s = None" "0 < active_admins (pg_base s)"
    and "\<And>r. pg_alive s \<Longrightarrow> r \<in> set (user_rows (pg_base s)) \<Longrightarrow> ur_id r = c_str i \<Longrightarrow> ur_active r \<Longrightarrow>
      ur_role r = ''admin'' \<Longrightarrow> active_admins (pg_base s) \<noteq> 1"
  shows "0 < active_admins (pg_base (snd (disable_tail env i s)))"
  unfolding disable_base
proof (rule last_statement [OF assms(2,3)])
  fix y b
  assume alive: "pg_alive s"
  assume "q_revoking (c_str i) (q_update_user (c_str i) (\<lambda>r. r\<lparr>ur_active := False\<rparr>)) (env_now env) (pg_base s) = Okay (y, b)"
  then obtain b1 where "q_update_user (c_str i) (\<lambda>r. r\<lparr>ur_active := False\<rparr>) (env_now env) (pg_base s) = Okay (y, b1)"
    "active_admins b = active_admins b1" by (rule revoking_admins)
  with update_admins [OF assms(1) this(1) _ assms(3)] assms(4) [OF alive] show "0 < active_admins b" by auto
qed

lemma update_tail_admins:
  assumes "base_wf (pg_base s)" "pg_txn s = None" "0 < active_admins (pg_base s)"
    and "\<And>r. pg_alive s \<Longrightarrow> r \<in> set (user_rows (pg_base s)) \<Longrightarrow> ur_id r = c_str i \<Longrightarrow> ur_active r \<Longrightarrow>
      ur_role r = ''admin'' \<Longrightarrow> c_str role = ''admin'' \<or> active_admins (pg_base s) \<noteq> 1"
  shows "0 < active_admins (pg_base (snd (update_tail cr env i name email role password s)))"
proof -
  have upd: "0 < active_admins b"
    if "pg_alive s" "q_update_user (c_str i) f (env_now env) (pg_base s) = Okay (y, b)"
      "\<And>r. ur_role (f r) = c_str role" "\<And>r. ur_active (f r) = ur_active r" for f y b
    using update_admins [OF assms(1) that(2) _ assms(3)] assms(4) [OF that(1)] that(3,4) by auto
  have plain: "0 < active_admins (pg_base (snd (update_send env (q_update_user (c_str i) f) s)))"
    if "\<And>r. ur_role (f r) = c_str role" "\<And>r. ur_active (f r) = ur_active r" for f
    unfolding update_send_base using upd that by (intro last_statement [OF assms(2,3)]) blast
  have revoking: "0 < active_admins (pg_base (snd (update_send env (q_revoking (c_str i) (q_update_user (c_str i) f)) s)))"
    if "\<And>r. ur_role (f r) = c_str role" "\<And>r. ur_active (f r) = ur_active r" for f
    unfolding update_send_base
    using upd that by (intro last_statement [OF assms(2,3)]) (metis revoking_admins)
  show ?thesis
    using assms(3) by (auto simp: update_tail_def profile_of_def password_of_def intro!: plain revoking split: sum.split)
qed

definition some_admin :: "IdentityBase \<Rightarrow> bool" where
  "some_admin b \<longleftrightarrow> 0 < active_admins b"

interpretation admins: growing_invariant some_admin
  by unfold_locales
     (auto simp: some_admin_def keeps_def active_admins_def q_insert_user_def q_insert_session_def revoke_def
       split: if_splits)

lemma query_base:
  "PQexec a (run_query now q) s = (x, s') \<Longrightarrow> reads q \<Longrightarrow> pg_txn s = None \<Longrightarrow>
     pg_base s' = pg_base s \<and> pg_txn s' = None"
  by (auto simp: PQexec_def run_query_def lose_def reads_def
      split: if_splits server_answer.splits sum.splits prod.splits)

lemma delete_admins:
  assumes "base_wf (pg_base s)" "pg_txn s = None" "0 < active_admins (pg_base s)" "\<And>k. answers env k \<noteq> Fails"
  shows "0 < active_admins (pg_base (snd (databaseDeleteUser env i actor s)))"
proof -
  obtain c s1 where e: "ensureDatabaseConnected env s = (c, s1)" by fastforce
  then have s1: "pg_base s1 = pg_base s" "pg_txn s1 = None"
    using assms(2) ensure_txn [OF e]
    by (auto simp: ensureDatabaseConnected_def connectDatabase_def Let_def split: if_splits)
  obtain x s2 where r: "PQexec (answers env 0) (run_query (env_now env) (q_role (c_str i))) s1 = (x, s2)" by fastforce
  have s2: "pg_base s2 = pg_base s" "pg_txn s2 = None" using query_base [OF r] s1 by auto
  have last: "0 < active_admins (pg_base (snd (disable_tail env i s3)))"
    if x: "x = Rows [role]" and g: "(if role = ''admin'' then sole_admin 1 env s2 else (False, s2)) = (False, s3)" for role s3
  proof -
    have s3: "\<not> pg_alive s3 \<and> pg_base s3 = pg_base s2 \<or> s3 = s2 \<and> (role = ''admin'' \<longrightarrow> active_admins (pg_base s2) \<noteq> 1)"
      using g count_unlost [of 1 env s2 s3] assms(4) s2 by (auto split: if_splits)
    then have "pg_base s3 = pg_base s" "pg_txn s3 = None"
      using s2 g by (auto simp: sole_admin_def dest!: query_base split: if_splits prod.splits reply.splits)
    moreover have "ur_role q = role" if "q \<in> set (user_rows (pg_base s))" "ur_id q = c_str i" "ur_active q" for q
      using role_rows [OF r [unfolded x] s1(2)] that s1(1) by simp
    ultimately show ?thesis using assms(1,3) s2 s3 by (intro disable_admins) auto
  qed
  show ?thesis
    using assms(3) e s1 s2 r last
    by (auto simp: databaseDeleteUser_def sole_admin_def dest!: query_base
        split: bool.split prod.split reply.split list.split)
qed

lemma sole_admin_base:
  "sole_admin k env s = (x, s') \<Longrightarrow> pg_txn s = None \<Longrightarrow> pg_base s' = pg_base s \<and> pg_txn s' = None"
  by (auto simp: sole_admin_def dest!: query_base split: prod.splits reply.splits)

lemma validRole_c_str: "validRole role \<Longrightarrow> c_str role = role"
  by (auto simp: validRole_def c_str_def)

lemma update_admins_kept:
  assumes "base_wf (pg_base s)" "pg_txn s = None" "0 < active_admins (pg_base s)" "\<And>k. answers env k \<noteq> Fails"
  shows "0 < active_admins (pg_base (snd (databaseUpdateUser cr env i name email role password s)))"
proof -
  obtain c s1 where e: "ensureDatabaseConnected env s = (c, s1)" by fastforce
  then have s1: "pg_base s1 = pg_base s" "pg_txn s1 = None"
    using assms(2) ensure_txn [OF e]
    by (auto simp: ensureDatabaseConnected_def connectDatabase_def Let_def split: if_splits)
  obtain x s2 where r: "PQexec (answers env 0) (run_query (env_now env) (q_role (c_str i))) s1 = (x, s2)" by fastforce
  have s2: "pg_base s2 = pg_base s" "pg_txn s2 = None" using query_base [OF r] s1 by auto
  obtain d s3 where q: "PQexec (answers env 1) (run_query (env_now env)
      (q_email_taken env (c_str (normalizeEmail email)) (c_str i))) s2 = (d, s3)" by fastforce
  have s3: "pg_base s3 = pg_base s" "pg_txn s3 = None" using query_base [OF q] s2 by auto
  have last: "0 < active_admins (pg_base (snd (update_tail cr env i (trim name) (normalizeEmail email) role password s4)))"
    if x: "x = Rows [current]" and v: "validRole role"
      and g: "(if current = ''admin'' \<and> role \<noteq> ''admin'' then sole_admin 2 env s3 else (False, s3)) = (False, s4)"
    for current s4
  proof -
    have s4: "\<not> pg_alive s4 \<and> pg_base s4 = pg_base s3 \<or>
        s4 = s3 \<and> (current = ''admin'' \<and> role \<noteq> ''admin'' \<longrightarrow> active_admins (pg_base s3) \<noteq> 1)"
      using g count_unlost [of 2 env s3 s4] assms(4) s3 by (auto split: if_splits)
    then have "pg_base s4 = pg_base s" "pg_txn s4 = None"
      using s3 g sole_admin_base [of 2 env s3 False s4] by (auto split: if_splits)
    moreover have "ur_role q = current" if "q \<in> set (user_rows (pg_base s))" "ur_id q = c_str i" "ur_active q" for q
      using role_rows [OF r [unfolded x] s1(2)] that s1(1) by simp
    ultimately show ?thesis
      using assms(1,3) s3 s4 by (intro update_tail_admins) (auto simp: validRole_c_str [OF v])
  qed
  obtain sole s4 where g: "sole_admin 2 env s3 = (sole, s4)" by fastforce
  have s4: "pg_base s4 = pg_base s" using sole_admin_base [OF g] s3 by simp
  show ?thesis
    using assms(3) e s1 s2 s3 s4 r q g last
    by (auto simp: databaseUpdateUser_def Let_def split: bool.split prod.split reply.split list.split)
qed


definition lost_env :: "int \<Rightarrow> PgEnv" where
  "lost_env t = (pg_env t)\<lparr>answers := (\<lambda>k. if k = 1 then LostReply else Answers)\<rparr>"


definition failing_env :: "int \<Rightarrow> PgEnv" where
  "failing_env t = (pg_env t)\<lparr>answers := (\<lambda>k. if k = 1 then Fails else Answers)\<rparr>"

text \<open>A count that the server answers with an error is taken for a count of several: the only
  administrator is deleted, and nobody can administer the installation or bootstrap it again.\<close>

theorem pg_last_admin_lost:
  "active_admins (pg_base pg_admin) = 1 \<and>
   (case databaseDeleteUser (failing_env 9) (ur_id (hd (user_rows (pg_base pg_admin)))) [] pg_admin of
      (Done (), s) \<Rightarrow> active_admins (pg_base s) = 0 \<and> \<not> fst (databaseBootstrapOpen (pg_env 10) s)
    | _ \<Rightarrow> False)"
  by code_simp

section \<open>The first registration\<close>

lemma begin_rows:
  "PQexec a (BEGIN now) s = (Rows x, s') \<Longrightarrow> pg_txn s = None \<Longrightarrow>
     s' = s\<lparr>pg_txn := Some (now, Some (pg_base s))\<rparr> \<and> pg_alive s"
  by (auto simp: PQexec_def BEGIN_def split: if_splits server_answer.splits)

lemma begin_fails:
  "PQexec a (BEGIN now) s = (SqlError e, s') \<Longrightarrow> pg_base s' = pg_base s"
  by (auto simp: PQexec_def BEGIN_def lose_def split: if_splits server_answer.splits option.splits)

lemma open_query_base:
  "PQexec a (run_query now q) s = (x, s') \<Longrightarrow> pg_txn s \<noteq> None \<Longrightarrow> pg_base s' = pg_base s"
  by (auto simp: PQexec_def run_query_def lose_def
      split: if_splits server_answer.splits option.splits sum.splits prod.splits)

lemma rollback_base: "pg_base (snd (PQend a ROLLBACK s)) = pg_base s"
  by (auto simp: PQend_def PQexec_def ROLLBACK_def lose_def split: server_answer.split)

lemma bootstrap_row:
  assumes "q_bootstrap (new_row i email name ''admin'' slt h) now b = Okay ([u], b')"
  shows "user_rows b = [] \<and> b' = b\<lparr>user_rows := [(new_row i email name ''admin'' slt h)\<lparr>ur_updated := now\<rparr>]\<rparr> \<and>
    u = row_user (new_row i email name ''admin'' slt h)"
  using assms by (auto simp: q_bootstrap_def q_insert_user_def split: if_splits)

lemma admin_row:
  "ur_role (new_row i email name ''admin'' slt h) = ''admin''" "ur_active (new_row i email name role slt h)"
  by (simp_all add: new_row_def c_str_def)

lemma open_bootstrap:
  assumes "databaseBootstrapAdmin k cr env name email password s = (r, s')" "pg_handle s" "pg_alive s"
    and "pg_txn s = Some (t, Some b)"
  shows "pg_base s' = pg_base s" and "r = Throws e \<Longrightarrow> s' = s"
    and "r = Done u \<Longrightarrow> user_rows b = [] \<and> (\<exists>row. ur_role row = ''admin'' \<and> ur_active row \<and> u = row_user row \<and>
      s' = s\<lparr>pg_txn := Some (t, Some (b\<lparr>user_rows := [row]\<rparr>))\<rparr>)"
proof -
  show "pg_base s' = pg_base s"
    using assms by (auto simp: databaseBootstrapAdmin_def Let_def dest!: open_query_base
        split: if_splits prod.splits sum.splits reply.splits list.splits)
  show "s' = s" if "r = Throws e"
    using assms that by (auto simp: databaseBootstrapAdmin_def Let_def
        split: if_splits prod.splits sum.splits reply.splits list.splits)
  assume "r = Done u"
  then obtain i slt h where "PQexec (answers env k) (run_query (env_now env)
      (q_bootstrap (new_row i (normalizeEmail email) (trim name) ''admin'' slt h))) s = (Rows [u], s')"
    using assms by (auto simp: databaseBootstrapAdmin_def Let_def
        split: if_splits prod.splits sum.splits reply.splits list.splits)
  then obtain b' where "q_bootstrap (new_row i (normalizeEmail email) (trim name) ''admin'' slt h) t b = Okay ([u], b')"
    and s': "s' = s\<lparr>pg_txn := Some (t, Some b')\<rparr>"
    using assms(4) by (auto simp: query_rows view_def clock_def put_def)
  from bootstrap_row [OF this(1)] s' admin_row
  show "user_rows b = [] \<and> (\<exists>row. ur_role row = ''admin'' \<and> ur_active row \<and> u = row_user row \<and>
      s' = s\<lparr>pg_txn := Some (t, Some (b\<lparr>user_rows := [row]\<rparr>))\<rparr>)"
    by (intro conjI exI [of _ "(new_row i (normalizeEmail email) (trim name) ''admin'' slt h)\<lparr>ur_updated := t\<rparr>"])
       (auto simp: row_user_def)
qed

text \<open>The state in which \<open>databaseRegisterAdmin\<close> calls \<open>databaseBootstrapAdmin\<close>.\<close>

definition begun :: "PgEnv \<Rightarrow> PgAuth \<Rightarrow> PgAuth" where
  "begun env s = (snd (ensureDatabaseConnected env s))\<lparr>pg_txn := Some (env_now env, Some (pg_base s))\<rparr>"

lemma register_begun:
  assumes "pg_txn s = None" "ensureDatabaseConnected env s = (True, s1)"
    "PQexec (answers env 0) (BEGIN (env_now env)) s1 = (Rows x, s2)"
  shows "s2 = begun env s \<and> pg_handle s2 \<and> pg_alive s2 \<and> pg_base s2 = pg_base s \<and>
    pg_txn s2 = Some (env_now env, Some (pg_base s))"
  using begin_rows [OF assms(3) ensure_txn [OF assms(2,1)]] ensure_alive [OF assms(2)] assms(2)
  by (auto simp: begun_def)

lemma ensure_base: "ensureDatabaseConnected env s = (c, s1) \<Longrightarrow> pg_base s1 = pg_base s"
  by (auto simp: ensureDatabaseConnected_def connectDatabase_def Let_def split: if_splits)

lemma register_cases:
  assumes "databaseRegisterAdmin cr env name email password s = (r, s')" "pg_txn s = None"
  obtains (before) "r = Refused Rejected" "pg_base s' = pg_base s"
  | (after) "(case databaseBootstrapAdmin 1 cr env name email password (begun env s) of
        (Throws e, s) \<Rightarrow> (Throws e, s)
      | (Refused _, s) \<Rightarrow> (Refused Rejected, snd (PQend (answers env 2) ROLLBACK s))
      | (Done created, s) \<Rightarrow> register_session cr env created s) = (r, s')"
    "pg_handle (begun env s)" "pg_alive (begun env s)" "pg_base (begun env s) = pg_base s"
    "pg_txn (begun env s) = Some (env_now env, Some (pg_base s))"
proof -
  obtain c s1 where e: "ensureDatabaseConnected env s = (c, s1)" by fastforce
  obtain x s2 where b: "PQexec (answers env 0) (BEGIN (env_now env)) s1 = (x, s2)" by fastforce
  show thesis
  proof (cases "c \<and> x = Rows ()")
    case True
    with register_begun [OF assms(2), of env s1 "()" s2] e b
    have "s2 = begun env s" "pg_handle s2" "pg_alive s2" "pg_base s2 = pg_base s"
      "pg_txn s2 = Some (env_now env, Some (pg_base s))" by auto
    with True assms(1) e b after show thesis by (auto simp: databaseRegisterAdmin_def)
  next
    case False
    then have "databaseRegisterAdmin cr env name email password s = (Refused Rejected, if c then s2 else s1)"
      using e b by (cases x) (auto simp: databaseRegisterAdmin_def)
    moreover have "pg_base (if c then s2 else s1) = pg_base s"
      using False b ensure_base [OF e] begin_fails [of "answers env 0" "env_now env" s1 _ s2] by (cases x) auto
    ultimately show thesis using before assms(1) by simp
  qed
qed

lemma commit_fails:
  "PQend a COMMIT s = (SqlError e, s') \<Longrightarrow> a \<noteq> LostReply \<Longrightarrow> pg_base s' = pg_base s"
  by (auto simp: PQend_def PQexec_def COMMIT_def lose_def split: if_splits server_answer.splits option.splits prod.splits)

lemma register_session_outcomes:
  assumes "register_session cr env created s = (r, s')" "pg_txn s = Some (t, Some v)"
  shows "r = Throws e \<Longrightarrow> s' = s" and "r = Refused f \<Longrightarrow> answers env 3 \<noteq> LostReply \<Longrightarrow> pg_base s' = pg_base s"
    and "r = Done res \<Longrightarrow> ar_user res = created \<and> pg_txn s' = None \<and>
      (\<exists>session. sr_user session = c_str (au_id created) \<and> sr_hash session = sha256 cr (ar_token res) \<and>
        sr_revoked session = None \<and> sr_expires session = t + sessionLifetime \<and>
        pg_base s' = v\<lparr>session_rows := session_rows v @ [session]\<rparr>)"
proof -
  show "s' = s" if "r = Throws e"
    using assms(1) that by (auto simp: register_session_def split: prod.splits sum.splits reply.splits)
  show "pg_base s' = pg_base s" if "r = Refused f" "answers env 3 \<noteq> LostReply"
    using assms that by (auto simp: register_session_def rollback_base
        dest!: open_query_base commit_fails split: prod.splits sum.splits reply.splits)
  assume "r = Done res"
  with assms(1) obtain sid s1 where q: "PQexec (answers env 2) (run_query (env_now env)
      (q_insert_session sid (c_str (au_id created)) (sha256 cr (ar_token res)))) s = (Rows (), s1)"
    and c: "PQend (answers env 3) COMMIT s1 = (Rows (), s')" and u: "ar_user res = created"
    by (auto simp: register_session_def split: prod.splits sum.splits reply.splits)
  let ?x = "\<lparr>sr_id = sid, sr_user = c_str (au_id created), sr_hash = sha256 cr (ar_token res), sr_issued = t,
      sr_expires = t + sessionLifetime, sr_revoked = None\<rparr>"
  have "pg_txn s1 = Some (t, Some (v\<lparr>session_rows := session_rows v @ [?x]\<rparr>))"
    using q assms(2) by (auto simp: query_rows view_def clock_def put_def q_insert_session_def split: if_splits)
  with c have "pg_txn s' = None" "pg_base s' = v\<lparr>session_rows := session_rows v @ [?x]\<rparr>"
    by (auto simp: PQend_def PQexec_def COMMIT_def split: if_splits server_answer.splits)
  with u show "ar_user res = created \<and> pg_txn s' = None \<and>
      (\<exists>session. sr_user session = c_str (au_id created) \<and> sr_hash session = sha256 cr (ar_token res) \<and>
        sr_revoked session = None \<and> sr_expires session = t + sessionLifetime \<and>
        pg_base s' = v\<lparr>session_rows := session_rows v @ [session]\<rparr>)" by (intro conjI exI [of _ ?x]) simp_all
qed



section \<open>Calls whose failure goes unnoticed\<close>

definition silent_env :: "int \<Rightarrow> PgEnv" where
  "silent_env t = (pg_env t)\<lparr>answers := (\<lambda>_. Lost)\<rparr>"

text \<open>A logout whose statement never reached the server returns like any other; the token still
  identifies the account once the connection is back.\<close>

theorem pg_logout_unnoticed:
  "(case databaseLogout sample_crypto (silent_env 7) pg_token (snd pg_login) of
      (Done (), s) \<Rightarrow> (case fst (databaseUserForToken sample_crypto (pg_env 8) pg_token s) of Done _ \<Rightarrow> True | _ \<Rightarrow> False)
    | _ \<Rightarrow> False)"
  by code_simp

text \<open>An exception between BEGIN and COMMIT leaves the transaction open on the connection that every
  later call uses: nothing is committed any more, and \<open>now()\<close> stands still, so that a session
  outlives its eight hours.\<close>

definition no_entropy :: "int \<Rightarrow> PgEnv" where
  "no_entropy t = (pg_env t)\<lparr>salt_entropy := None\<rparr>"

definition stuck :: PgAuth where
  "stuck = snd (databaseRegisterAdmin sample_crypto (no_entropy 1) ''Eva'' ''eva@sister.org'' sample_password pg_admin)"

theorem pg_open_transaction:
  "(case databaseLogin sample_crypto (pg_env 5) ''ana@sister.org'' sample_password stuck of
      (Done _, s) \<Rightarrow> session_rows (pg_base s) = [] \<and>
        (case fst (databaseUserForToken sample_crypto (pg_env (5 + 2 * sessionLifetime)) pg_token s) of
           Done _ \<Rightarrow> True | _ \<Rightarrow> False)
    | _ \<Rightarrow> False)"
  by code_simp

end
