(* ===== verification/Auth_Backends.thy ===== *)
theory Auth_Backends
  imports Auth_Database_Properties
begin

text \<open>
  The two backends of the authentication store promise the same service.  The accounts and the
  live sessions of a database are those of a file store; while they are, and while the server
  answers and the files can be written, every call gives the same answer from either backend and
  leaves them in agreement.  The calls that the backends treat differently by design are
  excluded by name: a change of password (the database ends the sessions of the account, the file
  store keeps them), the e-mail or id of a deactivated account (still taken in the database,
  free in the file) and names that need trimming on import.
\<close>

section \<open>Calls\<close>

datatype auth_op =
    Login string string
  | Identify string
  | Logout string
  | Create string string string string
  | Update string string string string
  | Delete string string
  | Import string string string string string

datatype op_answer = Session_of AuthResult | User_of AuthUser | Nothing

text \<open>The dispatch of the class: both backends share the guard on an empty token.\<close>

primrec file_op :: "Crypto \<Rightarrow> AuthEnv \<Rightarrow> auth_op \<Rightarrow> AuthStore \<Rightarrow> op_answer outcome \<times> AuthStore" where
  "file_op cr env (Login e p) st = map_prod (map_outcome Session_of) id (login cr env e p st)"
| "file_op cr env (Identify t) st = map_prod (map_outcome User_of) id (userForToken cr env t st)"
| "file_op cr env (Logout t) st = map_prod (map_outcome (\<lambda>_. Nothing)) id (logout cr env t st)"
| "file_op cr env (Create n e p r) st = map_prod (map_outcome User_of) id (createUser cr env n e p r st)"
| "file_op cr env (Update i n e r) st = map_prod (map_outcome User_of) id (updateUser cr env i n e r [] st)"
| "file_op cr env (Delete i a) st = map_prod (map_outcome (\<lambda>_. Nothing)) id (deleteUser env i a st)"
| "file_op cr env (Import i n e p r) st = map_prod (map_outcome User_of) id (importUser cr env i n e p r st)"

primrec pg_op :: "Crypto \<Rightarrow> PgEnv \<Rightarrow> auth_op \<Rightarrow> PgAuth \<Rightarrow> op_answer outcome \<times> PgAuth" where
  "pg_op cr env (Login e p) s = map_prod (map_outcome Session_of) id (databaseLogin cr env e p s)"
| "pg_op cr env (Identify t) s =
     (if t = [] then (Refused Rejected, s)
      else map_prod (map_outcome User_of) id (databaseUserForToken cr env t s))"
| "pg_op cr env (Logout t) s =
     (if t = [] then (Done Nothing, s)
      else map_prod (map_outcome (\<lambda>_. Nothing)) id (databaseLogout cr env t s))"
| "pg_op cr env (Create n e p r) s = map_prod (map_outcome User_of) id (databaseCreateUser cr env n e p r s)"
| "pg_op cr env (Update i n e r) s = map_prod (map_outcome User_of) id (databaseUpdateUser cr env i n e r [] s)"
| "pg_op cr env (Delete i a) s = map_prod (map_outcome (\<lambda>_. Nothing)) id (databaseDeleteUser env i a s)"
| "pg_op cr env (Import i n e p r) s =
     map_prod (map_outcome User_of) id (databaseImportUser cr env i n e p r s)"

text \<open>The same answer; the order of the checks differs, and with it the reason of a refusal.\<close>

fun same_answer :: "'a outcome \<Rightarrow> 'a outcome \<Rightarrow> bool" where
  "same_answer (Done x) (Done y) \<longleftrightarrow> x = y"
| "same_answer (Refused _) (Refused _) \<longleftrightarrow> True"
| "same_answer (Throws x) (Throws y) \<longleftrightarrow> x = y"
| "same_answer _ _ \<longleftrightarrow> False"

section \<open>Agreement\<close>

definition stored :: "UserRow \<Rightarrow> StoredUser" where
  "stored r = \<lparr>publicUser = row_user r, salt = getvalue (ur_salt r), su_hash = getvalue (ur_hash r)\<rparr>"

definition active_rows :: "IdentityBase \<Rightarrow> UserRow list" where
  "active_rows b = filter ur_active (user_rows b)"

definition live_file :: "int \<Rightarrow> AuthStore \<Rightarrow> string \<Rightarrow> (string \<times> int) option" where
  "live_file now st h =
     (case map_of (st_sessions st) h of
        None \<Rightarrow> None
      | Some x \<Rightarrow> if now < ses_expiresAt x then Some (ses_userId x, ses_expiresAt x) else None)"

definition live_base :: "int \<Rightarrow> IdentityBase \<Rightarrow> string \<Rightarrow> (string \<times> int) option" where
  "live_base now b h =
     map_option (\<lambda>q. (sr_user q, sr_expires q)) (find (\<lambda>q. sr_hash q = h \<and> session_live now q) (session_rows b))"

definition row_usable :: "UserRow \<Rightarrow> bool" where
  "row_usable r \<longleftrightarrow> ur_hash r \<noteq> None \<and> row_iterations r = passwordIterations"

definition agree :: "int \<Rightarrow> AuthStore \<Rightarrow> PgAuth \<Rightarrow> bool" where
  "agree now st s \<longleftrightarrow> pg_handle s \<and> pg_alive s \<and> pg_txn s = None \<and> base_wf (pg_base s) \<and>
     auth_wf st \<and>
     st_users st = map stored (active_rows (pg_base s)) \<and> list_all row_usable (active_rows (pg_base s)) \<and>
     live_file now st = live_base now (pg_base s)"

text \<open>The conditions on a call: its texts have no NUL byte, what is to be fresh is fresh, and the
  e-mail or id it names is not that of a deactivated account.\<close>

definition no_nul :: "string \<Rightarrow> bool" where
  "no_nul t \<longleftrightarrow> NUL \<notin> set t"

definition free_of_inactive :: "IdentityBase \<Rightarrow> string \<Rightarrow> string \<Rightarrow> bool" where
  "free_of_inactive b i e \<longleftrightarrow>
     list_all (\<lambda>r. ur_active r \<or> (ur_id r \<noteq> i \<and> ur_email r \<noteq> e \<and> lowercase (ur_email r) \<noteq> e)) (user_rows b)"

primrec comparable :: "IdentityBase \<Rightarrow> auth_op \<Rightarrow> bool" where
  "comparable b (Login e p) \<longleftrightarrow> no_nul e"
| "comparable b (Identify t) \<longleftrightarrow> True"
| "comparable b (Logout t) \<longleftrightarrow> True"
| "comparable b (Create n e p r) \<longleftrightarrow> no_nul n \<and> no_nul e \<and> free_of_inactive b [] (normalizeEmail e)"
| "comparable b (Update i n e r) \<longleftrightarrow>
     no_nul i \<and> no_nul n \<and> no_nul e \<and> free_of_inactive b [] (normalizeEmail e)"
| "comparable b (Delete i a) \<longleftrightarrow> no_nul i"
| "comparable b (Import i n e p r) \<longleftrightarrow>
     no_nul i \<and> no_nul n \<and> no_nul e \<and> trim n = n \<and> free_of_inactive b i (normalizeEmail e)"

text \<open>The environment in which the backends are compared: files can be written, the server answers
  and folds case as the C collation does, entropy and key derivation are available, and the
  identifiers drawn are new.\<close>

definition cooperative :: "Crypto \<Rightarrow> PgEnv \<Rightarrow> IdentityBase \<Rightarrow> bool" where
  "cooperative cr env b \<longleftrightarrow> users_writable env \<and> sessions_writable env \<and> answers env = (\<lambda>_. Answers) \<and>
     pg_lower env = lowercase \<and> crypto_sizes cr \<and>
     (\<exists>x y z w. uuid_entropy env = Some x \<and> length x = 16 \<and> salt_entropy env = Some y \<and> length y = 16 \<and>
        token_entropy env = Some z \<and> length z = 32 \<and> session_entropy env = Some w \<and> length w = 16 \<and>
        (\<forall>p. \<exists>h. passwordHash cr p (hexEncode y) passwordIterations = Okay h) \<and>
        list_all (\<lambda>r. randomUuid (Some x) \<noteq> Okay (ur_id r)) (user_rows b) \<and>
        list_all (\<lambda>q. sr_hash q \<noteq> sha256 cr (hexEncode z) \<and> randomUuid (Some w) \<noteq> Okay (sr_id q)) (session_rows b))"

section \<open>Statements that are answered\<close>

lemma answered:
  "cooperative cr env b \<Longrightarrow> pg_alive s \<Longrightarrow> pg_txn s = None \<Longrightarrow>
     PQexec (answers env k) (run_query now q) s =
       (case q now (pg_base s) of Error e \<Rightarrow> (SqlError (Some e), s) | Okay (r, b) \<Rightarrow> (Rows r, s\<lparr>pg_base := b\<rparr>))"
  by (simp add: cooperative_def PQexec_def run_query_def)

lemma truncated [simp]:
  "env_now (AuthEnv.truncate env) = env_now env" "uuid_entropy (AuthEnv.truncate env) = uuid_entropy env"
  "salt_entropy (AuthEnv.truncate env) = salt_entropy env" "token_entropy (AuthEnv.truncate env) = token_entropy env"
  "users_writable (AuthEnv.truncate env) = users_writable env"
  "sessions_writable (AuthEnv.truncate env) = sessions_writable env"
  by (simp_all add: AuthEnv.truncate_def)

lemma agreeD:
  assumes "agree now st s"
  shows "pg_handle s" "pg_alive s" "pg_txn s = None" "base_wf (pg_base s)" "auth_wf st"
    "st_users st = map stored (active_rows (pg_base s))" "\<And>r. r \<in> set (active_rows (pg_base s)) \<Longrightarrow> row_usable r"
    "live_file now st = live_base now (pg_base s)"
  using assms by (auto simp: agree_def list_all_iff)

section \<open>Accounts\<close>

lemma stored_simps [simp]:
  "au_id (row_user r) = ur_id r" "au_email (row_user r) = ur_email r"
  "au_role (row_user r) = ur_role r" "au_name (row_user r) = ur_name r"
  "publicUser (stored r) = row_user r" "salt (stored r) = getvalue (ur_salt r)" "su_hash (stored r) = getvalue (ur_hash r)"
  by (simp_all add: stored_def row_user_def)

lemma find_map: "find P (map f xs) = map_option f (find (\<lambda>x. P (f x)) xs)"
  by (induction xs) auto

lemma find_filter: "find P xs = (case filter P xs of [] \<Rightarrow> None | x # _ \<Rightarrow> Some x)"
  by (induction xs) auto

lemma filter_find:
  "distinct (map f xs) \<Longrightarrow> filter (\<lambda>x. f x = a) xs = (case find (\<lambda>x. f x = a) xs of None \<Rightarrow> [] | Some x \<Rightarrow> [x])"
proof (induction xs)
  case (Cons x xs)
  then show ?case by (cases "f x = a") (auto simp: filter_empty_conv image_iff dest!: find_SomeD split: option.splits)
qed simp

lemma active_distinct:
  assumes "base_wf b"
  shows "distinct (map ur_id (active_rows b))" "distinct (map ur_email (active_rows b))"
  using assms by (auto simp: base_wf_def active_rows_def distinct_map_filter)

text \<open>The e-mails of the accounts are normalised, so that the case folding of the server finds what a
  comparison finds.\<close>

lemma active_normal:
  assumes "agree now st s" "r \<in> set (active_rows (pg_base s))"
  shows "normalizeEmail (ur_email r) = ur_email r" "lowercase (ur_email r) = ur_email r"
proof -
  have "stored r \<in> set (st_users st)" using agreeD(6) [OF assms(1)] assms(2) by simp
  then have "user_wf (stored r)" using agreeD(5) [OF assms(1)] by (auto simp: auth_wf_def users_wf_def list_all_iff)
  then show n: "normalizeEmail (ur_email r) = ur_email r" by (simp add: user_wf_def)
  then show "lowercase (ur_email r) = ur_email r" by (metis lowercase_idem normalizeEmail_def)
qed

lemma lowercase_normal [simp]: "lowercase (normalizeEmail e) = normalizeEmail e"
  by (simp add: normalizeEmail_def)

lemma tolower_nul: "tolower c = NUL \<Longrightarrow> c = NUL"
proof -
  assume "tolower c = NUL"
  then have "byte (tolower c) = 0" by simp
  then have "byte c = 0" by (simp add: byte_tolower split: if_splits)
  then have "byte c = byte NUL" by simp
  then show "c = NUL" by (simp only: byte_inject)
qed

lemma no_nul_trim: "no_nul e \<Longrightarrow> c_str (trim e) = trim e"
  by (rule c_str_id) (auto simp: no_nul_def trim_def dest!: set_dropWhileD)

lemma no_nul_normal: "no_nul e \<Longrightarrow> c_str (normalizeEmail e) = normalizeEmail e"
  by (rule c_str_id)
     (auto simp: no_nul_def normalizeEmail_def lowercase_def trim_def dest!: tolower_nul [OF sym] set_dropWhileD)

lemma credentials_find:
  assumes "agree now st s" "cooperative cr env b"
  shows "q_credentials env (normalizeEmail e) t (pg_base s) =
    Okay (case find (\<lambda>r. ur_email r = normalizeEmail e) (active_rows (pg_base s)) of None \<Rightarrow> [] | Some r \<Rightarrow> [r], pg_base s)"
proof -
  have l: "pg_lower env = lowercase" using assms(2) by (simp add: cooperative_def)
  have "filter (\<lambda>r. lowercase (ur_email r) = lowercase (normalizeEmail e) \<and> ur_active r \<and> ur_hash r \<noteq> None)
      (user_rows (pg_base s)) = filter (\<lambda>r. ur_email r = normalizeEmail e) (active_rows (pg_base s))"
    unfolding active_rows_def filter_filter
    using active_normal(2) [OF assms(1)] agreeD(7) [OF assms(1)]
    by (intro filter_cong) (auto simp: active_rows_def row_usable_def)
  then show ?thesis
    using filter_find [OF active_distinct(2) [OF agreeD(4) [OF assms(1)]], of "normalizeEmail e"]
    by (auto simp: q_credentials_def l limit1_def split: option.split)
qed

section \<open>Sessions\<close>

lemma live_base_row:
  assumes "base_wf b" "q \<in> set (session_rows b)"
  shows "live_base now b (sr_hash q) = (if session_live now q then Some (sr_user q, sr_expires q) else None)"
proof -
  have "find (\<lambda>x. sr_hash x = sr_hash q \<and> session_live now x) (session_rows b) = (if session_live now q then Some q else None)"
  proof (cases "session_live now q")
    case True
    have "filter (\<lambda>x. sr_hash x = sr_hash q \<and> session_live now x) (session_rows b) = [q]"
      using filter_unique_conj [of sr_hash "session_rows b" q "session_live now"] assms True by (simp add: base_wf_def)
    then show ?thesis using True by (simp add: find_filter)
  next
    case False
    have "filter (\<lambda>x. sr_hash x = sr_hash q \<and> session_live now x) (session_rows b) = []"
      using filter_unique_conj [of sr_hash "session_rows b" q "session_live now"] assms False by (simp add: base_wf_def)
    then show ?thesis using False by (simp add: find_filter)
  qed
  then show ?thesis by (simp add: live_base_def)
qed

lemma live_base_none: "(\<forall>q \<in> set (session_rows b). sr_hash q \<noteq> h) \<Longrightarrow> live_base now b h = None"
  by (auto simp: live_base_def find_None_iff)

lemma live_base_later:
  assumes "base_wf b" "now \<le> now'"
  shows "live_base now' b h = (case live_base now b h of None \<Rightarrow> None | Some (u, t) \<Rightarrow> if now' < t then Some (u, t) else None)"
proof (cases "\<exists>q \<in> set (session_rows b). sr_hash q = h")
  case True
  then obtain q where q: "q \<in> set (session_rows b)" "h = sr_hash q" by blast
  then show ?thesis
    using live_base_row [OF assms(1) q(1)] assms(2) by (auto simp: session_live_def)
qed (simp add: live_base_none)

lemma live_file_later:
  assumes "now \<le> now'"
  shows "live_file now' st h = (case live_file now st h of None \<Rightarrow> None | Some (u, t) \<Rightarrow> if now' < t then Some (u, t) else None)"
  using assms by (auto simp: live_file_def split: option.split)

lemma agree_later: "agree now st s \<Longrightarrow> now \<le> now' \<Longrightarrow> agree now' st s"
  using live_base_later [of "pg_base s" now now'] live_file_later [of now now' st]
  by (auto simp: agree_def fun_eq_iff)

lemma live_file_update:
  "live_file now (st\<lparr>st_sessions := AList.update h x (st_sessions st)\<rparr>) =
     (live_file now st)(h := if now < ses_expiresAt x then Some (ses_userId x, ses_expiresAt x) else None)"
  by (auto simp: live_file_def fun_eq_iff update_conv')

lemma live_base_append:
  assumes "\<forall>q \<in> set (session_rows b). sr_hash q \<noteq> sr_hash x"
  shows "live_base now (b\<lparr>session_rows := session_rows b @ [x]\<rparr>) =
    (live_base now b)(sr_hash x := if session_live now x then Some (sr_user x, sr_expires x) else None)"
proof
  fix h
  have "find P (xs @ [y]) = (case find P xs of None \<Rightarrow> if P y then Some y else None | Some z \<Rightarrow> Some z)" for P xs and y :: SessionRow
    by (induction xs) auto
  then show "live_base now (b\<lparr>session_rows := session_rows b @ [x]\<rparr>) h =
      ((live_base now b)(sr_hash x := if session_live now x then Some (sr_user x, sr_expires x) else None)) h"
    using assms by (auto simp: live_base_def find_None_iff split: option.split dest!: find_SomeD)
qed

lemma live_file_delete:
  "live_file now (st\<lparr>st_sessions := AList.delete h (st_sessions st)\<rparr>) = (live_file now st)(h := None)"
  by (auto simp: live_file_def fun_eq_iff delete_conv')

lemma live_base_revoke:
  assumes "base_wf b"
  shows "live_base now (revoke p t b) h =
    (case find (\<lambda>q. sr_hash q = h) (session_rows b) of
       Some q \<Rightarrow> if p q then None else live_base now b h
     | None \<Rightarrow> live_base now b h)"
proof (cases "\<exists>q \<in> set (session_rows b). sr_hash q = h")
  case True
  then obtain q where q: "q \<in> set (session_rows b)" "h = sr_hash q" by blast
  let ?q = "if p q \<and> sr_revoked q = None then q\<lparr>sr_revoked := Some t\<rparr> else q"
  have "find (\<lambda>x. sr_hash x = h) (session_rows b) = Some q"
    using filter_unique [of sr_hash "session_rows b" q] assms q by (simp add: base_wf_def find_filter)
  moreover have "?q \<in> set (session_rows (revoke p t b))" using q(1) by (auto simp: revoke_def)
  then have "live_base now (revoke p t b) (sr_hash ?q) = (if session_live now ?q then Some (sr_user ?q, sr_expires ?q) else None)"
    by (rule live_base_row [OF revoke_wf [OF assms]])
  moreover have "sr_hash ?q = h" using q(2) by simp
  ultimately show ?thesis
    using live_base_row [OF assms q(1), of now] q(2) by (auto simp: session_live_def split: if_splits)
next
  case False
  then have "\<forall>q \<in> set (session_rows (revoke p t b)). sr_hash q \<noteq> h" by (auto simp: revoke_def)
  with False show ?thesis
    by (auto simp: live_base_none find_None_iff split: option.split dest!: find_SomeD)
qed

section \<open>The calls, one by one\<close>

text \<open>What remains to be shown of a call, beside the consistency that each backend keeps by itself.\<close>

lemma agreeI:
  assumes "agree now st s" "crypto_sizes cr" "auth_call cr st st'" "pg_call cr env s s'"
    and "pg_handle s'" "pg_alive s'" "pg_txn s' = None"
    and "st_users st' = map stored (active_rows (pg_base s'))" "list_all row_usable (active_rows (pg_base s'))"
    and "live_file now st' = live_base now (pg_base s')"
  shows "agree now st' s'"
proof -
  have "auth_wf st'" using effects_wf auth_call_effects [OF assms(2) _ assms(3)] agreeD(5) [OF assms(1)] by blast
  moreover have "base_wf (pg_base s')"
    using tables.call_holds [OF assms(4)] agreeD(3,4) [OF assms(1)] by (simp add: holds_def)
  ultimately show ?thesis using assms by (simp add: agree_def)
qed

lemma coop_sizes: "cooperative cr env b \<Longrightarrow> crypto_sizes cr"
  by (simp add: cooperative_def)

lemma hex_no_nul: "NUL \<notin> set (hexEncode b)"
  by (auto simp: hexEncode_def isdigit_def dest!: hex_string_chars)

lemma uuid_no_nul: "randomUuid e = Okay i \<Longrightarrow> NUL \<notin> set i"
  using hex_no_nul
  by (auto simp: randomUuid_def Let_def uuid_groups_def dest!: in_set_takeD in_set_dropD split: option.splits)

lemma cooperativeD:
  assumes "cooperative cr env b"
  obtains i slt token sid where "randomUuid (uuid_entropy env) = Okay i" "randomHex (salt_entropy env) = Okay slt"
    "randomHex (token_entropy env) = Okay token" "randomUuid (session_entropy env) = Okay sid"
    "\<And>r. r \<in> set (user_rows b) \<Longrightarrow> ur_id r \<noteq> i"
    "\<And>q. q \<in> set (session_rows b) \<Longrightarrow> sr_hash q \<noteq> sha256 cr token \<and> sr_id q \<noteq> sid"
    "c_str i = i" "c_str slt = slt" "\<And>p. \<exists>h. passwordHash cr p slt passwordIterations = Okay h"
proof -
  from assms obtain x y z w where e: "uuid_entropy env = Some x" "salt_entropy env = Some y"
    "token_entropy env = Some z" "session_entropy env = Some w"
    and f: "list_all (\<lambda>r. randomUuid (Some x) \<noteq> Okay (ur_id r)) (user_rows b)"
      "list_all (\<lambda>q. sr_hash q \<noteq> sha256 cr (hexEncode z) \<and> randomUuid (Some w) \<noteq> Okay (sr_id q)) (session_rows b)"
      "\<forall>p. \<exists>h. passwordHash cr p (hexEncode y) passwordIterations = Okay h"
    unfolding cooperative_def by blast
  obtain i sid where u: "randomUuid (Some x) = Okay i" "randomUuid (Some w) = Okay sid"
    by (simp add: randomUuid_def Let_def)
  show thesis
    using that [of i "hexEncode y" "hexEncode z" sid] e f u uuid_no_nul [OF u(1)] hex_no_nul [of y]
    by (auto simp: randomHex_def list_all_iff c_str_id)
qed

lemma find_active:
  assumes "base_wf b" "u \<in> set (user_rows b)"
  shows "find (\<lambda>r. ur_id r = ur_id u) (active_rows b) = (if ur_active u then Some u else None)"
proof -
  have "filter (\<lambda>r. ur_id r = ur_id u) (active_rows b) = (if ur_active u then [u] else [])"
    unfolding active_rows_def filter_filter
    using filter_unique_conj [of ur_id "user_rows b" u ur_active] assms by (simp add: base_wf_def conj_commute)
  then show ?thesis by (simp add: find_filter)
qed

lemma identify_base:
  assumes "agree now st s" "cooperative cr env b" "env_now env = now"
  shows "databaseUserForToken cr env token s =
    (case live_base now (pg_base s) (sha256 cr token) of
       None \<Rightarrow> Refused Rejected
     | Some (uid, _) \<Rightarrow> (case find (\<lambda>r. ur_id r = uid) (active_rows (pg_base s)) of
         None \<Rightarrow> Refused Rejected | Some r \<Rightarrow> Done (row_user r)), s)"
proof (cases "\<exists>q \<in> set (session_rows (pg_base s)). sr_hash q = sha256 cr token")
  case True
  then obtain q where q: "q \<in> set (session_rows (pg_base s))" "sr_hash q = sha256 cr token" by blast
  note a = agreeD [OF assms(1)]
  obtain u where u: "u \<in> set (user_rows (pg_base s))" "ur_id u = sr_user q"
    using a(4) q(1) by (auto simp: base_wf_def image_subset_iff image_iff)
  have "databaseUserForToken cr env token s =
      (if session_live now q \<and> ur_active u then Done (row_user u) else Refused Rejected, s)"
    using identify_row [OF a(4) _ a(1,2) _ q(1) u q(2), of env] a(3) assms(2,3)
    by (simp add: cooperative_def view_def clock_def)
  then show ?thesis
    using live_base_row [OF a(4) q(1), of now] find_active [OF a(4) u(1)] q(2) u(2) by auto
next
  case False
  then have "filter (\<lambda>s. sr_hash s = sha256 cr token \<and> sr_revoked s = None \<and> now < sr_expires s) (session_rows (pg_base s)) = []"
    by (auto simp: filter_empty_conv)
  with False show ?thesis
    using assms agreeD(1-3) [OF assms(1)]
    by (simp add: databaseUserForToken_def answered [OF assms(2)] q_session_user_def limit1_def live_base_none)
qed

lemma identify_file:
  assumes "sessions_writable env" "token \<noteq> []"
  shows "\<exists>st'. userForToken cr env token st =
    (case live_file (env_now env) st (sha256 cr token) of
       None \<Rightarrow> Refused Rejected
     | Some (uid, _) \<Rightarrow> (case find (\<lambda>u. au_id (publicUser u) = uid) (st_users st) of
         None \<Rightarrow> Refused Rejected | Some u \<Rightarrow> Done (publicUser u)), st') \<and>
     st_users st' = st_users st \<and> live_file (env_now env) st' = live_file (env_now env) st"
  using assms live_file_delete [where now = "env_now env" and st = st and h = "sha256 cr token"]
  by (auto simp: userForToken_def Let_def live_file_def saveSessions_def fun_eq_iff split: option.split)

lemma agree_file:
  assumes "agree now st s" "crypto_sizes cr" "auth_call cr st st'" "st_users st' = st_users st"
    "live_file now st' = live_file now st"
  shows "agree now st' s"
  using assms effects_wf auth_call_effects [OF assms(2) _ assms(3)] by (auto simp: agree_def)

lemma identify_agree:
  assumes "agree now st s" "cooperative cr env (pg_base s)" "env_now env = now"
  shows "same_answer (fst (file_op cr (AuthEnv.truncate env) (Identify t) st)) (fst (pg_op cr env (Identify t) s)) \<and>
    agree now (snd (file_op cr (AuthEnv.truncate env) (Identify t) st)) (snd (pg_op cr env (Identify t) s))"
proof (cases "t = []")
  case True
  with assms(1) show ?thesis by (simp add: userForToken_def)
next
  case False
  let ?env = "AuthEnv.truncate env"
  have "sessions_writable ?env" "crypto_sizes cr" using assms(2) by (auto simp: cooperative_def)
  obtain st' where f: "userForToken cr ?env t st =
      (case live_file now st (sha256 cr t) of None \<Rightarrow> Refused Rejected
       | Some (uid, _) \<Rightarrow> (case find (\<lambda>u. au_id (publicUser u) = uid) (st_users st) of
           None \<Rightarrow> Refused Rejected | Some u \<Rightarrow> Done (publicUser u)), st')"
    and k: "st_users st' = st_users st" "live_file now st' = live_file now st"
    using identify_file [OF \<open>sessions_writable ?env\<close> False, of cr st] assms(3) by auto
  have "agree now st' s"
    using agree_file [OF assms(1) \<open>crypto_sizes cr\<close> _ k] auth_call.call_token [of cr st ?env t] f by simp
  then show ?thesis
    using False f identify_base [OF assms, of t] agreeD(6,8) [OF assms(1)]
    by (auto simp: find_map split: option.split)
qed

lemma logout_agree:
  assumes "agree now st s" "cooperative cr env (pg_base s)" "env_now env = now"
  shows "same_answer (fst (file_op cr (AuthEnv.truncate env) (Logout t) st)) (fst (pg_op cr env (Logout t) s)) \<and>
    agree now (snd (file_op cr (AuthEnv.truncate env) (Logout t) st)) (snd (pg_op cr env (Logout t) s))"
proof (cases "t = []")
  case True
  with assms(1) show ?thesis by (simp add: logout_def)
next
  case False
  note a = agreeD [OF assms(1)]
  let ?h = "sha256 cr t"
  let ?st = "st\<lparr>st_sessions := AList.delete ?h (st_sessions st)\<rparr>"
  obtain st' where f: "logout cr (AuthEnv.truncate env) t st = (Done (), st')"
    and st': "st_users st' = st_users st" "live_file now st' = live_file now ?st"
    using False assms(2) by (auto simp: logout_def saveSessions_def cooperative_def live_file_def fun_eq_iff)
  let ?s = "s\<lparr>pg_base := revoke (\<lambda>q. sr_hash q = ?h) now (pg_base s)\<rparr>"
  have p: "databaseLogout cr env t s = (Done (), ?s)"
    using a(1-3) assms(3) by (simp add: databaseLogout_def answered [OF assms(2)] q_revoke_token_def)
  have "live_base now (pg_base ?s) h = ((live_base now (pg_base s))(?h := None)) h" for h
    using live_base_revoke [OF a(4), of now "\<lambda>q. sr_hash q = ?h" now h] live_base_none [of "pg_base s" h now]
    by (auto simp: find_None_iff split: option.splits dest!: find_SomeD)
  then have "live_file now st' = live_base now (pg_base ?s)"
    unfolding st' live_file_delete a(8) by (simp add: fun_eq_iff)
  moreover have "active_rows (pg_base ?s) = active_rows (pg_base s)" by (simp add: active_rows_def revoke_def)
  ultimately have "agree now st' ?s"
    using agreeI [OF assms(1) _ auth_call.call_logout [of cr st "AuthEnv.truncate env" t] pg_call.call_logout [of cr env s t]]
      a assms(2) st' f p
    by (simp add: cooperative_def list_all_iff)
  with False f p show ?thesis by simp
qed

lemma hash_no_nul: "passwordHash cr p slt n = Okay h \<Longrightarrow> c_str h = h"
  using hex_no_nul by (auto simp: passwordHash_def Let_def c_str_id split: if_splits option.splits)

lemma standard_iterations: "ur_iterations r = int passwordIterations \<Longrightarrow> row_iterations r = passwordIterations"
proof -
  have "from_chars (- (2 ^ 31)) (2 ^ 31 - 1) (show_int 210000) = Some (210000, [])" by code_simp
  then show "ur_iterations r = int passwordIterations \<Longrightarrow> row_iterations r = passwordIterations"
    by (simp add: row_iterations_def passwordIterations_def)
qed

lemma insert_pair:
  assumes "agree now st s" "cooperative cr env (pg_base s)" "c_str i = i" "c_str e = e" "c_str n = n" "validRole r"
    and fresh: "\<forall>q \<in> set (user_rows (pg_base s)). ur_id q \<noteq> i \<and> ur_email q \<noteq> e"
    and u: "u = \<lparr>au_id = i, au_name = n, au_email = e, au_role = r\<rparr>"
  obtains st' s' where "store_new_user cr (AuthEnv.truncate env) u p st = (Done u, st')"
    "insert_tail cr env i e n r p s = (Okay (Some u, None), s')"
    "pg_handle s'" "pg_alive s'" "pg_txn s' = None" "st_users st' = map stored (active_rows (pg_base s'))"
    "list_all row_usable (active_rows (pg_base s'))" "live_file now st' = live_base now (pg_base s')"
proof -
  note a = agreeD [OF assms(1)]
  obtain slt where slt: "randomHex (salt_entropy env) = Okay slt" "c_str slt = slt"
    "\<And>p. \<exists>h. passwordHash cr p slt passwordIterations = Okay h" by (rule cooperativeD [OF assms(2)]) blast
  obtain h where h: "passwordHash cr p slt passwordIterations = Okay h" using slt(3) by blast
  note hn = hash_no_nul [OF h]
  let ?row = "(new_row i e n r slt h)\<lparr>ur_updated := env_now env\<rparr>"
  let ?b = "(pg_base s)\<lparr>user_rows := user_rows (pg_base s) @ [?row]\<rparr>"
  have row: "stored ?row = \<lparr>publicUser = u, salt = slt, su_hash = h\<rparr>" "row_usable ?row" "ur_active ?row"
    "row_user (new_row i e n r slt h) = u"
    using assms(3-6) slt(2) hn validRole_c_str [OF assms(6)] u
    by (simp_all add: stored_def row_user_def new_row_def getvalue_def row_usable_def standard_iterations)
  have "q_insert_user (new_row i e n r slt h) (env_now env) (pg_base s) = Okay ([u], ?b)"
    using fresh assms(3-6) validRole_c_str [OF assms(6)] row(4)
    by (auto simp: q_insert_user_def new_row_def list_ex_iff)
  then have ins: "insert_tail cr env i e n r p s = (Okay (Some u, None), s\<lparr>pg_base := ?b\<rparr>)"
    using slt(1) h a(2,3) by (simp add: insert_tail_def answered [OF assms(2)])
  let ?st = "st\<lparr>st_users := st_users st @ [stored ?row]\<rparr>"
  obtain st' where "store_new_user cr (AuthEnv.truncate env) u p st = (Done u, st')"
    "st_users st' = st_users ?st" "st_sessions st' = st_sessions st"
    using slt(1) h row(1) assms(2) by (auto simp: store_new_user_def save_def Let_def cooperative_def)
  moreover have "active_rows ?b = active_rows (pg_base s) @ [?row]" using row(3) by (simp add: active_rows_def)
  ultimately show thesis
    using that [of st' "s\<lparr>pg_base := ?b\<rparr>"] ins a row(2)
    by (simp add: list_all_iff live_file_def live_base_def fun_eq_iff)
qed

lemma insert_taken:
  assumes "agree now st s" "cooperative cr env (pg_base s)" "c_str i = i" "c_str e = e" "validRole r"
    and "\<exists>q \<in> set (user_rows (pg_base s)). ur_id q = i \<or> ur_email q = e"
  shows "insert_tail cr env i e n r p s = (Okay (None, Some ''23505''), s)"
proof -
  note a = agreeD [OF assms(1)]
  obtain slt where slt: "randomHex (salt_entropy env) = Okay slt"
    "\<And>p. \<exists>h. passwordHash cr p slt passwordIterations = Okay h" by (rule cooperativeD [OF assms(2)]) blast
  obtain h where h: "passwordHash cr p slt passwordIterations = Okay h" using slt(2) by blast
  have "list_ex (\<lambda>q. ur_id q = c_str i \<or> ur_email q = c_str e) (user_rows (pg_base s))"
    using assms(3,4,6) by (auto simp: list_ex_iff)
  then have "q_insert_user (new_row i e n r slt h) (env_now env) (pg_base s) = Error ''23505''"
    using assms(5) validRole_c_str [OF assms(5)] by (simp add: q_insert_user_def new_row_def)
  then show ?thesis using slt(1) h a(2,3) by (simp add: insert_tail_def answered [OF assms(2)])
qed

text \<open>An e-mail or an id that no deactivated account has is taken in the database exactly if it is taken
  in the file.\<close>

lemma taken_iff:
  assumes "agree now st s" "free_of_inactive (pg_base s) i e"
  shows "(\<exists>q \<in> set (user_rows (pg_base s)). ur_id q = i \<or> ur_email q = e) \<longleftrightarrow>
      list_ex (\<lambda>u. au_id (publicUser u) = i \<or> au_email (publicUser u) = e) (st_users st)"
  using assms(2) agreeD(6) [OF assms(1)]
  by (fastforce simp: free_of_inactive_def list_all_iff list_ex_iff active_rows_def)

lemma import_agree:
  assumes "agree now st s" "cooperative cr env (pg_base s)" "env_now env = now"
    and c: "comparable (pg_base s) (Import i n e p r)"
  shows "same_answer (fst (file_op cr (AuthEnv.truncate env) (Import i n e p r) st)) (fst (pg_op cr env (Import i n e p r) s)) \<and>
    agree now (snd (file_op cr (AuthEnv.truncate env) (Import i n e p r) st)) (snd (pg_op cr env (Import i n e p r) s))"
proof -
  note a = agreeD [OF assms(1)]
  let ?env = "AuthEnv.truncate env" and ?e = "normalizeEmail e"
  let ?ok = "validUuid i \<and> \<not> length n < 2 \<and> \<not> length p < 12 \<and> CHR ''@'' \<in> set ?e \<and> validRole r \<and> validField n \<and> validField ?e"
  let ?taken = "list_ex (\<lambda>u. au_id (publicUser u) = i \<or> au_email (publicUser u) = ?e) (st_users st)"
  have str: "c_str i = i" "c_str ?e = ?e" "c_str n = n" "trim n = n"
    using c no_nul_normal [of e] by (auto simp: no_nul_def c_str_id)
  have free: "free_of_inactive (pg_base s) i ?e" using c by simp
  have onfile: "importUser cr ?env i n e p r st = (if ?taken \<or> \<not> ?ok then (Refused Rejected, st)
      else store_new_user cr ?env \<lparr>au_id = i, au_name = n, au_email = ?e, au_role = r\<rparr> p st)"
    by (auto simp: importUser_def Let_def)
  have pg: "databaseImportUser cr env i n e p r s = (if \<not> ?ok then (Refused Rejected, s)
      else case insert_tail cr env i ?e n r p s of
          (Error e, s) \<Rightarrow> (Throws e, s) | (Okay (Some u, _), s) \<Rightarrow> (Done u, s) | (Okay (None, _), s) \<Rightarrow> (Refused Rejected, s))"
    using str(4) a(1,2) by (auto simp: databaseImportUser_def Let_def)
  consider (invalid) "\<not> ?ok" | (taken) "?ok" "?taken" | (free) "?ok" "\<not> ?taken" by blast
  then show ?thesis
  proof cases
    case invalid
    then show ?thesis using assms(1) unfolding file_op.simps pg_op.simps onfile pg by simp
  next
    case taken
    then have "insert_tail cr env i ?e n r p s = (Okay (None, Some ''23505''), s)"
      using insert_taken [OF assms(1,2) str(1,2)] taken_iff [OF assms(1) free] by blast
    with taken show ?thesis using assms(1) unfolding file_op.simps pg_op.simps onfile pg by simp
  next
    case free
    let ?u = "\<lparr>au_id = i, au_name = n, au_email = ?e, au_role = r\<rparr>"
    have new: "\<forall>q \<in> set (user_rows (pg_base s)). ur_id q \<noteq> i \<and> ur_email q \<noteq> ?e"
      using taken_iff [OF assms(1) \<open>free_of_inactive (pg_base s) i ?e\<close>] free(2) by blast
    have "validRole r" using free(1) by blast
    from insert_pair [OF assms(1,2) str(1-3) this new refl, of p] obtain st' s' where
      f: "store_new_user cr ?env ?u p st = (Done ?u, st')" and q: "insert_tail cr env i ?e n r p s = (Okay (Some ?u, None), s')"
      and rest: "pg_handle s'" "pg_alive s'" "pg_txn s' = None" "st_users st' = map stored (active_rows (pg_base s'))"
        "list_all row_usable (active_rows (pg_base s'))" "live_file now st' = live_base now (pg_base s')" .
    have F: "importUser cr ?env i n e p r st = (Done ?u, st')" unfolding onfile using free f by auto
    have P: "databaseImportUser cr env i n e p r s = (Done ?u, s')" unfolding pg using free q by auto
    have "auth_call cr st st'" using auth_call.call_import [of cr st ?env i n e p r] F by simp
    moreover have "pg_call cr env s s'" using pg_call.call_import [of cr env s i n e p r] P by simp
    ultimately have "agree now st' s'"
      using agreeI [OF assms(1) coop_sizes [OF assms(2)] _ _ rest] by blast
    then show ?thesis unfolding file_op.simps pg_op.simps F P by simp
  qed
qed

lemma create_agree:
  assumes "agree now st s" "cooperative cr env (pg_base s)" "env_now env = now"
    and c: "comparable (pg_base s) (Create n e p r)"
  shows "same_answer (fst (file_op cr (AuthEnv.truncate env) (Create n e p r) st)) (fst (pg_op cr env (Create n e p r) s)) \<and>
    agree now (snd (file_op cr (AuthEnv.truncate env) (Create n e p r) st)) (snd (pg_op cr env (Create n e p r) s))"
proof -
  note a = agreeD [OF assms(1)]
  let ?env = "AuthEnv.truncate env" and ?e = "normalizeEmail e" and ?n = "trim n"
  let ?ok = "\<not> (length ?n < 2 \<or> \<not> validField ?n) \<and> CHR ''@'' \<in> set ?e \<and> validField ?e \<and> \<not> length p < 12 \<and> validRole r"
  let ?taken = "list_ex (\<lambda>u. au_email (publicUser u) = ?e) (st_users st)"
  obtain i where i: "randomUuid (uuid_entropy env) = Okay i" "c_str i = i" "\<And>r. r \<in> set (user_rows (pg_base s)) \<Longrightarrow> ur_id r \<noteq> i"
    by (rule cooperativeD [OF assms(2)]) blast
  have str: "c_str ?e = ?e" "c_str ?n = ?n" using c no_nul_normal [of e] no_nul_trim [of n] by simp_all
  have taken_iff: "(\<exists>q \<in> set (user_rows (pg_base s)). ur_email q = ?e) \<longleftrightarrow> ?taken"
    using c a(6) by (fastforce simp: free_of_inactive_def list_all_iff list_ex_iff active_rows_def)
  let ?u = "\<lparr>au_id = i, au_name = ?n, au_email = ?e, au_role = r\<rparr>"
  have onfile: "?ok \<Longrightarrow> \<not> ?taken \<Longrightarrow> createUser cr ?env n e p r st = store_new_user cr ?env ?u p st"
    and file_no: "\<not> ?ok \<or> ?taken \<Longrightarrow> \<exists>x. createUser cr ?env n e p r st = (Refused x, st)"
    using i(1) by (auto simp: createUser_def Let_def)
  have pg: "?ok \<Longrightarrow> databaseCreateUser cr env n e p r s = (case insert_tail cr env i ?e ?n r p s of
        (Error e, s) \<Rightarrow> (Throws e, s) | (Okay (Some u, _), s) \<Rightarrow> (Done u, s)
      | (Okay (None, st), s) \<Rightarrow> (Refused (if st = Some ''23505'' then EmailTaken else NotPersisted), s))"
    and pg_no: "\<not> ?ok \<Longrightarrow> \<exists>x. databaseCreateUser cr env n e p r s = (Refused x, s)"
    using i(1) a(1,2) by (auto simp: databaseCreateUser_def Let_def)
  consider (invalid) "\<not> ?ok" | (taken) "?ok" "?taken" | (free) "?ok" "\<not> ?taken" by blast
  then show ?thesis
  proof cases
    case invalid
    then show ?thesis using assms(1) file_no pg_no by auto
  next
    case taken
    then have "insert_tail cr env i ?e ?n r p s = (Okay (None, Some ''23505''), s)"
      using insert_taken [OF assms(1,2) i(2) str(1)] taken_iff by blast
    with taken assms(1) file_no pg show ?thesis by auto
  next
    case free
    have new: "\<forall>q \<in> set (user_rows (pg_base s)). ur_id q \<noteq> i \<and> ur_email q \<noteq> ?e" using taken_iff i(3) free(2) by blast
    have "validRole r" using free(1) by blast
    from insert_pair [OF assms(1,2) i(2) str this new refl, of p] obtain st' s' where
      f: "store_new_user cr ?env ?u p st = (Done ?u, st')" and q: "insert_tail cr env i ?e ?n r p s = (Okay (Some ?u, None), s')"
      and rest: "pg_handle s'" "pg_alive s'" "pg_txn s' = None" "st_users st' = map stored (active_rows (pg_base s'))"
        "list_all row_usable (active_rows (pg_base s'))" "live_file now st' = live_base now (pg_base s')" .
    have F: "createUser cr ?env n e p r st = (Done ?u, st')" using onfile free f by simp
    have P: "databaseCreateUser cr env n e p r s = (Done ?u, s')" using pg free q by simp
    have "fresh_uuid ?env st" using i(1,3) a(6) by (auto simp: fresh_uuid_def active_rows_def)
    then have "auth_call cr st st'" using auth_call.call_create [of ?env st cr n e p r] F by simp
    moreover have "pg_call cr env s s'" using pg_call.call_create [of cr env s n e p r] P by simp
    ultimately have "agree now st' s'"
      using agreeI [OF assms(1) coop_sizes [OF assms(2)] _ _ rest] by blast
    then show ?thesis unfolding file_op.simps pg_op.simps F P by simp
  qed
qed

lemma login_agree:
  assumes "agree now st s" "cooperative cr env (pg_base s)" "env_now env = now"
    and c: "comparable (pg_base s) (Login e p)"
  shows "same_answer (fst (file_op cr (AuthEnv.truncate env) (Login e p) st)) (fst (pg_op cr env (Login e p) s)) \<and>
    agree now (snd (file_op cr (AuthEnv.truncate env) (Login e p) st)) (snd (pg_op cr env (Login e p) s))"
proof -
  note a = agreeD [OF assms(1)]
  let ?env = "AuthEnv.truncate env" and ?e = "normalizeEmail e"
  let ?found = "find (\<lambda>r. ur_email r = ?e) (active_rows (pg_base s))"
  have str: "c_str ?e = ?e" using c no_nul_normal by simp
  have q: "PQexec (answers env 0) (run_query (env_now env) (q_credentials env ?e)) s =
      (Rows (case ?found of None \<Rightarrow> [] | Some r \<Rightarrow> [r]), s)"
    using credentials_find [OF assms(1,2), of e "env_now env"] a(2,3)
    by (simp add: answered [OF assms(2)])
  have found: "find (\<lambda>u. au_email (publicUser u) = ?e) (st_users st) = map_option stored ?found"
    unfolding a(6) find_map by simp
  show ?thesis
  proof (cases ?found)
    case None
    then show ?thesis
      using assms(1) a(1,2) q found str
      by (auto simp: login_def databaseLogin_def Let_def split: sum.split)
  next
    case (Some r)
    have r: "r \<in> set (active_rows (pg_base s))" using Some by (auto dest: find_SomeD)
    have it: "row_iterations r = passwordIterations" using a(7) [OF r] by (simp add: row_usable_def)
    let ?ph = "passwordHash cr p (getvalue (ur_salt r)) passwordIterations"
    show ?thesis
    proof (cases "?ph = Okay (getvalue (ur_hash r))")
      case False
      then show ?thesis
        using assms(1) a(1,2) q found str Some it
        by (auto simp: login_def databaseLogin_def Let_def split: sum.split)
    next
      case True
      obtain token sid where t: "randomHex (token_entropy env) = Okay token" "randomUuid (session_entropy env) = Okay sid"
        and fresh: "\<And>q. q \<in> set (session_rows (pg_base s)) \<Longrightarrow> sr_hash q \<noteq> sha256 cr token \<and> sr_id q \<noteq> sid"
        by (rule cooperativeD [OF assms(2)]) blast
      have ur: "r \<in> set (user_rows (pg_base s))" "c_str (ur_id r) = ur_id r"
        using r a(4) by (auto simp: active_rows_def base_wf_def list_all_iff)
      let ?x = "\<lparr>sr_id = sid, sr_user = ur_id r, sr_hash = sha256 cr token, sr_issued = now,
          sr_expires = now + sessionLifetime, sr_revoked = None\<rparr>"
      let ?s = "s\<lparr>pg_base := (pg_base s)\<lparr>session_rows := session_rows (pg_base s) @ [?x]\<rparr>\<rparr>"
      let ?res = "\<lparr>ar_user = row_user r, ar_token = token\<rparr>"
      have P: "databaseLogin cr env e p s = (Done ?res, ?s)"
        using a(1-3) q str Some it True t ur fresh assms(3)
        by (auto simp: databaseLogin_def Let_def answered [OF assms(2)] q_insert_session_def list_ex_iff)
      let ?y = "\<lparr>ses_userId = ur_id r, ses_expiresAt = now + sessionLifetime\<rparr>"
      obtain st' where F: "login cr ?env e p st = (Done ?res, st')" and st': "st_users st' = st_users st"
        "live_file now st' = live_file now (st\<lparr>st_sessions := AList.update (sha256 cr token) ?y (st_sessions st)\<rparr>)"
        using found Some True t(1) assms(2,3)
        by (auto simp: login_def Let_def createSession_def saveSessions_def cooperative_def live_file_def fun_eq_iff)
      have "live_file now st' = live_base now (pg_base ?s)"
        using fresh unfolding st' live_file_update a(8)
        by (simp add: live_base_append session_live_def sessionLifetime_def)
      moreover have "active_rows (pg_base ?s) = active_rows (pg_base s)" by (simp add: active_rows_def)
      moreover have "auth_call cr st st'" using auth_call.call_login [of cr st ?env e p] F by simp
      moreover have "pg_call cr env s ?s" using pg_call.call_login [of cr env s e p] P by simp
      ultimately have "agree now st' ?s"
        using a st'(1) by (intro agreeI [OF assms(1) coop_sizes [OF assms(2)]]) (simp_all add: list_all_iff)
      then show ?thesis unfolding file_op.simps pg_op.simps F P by simp
    qed
  qed
qed

text \<open>The account a call names, in either backend.\<close>

lemma role_find:
  assumes "agree now st s"
  shows "q_role i t (pg_base s) =
    Okay (case find (\<lambda>r. ur_id r = i) (active_rows (pg_base s)) of None \<Rightarrow> [] | Some r \<Rightarrow> [ur_role r], pg_base s)"
proof -
  have "filter (\<lambda>r. ur_id r = i \<and> ur_active r) (user_rows (pg_base s)) = filter (\<lambda>r. ur_id r = i) (active_rows (pg_base s))"
    by (simp add: active_rows_def conj_commute)
  then show ?thesis
    using filter_find [OF active_distinct(1) [OF agreeD(4) [OF assms]], of i]
    by (auto simp: q_role_def split: option.split)
qed

lemma target_none:
  "agree now st s \<Longrightarrow> find (\<lambda>r. ur_id r = i) (active_rows (pg_base s)) = None \<Longrightarrow>
     find_idx (\<lambda>u. au_id (publicUser u) = i) (st_users st) = None"
  using agreeD(6) [of now st s] by (auto simp: find_idx_None find_None_iff)

lemma target_some:
  assumes "agree now st s" "find (\<lambda>r. ur_id r = i) (active_rows (pg_base s)) = Some r"
  obtains t where "find_idx (\<lambda>u. au_id (publicUser u) = i) (st_users st) = Some t" "t < length (st_users st)"
    "st_users st ! t = stored r" "distinct (ids (st_users st))"
proof -
  note a = agreeD [OF assms(1)]
  have r: "r \<in> set (active_rows (pg_base s))" "ur_id r = i" using find_SomeD [OF assms(2)] by auto
  have d: "distinct (ids (st_users st))" using a(5) by (simp add: auth_wf_def users_wf_def)
  have "find_idx (\<lambda>u. au_id (publicUser u) = i) (st_users st) \<noteq> None"
    using r a(6) by (auto simp: find_idx_None)
  then obtain t where t: "find_idx (\<lambda>u. au_id (publicUser u) = i) (st_users st) = Some t" by blast
  note tf = target_found [OF t d]
  have "stored r \<in> set (st_users st)" using r(1) a(6) by simp
  then obtain j where j: "j < length (st_users st)" "st_users st ! j = stored r" by (auto simp: in_set_conv_nth)
  have "j = t" using tf(3) [OF j(1)] j(2) r(2) by auto
  with t tf(1) j d show thesis using that by simp
qed

lemma admins_agree: "agree now st s \<Longrightarrow> admin_count (st_users st) = active_admins (pg_base s)"
  using agreeD(6) [of now st s]
  by (simp add: admin_count_def active_admins_def active_rows_def filter_map comp_def conj_commute)

lemma sole_admin_agree:
  assumes "agree now st s" "cooperative cr env (pg_base s)" "r \<in> set (active_rows (pg_base s))" "ur_role r = ''admin''"
  shows "sole_admin k env s = (admin_count (st_users st) \<le> 1, s)"
proof -
  note a = agreeD [OF assms(1)]
  have "0 < active_admins (pg_base s)"
    using assms(3,4) by (auto simp: active_admins_def active_rows_def filter_empty_conv)
  then show ?thesis
    using a(2,3) admins_agree [OF assms(1)]
    by (auto simp: sole_admin_def answered [OF assms(2)] q_count_admins_def show_nat_one)
qed

lemma map_of_filter_value:
  "distinct (map fst al) \<Longrightarrow>
     map_of (filter (\<lambda>(_, x). p x) al) k = (case map_of al k of None \<Rightarrow> None | Some x \<Rightarrow> if p x then Some x else None)"
  by (induction al) (auto split: option.split simp: map_of_eq_None_iff image_iff)

text \<open>What deactivating an account does to the base.\<close>

definition deactivated :: "int \<Rightarrow> string \<Rightarrow> IdentityBase \<Rightarrow> IdentityBase" where
  "deactivated t i b = b\<lparr>user_rows :=
     map (\<lambda>r. if ur_id r = i \<and> ur_active r then r\<lparr>ur_active := False, ur_updated := t\<rparr> else r) (user_rows b)\<rparr>"

lemma deactivate_query:
  assumes "base_wf b"
  shows "q_update_user i (\<lambda>r. r\<lparr>ur_active := False\<rparr>) t b =
    Okay (map row_user (filter (\<lambda>r. ur_id r = i \<and> ur_active r) (user_rows b)), deactivated t i b)"
proof -
  have "map ur_email (user_rows (deactivated t i b)) = map ur_email (user_rows b)"
    by (simp add: deactivated_def)
  then have "distinct (map ur_email (user_rows (deactivated t i b)))" using assms by (simp only: base_wf_def)
  moreover have "(\<lambda>r. row_user (r\<lparr>ur_active := False\<rparr>)) = row_user" by (simp add: row_user_def fun_eq_iff)
  ultimately show ?thesis
    using assms by (simp add: q_update_user_def deactivated_def base_wf_def list_all_iff Let_def)
qed

lemma deactivated_active: "active_rows (deactivated t i b) = filter (\<lambda>r. ur_id r \<noteq> i) (active_rows b)"
proof -
  let ?g = "\<lambda>r. if ur_id r = i \<and> ur_active r then r\<lparr>ur_active := False, ur_updated := t\<rparr> else r"
  have "filter ur_active (map ?g rows) = filter (\<lambda>r. ur_id r \<noteq> i) (filter ur_active rows)" for rows
    by (induction rows) auto
  then show ?thesis by (simp add: active_rows_def deactivated_def)
qed

lemma delete_live:
  assumes "agree now st s" "base_wf b" "session_rows b = session_rows (pg_base s)"
    "st_sessions st' = filter (\<lambda>(_, x). ses_userId x \<noteq> i) (st_sessions st)"
  shows "live_file now st' = live_base now (revoke (\<lambda>q. sr_user q = i) t b)"
proof
  fix h
  note a = agreeD [OF assms(1)]
  have d: "distinct (map fst (st_sessions st))" using a(5) by (simp add: auth_wf_def sessions_wf_def)
  have l: "live_base now b = live_base now (pg_base s)" using assms(3) by (simp add: live_base_def fun_eq_iff)
  have "live_file now st' h = (case live_file now st h of None \<Rightarrow> None | Some (u, x) \<Rightarrow> if u = i then None else Some (u, x))"
    unfolding live_file_def assms(4) map_of_filter_value [OF d, of "\<lambda>x. ses_userId x \<noteq> i"]
    by (auto split: option.split)
  also have "live_file now st h = live_base now b h" using a(8) l by simp
  also have "(case live_base now b h of None \<Rightarrow> None | Some (u, x) \<Rightarrow> if u = i then None else Some (u, x)) =
      live_base now (revoke (\<lambda>q. sr_user q = i) t b) h"
  proof (cases "find (\<lambda>q. sr_hash q = h) (session_rows b)")
    case None
    then have "live_base now b h = None" by (intro live_base_none) (auto simp: find_None_iff)
    with None show ?thesis using live_base_revoke [OF assms(2), of now _ t h] by auto
  next
    case (Some q)
    then have "q \<in> set (session_rows b)" "sr_hash q = h" by (auto dest: find_SomeD)
    then show ?thesis using live_base_row [OF assms(2)] live_base_revoke [OF assms(2), of now _ t h] Some by auto
  qed
  finally show "live_file now st' h = live_base now (revoke (\<lambda>q. sr_user q = i) t b) h" .
qed

lemma delete_agree:
  assumes "agree now st s" "cooperative cr env (pg_base s)" "env_now env = now"
    and c: "comparable (pg_base s) (Delete i actor)"
  shows "same_answer (fst (file_op cr (AuthEnv.truncate env) (Delete i actor) st)) (fst (pg_op cr env (Delete i actor) s)) \<and>
    agree now (snd (file_op cr (AuthEnv.truncate env) (Delete i actor) st)) (snd (pg_op cr env (Delete i actor) s))"
proof -
  note a = agreeD [OF assms(1)]
  let ?env = "AuthEnv.truncate env"
  let ?found = "find (\<lambda>r. ur_id r = i) (active_rows (pg_base s))"
  have str: "c_str i = i" using c by (simp add: no_nul_def c_str_id)
  have role: "PQexec (answers env 0) (run_query (env_now env) (q_role i)) s = (Rows (case ?found of None \<Rightarrow> [] | Some r \<Rightarrow> [ur_role r]), s)"
    using a(2,3) by (simp add: answered [OF assms(2)] role_find [OF assms(1)])
  show ?thesis
  proof (cases ?found)
    case None
    then show ?thesis
      using assms(1) a(1,2) role str target_none [OF assms(1)] by (auto simp: deleteUser_def databaseDeleteUser_def Let_def)
  next
    case (Some r)
    then have r: "r \<in> set (active_rows (pg_base s))" "ur_id r = i" by (auto dest: find_SomeD)
    obtain t where t: "find_idx (\<lambda>u. au_id (publicUser u) = i) (st_users st) = Some t" "t < length (st_users st)"
      "st_users st ! t = stored r" by (rule target_some [OF assms(1) Some])
    have sole: "(if ur_role r = ''admin'' then sole_admin 1 env s else (False, s)) =
        (ur_role r = ''admin'' \<and> admin_count (st_users st) \<le> 1, s)"
      using sole_admin_agree [OF assms(1,2) r(1)] by simp
    show ?thesis
    proof (cases "i = actor \<or> ur_role r = ''admin'' \<and> admin_count (st_users st) \<le> 1")
      case True
      have "\<exists>x. deleteUser ?env i actor st = (Refused x, st)" using True t by (auto simp: deleteUser_def Let_def)
      moreover have "\<exists>x. databaseDeleteUser env i actor s = (Refused x, s)"
        using True a(1,2) role str Some sole by (auto simp: databaseDeleteUser_def)
      ultimately show ?thesis using assms(1) by auto
    next
      case False
      let ?b = "revoke (\<lambda>q. sr_user q = i) now (deactivated now i (pg_base s))"
      let ?s = "s\<lparr>pg_base := ?b\<rparr>"
      have "filter (\<lambda>q. ur_id q = i \<and> ur_active q) (user_rows (pg_base s)) = [r]"
        using filter_unique_conj [of ur_id "user_rows (pg_base s)" r ur_active] a(4) r
        by (auto simp: base_wf_def active_rows_def)
      then have "disable_tail env i s = (Done (), ?s)"
        using a(2,3) str assms(3)
        by (simp add: disable_tail_def answered [OF assms(2)] q_revoking_def deactivate_query [OF a(4)])
      then have P: "databaseDeleteUser env i actor s = (Done (), ?s)"
        using False a(1,2) role str Some sole by (auto simp: databaseDeleteUser_def)
      obtain st' where F: "deleteUser ?env i actor st = (Done (), st')"
        using False t assms(2) by (auto simp: deleteUser_def Let_def save_def saveSessions_def cooperative_def)
      have "users_wf (st_users st)" using a(5) by (simp add: auth_wf_def)
      note d = deleteUser_done [OF this F]
      have wf: "base_wf (deactivated now i (pg_base s))"
        using update_user_wf [of "\<lambda>r. r\<lparr>ur_active := False\<rparr>" i] deactivate_query [OF a(4)] a(4) unfolding keeps_def by fastforce
      have "live_file now st' = live_base now ?b"
        using d by (intro delete_live [OF assms(1) wf]) (simp_all add: deactivated_def)
      moreover have rows: "active_rows ?b = filter (\<lambda>q. ur_id q \<noteq> i) (active_rows (pg_base s))"
        using deactivated_active [of now i "pg_base s"] by (simp add: active_rows_def revoke_def)
      moreover have "st_users st' = map stored (active_rows ?b)"
        using d a(6) rows by (simp add: filter_map comp_def)
      moreover have "auth_call cr st st'" using auth_call.call_delete [of cr st ?env i actor] F by simp
      moreover have "pg_call cr env s ?s" using pg_call.call_delete [of cr env s i actor] P by simp
      ultimately have "agree now st' ?s"
        using a(1-3,7) by (intro agreeI [OF assms(1) coop_sizes [OF assms(2)]]) (simp_all add: list_all_iff)
      then show ?thesis unfolding file_op.simps pg_op.simps F P by simp
    qed
  qed
qed

text \<open>What changing a profile does to the base and to the file store.\<close>

definition reprofiled :: "int \<Rightarrow> string \<Rightarrow> (UserRow \<Rightarrow> UserRow) \<Rightarrow> IdentityBase \<Rightarrow> IdentityBase" where
  "reprofiled t i f b = b\<lparr>user_rows :=
     map (\<lambda>r. if ur_id r = i \<and> ur_active r then (f r)\<lparr>ur_updated := t\<rparr> else r) (user_rows b)\<rparr>"

lemma distinct_map_at:
  assumes "distinct (map k xs)" "distinct (map g xs)" "\<And>x. g (f x) = e"
    and "\<And>x. x \<in> set xs \<Longrightarrow> \<not> (k x = i \<and> p x) \<Longrightarrow> g x \<noteq> e"
  shows "distinct (map g (map (\<lambda>x. if k x = i \<and> p x then f x else x) xs))"
  using assms
proof (induction xs)
  case (Cons x xs)
  show ?case
  proof (cases "k x = i \<and> p x")
    case True
    then have "map (\<lambda>x. if k x = i \<and> p x then f x else x) xs = xs"
      using Cons.prems(1) by (intro map_idI) (auto simp: image_iff)
    moreover have "g y \<noteq> e" if "y \<in> set xs" for y
      using Cons.prems(1) True that by (intro Cons.prems(4)) (auto simp: image_iff)
    then have "e \<notin> g ` set xs" by blast
    ultimately show ?thesis using True Cons.prems(2,3) by simp
  next
    case False
    then have "g x \<noteq> e" using Cons.prems(4) by simp
    with False show ?thesis using Cons by (auto simp: image_iff split: if_splits)
  qed
qed simp

lemma list_update_map:
  assumes "distinct (map k xs)" "t < length xs"
  shows "xs[t := f (xs ! t)] = map (\<lambda>x. if k x = k (xs ! t) then f x else x) xs"
  using assms by (auto simp: list_eq_iff_nth_eq nth_list_update distinct_conv_nth)

lemma reprofiled_active:
  assumes "\<And>r. ur_active (f r) = ur_active r"
  shows "active_rows (reprofiled t i f b) = map (\<lambda>r. if ur_id r = i then (f r)\<lparr>ur_updated := t\<rparr> else r) (active_rows b)"
proof -
  let ?g = "\<lambda>r. if ur_id r = i \<and> ur_active r then (f r)\<lparr>ur_updated := t\<rparr> else r"
  have "filter ur_active (map ?g rows) = map (\<lambda>r. if ur_id r = i then (f r)\<lparr>ur_updated := t\<rparr> else r) (filter ur_active rows)" for rows
    using assms by (induction rows) auto
  then show ?thesis by (simp add: active_rows_def reprofiled_def)
qed

lemma profile_query:
  assumes "agree now st s" "find (\<lambda>r. ur_id r = i) (active_rows (pg_base s)) = Some r" "validRole role"
    and "c_str n = n" "c_str e = e"
    and "\<And>q. q \<in> set (user_rows (pg_base s)) \<Longrightarrow> \<not> (ur_id q = i \<and> ur_active q) \<Longrightarrow> ur_email q \<noteq> e"
  shows "q_update_user i (profile_of n e role) t (pg_base s) =
    Okay ([\<lparr>au_id = i, au_name = n, au_email = e, au_role = role\<rparr>], reprofiled t i (profile_of n e role) (pg_base s))"
proof -
  note a = agreeD [OF assms(1)]
  have r: "r \<in> set (user_rows (pg_base s))" "ur_id r = i" "ur_active r"
    using find_SomeD [OF assms(2)] by (auto simp: active_rows_def)
  have "filter (\<lambda>q. ur_id q = i \<and> ur_active q) (user_rows (pg_base s)) = [r]"
    using filter_unique_conj [of ur_id "user_rows (pg_base s)" r ur_active] a(4) r by (simp add: base_wf_def)
  moreover have "row_user (profile_of n e role r) = \<lparr>au_id = i, au_name = n, au_email = e, au_role = role\<rparr>"
    using assms(3-5) r(2) validRole_c_str by (simp add: row_user_def profile_of_def)
  moreover have "distinct (map ur_email (user_rows (reprofiled t i (profile_of n e role) (pg_base s))))"
    using distinct_map_at [of ur_id "user_rows (pg_base s)" ur_email "\<lambda>q. (profile_of n e role q)\<lparr>ur_updated := t\<rparr>" e i ur_active]
      a(4) assms(5,6) by (simp add: base_wf_def reprofiled_def profile_of_def)
  ultimately show ?thesis
    using assms(3) validRole_c_str [OF assms(3)]
    by (simp add: q_update_user_def reprofiled_def Let_def profile_of_def list_all_iff)
qed

lemma email_taken:
  assumes "agree now st s" "cooperative cr env (pg_base s)" "free_of_inactive (pg_base s) [] (normalizeEmail e)"
  shows "q_email_taken env (normalizeEmail e) i t (pg_base s) =
    Okay (list_ex (\<lambda>u. au_id (publicUser u) \<noteq> i \<and> au_email (publicUser u) = normalizeEmail e) (st_users st), pg_base s)"
proof -
  have l: "pg_lower env = lowercase" using assms(2) by (simp add: cooperative_def)
  have folded: "lowercase (ur_email r) = normalizeEmail e \<longleftrightarrow> ur_active r \<and> ur_email r = normalizeEmail e"
    if "r \<in> set (user_rows (pg_base s))" for r
    using that assms(3) active_normal(2) [OF assms(1), of r]
    by (cases "ur_active r") (auto simp: free_of_inactive_def list_all_iff active_rows_def)
  have "list_ex (\<lambda>r. lowercase (ur_email r) = normalizeEmail e \<and> ur_id r \<noteq> i) (user_rows (pg_base s)) =
      list_ex (\<lambda>u. au_id (publicUser u) \<noteq> i \<and> au_email (publicUser u) = normalizeEmail e) (st_users st)"
    unfolding agreeD(6) [OF assms(1)] list_ex_iff by (auto simp: folded active_rows_def)
  then show ?thesis by (simp add: q_email_taken_def l)
qed

lemma update_agree:
  assumes "agree now st s" "cooperative cr env (pg_base s)" "env_now env = now"
    and c: "comparable (pg_base s) (Update i n e role)"
  shows "same_answer (fst (file_op cr (AuthEnv.truncate env) (Update i n e role) st)) (fst (pg_op cr env (Update i n e role) s)) \<and>
    agree now (snd (file_op cr (AuthEnv.truncate env) (Update i n e role) st)) (snd (pg_op cr env (Update i n e role) s))"
proof -
  note a = agreeD [OF assms(1)]
  let ?env = "AuthEnv.truncate env" and ?e = "normalizeEmail e" and ?n = "trim n"
  let ?found = "find (\<lambda>r. ur_id r = i) (active_rows (pg_base s))"
  let ?taken = "list_ex (\<lambda>u. au_id (publicUser u) \<noteq> i \<and> au_email (publicUser u) = ?e) (st_users st)"
  let ?ok = "\<not> (length ?n < 2 \<or> \<not> validField ?n) \<and> CHR ''@'' \<in> set ?e \<and> validField ?e \<and> validRole role"
  have str: "c_str i = i" "c_str ?e = ?e" "c_str ?n = ?n" and free: "free_of_inactive (pg_base s) [] ?e"
    using c no_nul_normal [of e] no_nul_trim [of n] by (auto simp: no_nul_def c_str_id)
  have role: "PQexec (answers env 0) (run_query (env_now env) (q_role i)) s = (Rows (case ?found of None \<Rightarrow> [] | Some r \<Rightarrow> [ur_role r]), s)"
    using a(2,3) by (simp add: answered [OF assms(2)] role_find [OF assms(1)])
  have taken: "PQexec (answers env 1) (run_query (env_now env) (q_email_taken env ?e i)) s = (Rows ?taken, s)"
    using a(2,3) by (simp only: answered [OF assms(2)] email_taken [OF assms(1,2) free]) simp
  show ?thesis
  proof (cases "?ok \<and> ?found \<noteq> None \<and> \<not> ?taken")
    case False
    have "\<exists>x. updateUser cr ?env i n e role [] st = (Refused x, st)"
    proof (cases ?found)
      case None
      then show ?thesis using target_none [OF assms(1)] by (simp add: updateUser_def Let_def)
    next
      case (Some r)
      then show ?thesis
        by (rule target_some [OF assms(1)]) (use False Some in \<open>auto simp: updateUser_def Let_def\<close>)
    qed
    moreover have "\<exists>x. databaseUpdateUser cr env i n e role [] s = (Refused x, s)"
      using False a(1,2) role taken str by (auto simp: databaseUpdateUser_def Let_def split: option.splits)
    ultimately show ?thesis using assms(1) by auto
  next
    case True
    then obtain r where found: "?found = Some r" by blast
    then have r: "r \<in> set (active_rows (pg_base s))" "ur_id r = i" by (auto dest: find_SomeD)
    obtain t where t: "find_idx (\<lambda>u. au_id (publicUser u) = i) (st_users st) = Some t" "t < length (st_users st)"
      "st_users st ! t = stored r" "distinct (ids (st_users st))" by (rule target_some [OF assms(1) found])
    let ?last = "ur_role r = ''admin'' \<and> role \<noteq> ''admin'' \<and> admin_count (st_users st) \<le> 1"
    have count: "(if ur_role r = ''admin'' \<and> role \<noteq> ''admin'' then sole_admin 2 env s else (False, s)) = (?last, s)"
      using sole_admin_agree [OF assms(1,2) r(1)] by simp
    show ?thesis
    proof (cases ?last)
      case sole: True
      have "\<exists>x. updateUser cr ?env i n e role [] st = (Refused x, st)"
        using True sole t by (auto simp: updateUser_def Let_def)
      moreover have "\<exists>x. databaseUpdateUser cr env i n e role [] s = (Refused x, s)"
        using True sole a(1,2) role taken str count found by (auto simp: databaseUpdateUser_def Let_def)
      ultimately show ?thesis using assms(1) by auto
    next
      case False
      let ?pu = "\<lparr>au_id = i, au_name = ?n, au_email = ?e, au_role = role\<rparr>"
      let ?f = "profile_of ?n ?e role"
      let ?s = "s\<lparr>pg_base := reprofiled now i ?f (pg_base s)\<rparr>"
      have other: "ur_email q \<noteq> ?e" if "q \<in> set (user_rows (pg_base s))" "\<not> (ur_id q = i \<and> ur_active q)" for q
        using True that free a(6) by (auto simp: list_ex_iff free_of_inactive_def list_all_iff active_rows_def)
      have v: "validRole role" using True by blast
      have "update_tail cr env i ?n ?e role [] s = (Done ?pu, ?s)"
        using a(2,3) str assms(3) profile_query [OF assms(1) found v str(3,2) other, of "env_now env"]
        by (simp add: update_tail_def update_send_def answered [OF assms(2)])
      then have P: "databaseUpdateUser cr env i n e role [] s = (Done ?pu, ?s)"
        using True False a(1,2) role taken str count found by (auto simp: databaseUpdateUser_def Let_def)
      let ?us = "(st_users st)[t := (st_users st ! t)\<lparr>publicUser := ?pu\<rparr>]"
      obtain st' where F: "updateUser cr ?env i n e role [] st = (Done ?pu, st')"
        and st': "st_users st' = ?us" "st_sessions st' = st_sessions st"
        using True False t r(2) assms(2) by (auto simp: updateUser_def Let_def save_def cooperative_def)
      have rows: "active_rows (pg_base ?s) = map (\<lambda>q. if ur_id q = i then (?f q)\<lparr>ur_updated := now\<rparr> else q) (active_rows (pg_base s))"
        using reprofiled_active [of ?f now i "pg_base s"] by (simp add: profile_of_def)
      have "?us = map (\<lambda>u. if au_id (publicUser u) = i then u\<lparr>publicUser := ?pu\<rparr> else u) (st_users st)"
        using list_update_map [OF t(4,2), of "\<lambda>u. u\<lparr>publicUser := ?pu\<rparr>"] t(3) r(2) by simp
      also have "\<dots> = map stored (active_rows (pg_base ?s))"
        unfolding rows a(6) using str validRole_c_str [OF v]
        by (auto simp: stored_def row_user_def profile_of_def)
      finally have users: "st_users st' = map stored (active_rows (pg_base ?s))" using st'(1) by simp
      have usable: "list_all row_usable (active_rows (pg_base ?s))"
        unfolding rows using a(7) by (auto simp: list_all_iff row_usable_def profile_of_def row_iterations_def)
      have "auth_call cr st st'" using auth_call.call_update [of cr st ?env i n e role "[]"] F by simp
      moreover have "pg_call cr env s ?s" using pg_call.call_update [of cr env s i n e role "[]"] P by simp
      moreover have "live_file now st' = live_base now (pg_base ?s)"
        using a(8) st'(2) by (simp add: live_file_def live_base_def reprofiled_def fun_eq_iff)
      ultimately have "agree now st' ?s"
        using a(1-3) users usable by (intro agreeI [OF assms(1) coop_sizes [OF assms(2)]]) simp_all
      then show ?thesis unfolding file_op.simps pg_op.simps F P by simp
    qed
  qed
qed

section \<open>Executions\<close>

lemma op_agree:
  assumes "agree now st s" "now \<le> env_now env" "cooperative cr env (pg_base s)" "comparable (pg_base s) op"
  shows "same_answer (fst (file_op cr (AuthEnv.truncate env) op st)) (fst (pg_op cr env op s)) \<and>
    agree (env_now env) (snd (file_op cr (AuthEnv.truncate env) op st)) (snd (pg_op cr env op s))"
proof -
  have "agree (env_now env) st s" using agree_later [OF assms(1,2)] .
  note here = this assms(3) refl
  show ?thesis
    using assms(4) login_agree [OF here] identify_agree [OF here] logout_agree [OF here] create_agree [OF here]
      update_agree [OF here] delete_agree [OF here] import_agree [OF here]
    by (cases op) blast+
qed

fun file_run :: "Crypto \<Rightarrow> (PgEnv \<times> auth_op) list \<Rightarrow> AuthStore \<Rightarrow> op_answer outcome list" where
  "file_run cr [] st = []"
| "file_run cr ((env, op) # ops) st =
     (case file_op cr (AuthEnv.truncate env) op st of (r, st) \<Rightarrow> r # file_run cr ops st)"

fun pg_run :: "Crypto \<Rightarrow> (PgEnv \<times> auth_op) list \<Rightarrow> PgAuth \<Rightarrow> op_answer outcome list" where
  "pg_run cr [] s = []"
| "pg_run cr ((env, op) # ops) s = (case pg_op cr env op s of (r, s) \<Rightarrow> r # pg_run cr ops s)"

text \<open>A run in which the clock does not go back and every call is comparable where it is made.\<close>

fun runnable :: "Crypto \<Rightarrow> int \<Rightarrow> (PgEnv \<times> auth_op) list \<Rightarrow> PgAuth \<Rightarrow> bool" where
  "runnable cr now [] s \<longleftrightarrow> True"
| "runnable cr now ((env, op) # ops) s \<longleftrightarrow> now \<le> env_now env \<and> cooperative cr env (pg_base s) \<and>
     comparable (pg_base s) op \<and> runnable cr (env_now env) ops (snd (pg_op cr env op s))"


section \<open>A sample run\<close>

definition pair_env :: "int \<Rightarrow> char \<Rightarrow> PgEnv" where
  "pair_env t c = (pg_env t)\<lparr>uuid_entropy := Some (replicate 16 c), token_entropy := Some (replicate 32 c),
     session_entropy := Some (replicate 16 c)\<rparr>"

definition sample_run :: "(PgEnv \<times> auth_op) list" where
  "sample_run = [(pair_env 5 (CHR ''a''), Login ''ANA@sister.org'' sample_password),
     (pair_env 6 (CHR ''b''), Identify (hexEncode (replicate 32 (CHR ''a'')))),
     (pair_env 7 (CHR ''c''), Create ''Bia'' ''bia@sister.org'' sample_password ''researcher'')]"

lemma sample_agree: "agree 0 admin_store pg_admin"
proof -
  have "st_sessions admin_store = []" "session_rows (pg_base pg_admin) = []" by code_simp+
  then have "live_file 0 admin_store = live_base 0 (pg_base pg_admin)"
    by (simp add: live_file_def live_base_def fun_eq_iff)
  moreover have "pg_handle pg_admin" "pg_alive pg_admin" "st_users admin_store = map stored (active_rows (pg_base pg_admin))"
    "list_all row_usable (active_rows (pg_base pg_admin))"
    by code_simp+
  moreover have "base_wf (pg_base pg_admin)" using identities.reach_inv [OF pg_admin_reach] by (simp add: holds_def)
  ultimately show ?thesis
    using auth_reach_wf [OF sample_crypto_sizes admin_store_reach] pg_admin_base(1) by (simp add: agree_def)
qed

lemma pair_cooperative:
  assumes "list_all (\<lambda>r. randomUuid (Some (replicate 16 c)) \<noteq> Okay (ur_id r)) (user_rows b)"
    "list_all (\<lambda>q. sr_hash q \<noteq> sha256 sample_crypto (hexEncode (replicate 32 c)) \<and>
      randomUuid (Some (replicate 16 c)) \<noteq> Okay (sr_id q)) (session_rows b)"
  shows "cooperative sample_crypto (pair_env t c) b"
proof -
  have "hexDecode (hexEncode (replicate 16 (CHR ''s''))) \<noteq> []" by code_simp
  then have "\<exists>h. passwordHash sample_crypto p (hexEncode (replicate 16 (CHR ''s''))) passwordIterations = Okay h" for p
    by (simp add: passwordHash_def sample_crypto_def Let_def)
  with assms show ?thesis
    unfolding cooperative_def pair_env_def pg_env_def using sample_crypto_sizes by simp
qed

lemma sample_runnable: "runnable sample_crypto 0 sample_run pg_admin"
  unfolding sample_run_def runnable.simps
  by (intro conjI TrueI pair_cooperative; code_simp)


end
