(* ===== verification/Listener.thy ===== *)
theory Listener
  imports Config
begin

text \<open>
  The two ways in which the daemon obtains its listening socket
  (\<open>apps/sisterd/runtime/listener.cpp\<close>): a TCP socket on an IPv4 loopback address, for
  development, and a Unix socket inherited from systemd, for production.  The results of the system
  calls are parameters; a call returns an outcome and what it did: the descriptors it closed, the
  address it bound, the activation variables it left in the environment.
\<close>

section \<open>Listeners\<close>

record Listener =
  lis_fd :: int
  lis_unix :: bool
  lis_description :: string

section \<open>The TCP listener\<close>

text \<open>The results of \<open>socket\<close>, \<open>setsockopt\<close>, \<open>bind\<close> and \<open>listen\<close>, and the text of
  \<open>errno\<close> where one fails.\<close>

record TcpCalls =
  tcp_socket :: int
  tcp_setsockopt :: int
  tcp_bind :: int
  tcp_listen :: int
  tcp_strerror :: string

record TcpEffect =
  eff_closed :: "int list"
  eff_bound :: "(32 word \<times> 16 word) option"
  eff_backlog :: "int option"

definition no_effect :: TcpEffect where
  "no_effect = \<lparr>eff_closed = [], eff_bound = None, eff_backlog = None\<rparr>"

text \<open>The destructor of \<open>GuardedFd\<close>, on every path that throws.\<close>

definition closing :: "int \<Rightarrow> TcpEffect \<Rightarrow> TcpEffect" where
  "closing fd e = (if fd \<ge> 0 then e\<lparr>eff_closed := eff_closed e @ [fd]\<rparr> else e)"

definition createTcpLoopbackListener ::
  "TcpCalls \<Rightarrow> string \<Rightarrow> int \<Rightarrow> int \<Rightarrow> (string, Listener) result \<times> TcpEffect" where
  "createTcpLoopbackListener sys host port backlog =
     (let fd = tcp_socket sys in
      if fd < 0 then (Error (''TCP listener socket failed: '' @ tcp_strerror sys), no_effect)
      else if tcp_setsockopt sys < 0
      then (Error (''TCP listener setsockopt failed: '' @ tcp_strerror sys), closing fd no_effect)
      else case inet_pton4 (c_str host) of
          None \<Rightarrow> (Error ''development TCP listener requires an IPv4 loopback address'', closing fd no_effect)
        | Some a \<Rightarrow>
            if a AND 0xff000000 \<noteq> 0x7f000000
            then (Error ''development TCP listener requires an IPv4 loopback address'', closing fd no_effect)
            else if tcp_bind sys < 0
            then (Error (''TCP listener bind failed: '' @ tcp_strerror sys), closing fd no_effect)
            else
              let e = no_effect\<lparr>eff_bound := Some (a, word_of_int port)\<rparr> in
              if tcp_listen sys < 0
              then (Error (''TCP listener listen failed: '' @ tcp_strerror sys), closing fd e)
              else (Okay \<lparr>lis_fd = fd, lis_unix = False,
                          lis_description = ''http://'' @ host @ '':'' @ show_int port\<rparr>,
                    e\<lparr>eff_backlog := Some backlog\<rparr>))"

section \<open>The activated listener\<close>

text \<open>What the system answers about descriptor 3, the path and the groups.  \<open>None\<close> is a call that
  fails; the name of a socket is its address family with the bytes of \<open>sun_path\<close>.\<close>

record FileStatus =
  fst_is_dir :: bool
  fst_is_sock :: bool
  fst_uid :: nat
  fst_gid :: nat
  fst_mode :: nat

record Activation =
  act_pid :: int
  act_euid :: nat
  act_open :: bool
  act_type :: "int option"
  act_accepting :: "int option"
  act_fstat :: "FileStatus option"
  act_family :: "int option"
  act_sun_path :: string
  act_haproxy :: "nat option"
  act_lstat :: "string \<Rightarrow> FileStatus option"
  act_getfd :: bool
  act_setfd :: bool

definition SOCK_STREAM :: int where "SOCK_STREAM = 1"

definition AF_UNIX :: int where "AF_UNIX = 1"

type_synonym Environment = "string \<Rightarrow> string option"

definition activation_variables :: "string set" where
  "activation_variables = {''LISTEN_PID'', ''LISTEN_FDS'', ''LISTEN_FDNAMES''}"

definition clearActivationEnvironment :: "Environment \<Rightarrow> Environment" where
  "clearActivationEnvironment e = e(''LISTEN_PID'' := None, ''LISTEN_FDS'' := None, ''LISTEN_FDNAMES'' := None)"

definition parseEnvironmentInteger :: "Environment \<Rightarrow> string \<Rightarrow> (string, int) result" where
  "parseEnvironmentInteger e name =
     (case e name of
        None \<Rightarrow> Error (''missing socket activation variable: '' @ name)
      | Some raw \<Rightarrow>
          if raw = [] then Error (''missing socket activation variable: '' @ name)
          else case from_chars int64_min int64_max raw of
              Some (v, []) \<Rightarrow>
                if v < 0 then Error (''invalid socket activation variable: '' @ name) else Okay v
            | _ \<Rightarrow> Error (''invalid socket activation variable: '' @ name))"

text \<open>\<open>activationError\<close>: every one of these failures leaves a cleared environment.\<close>

definition activationError :: "string \<Rightarrow> Environment \<Rightarrow> (string, Listener) result \<times> Environment" where
  "activationError detail e =
     (Error (''invalid activated Unix listener: '' @ detail), clearActivationEnvironment e)"

text \<open>\<open>validateProductionPath\<close>, with the permission bits 0777, 0750 and 0660 in decimal.\<close>

definition production_path_error :: "Activation \<Rightarrow> string \<Rightarrow> string option" where
  "production_path_error a path =
     (case act_haproxy a of
        None \<Rightarrow> Some ''required haproxy group does not exist''
      | Some gid \<Rightarrow>
          if (case act_lstat a ''/run/sister'' of
                None \<Rightarrow> True
              | Some d \<Rightarrow> \<not> fst_is_dir d \<or> fst_uid d \<noteq> 0 \<or> fst_gid d \<noteq> gid \<or> fst_mode d AND 511 \<noteq> 488)
          then Some ''/run/sister ownership or mode is not root:haproxy 0750''
          else if (case act_lstat a (c_str path) of
                None \<Rightarrow> True
              | Some p \<Rightarrow> \<not> fst_is_sock p \<or> fst_uid p \<noteq> act_euid a \<or> fst_gid p \<noteq> gid \<or> fst_mode p AND 511 \<noteq> 432)
          then Some ''socket ownership or mode is not service-user:haproxy 0660''
          else None)"

definition observed_path :: "Activation \<Rightarrow> string" where
  "observed_path a = c_str (take 108 (act_sun_path a))"

text \<open>The checks of \<open>acquireActivatedUnixListener\<close> after the two integers, in their order.\<close>

definition activation_failure :: "Activation \<Rightarrow> Environment \<Rightarrow> int \<Rightarrow> int \<Rightarrow> string \<Rightarrow> bool \<Rightarrow> string option" where
  "activation_failure a e listenPid listenFds expectedPath validate =
     (if listenPid \<noteq> act_pid a then Some ''LISTEN_PID does not match process''
      else if listenFds \<noteq> 1 then Some ''exactly one descriptor is required''
      else if e ''LISTEN_FDNAMES'' \<noteq> Some ''sisterd-http'' then Some ''missing or unexpected descriptor name''
      else if \<not> act_open a then Some ''descriptor 3 is not open''
      else if act_type a \<noteq> Some SOCK_STREAM then Some ''descriptor is not SOCK_STREAM''
      else if act_accepting a \<noteq> Some 1 then Some ''descriptor is not listening''
      else if (case act_fstat a of None \<Rightarrow> True | Some f \<Rightarrow> \<not> fst_is_sock f)
      then Some ''descriptor is not a socket inode''
      else if act_family a \<noteq> Some AF_UNIX then Some ''descriptor is not AF_UNIX''
      else if observed_path a = [] then Some ''abstract Unix sockets are forbidden''
      else if observed_path a \<noteq> expectedPath then Some ''socket path does not match the configured path''
      else case (if validate then production_path_error a expectedPath else None) of
          Some detail \<Rightarrow> Some detail
        | None \<Rightarrow>
            if \<not> act_getfd a \<or> \<not> act_setfd a then Some ''could not set close-on-exec'' else None)"

definition acquireActivatedUnixListener ::
  "Activation \<Rightarrow> Environment \<Rightarrow> string \<Rightarrow> bool \<Rightarrow> (string, Listener) result \<times> Environment" where
  "acquireActivatedUnixListener a e expectedPath validate =
     (if expectedPath = [] \<or> hd expectedPath \<noteq> CHR ''/''
      then (Error ''activated Unix listener path must be absolute'', e)
      else case parseEnvironmentInteger e ''LISTEN_PID'' of
          Error err \<Rightarrow> (Error err, e)
        | Okay listenPid \<Rightarrow>
            (case parseEnvironmentInteger e ''LISTEN_FDS'' of
               Error err \<Rightarrow> (Error err, e)
             | Okay listenFds \<Rightarrow>
                 (case activation_failure a e listenPid listenFds expectedPath validate of
                    Some detail \<Rightarrow> activationError detail e
                  | None \<Rightarrow> (Okay \<lparr>lis_fd = 3, lis_unix = True, lis_description = ''unix:'' @ observed_path a\<rparr>,
                              clearActivationEnvironment e))))"

section \<open>What a listener is\<close>

lemma inet_pton4_loopback: "inet_pton4 host = Some a \<Longrightarrow> isIpv4Loopback host \<longleftrightarrow> a AND 0xff000000 = 0x7f000000"
  by (simp add: isIpv4Loopback_def)

text \<open>The TCP listener of a development start never leaves the loopback and never leaks its descriptor:
  it is obtained only for a host of 127.0.0.0/8, bound to exactly that address and port, and
  still open; and when it cannot be obtained the descriptor, if one was opened, has been closed
  once.\<close>

theorem tcp_listener_confined:
  "case createTcpLoopbackListener sys host port backlog of
     (Okay l, e) \<Rightarrow> isIpv4Loopback (c_str host) \<and> lis_fd l = tcp_socket sys \<and> 0 \<le> lis_fd l \<and> \<not> lis_unix l \<and>
       eff_closed e = [] \<and> eff_bound e = map_option (\<lambda>a. (a, word_of_int port)) (inet_pton4 (c_str host)) \<and>
       eff_backlog e = Some backlog
   | (Error _, e) \<Rightarrow> eff_closed e = (if tcp_socket sys < 0 then [] else [tcp_socket sys]) \<and> eff_backlog e = None"
  by (auto simp: createTcpLoopbackListener_def Let_def no_effect_def closing_def isIpv4Loopback_def
      split: option.split)

lemma parse_environment_okay:
  "parseEnvironmentInteger e name = Okay v \<Longrightarrow> 0 \<le> v \<and> (\<exists>raw. e name = Some raw \<and> from_chars int64_min int64_max raw = Some (v, []))"
  by (auto simp: parseEnvironmentInteger_def split: option.splits if_splits prod.splits list.splits)

lemma activated_checks:
  assumes "acquireActivatedUnixListener a e path validate = (Okay l, e')"
  shows "l = \<lparr>lis_fd = 3, lis_unix = True, lis_description = ''unix:'' @ path\<rparr>" "hd path = CHR ''/''"
    "parseEnvironmentInteger e ''LISTEN_PID'' = Okay (act_pid a)" "parseEnvironmentInteger e ''LISTEN_FDS'' = Okay 1"
    "e ''LISTEN_FDNAMES'' = Some ''sisterd-http''" "act_open a" "act_type a = Some SOCK_STREAM"
    "act_accepting a = Some 1" "act_family a = Some AF_UNIX" "observed_path a = path"
    "validate \<Longrightarrow> production_path_error a path = None" "e' = clearActivationEnvironment e"
proof -
  obtain p n where i: "parseEnvironmentInteger e ''LISTEN_PID'' = Okay p" "parseEnvironmentInteger e ''LISTEN_FDS'' = Okay n"
    and path: "hd path = CHR ''/''" and f: "activation_failure a e p n path validate = None"
    and l: "l = \<lparr>lis_fd = 3, lis_unix = True, lis_description = ''unix:'' @ observed_path a\<rparr>"
    and e': "e' = clearActivationEnvironment e"
    using assms
    by (auto simp: acquireActivatedUnixListener_def activationError_def split: if_splits sum.splits option.splits)
  from f have c: "p = act_pid a \<and> n = 1 \<and> e ''LISTEN_FDNAMES'' = Some ''sisterd-http'' \<and> act_open a \<and>
    act_type a = Some SOCK_STREAM \<and> act_accepting a = Some 1 \<and> act_family a = Some AF_UNIX \<and> observed_path a = path \<and>
    (validate \<longrightarrow> production_path_error a path = None)"
    unfolding activation_failure_def by (auto split: if_splits option.splits)
  show "l = \<lparr>lis_fd = 3, lis_unix = True, lis_description = ''unix:'' @ path\<rparr>" "hd path = CHR ''/''"
    "parseEnvironmentInteger e ''LISTEN_PID'' = Okay (act_pid a)" "parseEnvironmentInteger e ''LISTEN_FDS'' = Okay 1"
    "e ''LISTEN_FDNAMES'' = Some ''sisterd-http''" "act_open a" "act_type a = Some SOCK_STREAM"
    "act_accepting a = Some 1" "act_family a = Some AF_UNIX" "observed_path a = path" "e' = clearActivationEnvironment e"
    using i path l e' c by simp_all
  show "production_path_error a path = None" if validate using c that by simp
qed

lemma production_path_okay:
  "production_path_error a path = None \<longleftrightarrow>
     (\<exists>g d p. act_haproxy a = Some g \<and> act_lstat a ''/run/sister'' = Some d \<and> act_lstat a (c_str path) = Some p \<and>
       fst_is_dir d \<and> fst_uid d = 0 \<and> fst_gid d = g \<and> fst_mode d AND 511 = 488 \<and>
       fst_is_sock p \<and> fst_uid p = act_euid a \<and> fst_gid p = g \<and> fst_mode p AND 511 = 432)"
  by (auto simp: production_path_error_def split: option.splits)


definition sample_status :: "bool \<Rightarrow> nat \<Rightarrow> nat \<Rightarrow> FileStatus" where
  "sample_status dir uid mode = \<lparr>fst_is_dir = dir, fst_is_sock = \<not> dir, fst_uid = uid, fst_gid = 99, fst_mode = mode\<rparr>"

definition sample_activation :: Activation where
  "sample_activation = \<lparr>act_pid = 812, act_euid = 995, act_open = True, act_type = Some 1, act_accepting = Some 1,
     act_fstat = Some (sample_status False 995 432), act_family = Some 1,
     act_sun_path = ''/run/sister/sisterd.sock'' @ replicate 84 NUL, act_haproxy = Some 99,
     act_lstat = (\<lambda>p. if p = ''/run/sister'' then Some (sample_status True 0 488)
                      else if p = ''/run/sister/sisterd.sock'' then Some (sample_status False 995 432) else None),
     act_getfd = True, act_setfd = True\<rparr>"

definition sample_environment :: Environment where
  "sample_environment = [''LISTEN_PID'' \<mapsto> ''812'', ''LISTEN_FDS'' \<mapsto> ''1'', ''LISTEN_FDNAMES'' \<mapsto> ''sisterd-http'']"

lemma sample_activates:
  "fst (acquireActivatedUnixListener sample_activation sample_environment ''/run/sister/sisterd.sock'' True) =
     Okay \<lparr>lis_fd = 3, lis_unix = True, lis_description = ''unix:/run/sister/sisterd.sock''\<rparr>"
  by code_simp


end
