(* ===== verification/Daemon_Main.thy ===== *)
theory Daemon_Main
  imports Listener Thread_Pool Auth_Database
begin

text \<open>
  The function \<open>main\<close> of the daemon (end of \<open>apps/sisterd/main.cpp\<close>): configuration, listener,
  authentication store, thread pool, and the accept loop until a signal or a failing system call
  ends it.  The results of \<open>select\<close> and \<open>accept\<close>, the signals and the steps of the workers are the
  events of a run, in the order in which they happen.
\<close>

section \<open>Start\<close>

text \<open>The member \<open>auth\<close> of \<open>AppState\<close>: the file store, or the connection to the database.\<close>

record StoreWorld =
  sw_pg :: PgEnv
  sw_base :: IdentityBase
  sw_env :: AuthEnv
  sw_users_file :: string
  sw_sessions_file :: string

definition open_store :: "StoreWorld \<Rightarrow> ServerConfig \<Rightarrow> (string, AuthStore + PgAuth) result" where
  "open_store w c =
     (let url = (if authBackend c = ''postgresql'' then databaseUrl c else []) in
      if url \<noteq> []
      then (case AuthStore_connect (sw_pg w) (sw_base w) of Error e \<Rightarrow> Error e | Okay s \<Rightarrow> Okay (Inr s))
      else Okay (Inl (AuthStore_open (sw_env w) (sw_users_file w) (sw_sessions_file w))))"

text \<open>\<open>main\<close> returns 1 with a message, dies of an exception that it does not catch, or serves.\<close>

datatype startup =
    ReturnsOne string
  | Uncaught string
  | Serving ServerConfig Listener "AuthStore + PgAuth" ThreadPool

definition main_start ::
  "Surroundings \<Rightarrow> string list \<Rightarrow> TcpCalls \<Rightarrow> Activation \<Rightarrow> StoreWorld \<Rightarrow> startup" where
  "main_start sr argv tcp act w =
     (case loadConfig sr argv of
        Error e \<Rightarrow> ReturnsOne (''configuration error: '' @ e)
      | Okay c \<Rightarrow>
          (case (if activatedUnixListener c
                 then fst (acquireActivatedUnixListener act (getenv sr) (activatedSocketPath c) (production c))
                 else fst (createTcpLoopbackListener tcp (bindHost c) (cfg_port c) (cfg_queueLimit c))) of
             Error e \<Rightarrow> ReturnsOne (''listener error: '' @ e)
           | Okay l \<Rightarrow>
               (case open_store w c of
                  Error e \<Rightarrow> Uncaught e
                | Okay store \<Rightarrow>
                    Serving c l store (ConnectionThreadPool_new (nat (workerThreads c)) (nat (cfg_queueLimit c))))))"

section \<open>The accept loop\<close>

text \<open>An accepted connection: its descriptor, and the text of its IPv4 address with its port when the
  peer has one.\<close>

datatype accepted = AcceptInterrupted | AcceptFails | Accepted nat "(string \<times> 16 word) option"

datatype waited = SelectInterrupted | SelectFails | Quiet | Ready accepted

datatype loop_event = Signal | Waited waited | Takes nat | Finishes nat handler_outcome

record LoopState =
  running :: bool
  loop_pool :: ThreadPool
  loop_accepted :: "int list"
  loop_jobs :: "Job list"
  loop_closed :: "int list"

definition peer_job :: "bool \<Rightarrow> int \<Rightarrow> (string \<times> 16 word) option \<Rightarrow> Job option" where
  "peer_job unix fd addr =
     (if unix then Some \<lparr>job_client = fd, job_peer = ''unix-gateway'', job_remoteAddress = ''unix-gateway''\<rparr>
      else case addr of
          None \<Rightarrow> None
        | Some (ip, p) \<Rightarrow> Some \<lparr>job_client = fd, job_peer = ip @ '':'' @ show_nat (unat p), job_remoteAddress = ip\<rparr>)"

definition loop_iteration :: "bool \<Rightarrow> waited \<Rightarrow> LoopState \<Rightarrow> LoopState" where
  "loop_iteration unix e s =
     (case e of
        SelectInterrupted \<Rightarrow> s
      | SelectFails \<Rightarrow> s\<lparr>running := False\<rparr>
      | Quiet \<Rightarrow> s
      | Ready AcceptInterrupted \<Rightarrow> s
      | Ready AcceptFails \<Rightarrow> s\<lparr>running := False\<rparr>
      | Ready (Accepted n addr) \<Rightarrow>
          let fd = int n; s = s\<lparr>loop_accepted := loop_accepted s @ [fd]\<rparr> in
          (case peer_job unix fd addr of
             None \<Rightarrow> s\<lparr>loop_closed := loop_closed s @ [fd]\<rparr>
           | Some job \<Rightarrow> s\<lparr>loop_pool := accept_connection job (loop_pool s), loop_jobs := loop_jobs s @ [job]\<rparr>))"

text \<open>One event of a run: a signal ends the loop at its next test; a worker moves when it can.\<close>

definition loop_step :: "bool \<Rightarrow> loop_event \<Rightarrow> LoopState \<Rightarrow> LoopState" where
  "loop_step unix e s =
     (case e of
        Signal \<Rightarrow> s\<lparr>running := False\<rparr>
      | Waited w \<Rightarrow> if running s then loop_iteration unix w s else s
      | Takes i \<Rightarrow> (case worker_take i (loop_pool s) of None \<Rightarrow> s | Some p \<Rightarrow> s\<lparr>loop_pool := p\<rparr>)
      | Finishes i out \<Rightarrow> (case worker_finish i out (loop_pool s) of None \<Rightarrow> s | Some p \<Rightarrow> s\<lparr>loop_pool := p\<rparr>))"

definition loop_start :: "ThreadPool \<Rightarrow> LoopState" where
  "loop_start p = \<lparr>running = True, loop_pool = p, loop_accepted = [], loop_jobs = [], loop_closed = []\<rparr>"

definition main_loop :: "bool \<Rightarrow> loop_event list \<Rightarrow> ThreadPool \<Rightarrow> LoopState" where
  "main_loop unix es p = fold (loop_step unix) es (loop_start p)"

section \<open>The pool of a run\<close>

definition loop_ok :: "nat \<Rightarrow> nat \<Rightarrow> LoopState \<Rightarrow> bool" where
  "loop_ok n lim s \<longleftrightarrow> pool_run n lim (loop_pool s) (loop_jobs s) \<and>
     mset (loop_accepted s) = mset (loop_closed s) + mset (map job_client (loop_jobs s))"

lemma peer_job_client: "peer_job unix fd addr = Some job \<Longrightarrow> job_client job = fd"
  by (auto simp: peer_job_def split: if_splits option.splits)

lemma loop_iteration_ok:
  assumes "loop_ok n lim s"
  shows "loop_ok n lim (loop_iteration unix e s)"
proof (cases "\<exists>k addr. e = Ready (Accepted k addr)")
  case True
  then obtain k addr where e: "e = Ready (Accepted k addr)" by blast
  show ?thesis
  proof (cases "peer_job unix (int k) addr")
    case None
    with e assms show ?thesis by (simp add: loop_iteration_def loop_ok_def Let_def)
  next
    case (Some job)
    then have "0 \<le> job_client job" "job_client job = int k" using peer_job_client [OF Some] by simp_all
    with e Some assms run_accept [of n lim "loop_pool s" "loop_jobs s" job] show ?thesis
      by (simp add: loop_iteration_def loop_ok_def Let_def)
  qed
qed (use assms in \<open>auto simp: loop_iteration_def loop_ok_def split: waited.split accepted.split\<close>)

lemma loop_step_ok: "loop_ok n lim s \<Longrightarrow> loop_ok n lim (loop_step unix e s)"
proof (cases e)
  case (Takes i)
  then show "loop_ok n lim s \<Longrightarrow> ?thesis"
    using run_worker [OF _ step_take [of i "loop_pool s"], of n lim "loop_jobs s"]
    by (auto simp: loop_step_def loop_ok_def split: option.split)
next
  case (Finishes i out)
  then show "loop_ok n lim s \<Longrightarrow> ?thesis"
    using run_worker [OF _ step_finish [of i out "loop_pool s"], of n lim "loop_jobs s"]
    by (auto simp: loop_step_def loop_ok_def split: option.split)
qed (auto simp: loop_step_def loop_iteration_ok loop_ok_def [of _ _ "_\<lparr>running := False\<rparr>"] loop_ok_def [of n lim s])

lemma fold_keeps: "(\<And>e s. P s \<Longrightarrow> P (f e s)) \<Longrightarrow> P s \<Longrightarrow> P (fold f es s)"
  by (induction es arbitrary: s) auto

lemma main_loop_ok: "loop_ok n lim (main_loop unix es (ConnectionThreadPool_new n lim))"
  unfolding main_loop_def
proof (rule fold_keeps [where P = "loop_ok n lim"])
  show "loop_ok n lim (loop_start (ConnectionThreadPool_new n lim))"
    by (simp add: loop_ok_def loop_start_def run_new)
qed (rule loop_step_ok)

lemma worker_steps_run: "worker_step\<^sup>*\<^sup>* p q \<Longrightarrow> pool_run n lim p acc \<Longrightarrow> pool_run n lim q acc"
  by (induction rule: rtranclp.induct) (auto intro: run_worker)

definition one_address :: "LoopState \<Rightarrow> bool" where
  "one_address s \<longleftrightarrow> (\<forall>job \<in> set (loop_jobs s). job_remoteAddress job = ''unix-gateway'')"

lemma loop_step_unix: "one_address s \<Longrightarrow> one_address (loop_step True e s)"
  by (auto simp: one_address_def loop_step_def loop_iteration_def peer_job_def Let_def
      split: loop_event.split waited.split accepted.split option.split)

lemma main_loop_unix: "one_address (main_loop True es p)"
  unfolding main_loop_def
proof (rule fold_keeps [where P = one_address])
  show "one_address (loop_start p)" by (simp add: one_address_def loop_start_def)
qed (rule loop_step_unix)

section \<open>Properties\<close>


definition sample_events :: "loop_event list" where
  "sample_events = [Waited (Ready (Accepted 7 None)), Waited (Ready (Accepted 8 None)), Takes 0, Waited Quiet,
     Finishes 0 (StdException ''x''), Takes 0, Finishes 0 Returns, Signal, Waited (Ready (Accepted 9 None))]"

definition sample_stopped :: ThreadPool where
  "sample_stopped = the (worker_take 0 (the (stop_announce (loop_pool (main_loop True sample_events (ConnectionThreadPool_new 1 1))))))"



definition gateway_surroundings :: "Environment \<Rightarrow> Surroundings" where
  "gateway_surroundings vars = sample_surroundings\<lparr>getenv := sample_environment ++ vars\<rparr>"

definition unused_tcp :: TcpCalls where
  "unused_tcp = \<lparr>tcp_socket = -1, tcp_setsockopt = -1, tcp_bind = -1, tcp_listen = -1, tcp_strerror = []\<rparr>"

definition sample_stores :: "bool \<Rightarrow> StoreWorld" where
  "sample_stores up = \<lparr>sw_pg = \<lparr>env_now = 0, uuid_entropy = None, salt_entropy = None, token_entropy = None,
       users_writable = True, sessions_writable = True, session_entropy = None, fresh_link = up, reset_link = up,
       answers = (\<lambda>_. Answers), pick = 0, pg_lower = lowercase, pg_le = (\<lambda>a c. length a \<le> length c)\<rparr>,
     sw_base = \<lparr>user_rows = [], session_rows = []\<rparr>,
     sw_env = \<lparr>env_now = 0, uuid_entropy = None, salt_entropy = None, token_entropy = None,
       users_writable = True, sessions_writable = True\<rparr>, sw_users_file = [], sw_sessions_file = []\<rparr>"

lemma sample_start:
  "case main_start (gateway_surroundings Map.empty) [''sisterd''] unused_tcp sample_activation (sample_stores True) of
     Serving c l store p \<Rightarrow> production c | _ \<Rightarrow> False"
  by code_simp


text \<open>A database that cannot be reached when the daemon starts is not reported like the other errors of
  the start: the exception of the store's constructor leaves \<open>main\<close>.\<close>

theorem database_down_uncaught:
  "main_start (gateway_surroundings [''SISTER_AUTH_BACKEND'' \<mapsto> ''postgresql'', ''SISTER_DATABASE_URL'' \<mapsto> ''postgresql://db''])
     [''sisterd''] unused_tcp sample_activation (sample_stores False) =
   Uncaught ''database-backed authentication is unavailable''"
  by code_simp

end
