(* ===== verification/Sisterctl.thy ===== *)
theory Sisterctl
  imports Contract Auth_Properties
begin

text \<open>
  The administration tool (\<open>apps/sisterctl/main.cpp\<close>): the commands it hands to the shell, the
  local bootstrap of the administrator, the import of a user and the validation of a manifest.
  The reading of a command line by the POSIX shell is modelled for the characters that the tool
  writes, so that quoting can be stated as a round trip.
\<close>

section \<open>Quoting\<close>

abbreviation APOSTROPHE :: char where "APOSTROPHE \<equiv> CHR 0x27"

fun quote_chars :: "string \<Rightarrow> string" where
  "quote_chars [] = []"
| "quote_chars (c # s) = (if c = APOSTROPHE then [APOSTROPHE, BACKSLASH, APOSTROPHE, APOSTROPHE] else [c]) @ quote_chars s"

definition shellQuote :: "string \<Rightarrow> string" where
  "shellQuote value = [APOSTROPHE] @ quote_chars value @ [APOSTROPHE]"

text \<open>The words of a shell command: blanks separate, single quotes keep everything up to the next
  single quote, a backslash keeps the next character.  \<open>None\<close> is a command that the shell would not
  take as a list of literal words (an open quote, or a character with a meaning of its own).\<close>

definition literal_char :: "char \<Rightarrow> bool" where
  "literal_char c \<longleftrightarrow> isalnum c \<or> c \<in> set ''./_-''"

datatype sh_mode = Between | InWord string | InQuotes string

fun sh_words :: "sh_mode \<Rightarrow> string \<Rightarrow> string list option" where
  "sh_words Between [] = Some []"
| "sh_words (InWord w) [] = Some [w]"
| "sh_words (InQuotes w) [] = None"
| "sh_words (InQuotes w) (c # s) =
     (if c = APOSTROPHE then sh_words (InWord w) s else sh_words (InQuotes (w @ [c])) s)"
| "sh_words Between (c # s) =
     (if c = CHR '' '' then sh_words Between s
      else if c = APOSTROPHE then sh_words (InQuotes []) s
      else if c = BACKSLASH then (case s of [] \<Rightarrow> None | d # t \<Rightarrow> if d = LF then None else sh_words (InWord [d]) t)
      else if literal_char c then sh_words (InWord [c]) s else None)"
| "sh_words (InWord w) (c # s) =
     (if c = CHR '' '' then map_option (\<lambda>ws. w # ws) (sh_words Between s)
      else if c = APOSTROPHE then sh_words (InQuotes w) s
      else if c = BACKSLASH then (case s of [] \<Rightarrow> None | d # t \<Rightarrow> if d = LF then None else sh_words (InWord (w @ [d])) t)
      else if literal_char c then sh_words (InWord (w @ [c])) s else None)"

section \<open>Commands\<close>

definition participation_command :: "string \<Rightarrow> string \<Rightarrow> bool \<Rightarrow> string" where
  "participation_command operation value asJson =
     ''python3 ./scripts/participation_client.py '' @ shellQuote operation @ '' '' @ shellQuote value @
     (if asJson then '' --json'' else [])"

definition migrate_command :: "string \<Rightarrow> string" where
  "migrate_command migration = ''./scripts/dev/db_migrate.sh '' @ shellQuote migration"

section \<open>The tool\<close>

type_synonym files = "string \<Rightarrow> string option"

text \<open>What one invocation meets: the environment, the terminal at each hidden prompt in order, the status
  of a command, and the cryptography and entropy of the store.\<close>

record Terminal =
  is_tty :: bool
  attr_read :: bool
  attr_set :: bool
  typed_line :: string

record CtlWorld =
  ctl_getenv :: "string \<Rightarrow> string option"
  ctl_terminal :: "nat \<Rightarrow> Terminal"
  ctl_system :: "string \<Rightarrow> int"
  ctl_crypto :: Crypto
  ctl_env :: AuthEnv

record CtlResult =
  ctl_code :: nat
  ctl_out :: string
  ctl_err :: string
  ctl_asked :: "string list"
  ctl_commands :: "string list"
  ctl_files :: files

definition TerminalEchoGuard :: "Terminal \<Rightarrow> (string, unit) result" where
  "TerminalEchoGuard t =
     (if \<not> is_tty t \<or> \<not> attr_read t then Error ''password input requires an interactive terminal''
      else if \<not> attr_set t then Error ''could not hide terminal input''
      else Okay ())"

definition readHidden :: "Terminal \<Rightarrow> (string, string) result" where
  "readHidden t = (case TerminalEchoGuard t of Error e \<Rightarrow> Error e | Okay _ \<Rightarrow> Okay (typed_line t))"

definition ctl_hidden :: "CtlWorld \<Rightarrow> nat \<Rightarrow> (string, string) result" where
  "ctl_hidden w k = readHidden (ctl_terminal w k)"

definition exits :: "nat \<Rightarrow> files \<Rightarrow> CtlResult" where
  "exits code fs = \<lparr>ctl_code = code, ctl_out = [], ctl_err = [], ctl_asked = [], ctl_commands = [], ctl_files = fs\<rparr>"

definition failed :: "string \<Rightarrow> string list \<Rightarrow> files \<Rightarrow> CtlResult" where
  "failed msg asked fs = (exits 1 fs)\<lparr>ctl_err := msg @ [LF], ctl_asked := asked\<rparr>"

definition usage_text :: string where
  "usage_text = concat (map (\<lambda>l. l @ [LF])
     [''usage:'', ''  sisterctl validate-manifest <manifest.json>'', ''  sisterctl db-check'',
      ''  sisterctl db-migrate [migration.sql]'', ''  sisterctl participation propose <contract.json> [--json]'',
      ''  sisterctl participation show <participation_id> [--json]'',
      ''  sisterctl auth bootstrap-admin <name> <email>'',
      ''  sisterctl auth-import-user <uuid> <name> <email> <role>''])"

definition usage :: "files \<Rightarrow> CtlResult" where
  "usage fs = (exits 2 fs)\<lparr>ctl_out := usage_text\<rparr>"

definition runScript :: "CtlWorld \<Rightarrow> string \<Rightarrow> files \<Rightarrow> CtlResult" where
  "runScript w command fs =
     (if ctl_system w (c_str command) \<noteq> 0
      then (failed (''command failed: '' @ command) [] fs)\<lparr>ctl_commands := [c_str command]\<rparr>
      else (exits 0 fs)\<lparr>ctl_commands := [c_str command]\<rparr>)"

text \<open>The store on a path, and the files after an operation on it.\<close>

definition file_text :: "files \<Rightarrow> string \<Rightarrow> string" where
  "file_text fs p = (case fs p of None \<Rightarrow> [] | Some t \<Rightarrow> t)"

definition store_at :: "CtlWorld \<Rightarrow> files \<Rightarrow> string \<Rightarrow> AuthStore" where
  "store_at w fs p = AuthStore_open (ctl_env w) (file_text fs p) (file_text fs (p @ ''.sessions''))"

definition save_to :: "string \<Rightarrow> AuthStore \<Rightarrow> AuthStore \<Rightarrow> files \<Rightarrow> files" where
  "save_to p old new fs =
     (let fs = (if users_file new = users_file old then fs else fs(p \<mapsto> users_file new)) in
      if sessions_file new = sessions_file old then fs else fs(p @ ''.sessions'' \<mapsto> sessions_file new))"

text \<open>The two hidden prompts and their comparison, with what follows when they agree.\<close>

definition with_password ::
  "CtlWorld \<Rightarrow> string \<Rightarrow> files \<Rightarrow> (string \<Rightarrow> CtlResult) \<Rightarrow> CtlResult" where
  "with_password w prompt fs rest =
     (case ctl_hidden w 0 of
        Error e \<Rightarrow> failed (''error: '' @ e) [prompt] fs
      | Okay password \<Rightarrow>
          (case ctl_hidden w 1 of
             Error e \<Rightarrow> failed (''error: '' @ e) [prompt, ''Confirme a senha: ''] fs
           | Okay confirmation \<Rightarrow>
               if password \<noteq> confirmation
               then failed ''password confirmation does not match'' [prompt, ''Confirme a senha: ''] fs
               else (rest password)\<lparr>ctl_asked := [prompt, ''Confirme a senha: '']\<rparr>))"

definition stored_result ::
  "string \<Rightarrow> string \<Rightarrow> string \<Rightarrow> AuthStore \<Rightarrow> AuthUser outcome \<times> AuthStore \<Rightarrow> files \<Rightarrow> CtlResult" where
  "stored_result p done_text refusal old r fs =
     (let after = save_to p old (snd r) fs in
      case fst r of
        Throws e \<Rightarrow> failed (''error: '' @ e) [] after
      | Refused _ \<Rightarrow> failed refusal [] after
      | Done u \<Rightarrow> (exits 0 after)\<lparr>ctl_out := done_text @ au_email u @ [LF]\<rparr>)"

definition ctl_bootstrap :: "CtlWorld \<Rightarrow> string \<Rightarrow> string \<Rightarrow> files \<Rightarrow> CtlResult" where
  "ctl_bootstrap w name email fs =
     (case ctl_getenv w ''SISTER_AUTH_FILE'' of
        None \<Rightarrow> failed ''error: SISTER_AUTH_FILE must be explicitly configured for administrator bootstrap'' [] fs
      | Some p \<Rightarrow>
          if p = [] then failed ''error: SISTER_AUTH_FILE must be explicitly configured for administrator bootstrap'' [] fs
          else if hd p \<noteq> CHR ''/''
          then failed ''error: SISTER_AUTH_FILE must be an absolute path for administrator bootstrap'' [] fs
          else with_password w ''Nova senha administrativa: '' fs (\<lambda>password.
            let st = store_at w fs p in
            stored_result p ''administrator created: ''
              ''administrator bootstrap is closed or the supplied data is invalid'' st
              (bootstrapAdmin (ctl_crypto w) (ctl_env w) name email password st) fs))"

definition ctl_import :: "CtlWorld \<Rightarrow> string \<Rightarrow> string \<Rightarrow> string \<Rightarrow> string \<Rightarrow> files \<Rightarrow> CtlResult" where
  "ctl_import w i name email role fs =
     with_password w ''Nova senha: '' fs (\<lambda>password.
       let p = (case ctl_getenv w ''SISTER_AUTH_FILE'' of None \<Rightarrow> ''.run/auth-users.tsv'' | Some p \<Rightarrow> p);
           st = store_at w fs p in
       stored_result p ''user imported: ''
         ''could not import user; verify UUID, fields, role or duplicate identity'' st
         (importUser (ctl_crypto w) (ctl_env w) i name email password role st) fs)"

definition ctl_validate :: "string \<Rightarrow> files \<Rightarrow> CtlResult" where
  "ctl_validate path fs =
     (case fs path of
        None \<Rightarrow> failed (''error: could not open file: '' @ path) [] fs
      | Some json \<Rightarrow>
          let validation = validateSystemManifest (parseSystemManifestJson json) in
          (exits (if vr_ok validation then 0 else 1) fs)\<lparr>ctl_out := validation_to_string validation @ [LF]\<rparr>)"

text \<open>\<open>main\<close>; the first element of \<open>argv\<close> is the name of the program.\<close>

definition sisterctl :: "CtlWorld \<Rightarrow> string list \<Rightarrow> files \<Rightarrow> CtlResult" where
  "sisterctl w argv fs =
     (let argc = length argv; arg = (\<lambda>k. if k < argc then argv ! k else []) in
      if argc \<ge> 2 \<and> arg 1 = ''participation'' then
        (if argc \<noteq> 4 \<and> argc \<noteq> 5 \<or> arg 2 \<noteq> ''propose'' \<and> arg 2 \<noteq> ''show'' \<or> argc = 5 \<and> arg 4 \<noteq> ''--json''
         then usage fs
         else runScript w (participation_command (arg 2) (arg 3) (argc = 5)) fs)
      else if argc \<ge> 3 \<and> arg 1 = ''auth'' \<and> arg 2 = ''bootstrap-admin'' then
        (if argc \<noteq> 5 then usage fs else ctl_bootstrap w (arg 3) (arg 4) fs)
      else if argc \<ge> 2 \<and> arg 1 = ''auth-import-user'' then
        (if argc \<noteq> 6 then usage fs else ctl_import w (arg 2) (arg 3) (arg 4) (arg 5) fs)
      else if argc \<ge> 2 \<and> arg 1 = ''db-check'' then
        (if argc \<noteq> 2 then usage fs else runScript w ''./scripts/dev/db_check.sh'' fs)
      else if argc \<ge> 2 \<and> arg 1 = ''db-migrate'' then
        (if argc > 3 then usage fs
         else runScript w (migrate_command (if argc = 3 then arg 2 else ''storage/migrations/001_init.sql'')) fs)
      else if argc \<noteq> 3 \<or> arg 1 \<noteq> ''validate-manifest'' then usage fs
      else ctl_validate (arg 2) fs)"

section \<open>No command carries more than its words\<close>

lemma quoted_word:
  "sh_words (InQuotes w) (quote_chars v @ APOSTROPHE # s) = sh_words (InWord (w @ v)) s"
  by (induction v arbitrary: w) auto

lemma shellQuote_between: "sh_words Between (shellQuote v @ s) = sh_words (InWord v) s"
  by (simp add: shellQuote_def quoted_word)

lemma literal_word:
  "list_all literal_char v \<Longrightarrow> sh_words (InWord w) (v @ s) = sh_words (InWord (w @ v)) s"
proof (induction v arbitrary: w)
  case (Cons c v)
  then have "c \<noteq> CHR '' ''" "c \<noteq> APOSTROPHE" "c \<noteq> BACKSLASH"
    by (auto simp: literal_char_def isalnum_def isdigit_def islower_def isupper_def)
  with Cons show ?case by simp
qed simp

lemma literal_between:
  assumes "list_all literal_char v" "v \<noteq> []"
  shows "sh_words Between (v @ s) = sh_words (InWord v) s"
proof -
  obtain c u where v: "v = c # u" using assms(2) by (cases v) auto
  then have "c \<noteq> CHR '' ''" "c \<noteq> APOSTROPHE" "c \<noteq> BACKSLASH" "literal_char c"
    using assms(1) by (auto simp: literal_char_def isalnum_def isdigit_def islower_def isupper_def)
  with literal_word [of u "[c]" s] assms(1) v show ?thesis by simp
qed

lemma word_blank: "sh_words (InWord w) (CHR '' '' # s) = map_option (\<lambda>ws. w # ws) (sh_words Between s)"
  by simp

lemma literal_then:
  "list_all literal_char v \<Longrightarrow> v \<noteq> [] \<Longrightarrow> sh_words Between (v @ CHR '' '' # s) = map_option (\<lambda>ws. v # ws) (sh_words Between s)"
  by (simp add: literal_between)

lemma quoted_then: "sh_words Between (shellQuote v @ CHR '' '' # s) = map_option (\<lambda>ws. v # ws) (sh_words Between s)"
  by (simp only: shellQuote_between word_blank)

lemma quoted_end: "sh_words Between (shellQuote v) = Some [v]"
  using shellQuote_between [of v "[]"] by simp

lemma literal_end: "list_all literal_char v \<Longrightarrow> v \<noteq> [] \<Longrightarrow> sh_words Between v = Some [v]"
  using literal_between [of v "[]"] by simp

lemma participation_words:
  "sh_words Between (participation_command op value js) =
     Some ([''python3'', ''./scripts/participation_client.py'', op, value] @ (if js then [''--json''] else []))"
proof -
  have lit: "list_all literal_char ''python3''" "list_all literal_char ''./scripts/participation_client.py''"
    "list_all literal_char ''--json''" by code_simp+
  have plain: "sh_words Between (a @ CHR '' '' # b @ CHR '' '' # shellQuote op @ CHR '' '' # shellQuote value) = Some [a, b, op, value]"
    and json: "sh_words Between (a @ CHR '' '' # b @ CHR '' '' # shellQuote op @ CHR '' '' # shellQuote value @ CHR '' '' # c) =
      Some [a, b, op, value, c]"
    if "list_all literal_char a" "a \<noteq> []" "list_all literal_char b" "b \<noteq> []" "list_all literal_char c" "c \<noteq> []" for a b c
    using that by (simp_all add: literal_then quoted_then quoted_end literal_end)
  have "participation_command op value False =
      ''python3'' @ CHR '' '' # ''./scripts/participation_client.py'' @ CHR '' '' # shellQuote op @ CHR '' '' # shellQuote value"
    "participation_command op value True =
      ''python3'' @ CHR '' '' # ''./scripts/participation_client.py'' @ CHR '' '' # shellQuote op @ CHR '' '' #
        shellQuote value @ CHR '' '' # ''--json''"
    by (simp_all add: participation_command_def)
  then show ?thesis
    using plain [OF lit(1) _ lit(2) _ lit(3)] json [OF lit(1) _ lit(2) _ lit(3)] by (cases js) (simp_all only: list.distinct append_Cons append_Nil if_True if_False not_False_eq_True)
qed

lemma migrate_words: "sh_words Between (migrate_command m) = Some [''./scripts/dev/db_migrate.sh'', m]"
proof -
  have lit: "list_all literal_char ''./scripts/dev/db_migrate.sh''" by code_simp
  have "migrate_command m = ''./scripts/dev/db_migrate.sh'' @ CHR '' '' # shellQuote m"
    by (simp add: migrate_command_def)
  then show ?thesis using literal_then [OF lit, of "shellQuote m"] by (simp only: quoted_end option.map list.distinct not_False_eq_True)
qed

lemma check_words: "sh_words Between ''./scripts/dev/db_check.sh'' = Some [''./scripts/dev/db_check.sh'']"
  by (rule literal_end) (code_simp, simp)

lemma quote_nul: "NUL \<in> set (shellQuote v) \<longleftrightarrow> NUL \<in> set v"
proof -
  have "NUL \<in> set (quote_chars v) \<longleftrightarrow> NUL \<in> set v" by (induction v) auto
  then show ?thesis by (simp add: shellQuote_def)
qed

lemma command_nul:
  "NUL \<notin> set op \<Longrightarrow> NUL \<notin> set v \<Longrightarrow> c_str (participation_command op v js) = participation_command op v js"
  "NUL \<notin> set v \<Longrightarrow> c_str (migrate_command v) = migrate_command v"
  by (rule c_str_id, auto simp: participation_command_def migrate_command_def quote_nul)+

lemma no_commands [simp]:
  "ctl_commands (usage fs) = []" "ctl_commands (failed m a fs) = []" "ctl_commands (exits n fs) = []"
  "ctl_commands (ctl_validate p fs) = []" "ctl_commands (stored_result p d r old res fs) = []"
  by (simp_all add: usage_def failed_def exits_def ctl_validate_def stored_result_def Let_def split: option.split outcome.split)

lemma no_commands_password [simp]:
  "(\<And>p. ctl_commands (rest p) = []) \<Longrightarrow> ctl_commands (with_password w prompt fs rest) = []"
  by (simp add: with_password_def split: sum.split)

lemma no_commands_store [simp]:
  "ctl_commands (ctl_bootstrap w n e fs) = []" "ctl_commands (ctl_import w i n e r fs) = []"
  by (simp_all add: ctl_bootstrap_def ctl_import_def Let_def split: option.split)

lemma script_commands: "ctl_commands (runScript w c fs) = [c_str c]"
  by (simp add: runScript_def failed_def exits_def)

definition may_run :: "string list \<Rightarrow> string list \<Rightarrow> bool" where
  "may_run argv cmds \<longleftrightarrow> cmds = [] \<or>
     (\<exists>js. 4 \<le> length argv \<and> cmds = [participation_command (argv ! 2) (argv ! 3) js]) \<or>
     (length argv = 3 \<and> cmds = [migrate_command (argv ! 2)]) \<or>
     cmds = [migrate_command ''storage/migrations/001_init.sql''] \<or> cmds = [''./scripts/dev/db_check.sh'']"

lemma may_run_if:
  "(A \<Longrightarrow> may_run argv x) \<Longrightarrow> (\<not> A \<Longrightarrow> may_run argv y) \<Longrightarrow> may_run argv (if A then x else y)"
  by simp

lemma sisterctl_commands:
  assumes "list_all (\<lambda>a. NUL \<notin> set a) argv"
  shows "may_run argv (ctl_commands (sisterctl w argv fs))"
proof -
  define arg where "arg k = (if k < length argv then argv ! k else [])" for k
  have nul: "NUL \<notin> set (arg k)" for k using assms by (simp add: list_all_length arg_def)
  have lit: "c_str ''./scripts/dev/db_check.sh'' = ''./scripts/dev/db_check.sh''"
    "NUL \<notin> set ''storage/migrations/001_init.sql''" by code_simp+
  have silent: "may_run argv []"
    and check: "may_run argv (ctl_commands (runScript w ''./scripts/dev/db_check.sh'' fs))"
    unfolding may_run_def script_commands lit(1) by simp_all
  have participation: "may_run argv (ctl_commands (runScript w (participation_command (arg 2) (arg 3) js) fs))"
    if "4 \<le> length argv" for js
    using that unfolding may_run_def script_commands command_nul(1) [OF nul nul] by (auto simp: arg_def)
  have migrate: "may_run argv (ctl_commands (runScript w (migrate_command
      (if length argv = 3 then arg 2 else ''storage/migrations/001_init.sql'')) fs))"
    by (cases "length argv = 3")
      (use command_nul(2) [OF nul [of 2]] in \<open>simp_all only: may_run_def script_commands command_nul(2) [OF lit(2)] if_True if_False\<close>,
       simp_all add: arg_def)
  show ?thesis
    unfolding sisterctl_def Let_def arg_def [symmetric] if_distrib [of ctl_commands] no_commands no_commands_store
    by (intro may_run_if silent check participation migrate) linarith
qed

text \<open>C38: Nothing an operator types can become shell syntax.  Whatever the arguments, the tool hands the shell at
  most one command, and the shell reads it as a list of literal words: the fixed program and
  option names, and arguments of the invocation, unchanged.\<close>

theorem commands_literal:
  assumes "list_all (\<lambda>a. NUL \<notin> set a) argv" and "cmd \<in> set (ctl_commands (sisterctl w argv fs))"
  shows "ctl_commands (sisterctl w argv fs) = [cmd] \<and>
    (\<exists>ws. sh_words Between cmd = Some ws \<and>
      set ws \<subseteq> set argv \<union> {''python3'', ''./scripts/participation_client.py'', ''--json'', ''./scripts/dev/db_migrate.sh'',
        ''storage/migrations/001_init.sql'', ''./scripts/dev/db_check.sh''})"
proof -
  have "{argv ! 2, argv ! 3} \<subseteq> set argv" if "4 \<le> length argv" using that by simp
  moreover have "argv ! 2 \<in> set argv" if "length argv = 3" using that by simp
  ultimately show ?thesis
    using sisterctl_commands [OF assms(1), of w fs] assms(2) unfolding may_run_def
    by (elim disjE exE conjE) (auto simp: participation_words migrate_words check_words simp del: sh_words.simps)
qed

definition quiet_world :: CtlWorld where
  "quiet_world = \<lparr>ctl_getenv = [''SISTER_AUTH_FILE'' \<mapsto> ''/var/lib/sister/auth-users.tsv''],
     ctl_terminal = (\<lambda>_. \<lparr>is_tty = True, attr_read = True, attr_set = True, typed_line = sample_password\<rparr>), ctl_system = (\<lambda>_. 0), ctl_crypto = sample_crypto, ctl_env = sample_env 0\<rparr>"

definition hostile :: "string list" where
  "hostile = [''sisterctl'', ''participation'', ''show'', APOSTROPHE # '';reboot'' @ [APOSTROPHE]]"

theorem commands_literal_witness:
  "\<exists>ws. sh_words Between (hd (ctl_commands (sisterctl quiet_world hostile Map.empty))) = Some ws \<and>
     set ws \<subseteq> set hostile \<union> {''python3'', ''./scripts/participation_client.py'', ''--json'', ''./scripts/dev/db_migrate.sh'',
        ''storage/migrations/001_init.sql'', ''./scripts/dev/db_check.sh''}"
proof -
  have "list_all (\<lambda>a. NUL \<notin> set a) hostile" "ctl_commands (sisterctl quiet_world hostile Map.empty) \<noteq> []" by code_simp+
  with commands_literal [of hostile "hd (ctl_commands (sisterctl quiet_world hostile Map.empty))" quiet_world Map.empty]
  show ?thesis using hd_in_set by blast
qed

section \<open>The local bootstrap\<close>

lemma saved_file: "save env st = (r, st') \<Longrightarrow>
    st_users st' = st_users st \<and> sessions_file st' = sessions_file st \<and>
    (users_file st' = users_file st \<and> r \<noteq> Okay () \<or> users_file st' = users_text (st_users st) \<and> r = Okay ())"
  by (auto simp: save_def users_text_def split: if_splits)

lemma bootstrap_fails:
  assumes "bootstrapAdmin cr env name email password st = (r, st')" and "\<nexists>v. r = Done v"
  shows "users_file st' = users_file st \<and> sessions_file st' = sessions_file st"
  using assms
  by (auto simp: bootstrapAdmin_def bootstrapAdminUnlocked_def store_new_user_def Let_def dest!: saved_file
      split: if_splits sum.splits prod.splits)

lemma bootstrap_succeeds:
  assumes "crypto_sizes cr" and "bootstrapAdmin cr env name email password st = (Done v, st')"
  obtains u where "st_users st = []" "st_users st' = [u]" "publicUser u = v" "user_wf u"
    "au_role v = ''admin''" "au_email v = normalizeEmail email" "au_name v = name"
    "users_file st' = users_text [u]" "sessions_file st' = sessions_file st"
proof -
  from assms(2) obtain i s h where i: "randomUuid (uuid_entropy env) = Okay i"
    and s: "randomHex (salt_entropy env) = Okay s" and h: "passwordHash cr password s passwordIterations = Okay h"
    and empty: "st_users st = []" and valid: "validField name" "validField (normalizeEmail email)"
    and v: "v = \<lparr>au_id = i, au_name = name, au_email = normalizeEmail email, au_role = ''admin''\<rparr>"
    and saved: "save env (st\<lparr>st_users := [\<lparr>publicUser = v, salt = s, su_hash = h\<rparr>]\<rparr>) = (Okay (), st')"
    by (auto simp: bootstrapAdmin_def bootstrapAdminUnlocked_def store_new_user_def Let_def
        split: if_splits sum.splits prod.splits)
  have "user_wf \<lparr>publicUser = v, salt = s, su_hash = h\<rparr>"
    using passwordHash_wf [OF assms(1) h] randomUuid_plain [OF i] s valid
    by (auto simp: user_wf_def v randomHex_okay validRole_def)
  then show thesis using that [of "\<lparr>publicUser = v, salt = s, su_hash = h\<rparr>"] saved_file [OF saved] empty v by simp
qed

abbreviation bootstrap_argv :: "string \<Rightarrow> string \<Rightarrow> string \<Rightarrow> string list" where
  "bootstrap_argv prog name email \<equiv> [prog, ''auth'', ''bootstrap-admin'', name, email]"

lemma sisterctl_bootstrap: "sisterctl w (bootstrap_argv prog name email) fs = ctl_bootstrap w name email fs"
  by (simp add: sisterctl_def)

definition stored_at :: "files \<Rightarrow> string \<Rightarrow> AuthEnv \<Rightarrow> StoredUser list" where
  "stored_at fs p env = st_users (AuthStore_open env (file_text fs p) (file_text fs (p @ ''.sessions'')))"

lemma with_password_cases:
  obtains m a where "with_password w prompt fs rest = failed m a fs"
  | password a where "ctl_hidden w 0 = Okay password" "ctl_hidden w 1 = Okay password"
      "with_password w prompt fs rest = (rest password)\<lparr>ctl_asked := a\<rparr>"
  unfolding with_password_def by (cases "ctl_hidden w 0"; cases "ctl_hidden w 1") (fastforce split: if_split_asm)+

lemma failed_result [simp]: "ctl_code (failed m a fs) = 1" "ctl_files (failed m a fs) = fs"
  by (simp_all add: failed_def exits_def)

lemma stored_done:
  "fst res = Done v \<Longrightarrow> ctl_code (stored_result p d m old res fs) = 0 \<and>
     ctl_files (stored_result p d m old res fs) = save_to p old (snd res) fs"
  by (simp add: stored_result_def exits_def Let_def)

lemma stored_failed:
  "\<nexists>v. fst res = Done v \<Longrightarrow> ctl_code (stored_result p d m old res fs) = 1 \<and>
     ctl_files (stored_result p d m old res fs) = save_to p old (snd res) fs"
  by (cases "fst res") (simp_all add: stored_result_def Let_def)

lemma save_to_same: "users_file new = users_file old \<Longrightarrow> sessions_file new = sessions_file old \<Longrightarrow> save_to p old new fs = fs"
  by (simp add: save_to_def)

lemma store_at_files [simp]: "users_file (store_at w fs p) = file_text fs p"
  by (simp add: store_at_def AuthStore_open_def load_def loadSessions_def)

lemma users_text_loads:
  assumes "user_wf u" and "st_users (store_at w fs p) = []"
  shows "users_text [u] \<noteq> file_text fs p"
proof
  assume "users_text [u] = file_text fs p"
  then have "st_users (store_at w fs p) = [u]"
    using load_users_text [of "[u]"] assms(1) by (simp add: store_at_def AuthStore_open_def load_def loadSessions_def)
  with assms(2) show False by simp
qed

text \<open>The two ways in which a bootstrap ends.\<close>

lemma bootstrap_outcome:
  assumes "crypto_sizes (ctl_crypto w)"
    and r_def: "r = ctl_bootstrap w name email fs"
  obtains "ctl_code r = 1" "ctl_files r = fs"
  | p u where "ctl_code r = 0" "ctl_getenv w ''SISTER_AUTH_FILE'' = Some p" "p \<noteq> []" "hd p = CHR ''/''"
      "ctl_hidden w 0 = ctl_hidden w 1" "stored_at fs p (ctl_env w) = []" "user_wf u" "au_role (publicUser u) = ''admin''"
      "au_email (publicUser u) = normalizeEmail email" "au_name (publicUser u) = name" "ctl_files r = fs(p \<mapsto> users_text [u])"
proof (cases "\<exists>p. ctl_getenv w ''SISTER_AUTH_FILE'' = Some p \<and> p \<noteq> [] \<and> hd p = CHR ''/''")
  case False
  then have "ctl_code r = 1 \<and> ctl_files r = fs"
    by (cases "ctl_getenv w ''SISTER_AUTH_FILE''") (auto simp: r_def ctl_bootstrap_def)
  then show thesis using that(1) by blast
next
  case True
  then obtain p where p: "ctl_getenv w ''SISTER_AUTH_FILE'' = Some p" "p \<noteq> []" "hd p = CHR ''/''" by blast
  let ?st = "store_at w fs p"
  define b where "b password = bootstrapAdmin (ctl_crypto w) (ctl_env w) name email password ?st" for password
  define rest where "rest password = stored_result p ''administrator created: ''
    ''administrator bootstrap is closed or the supplied data is invalid'' ?st (b password) fs" for password
  have r: "r = with_password w ''Nova senha administrativa: '' fs rest"
    using p by (simp add: r_def ctl_bootstrap_def rest_def [abs_def] b_def Let_def)
  from with_password_cases [of w "''Nova senha administrativa: ''" fs rest] show thesis
  proof cases
    case 1
    then show thesis using that(1) r by simp
  next
    case (2 password a)
    show thesis
    proof (cases "\<exists>v. fst (b password) = Done v")
      case True
      then obtain v st' where b: "b password = (Done v, st')" by (metis prod.collapse)
      obtain u where u: "st_users ?st = []" "user_wf u" "publicUser u = v" "au_role v = ''admin''"
        "au_email v = normalizeEmail email" "au_name v = name" "users_file st' = users_text [u]" "sessions_file st' = sessions_file ?st"
        using bootstrap_succeeds [OF assms(1) b [unfolded b_def]] by metis
      have "save_to p ?st st' fs = fs(p \<mapsto> users_text [u])"
        using users_text_loads [OF u(2,1)] by (simp add: save_to_def u)
      then show thesis
        using that(2) [of p u] p u 2 stored_done [of "b password" v] by (simp add: r rest_def b stored_at_def store_at_def)
    next
      case False
      then have "save_to p ?st (snd (b password)) fs = fs"
        using bootstrap_fails [OF surjective_pairing, of "ctl_crypto w" "ctl_env w" name email password ?st]
        by (intro save_to_same) (auto simp: b_def)
      then show thesis using that(1) stored_failed [OF False] 2 by (simp add: r rest_def)
    qed
  qed
qed

lemma stored_after: "user_wf u \<Longrightarrow> stored_at (fs(p \<mapsto> users_text [u])) p env = [u]"
  using load_users_text [of "[u]"]
  by (simp add: stored_at_def file_text_def AuthStore_open_def load_def loadSessions_def)



end
