(* ===== verification/Spec2Isabelle.thy ===== *)
theory Spec2Isabelle
  imports Integration_Run Federation Participation Contract Content_Length Rate_Limiter
    Flat_Json Auth_Properties Assertion_Contract Http_Properties Thread_Pool Semantic_View Config Http_Response
    Database_Properties Participation_Service Upstream Ecosystem_View Static_Files Authorization App_State Handler_Properties
    Auth_Backends Daemon_Main Sisterctl
begin

text \<open>
  SisTer is a platform that federates research systems under contracts.  Its C++ code has three
  parts: a domain library (\<open>core\<close>), the HTTP daemon \<open>apps/sisterd\<close> with its identities, its
  operational base in PostgreSQL and its requests to subsystems, and the administration tool
  \<open>apps/sisterctl\<close>.  This library models all three.

  \<^bold>\<open>Conventions.\<close>  A \<open>std::string\<close> is a list of bytes (HOL's \<open>string\<close>); text passed on as
  \<open>const char*\<close> is cut by \<open>c_str\<close>.  A \<open>std::variant\<close> with an error, and a function that may throw, is a
  sum with \<open>Error\<close> on the left.  A class is a \<open>record\<close>, an enumeration a \<open>datatype\<close>, a
  \<open>std::map\<close> an association list with the order of its keys where the order is seen.  Machine
  integers keep their width where it matters (\<open>64 word\<close> in the Content-Length parser, bounded
  ranges for \<open>from_chars\<close>).  Time is an integer number of nanoseconds.  The results of system
  calls, of OpenSSL, of the entropy source, of the file system and of the database server are
  arguments; a sequence of calls in a loop (\<open>recv\<close>, \<open>poll\<close>, \<open>select\<close>) takes the list of its results, and
  the end of that list is the end of the stream.  Every function is total: loops are structural on
  such a list or have a measure (the eviction loop of the limiter, the scans of the readers); only the
  iteration over the quoted items of a manifest takes a bound, the length of the text, and
  \<open>quoted_items_fuel\<close> shows that a larger bound changes nothing.

  \<^bold>\<open>Shared theories.\<close>  \<open>Prelude\<close> (results, reachability, the locale \<open>invariant_system\<close>, lists and maps),
  \<open>Bytes\<close> and \<open>Decimal\<close> (the C++ library on strings and numbers), \<open>Base64_Model\<close> (an instance of
  OpenSSL's block functions), \<open>Json_Codec\<close> (the locale of a writer and a reader that undo each other).

  \<^bold>\<open>Domain library\<close> (\<open>core\<close>).
  \<^item> \<open>Integration_Run\<close>: \<open>integration_run.hpp\<close>; the aggregate with its two transition functions.  Every
    reachable run is consistent, and the code is bisimilar to an abstract life cycle.
  \<^item> \<open>Federation\<close>, \<open>Contract\<close>, \<open>Registry_Spec\<close>: the two registries, manifests and their
    validation, the extraction of a manifest by regular expressions; both registries interpret one
    locale of registrations.
  \<^item> \<open>Participation\<close>: \<open>participation.hpp\<close>; a draft becomes a contract exactly when it is complete.

  \<^bold>\<open>Identity.\<close>
  \<^item> \<open>Auth_Data\<close>, \<open>Auth_Store\<close>: \<open>auth.cpp\<close> with the file backend: users and sessions in memory and
    in two files, failed writes included.  \<open>Auth_Invariants\<close> reduces every operation to atomic effects;
    \<open>Auth_Properties\<close> has consistency, the life of a session, deletion and durability.
  \<^item> \<open>Auth_Database\<close>: the same class with the PostgreSQL backend.  A statement is answered, fails, or
    loses the connection before or after it took effect; a transaction has its own view and time; the
    constraints are those of \<open>storage/migrations\<close>.  The daemon is taken as the only writer of the
    two tables, and one operation holds the mutex of the class from its beginning to its end.
    \<open>Auth_Database_Invariants\<close> states the contract of the statements as the locales
    \<open>growing_invariant\<close> and \<open>statement_invariant\<close>; \<open>Auth_Database_Properties\<close> interprets them for the keys and
    references, for revocation and for the administrators, and adds sessions and the atomic
    registration.  \<open>Auth_Backends\<close> shows that both backends give the same answers.
  \<^item> \<open>Assertion\<close>, \<open>Assertion_Properties\<close>, \<open>Assertion_Contract\<close>: signed internal assertions
    (\<open>identity/internal_assertion.cpp\<close>) under the documented laws of OpenSSL.
  \<^item> \<open>Rate_Limiter\<close>: \<open>security/login_rate_limiter.cpp\<close>, four sliding windows in a bounded table.
  \<^item> \<open>Authorization\<close>: roles, capabilities and the logged decision of \<open>authorizeOrReject\<close>.

  \<^bold>\<open>The daemon\<close> (\<open>apps/sisterd/main.cpp\<close> unless said otherwise).
  \<^item> \<open>Config\<close>, \<open>Listener\<close> (\<open>runtime/listener.cpp\<close>), \<open>Thread_Pool\<close>
    (\<open>runtime/connection_thread_pool.cpp\<close>), \<open>Daemon_Main\<close>: the start, the socket, the accept
    loop interleaved with the workers, the stop.
  \<^item> \<open>Content_Length\<close>, \<open>Http_Request\<close>, \<open>Http_Properties\<close>, \<open>Flat_Json\<close>, \<open>Http_Response\<close>: what is
    read from and written to a connection.
  \<^item> \<open>Database\<close>, \<open>Database_Properties\<close>: \<open>db.cpp\<close>, its statements over the tables of the operational
    base; \<open>Participation_Service\<close> on top of it.
  \<^item> \<open>Projection\<close>, \<open>Semantic_View\<close>, \<open>Ecosystem_View\<close>: the two projections, the health probes and
    the documents made from them.  \<open>Static_Files\<close>: pages and fixed documents, with
    \<open>api/maturity_routes.cpp\<close>.  \<open>Upstream\<close>: requests to subsystems.
  \<^item> \<open>App_State\<close>, \<open>Handler\<close>: the shared state with its caches, and \<open>handleClient\<close> with every route.
    \<open>Handler_Effects\<close> and \<open>Handler_Access\<close> reduce a connection to the operations it may perform and
    the session it presents; \<open>Handler_Properties\<close> has the properties of the whole daemon.

  Connections run in parallel in the program, but each shared object has a mutex.  \<open>Handler\<close> takes
  one connection as one step, and \<open>Handler_Properties\<close> lets any operations of other connections
  happen between the steps, so that its invariants do not rest on connections being alone.
  \<open>Handler\<close> uses the file backend of the store; \<open>Auth_Backends\<close> relates the other one to it.

  \<^bold>\<open>The tool.\<close>  \<open>Sisterctl\<close>: \<open>apps/sisterctl/main.cpp\<close>; the words that a shell reads from a quoted command,
  and the bootstrap of the first administrator.

  \<^bold>\<open>Not modelled.\<close>  The SELECT texts that build the reports of the operational base inside
  PostgreSQL (their documents are arguments); the move constructors and RAII wrappers
  (\<open>UniqueFd\<close>, \<open>GuardedFd\<close>), which appear as the descriptors that are closed; elapsed times and the
  start-up line of the log; the interface \<open>integrations/integration_client.hpp\<close>, which nothing implements;
  a build without libpq; scripts, the web client and the engineering tools, which are in other
  languages.  The interleaving of two system calls of different threads below the granularity of the
  mutexes is not modelled either, nor a second process that writes the same files or tables.
\<close>

end
